(* ===== verification/Py_Base.thy ===== *)
theory Py_Base
  imports Complex_Main "HOL-Library.AList" "HOL-Library.Word" "HOL-Library.Sublist"
begin

text \<open>
  The prelude: Python exceptions as values, the value type that configuration files, JSON
  and keyword arguments carry, dictionaries in insertion order, the string routines the
  sources use (\<open>split\<close>, \<open>join\<close>, \<open>'%x'\<close>, \<open>int()\<close>, \<open>os.path.basename\<close>), and a state and
  exception monad with \<open>try\<close>, \<open>finally\<close> and \<open>for\<close> for the code that acts on the outside
  world. Every later theory rests on the facts collected here.
\<close>

named_theorems io_run "one-step evaluation of the state and exception monad"
named_theorems dict_simps "look-ups after dictionary updates"

section \<open>Exceptions and values\<close>

text \<open>One constructor per exception class the sources raise or provoke. \<open>Exc\<close> is a plain
  \<open>raise Exception(...)\<close>; \<open>Remote\<close> is an exception of a library that is not in the
  repository (gRPC, paramiko, BfRuntime).\<close>

datatype py_error =
    KeyError string
  | AttributeError string
  | TypeError string
  | ValueError string
  | IndexError
  | NameError string
  | AssertionError string
  | OSError string
  | FileNotFound string
  | ShutilError string
  | TomlDecodeError string
  | NotImplementedError
  | Exc string
  | ConfException string
  | InvalidFileContent string
  | FormatException string
  | SystemExit int
  | Remote string

type_synonym 'a res = "py_error + 'a"

text \<open>\<open>FileNotFoundError\<close> and \<open>shutil.Error\<close> are subclasses of \<open>OSError\<close>, which \<open>IOError\<close>
  names too; \<open>SystemExit\<close> alone is no subclass of \<open>Exception\<close>.\<close>

fun is_os_error :: "py_error \<Rightarrow> bool" where
  "is_os_error (OSError _) = True"
| "is_os_error (FileNotFound _) = True"
| "is_os_error (ShutilError _) = True"
| "is_os_error _ = False"

fun is_exception :: "py_error \<Rightarrow> bool" where
  "is_exception (SystemExit _) = False"
| "is_exception _ = True"

type_synonym byte = "8 word"

text \<open>\<open>PQuoted v\<close> is the source's \<open>QuotedString(v)\<close>: the text of \<open>v\<close>, dumped to YAML in double
  quotes. Floats are rationals: rounding is not modelled.\<close>

datatype pyval =
    PNone
  | PBool bool
  | PInt int
  | PFloat rat
  | PStr string
  | PQuoted pyval
  | PBytes "byte list"
  | PList "pyval list"
  | PTuple "pyval list"
  | PDict "(string \<times> pyval) list"

text \<open>Python's truth value of an object (\<open>if x:\<close>).\<close>

fun truthy :: "pyval \<Rightarrow> bool" where
  "truthy PNone = False"
| "truthy (PBool b) = b"
| "truthy (PInt i) = (i \<noteq> 0)"
| "truthy (PFloat q) = (q \<noteq> 0)"
| "truthy (PStr s) = (s \<noteq> [])"
| "truthy (PQuoted v) = (v \<noteq> PStr [])"
| "truthy (PBytes b) = (b \<noteq> [])"
| "truthy (PList xs) = (xs \<noteq> [])"
| "truthy (PTuple xs) = (xs \<noteq> [])"
| "truthy (PDict d) = (d \<noteq> [])"

fun is_number :: "pyval \<Rightarrow> bool" where
  "is_number (PInt _) = True"
| "is_number (PFloat _) = True"
| "is_number (PBool _) = True"
| "is_number _ = False"

fun number_of :: "pyval \<Rightarrow> rat" where
  "number_of (PInt i) = of_int i"
| "number_of (PFloat q) = q"
| "number_of (PBool b) = (if b then 1 else 0)"
| "number_of _ = 0"

section \<open>The error part of a result\<close>

fun ebind :: "'a res \<Rightarrow> ('a \<Rightarrow> 'b res) \<Rightarrow> 'b res" where
  "ebind (Inl e) f = Inl e"
| "ebind (Inr x) f = f x"

lemma ebind_eq_Inr [simp]: "ebind r f = Inr y \<longleftrightarrow> (\<exists>x. r = Inr x \<and> f x = Inr y)"
  by (cases r) auto

lemma ebind_eq_Inl: "ebind r f = Inl e \<longleftrightarrow> r = Inl e \<or> (\<exists>x. r = Inr x \<and> f x = Inl e)"
  by (cases r) auto

text \<open>A comprehension over calls that may raise: the first exception wins.\<close>

fun emap :: "('a \<Rightarrow> 'b res) \<Rightarrow> 'a list \<Rightarrow> 'b list res" where
  "emap f [] = Inr []"
| "emap f (x # xs) = ebind (f x) (\<lambda>y. ebind (emap f xs) (\<lambda>ys. Inr (y # ys)))"

lemma emap_cong [fundef_cong]:
  "xs = ys \<Longrightarrow> (\<And>x. x \<in> set ys \<Longrightarrow> f x = g x) \<Longrightarrow> emap f xs = emap g ys"
  by (induction ys arbitrary: xs) auto

lemma emap_Inr_iff: "emap f xs = Inr ys \<longleftrightarrow> list_all2 (\<lambda>x y. f x = Inr y) xs ys"
  by (induction xs arbitrary: ys) (auto simp: list_all2_Cons1)

lemma emap_length: "emap f xs = Inr ys \<Longrightarrow> length ys = length xs"
  by (auto simp: emap_Inr_iff dest: list_all2_lengthD)

lemma emap_nth: "emap f xs = Inr ys \<Longrightarrow> i < length xs \<Longrightarrow> f (xs ! i) = Inr (ys ! i)"
  by (auto simp: emap_Inr_iff dest: list_all2_nthD)

lemma emap_total: "(\<And>x. x \<in> set xs \<Longrightarrow> f x = Inr (g x)) \<Longrightarrow> emap f xs = Inr (map g xs)"
  by (induction xs) auto

lemma emap_total_iff: "(\<exists>ys. emap f xs = Inr ys) \<longleftrightarrow> (\<forall>x \<in> set xs. \<exists>y. f x = Inr y)"
  by (induction xs) auto

lemma emap_source: "emap f xs = Inr ys \<Longrightarrow> y \<in> set ys \<Longrightarrow> \<exists>x \<in> set xs. f x = Inr y"
  by (induction xs arbitrary: ys) auto

lemma emap_image: "emap f xs = Inr ys \<Longrightarrow> x \<in> set xs \<Longrightarrow> \<exists>y \<in> set ys. f x = Inr y"
  by (induction xs arbitrary: ys) auto

lemma emap_Inl_mem: "emap f xs = Inl e \<Longrightarrow> \<exists>x \<in> set xs. f x = Inl e"
  by (induction xs) (auto simp: ebind_eq_Inl)

definition of_option :: "py_error \<Rightarrow> 'a option \<Rightarrow> 'a res" where
  "of_option e x = (case x of None \<Rightarrow> Inl e | Some y \<Rightarrow> Inr y)"

lemma of_option_simps [simp]: "of_option e None = Inl e" "of_option e (Some y) = Inr y"
  by (simp_all add: of_option_def)

lemma of_option_eq_Inr [simp]: "of_option e x = Inr y \<longleftrightarrow> x = Some y"
  by (cases x) auto

definition assert_that :: "bool \<Rightarrow> string \<Rightarrow> unit res" where
  "assert_that b msg = (if b then Inr () else Inl (AssertionError msg))"

section \<open>Dictionaries\<close>

text \<open>A dictionary is an association list in insertion order; \<open>d[k] = v\<close> is \<^const>\<open>AList.update\<close>,
  which replaces the value in place or appends the key. The interface below is what the
  code that merges configurations relies on; its provider is the association list.\<close>

locale dict_interface =
  fixes get :: "'d \<Rightarrow> 'k \<Rightarrow> 'v option"
    and put :: "'k \<Rightarrow> 'v \<Rightarrow> 'd \<Rightarrow> 'd"
  assumes get_put: "get (put k v d) k' = (if k' = k then Some v else get d k')"
begin

lemma get_put_same: "get (put k v d) k = Some v"
  by (simp add: get_put)

lemma get_put_other: "k' \<noteq> k \<Longrightarrow> get (put k v d) k' = get d k'"
  by (simp add: get_put)

lemma get_fold_put:
  "get (fold (\<lambda>(k, v). put k v) kvs d) k' =
     (case map_of (rev kvs) k' of Some v \<Rightarrow> Some v | None \<Rightarrow> get d k')"
  by (induction kvs arbitrary: d) (auto simp: get_put map_add_def split: option.splits)

lemma get_fold_guarded_put:
  "get (fold (\<lambda>(k, v) d. if get d k \<noteq> None then put k v d else d) kvs d) k' =
     (if get d k' = None then None
      else case map_of (rev kvs) k' of Some v \<Rightarrow> Some v | None \<Rightarrow> get d k')"
proof (induction kvs arbitrary: d)
  case Nil
  then show ?case by auto
next
  case (Cons p kvs)
  obtain k v where p: "p = (k, v)" by (cases p)
  show ?case
    by (cases "get d k = None"; cases "map_of (rev kvs) k'"; cases "k = k'")
      (simp_all add: p Cons.IH get_put map_add_def del: not_None_eq)
qed

end

definition dict_get :: "('k \<times> 'v) list \<Rightarrow> 'k \<Rightarrow> 'v option" where
  "dict_get d k = map_of d k"

definition dict_put :: "'k \<Rightarrow> 'v \<Rightarrow> ('k \<times> 'v) list \<Rightarrow> ('k \<times> 'v) list" where
  "dict_put k v d = AList.update k v d"

interpretation alist: dict_interface dict_get dict_put
  by unfold_locales (simp add: dict_get_def dict_put_def update_conv')

declare alist.get_put [dict_simps]

lemma keys_dict_put:
  "map fst (dict_put k v d) = (if k \<in> fst ` set d then map fst d else map fst d @ [k])"
  by (simp add: dict_put_def update_keys)

lemma dict_put_eval [simp]:
  "dict_put k v [] = [(k, v)]"
  "dict_put k v (p # ps) = (if fst p = k then (k, v) # ps else p # dict_put k v ps)"
  by (simp_all add: dict_put_def)

lemma dict_get_eval [simp]:
  "dict_get [] k = None"
  "dict_get ((k', v) # d) k = (if k = k' then Some v else dict_get d k)"
  by (simp_all add: dict_get_def)

lemma dict_get_append:
  "dict_get (d1 @ d2) k = (case dict_get d1 k of Some v \<Rightarrow> Some v | None \<Rightarrow> dict_get d2 k)"
  by (induction d1) auto

lemma dict_get_None_iff: "dict_get d k = None \<longleftrightarrow> k \<notin> fst ` set d"
  by (simp add: dict_get_def map_of_eq_None_iff)

lemma dict_put_fresh: "dict_get d k = None \<Longrightarrow> dict_put k v d = d @ [(k, v)]"
  by (induction d) (auto split: if_splits)

lemma distinct_dict_put: "distinct (map fst d) \<Longrightarrow> distinct (map fst (dict_put k v d))"
  by (auto simp: keys_dict_put)

lemma map_of_rev_distinct: "distinct (map fst d) \<Longrightarrow> map_of (rev d) = map_of d"
  using map_of_inject_set [of "rev d" d] by (simp flip: rev_map)

definition dict_update :: "('k \<times> 'v) list \<Rightarrow> ('k \<times> 'v) list \<Rightarrow> ('k \<times> 'v) list" where
  "dict_update d e = fold (\<lambda>(k, v). dict_put k v) e d"

lemma dict_get_update [dict_simps]:
  "dict_get (dict_update d e) k =
     (case map_of (rev e) k of Some v \<Rightarrow> Some v | None \<Rightarrow> dict_get d k)"
  unfolding dict_update_def by (rule alist.get_fold_put)

text \<open>Subscripts: \<open>d[k]\<close> raises \<open>KeyError\<close>; \<open>xs[i]\<close> counts from the end when negative and raises
  \<open>IndexError\<close> out of range.\<close>

definition from_end :: "'a list \<Rightarrow> int \<Rightarrow> int" where
  "from_end xs i = (if i < 0 then i + int (length xs) else i)"

definition py_nth :: "'a list \<Rightarrow> int \<Rightarrow> 'a res" where
  "py_nth xs i =
     (let k = from_end xs i
      in if k < 0 \<or> int (length xs) \<le> k then Inl IndexError else Inr (xs ! nat k))"

lemma py_nth_of_nat: "py_nth xs (int n) = (if n < length xs then Inr (xs ! n) else Inl IndexError)"
  by (auto simp: py_nth_def from_end_def Let_def)

fun py_item :: "pyval \<Rightarrow> string \<Rightarrow> pyval res" where
  "py_item (PDict d) k = of_option (KeyError k) (dict_get d k)"
| "py_item _ k = Inl (TypeError ''not subscriptable by a string'')"

fun py_index :: "pyval \<Rightarrow> int \<Rightarrow> pyval res" where
  "py_index (PList xs) i = py_nth xs i"
| "py_index (PTuple xs) i = py_nth xs i"
| "py_index (PStr s) i = ebind (py_nth s i) (\<lambda>c. Inr (PStr [c]))"
| "py_index (PBytes b) i = ebind (py_nth b i) (\<lambda>w. Inr (PInt (uint w)))"
| "py_index (PDict d) i = Inl (KeyError ''integer key'')"
| "py_index _ i = Inl (TypeError ''not subscriptable'')"

fun py_len :: "pyval \<Rightarrow> nat res" where
  "py_len (PStr s) = Inr (length s)"
| "py_len (PList xs) = Inr (length xs)"
| "py_len (PTuple xs) = Inr (length xs)"
| "py_len (PBytes b) = Inr (length b)"
| "py_len (PDict d) = Inr (length d)"
| "py_len _ = Inl (TypeError ''object has no len()'')"

text \<open>Methods and operators on a value whose type is only known at run time: \<open>x[k]\<close>, \<open>x.get(k)\<close>,
  \<open>x.items()\<close>, \<open>k in x\<close>, iteration. A value that lacks the method raises \<open>AttributeError\<close>, one
  that lacks the operator \<open>TypeError\<close>.\<close>

fun py_get :: "pyval \<Rightarrow> string \<Rightarrow> pyval res" where
  "py_get (PDict d) k = Inr (case dict_get d k of Some v \<Rightarrow> v | None \<Rightarrow> PNone)"
| "py_get _ k = Inl (AttributeError ''get'')"

fun py_items :: "pyval \<Rightarrow> (string \<times> pyval) list res" where
  "py_items (PDict d) = Inr d"
| "py_items _ = Inl (AttributeError ''items'')"

text \<open>The idiom \<open>if d: ... d.items()\<close>: \<open>None\<close> and the empty dictionary have no items.\<close>

definition items_if_any :: "pyval \<Rightarrow> (string \<times> pyval) list res" where
  "items_if_any v = (if truthy v then py_items v else Inr [])"

fun py_in :: "string \<Rightarrow> pyval \<Rightarrow> bool res" where
  "py_in k (PDict d) = Inr (dict_get d k \<noteq> None)"
| "py_in k (PList xs) = Inr (PStr k \<in> set xs)"
| "py_in k (PTuple xs) = Inr (PStr k \<in> set xs)"
| "py_in k (PStr s) = Inr (sublist k s)"
| "py_in k _ = Inl (TypeError ''not a container'')"

fun py_iter :: "pyval \<Rightarrow> pyval list res" where
  "py_iter (PList xs) = Inr xs"
| "py_iter (PTuple xs) = Inr xs"
| "py_iter (PDict d) = Inr (map (PStr \<circ> fst) d)"
| "py_iter (PStr s) = Inr (map (\<lambda>c. PStr [c]) s)"
| "py_iter (PBytes b) = Inr (map (PInt \<circ> uint) b)"
| "py_iter _ = Inl (TypeError ''not iterable'')"

fun py_sub :: "pyval \<Rightarrow> pyval \<Rightarrow> pyval res" where
  "py_sub v (PStr k) = py_item v k"
| "py_sub v (PInt i) = py_index v i"
| "py_sub v _ = Inl (TypeError ''invalid subscript'')"

text \<open>Where the code passes a configuration value on as a string (an address, a path, a user name)
  the model demands one.\<close>

fun as_str :: "pyval \<Rightarrow> string res" where
  "as_str (PStr s) = Inr s"
| "as_str _ = Inl (TypeError ''str'')"

lemma as_str_Inr [simp]: "as_str v = Inr s \<longleftrightarrow> v = PStr s"
  by (cases v) auto

definition str_list :: "pyval \<Rightarrow> string list res" where
  "str_list v = ebind (py_iter v) (emap as_str)"

definition item_str :: "pyval \<Rightarrow> string \<Rightarrow> string res" where
  "item_str d k = ebind (py_item d k) as_str"

text \<open>A call that leaves out a parameter without default raises \<open>TypeError\<close>.\<close>

definition bind_arguments :: "string list \<Rightarrow> string list \<Rightarrow> unit res" where
  "bind_arguments required given =
     (if \<forall>p \<in> set required. p \<in> set given then Inr ()
      else Inl (TypeError ''missing required argument''))"

text \<open>Integers where the language wants one (\<open>range\<close>, repetition): a truth value counts.\<close>

fun as_int :: "pyval \<Rightarrow> int res" where
  "as_int (PInt i) = Inr i"
| "as_int (PBool b) = Inr (if b then 1 else 0)"
| "as_int _ = Inl (TypeError ''object cannot be interpreted as an integer'')"

text \<open>\<open>v > n\<close> for an integer \<open>n\<close>, and \<open>xs[:n]\<close>.\<close>

definition py_gt :: "pyval \<Rightarrow> int \<Rightarrow> bool res" where
  "py_gt v n = (if is_number v then Inr (number_of v > of_int n)
                else Inl (TypeError ''> not supported between instances''))"

definition py_take :: "int \<Rightarrow> 'a list \<Rightarrow> 'a list" where
  "py_take n xs = take (nat (from_end xs n)) xs"

text \<open>\<open>d.get(k, default)\<close>.\<close>

fun py_get_default :: "pyval \<Rightarrow> string \<Rightarrow> pyval \<Rightarrow> pyval res" where
  "py_get_default (PDict d) k v = Inr (case dict_get d k of Some x \<Rightarrow> x | None \<Rightarrow> v)"
| "py_get_default _ k v = Inl (AttributeError ''get'')"

text \<open>\<open>list(dict.fromkeys(xs))\<close>: the first occurrence of each element, in order.\<close>

fun dedup :: "'a list \<Rightarrow> 'a list" where
  "dedup [] = []"
| "dedup (x # xs) = x # filter (\<lambda>y. y \<noteq> x) (dedup xs)"

lemma set_dedup [simp]: "set (dedup xs) = set xs"
  by (induction xs) auto

lemma distinct_dedup [simp]: "distinct (dedup xs)"
  by (induction xs) auto

lemma py_item_dict [simp]: "py_item (PDict d) k = Inr v \<longleftrightarrow> dict_get d k = Some v"
  by simp

end
