(* ===== verification/Py_Text.thy ===== *)
theory Py_Text
  imports Py_Base
begin

text \<open>
  Text routines of Python's standard library that the sources call: positional numerals in
  base 10 and 16 (\<open>str\<close>, \<open>'%x'\<close>, \<open>'%02x'\<close>, \<open>int\<close>), \<open>bytes.fromhex\<close> and \<open>bytes.hex\<close>,
  \<open>str.split\<close>, \<open>str.join\<close>, \<open>str.strip\<close>, \<open>str.endswith\<close>, and the path helpers of
  \<open>os.path\<close>. Strings are lists of 8-bit characters.
\<close>

section \<open>Digits and numerals\<close>

definition hex_digits :: string where
  "hex_digits = ''0123456789abcdef''"

definition hexdig :: "nat \<Rightarrow> char" where
  "hexdig n = hex_digits ! n"

text \<open>The value of a digit in either case, as \<open>int(c, 16)\<close> reads it.\<close>

definition hexval :: "char \<Rightarrow> nat option" where
  "hexval c =
     (let n = of_char c :: nat
      in if 48 \<le> n \<and> n \<le> 57 then Some (n - 48)
         else if 97 \<le> n \<and> n \<le> 102 then Some (n - 87)
         else if 65 \<le> n \<and> n \<le> 70 then Some (n - 55)
         else None)"

definition is_digit :: "char \<Rightarrow> bool" where
  "is_digit c = (let n = of_char c :: nat in 48 \<le> n \<and> n \<le> 57)"

definition is_hex :: "char \<Rightarrow> bool" where
  "is_hex c = (hexval c \<noteq> None)"

lemma nat_less_16: "n < (16::nat) \<Longrightarrow> n \<in> set [0..<16]"
  by simp

lemma hexval_hexdig [simp]: "n < 16 \<Longrightarrow> hexval (hexdig n) = Some n"
  by (drule nat_less_16) (auto simp: upt_conv_Cons hexval_def hexdig_def hex_digits_def)

lemma is_digit_hexdig [simp]: "n < 10 \<Longrightarrow> is_digit (hexdig n)"
  by (subgoal_tac "n < 16", drule nat_less_16)
    (auto simp: upt_conv_Cons is_digit_def hexdig_def hex_digits_def)

lemma is_hex_hexdig [simp]: "n < 16 \<Longrightarrow> is_hex (hexdig n)"
  by (simp add: is_hex_def)

lemma hexval_less: "hexval c = Some n \<Longrightarrow> n < 16"
  by (auto simp: hexval_def Let_def split: if_splits)

lemma hexval_digit: "is_digit c \<Longrightarrow> hexval c = Some (of_char c - 48) \<and> of_char c - 48 < (10::nat)"
  by (auto simp: hexval_def is_digit_def Let_def)

text \<open>A number in base \<open>b\<close>, most significant digit first, without leading zeros.\<close>

fun numeral_in :: "nat \<Rightarrow> nat \<Rightarrow> nat list" where
  "numeral_in b n = (if n < b \<or> b < 2 then [n] else numeral_in b (n div b) @ [n mod b])"

declare numeral_in.simps [simp del]

definition value_in :: "nat \<Rightarrow> nat list \<Rightarrow> nat" where
  "value_in b ds = foldl (\<lambda>acc d. acc * b + d) 0 ds"

lemma value_in_Nil [simp]: "value_in b [] = 0"
  by (simp add: value_in_def)

lemma value_in_snoc [simp]: "value_in b (ds @ [d]) = value_in b ds * b + d"
  by (simp add: value_in_def)

lemma value_in_acc: "foldl (\<lambda>acc d. acc * b + d) a ds = a * b ^ length ds + value_in b ds"
proof (induction ds arbitrary: a)
  case (Cons d ds)
  show ?case
    using Cons.IH [of "a * b + d"] Cons.IH [of d] by (simp add: value_in_def algebra_simps)
qed simp

lemma value_in_Cons: "value_in b (d # ds) = d * b ^ length ds + value_in b ds"
  using value_in_acc [of b d ds] by (simp add: value_in_def)

lemma value_in_append:
  "value_in b (xs @ ys) = value_in b xs * b ^ length ys + value_in b ys"
  by (induction xs) (simp_all add: value_in_Cons power_add algebra_simps)

lemma value_in_zeros [simp]: "value_in b (replicate k 0 @ ds) = value_in b ds"
  by (induction k) (simp_all add: value_in_Cons)

lemma value_numeral: "2 \<le> b \<Longrightarrow> value_in b (numeral_in b n) = n"
proof (induction n rule: less_induct)
  case (less n)
  show ?case
  proof (cases "n < b")
    case True
    then show ?thesis by (subst numeral_in.simps) (simp add: value_in_Cons)
  next
    case False
    with less.prems have "n div b < n" by (simp add: div_less_dividend)
    with less False show ?thesis by (subst numeral_in.simps) simp
  qed
qed

lemma numeral_digits: "2 \<le> b \<Longrightarrow> \<forall>d \<in> set (numeral_in b n). d < b"
proof (induction n rule: less_induct)
  case (less n)
  show ?case
  proof (cases "n < b")
    case True
    then show ?thesis by (subst numeral_in.simps) simp
  next
    case False
    with less.prems have "n div b < n" by (simp add: div_less_dividend)
    then have "\<forall>d \<in> set (numeral_in b (n div b)). d < b" using less by blast
    with less.prems False show ?thesis by (subst numeral_in.simps) auto
  qed
qed

lemma numeral_nonempty [simp]: "numeral_in b n \<noteq> []"
  by (subst numeral_in.simps) auto

lemma numeral_length_le: "2 \<le> b \<Longrightarrow> n < b ^ k \<Longrightarrow> 0 < k \<Longrightarrow> length (numeral_in b n) \<le> k"
proof (induction k arbitrary: n)
  case (Suc k)
  show ?case
  proof (cases "n < b")
    case True
    then show ?thesis by (subst numeral_in.simps) simp
  next
    case False
    with Suc.prems have "0 < k" by (cases k) auto
    moreover have "n div b < b ^ k"
      using Suc.prems by (simp add: less_mult_imp_div_less mult.commute)
    ultimately show ?thesis
      using Suc.IH [of "n div b"] Suc.prems False by (subst numeral_in.simps) simp
  qed
qed simp

lemma numeral_length_gt: "2 \<le> b \<Longrightarrow> b ^ k \<le> n \<Longrightarrow> k < length (numeral_in b n)"
proof (induction k arbitrary: n)
  case 0
  then show ?case by simp
next
  case (Suc k)
  then have "b * b ^ k \<le> n" by simp
  then have "b ^ k \<le> n div b"
    using Suc.prems(1) by (simp add: less_eq_div_iff_mult_less_eq mult.commute)
  moreover have "\<not> n < b"
  proof
    assume "n < b"
    moreover have "b * 1 \<le> b * b ^ k" using Suc.prems(1) by (intro mult_left_mono) auto
    ultimately show False using \<open>b * b ^ k \<le> n\<close> by simp
  qed
  ultimately show ?case
    using Suc.IH [of "n div b"] Suc.prems(1) by (subst numeral_in.simps) simp
qed

text \<open>\<open>str(n)\<close> and \<open>'%x' % n\<close>.\<close>

definition str_nat :: "nat \<Rightarrow> string" where
  "str_nat n = map hexdig (numeral_in 10 n)"

definition str_int :: "int \<Rightarrow> string" where
  "str_int i = (if i < 0 then CHR ''-'' # str_nat (nat (- i)) else str_nat (nat i))"

definition hex_nat :: "nat \<Rightarrow> string" where
  "hex_nat n = map hexdig (numeral_in 16 n)"

text \<open>\<open>'%02x' % n\<close>: at least two characters.\<close>

definition hex2 :: "nat \<Rightarrow> string" where
  "hex2 n = (let s = hex_nat n in replicate (2 - length s) (CHR ''0'') @ s)"

lemma hexdig_inj: "m < 16 \<Longrightarrow> n < 16 \<Longrightarrow> hexdig m = hexdig n \<Longrightarrow> m = n"
  by (metis hexval_hexdig option.inject)

lemma str_nat_digits: "\<forall>c \<in> set (str_nat n). is_digit c"
  using numeral_digits [of 10 n] by (auto simp: str_nat_def)

lemma str_nat_nonempty [simp]: "str_nat n \<noteq> []"
  by (simp add: str_nat_def)

text \<open>A string read as digits of a base; \<open>None\<close> when a character is no digit of it.\<close>

definition read_nat :: "nat \<Rightarrow> string \<Rightarrow> nat option" where
  "read_nat b s =
     (if s \<noteq> [] \<and> list_all (\<lambda>c. case hexval c of Some v \<Rightarrow> v < b | None \<Rightarrow> False) s
      then Some (value_in b (map (\<lambda>c. the (hexval c)) s)) else None)"

lemma read_map_hexdig:
  "\<forall>d \<in> set ds. d < b \<Longrightarrow> b \<le> 16 \<Longrightarrow> ds \<noteq> [] \<Longrightarrow> read_nat b (map hexdig ds) = Some (value_in b ds)"
  by (auto simp: read_nat_def list_all_iff comp_def intro!: arg_cong [where f = "value_in b"]
      map_idI)

lemma read_str_nat [simp]: "read_nat 10 (str_nat n) = Some n"
  by (simp add: str_nat_def read_map_hexdig numeral_digits value_numeral)

lemma read_hex_nat [simp]: "read_nat 16 (hex_nat n) = Some n"
  by (simp add: hex_nat_def read_map_hexdig numeral_digits value_numeral)

lemma str_nat_inject [simp]: "str_nat m = str_nat n \<longleftrightarrow> m = n"
  by (metis read_str_nat option.inject)

lemma hex_nat_inject [simp]: "hex_nat m = hex_nat n \<longleftrightarrow> m = n"
  by (metis read_hex_nat option.inject)

section \<open>Whitespace, splitting, joining\<close>

definition is_space :: "char \<Rightarrow> bool" where
  "is_space c = (let n = of_char c :: nat in n = 32 \<or> (9 \<le> n \<and> n \<le> 13))"

definition strip :: "string \<Rightarrow> string" where
  "strip s = rev (dropWhile is_space (rev (dropWhile is_space s)))"

fun split_on :: "char \<Rightarrow> string \<Rightarrow> string list" where
  "split_on c [] = [[]]"
| "split_on c (x # xs) =
     (if x = c then [] # split_on c xs
      else case split_on c xs of [] \<Rightarrow> [[x]] | y # ys \<Rightarrow> (x # y) # ys)"

fun join :: "string \<Rightarrow> string list \<Rightarrow> string" where
  "join sep [] = []"
| "join sep [x] = x"
| "join sep (x # y # ys) = x @ sep @ join sep (y # ys)"

lemma split_on_nonempty [simp]: "split_on c s \<noteq> []"
  by (induction s) (auto split: list.splits)

lemma split_on_no_sep: "\<forall>p \<in> set (split_on c s). c \<notin> set p"
  by (induction s) (auto split: list.splits)

lemma split_on_fresh: "c \<notin> set s \<Longrightarrow> split_on c s = [s]"
  by (induction s) auto

lemma split_on_append_sep: "c \<notin> set s \<Longrightarrow> split_on c (s @ c # t) = s # split_on c t"
  by (induction s) auto

lemma split_on_join:
  "ps \<noteq> [] \<Longrightarrow> \<forall>p \<in> set ps. c \<notin> set p \<Longrightarrow> split_on c (join [c] ps) = ps"
  by (induction "[c]" ps rule: join.induct) (auto simp: split_on_fresh split_on_append_sep)

lemma join_split_on: "join [c] (split_on c s) = s"
proof (induction s)
  case (Cons x s)
  then show ?case
    by (cases "split_on c s"; cases "tl (split_on c s)") auto
qed simp

lemma length_split_on: "length (split_on c s) = Suc (count_list s c)"
  by (induction s) (auto split: list.splits)

definition ends_with :: "string \<Rightarrow> string \<Rightarrow> bool" where
  "ends_with s suf = suffix suf s"

text \<open>\<open>s.split()\<close> on whitespace, \<open>s.splitlines()\<close> as iterating over a text file does it,
  \<open>s.replace(old, new)\<close> (at most \<open>n\<close> times from the left) for non-empty \<open>old\<close>, \<open>s.lower()\<close>, and
  the first and last position of a character.\<close>

fun split_by :: "(char \<Rightarrow> bool) \<Rightarrow> string \<Rightarrow> string list" where
  "split_by P [] = [[]]"
| "split_by P (c # s) =
     (if P c then [] # split_by P s
      else case split_by P s of [] \<Rightarrow> [[c]] | p # ps \<Rightarrow> (c # p) # ps)"

definition split_ws :: "string \<Rightarrow> string list" where
  "split_ws s = filter (\<lambda>p. p \<noteq> []) (split_by is_space s)"

definition file_lines :: "string \<Rightarrow> string list" where
  "file_lines s = split_on (char_of (10 :: nat)) s"

fun replace_from :: "nat \<Rightarrow> string \<Rightarrow> string \<Rightarrow> string \<Rightarrow> nat \<Rightarrow> string" where
  "replace_from n old new [] skip = []"
| "replace_from n old new (c # s) (Suc skip) = replace_from n old new s skip"
| "replace_from n old new (c # s) 0 =
     (if n \<noteq> 0 \<and> prefix old (c # s) then new @ replace_from (n - 1) old new s (length old - 1)
      else c # replace_from n old new s 0)"

definition replace_all :: "string \<Rightarrow> string \<Rightarrow> string \<Rightarrow> string" where
  "replace_all old new s = replace_from (length s) old new s 0"

definition lower_char :: "char \<Rightarrow> char" where
  "lower_char c = (let n = of_char c :: nat in if 65 \<le> n \<and> n \<le> 90 then char_of (n + 32) else c)"

definition lower :: "string \<Rightarrow> string" where
  "lower s = map lower_char s"

definition find_char :: "char \<Rightarrow> string \<Rightarrow> nat option" where
  "find_char c s = (if c \<in> set s then Some (length (takeWhile (\<lambda>x. x \<noteq> c) s)) else None)"

definition rfind_char :: "char \<Rightarrow> string \<Rightarrow> nat option" where
  "rfind_char c s =
     (if c \<in> set s then Some (length s - 1 - length (takeWhile (\<lambda>x. x \<noteq> c) (rev s))) else None)"

text \<open>\<open>os.path.basename\<close>, \<open>os.path.dirname\<close> (of a path whose head has no trailing slashes to
  strip), \<open>os.path.join\<close>.\<close>

definition basename :: "string \<Rightarrow> string" where
  "basename p = last (split_on (CHR ''/'') p)"

definition rstrip_slash :: "string \<Rightarrow> string" where
  "rstrip_slash h =
     (if list_all (\<lambda>c. c = CHR ''/'') h then h
      else rev (dropWhile (\<lambda>c. c = CHR ''/'') (rev h)))"

definition dirname :: "string \<Rightarrow> string" where
  "dirname p = rstrip_slash (take (length p - length (basename p)) p)"

definition path_join :: "string \<Rightarrow> string \<Rightarrow> string" where
  "path_join a b =
     (if take 1 b = ''/'' then b
      else if a = [] \<or> last a = CHR ''/'' then a @ b
      else a @ ''/'' @ b)"

text \<open>\<open>int(s)\<close> of a string: surrounding whitespace, an optional sign, digits with single
  underscores between them.\<close>

fun underscores_ok :: "string \<Rightarrow> bool" where
  "underscores_ok [] = False"
| "underscores_ok [c] = is_digit c"
| "underscores_ok (c # d # s) =
     (is_digit c \<and> (if d = CHR ''_'' then underscores_ok s else underscores_ok (d # s)))"

definition read_unsigned :: "string \<Rightarrow> int res" where
  "read_unsigned s =
     (if underscores_ok s
      then of_option (ValueError ''int'')
             (map_option int (read_nat 10 (filter (\<lambda>c. c \<noteq> CHR ''_'') s)))
      else Inl (ValueError ''int''))"

definition py_int :: "string \<Rightarrow> int res" where
  "py_int s =
     (let t = strip s
      in case t of
           [] \<Rightarrow> Inl (ValueError ''int'')
         | c # u \<Rightarrow>
             if c = CHR ''+'' then read_unsigned u
             else if c = CHR ''-'' then ebind (read_unsigned u) (\<lambda>n. Inr (- n))
             else read_unsigned t)"

lemma underscores_ok_digits: "s \<noteq> [] \<Longrightarrow> \<forall>c \<in> set s. is_digit c \<Longrightarrow> underscores_ok s"
proof (induction s rule: underscores_ok.induct)
  case (3 c d s)
  then have "d \<noteq> CHR ''_''" by (auto simp: is_digit_def)
  with 3 show ?case by auto
qed auto

lemma strip_digits: "\<forall>c \<in> set s. is_digit c \<Longrightarrow> strip s = s"
proof -
  assume "\<forall>c \<in> set s. is_digit c"
  then have "\<forall>c \<in> set s. \<not> is_space c"
    by (auto simp: is_digit_def is_space_def Let_def)
  then have "dropWhile is_space s = s" "dropWhile is_space (rev s) = rev s"
    by (auto simp: dropWhile_eq_self_iff hd_rev)
  then show ?thesis by (simp add: strip_def)
qed

lemma filter_underscore_digits: "\<forall>c \<in> set s. is_digit c \<Longrightarrow> filter (\<lambda>c. c \<noteq> CHR ''_'') s = s"
  by (auto simp: filter_id_conv is_digit_def)

lemma py_int_str_nat [simp]: "py_int (str_nat n) = Inr (int n)"
proof -
  let ?s = "str_nat n"
  have d: "\<forall>c \<in> set ?s. is_digit c" by (rule str_nat_digits)
  then have "read_unsigned ?s = Inr (int n)"
    by (simp add: read_unsigned_def underscores_ok_digits filter_underscore_digits)
  moreover obtain c u where "?s = c # u" by (cases ?s) auto
  moreover from this d have "c \<noteq> CHR ''+''" "c \<noteq> CHR ''-''" by (auto simp: is_digit_def)
  ultimately show ?thesis using strip_digits [OF d] by (simp add: py_int_def)
qed

section \<open>Bytes and hexadecimal text\<close>

text \<open>\<open>bytes.fromhex\<close> skips whitespace between pairs and raises on anything else that is not a
  pair of digits; \<open>bytes.hex\<close> writes two lower-case digits a byte.\<close>

fun fromhex :: "string \<Rightarrow> byte list res" where
  "fromhex [] = Inr []"
| "fromhex [c] = (if is_space c then Inr [] else Inl (ValueError ''fromhex''))"
| "fromhex (c # d # s) =
     (if is_space c then fromhex (d # s)
      else case (hexval c, hexval d) of
             (Some h, Some l) \<Rightarrow> ebind (fromhex s) (\<lambda>bs. Inr (word_of_nat (16 * h + l) # bs))
           | _ \<Rightarrow> Inl (ValueError ''fromhex''))"

definition byte_hex :: "byte \<Rightarrow> string" where
  "byte_hex w = [hexdig (unat w div 16), hexdig (unat w mod 16)]"

definition bytes_hex :: "byte list \<Rightarrow> string" where
  "bytes_hex bs = concat (map byte_hex bs)"

lemma unat_byte_less [simp]: "unat (w :: byte) < 256"
  using unsigned_less [of w, where ?'a = nat] by simp

lemma not_space_hex: "hexval c = Some n \<Longrightarrow> \<not> is_space c"
  by (auto simp: hexval_def is_space_def Let_def split: if_splits)

lemma fromhex_bytes_hex [simp]: "fromhex (bytes_hex bs) = Inr bs"
proof (induction bs)
  case (Cons w bs)
  have *: "unat w div 16 < 16" using unat_byte_less [of w] by (simp add: less_mult_imp_div_less)
  have "16 * (unat w div 16) + unat w mod 16 = unat w" by simp
  with Cons * show ?case
    by (simp add: bytes_hex_def byte_hex_def not_space_hex [OF hexval_hexdig [OF *]])
qed (simp add: bytes_hex_def)

lemma fromhex_pairs:
  assumes "even (length s)" and "\<forall>c \<in> set s. is_hex c"
  shows "\<exists>bs. fromhex s = Inr bs \<and> length bs = length s div 2
           \<and> value_in 256 (map unat bs) = value_in 16 (map (\<lambda>c. the (hexval c)) s)"
  using assms
proof (induction s rule: fromhex.induct)
  case (3 c d s)
  from 3(4) obtain h l where hl: "hexval c = Some h" "hexval d = Some l"
    by (auto simp: is_hex_def)
  with not_space_hex have ns: "\<not> is_space c" by blast
  have "\<exists>bs. fromhex s = Inr bs \<and> length bs = length s div 2
      \<and> value_in 256 (map unat bs) = value_in 16 (map (\<lambda>c. the (hexval c)) s)"
    using "3.IH"(2) hl ns 3(3,4) by simp
  then obtain bs where bs: "fromhex s = Inr bs" "length bs = length s div 2"
    "value_in 256 (map unat bs) = value_in 16 (map (\<lambda>c. the (hexval c)) s)"
    by blast
  have hl16: "h < 16" "l < 16" using hl by (auto dest: hexval_less)
  then have u: "unat (word_of_nat (16 * h + l) :: byte) = 16 * h + l"
    by (simp add: unat_of_nat del: of_nat_add of_nat_mult)
  have ev: "even (length s)" using 3(3) by simp
  then obtain k where k: "length s = 2 * k" by blast
  have "(256::nat) ^ k = 16 ^ (2 * k)" by (simp add: power_mult)
  with bs hl u k show ?case
    by (simp add: ns value_in_Cons algebra_simps)
qed auto

section \<open>str() and repr()\<close>

text \<open>The text of a float is a parameter: floats are rationals here, and the shortest decimal that
  reads back is not modelled.\<close>

definition escape_char :: "char \<Rightarrow> char \<Rightarrow> string" where
  "escape_char q c =
     (let n = of_char c :: nat
      in if c = q \<or> n = 92 then [char_of (92 :: nat), c]
         else if n = 10 then [char_of (92 :: nat), CHR ''n'']
         else if n = 13 then [char_of (92 :: nat), CHR ''r'']
         else if n = 9 then [char_of (92 :: nat), CHR ''t'']
         else if n < 32 \<or> 127 \<le> n then char_of (92 :: nat) # CHR ''x'' # hex2 n
         else [c])"

definition str_repr :: "string \<Rightarrow> string" where
  "str_repr s =
     (let sq = char_of (39 :: nat); dq = char_of (34 :: nat);
          q = (if sq \<in> set s \<and> dq \<notin> set s then dq else sq)
      in q # concat (map (escape_char q) s) @ [q])"

definition bytes_repr :: "byte list \<Rightarrow> string" where
  "bytes_repr b = CHR ''b'' # str_repr (map (\<lambda>w. char_of (unat w)) b)"

fun py_str :: "(rat \<Rightarrow> string) \<Rightarrow> pyval \<Rightarrow> string"
  and py_repr :: "(rat \<Rightarrow> string) \<Rightarrow> pyval \<Rightarrow> string" where
  "py_str sf (PStr s) = s"
| "py_str sf (PQuoted v) = py_str sf v"
| "py_str sf PNone = ''None''"
| "py_str sf (PBool b) = (if b then ''True'' else ''False'')"
| "py_str sf (PInt i) = str_int i"
| "py_str sf (PFloat q) = sf q"
| "py_str sf (PBytes b) = bytes_repr b"
| "py_str sf (PList xs) = ''['' @ join '', '' (map (py_repr sf) xs) @ '']''"
| "py_str sf (PTuple xs) = ''('' @ join '', '' (map (py_repr sf) xs)
     @ (if length xs = 1 then '',)'' else '')'')"
| "py_str sf (PDict d) = ''{'' @ join '', '' (map (\<lambda>(k, v). str_repr k @ '': '' @ py_repr sf v) d) @ ''}''"
| "py_repr sf (PStr s) = str_repr s"
| "py_repr sf (PQuoted v) = str_repr (py_str sf v)"
| "py_repr sf PNone = ''None''"
| "py_repr sf (PBool b) = (if b then ''True'' else ''False'')"
| "py_repr sf (PInt i) = str_int i"
| "py_repr sf (PFloat q) = sf q"
| "py_repr sf (PBytes b) = bytes_repr b"
| "py_repr sf (PList xs) = ''['' @ join '', '' (map (py_repr sf) xs) @ '']''"
| "py_repr sf (PTuple xs) = ''('' @ join '', '' (map (py_repr sf) xs)
     @ (if length xs = 1 then '',)'' else '')'')"
| "py_repr sf (PDict d) = ''{'' @ join '', '' (map (\<lambda>(k, v). str_repr k @ '': '' @ py_repr sf v) d) @ ''}''"

text \<open>\<open>'%d' % x\<close>: numbers are truncated towards zero, everything else is a \<open>TypeError\<close>.\<close>

definition truncate :: "rat \<Rightarrow> int" where
  "truncate q = (if q < 0 then - \<lfloor>- q\<rfloor> else \<lfloor>q\<rfloor>)"

definition fmt_d :: "pyval \<Rightarrow> string res" where
  "fmt_d v = (if is_number v then Inr (str_int (truncate (number_of v)))
              else Inl (TypeError ''%d format: a number is required''))"

end
