(* ===== verification/Convert.thy ===== *)
theory Convert
  imports Py_Text
begin

text \<open>
  code/tutorials/utils/p4runtime\_lib/convert.py: the byte encodings of numbers, MAC, IPv4 and
  IPv6 addresses that P4Runtime messages carry. Numbers are encoded as the source does it, by
  printing in base 16 and reading the text back with \<open>bytes.fromhex\<close>; the theorems relate the
  bytes to the number itself.
\<close>

section \<open>MAC addresses\<close>

text \<open>\<open>re.match\<close> with a final \<open>$\<close> also accepts one newline at the end.\<close>

definition drop_final_newline :: "string \<Rightarrow> string" where
  "drop_final_newline s =
     (if s \<noteq> [] \<and> of_char (last s) = (10 :: nat) then butlast s else s)"

definition mac_shape :: "string \<Rightarrow> bool" where
  "mac_shape s =
     (let ps = split_on (CHR '':'') s
      in length ps = 6 \<and> list_all (\<lambda>p. length p = 2 \<and> list_all is_hex p) ps)"

definition matchesMac :: "string \<Rightarrow> bool" where
  "matchesMac s = (mac_shape s \<or> mac_shape (drop_final_newline s))"

definition encodeMac :: "string \<Rightarrow> byte list res" where
  "encodeMac s = fromhex (filter (\<lambda>c. c \<noteq> CHR '':'') s)"

text \<open>Iterating over \<open>bytes\<close> yields integers, and an \<open>int\<close> has no method \<open>hex\<close>.\<close>

definition decodeMac :: "byte list \<Rightarrow> string res" where
  "decodeMac bs =
     ebind (emap (\<lambda>_. Inl (AttributeError ''int has no attribute hex'')) bs)
       (\<lambda>parts. Inr (join '':'' parts))"

section \<open>IPv4 addresses\<close>

definition is_dotted_quad :: "string \<Rightarrow> bool" where
  "is_dotted_quad s =
     (let ps = split_on (CHR ''.'') s
      in length ps = 4 \<and>
         list_all (\<lambda>p. 1 \<le> length p \<and> length p \<le> 3 \<and> list_all is_digit p) ps)"

definition matchesIPv4 :: "string \<Rightarrow> bool" where
  "matchesIPv4 s = (is_dotted_quad s \<or> is_dotted_quad (drop_final_newline s))"

text \<open>\<open>inet_aton\<close> of the C library: one to four numbers separated by dots, each decimal, octal
  (leading \<open>0\<close>) or hexadecimal (leading \<open>0x\<close>), the last one filling the remaining bytes;
  anything after the first white space is ignored.\<close>

definition aton_number :: "string \<Rightarrow> nat option" where
  "aton_number p =
     (if p = [] \<or> \<not> is_digit (hd p) then None
      else if take 2 p = ''0x'' \<or> take 2 p = ''0X'' then read_nat 16 (drop 2 p)
      else if hd p = CHR ''0'' then read_nat 8 p
      else read_nat 10 p)"

definition big_endian :: "nat \<Rightarrow> nat \<Rightarrow> byte list" where
  "big_endian k n = map (\<lambda>i. word_of_nat (n div 256 ^ (k - 1 - i))) [0..<k]"

definition inet_aton :: "string \<Rightarrow> byte list option" where
  "inet_aton s =
     (let ps = split_on (CHR ''.'') (takeWhile (\<lambda>c. \<not> is_space c) s);
          ns = map aton_number ps
      in if 4 < length ps \<or> list_ex (\<lambda>n. n = None) ns then None
         else let hi = map the (butlast ns); lo = the (last ns); rest = 4 - length hi
              in if list_all (\<lambda>n. n < 256) hi \<and> lo < 256 ^ rest
                 then Some (map word_of_nat hi @ big_endian rest lo) else None)"

definition encodeIPv4 :: "string \<Rightarrow> byte list res" where
  "encodeIPv4 s = of_option (OSError ''inet_aton'') (inet_aton s)"

definition decodeIPv4 :: "byte list \<Rightarrow> string res" where
  "decodeIPv4 bs =
     (if length bs = 4 then Inr (join ''.'' (map (\<lambda>w. str_nat (unat w)) bs))
      else Inl (OSError ''packed IP wrong length''))"

section \<open>IPv6 addresses\<close>

text \<open>\<open>inet_pton\<close> of the C library, as the scanner it is. The state of the scan: the bytes
  written, where \<open>::\<close> stood, the digits of the open group and the text from its start (an IPv4
  tail is read from there).\<close>

definition pton4 :: "string \<Rightarrow> byte list option" where
  "pton4 s =
     (let ps = split_on (CHR ''.'') s;
          ok = (\<lambda>p. p \<noteq> [] \<and> list_all is_digit p \<and> (hd p = CHR ''0'' \<longrightarrow> length p = 1)
                    \<and> value_in 10 (map (\<lambda>c. the (hexval c)) p) < 256)
      in if length ps = 4 \<and> list_all ok ps
         then Some (map (\<lambda>p. word_of_nat (value_in 10 (map (\<lambda>c. the (hexval c)) p))) ps)
         else None)"

fun pton6_scan :: "string \<Rightarrow> string \<Rightarrow> nat list \<Rightarrow> byte list \<Rightarrow> nat option
    \<Rightarrow> (nat list \<times> byte list \<times> nat option) option" where
  "pton6_scan tok [] ds out gap = Some (ds, out, gap)"
| "pton6_scan tok (c # s) ds out gap =
     (case hexval c of
        Some d \<Rightarrow> if length ds = 4 then None else pton6_scan tok s (ds @ [d]) out gap
      | None \<Rightarrow>
          if c = CHR '':'' then
            (if ds = [] then (if gap \<noteq> None then None
                              else pton6_scan s s [] out (Some (length out)))
             else if s = [] \<or> 16 < length out + 2 then None
             else pton6_scan s s [] (out @ big_endian 2 (value_in 16 ds)) gap)
          else if c = CHR ''.'' \<and> length out + 4 \<le> 16 then
            (case pton4 tok of Some b \<Rightarrow> Some ([], out @ b, gap) | None \<Rightarrow> None)
          else None)"

definition inet_pton6 :: "string \<Rightarrow> byte list option" where
  "inet_pton6 s =
     (if s = [] \<or> (hd s = CHR '':'' \<and> take 2 s \<noteq> ''::'') then None
      else let t = (if hd s = CHR '':'' then tl s else s)
           in case pton6_scan t t [] [] None of
                None \<Rightarrow> None
              | Some (ds, out, gap) \<Rightarrow>
                  if ds \<noteq> [] \<and> 16 < length out + 2 then None
                  else let out = (if ds = [] then out else out @ big_endian 2 (value_in 16 ds))
                       in case gap of
                            None \<Rightarrow> if length out = 16 then Some out else None
                          | Some g \<Rightarrow>
                              if length out = 16 then None
                              else Some (take g out @ replicate (16 - length out) 0 @ drop g out))"

definition matchesIPv6 :: "string \<Rightarrow> bool" where
  "matchesIPv6 s = (inet_pton6 s \<noteq> None)"

definition encodeIPv6 :: "string \<Rightarrow> byte list res" where
  "encodeIPv6 s = of_option (OSError ''inet_pton'') (inet_pton6 s)"

section \<open>Numbers\<close>

definition bitwidthToBytes :: "nat \<Rightarrow> nat" where
  "bitwidthToBytes w = (w + 7) div 8"

text \<open>The test against \<open>-(2 ** (bitwidth-1))\<close> is doubled so that it also reads for width 0,
  where Python compares with \<open>-0.5\<close>.\<close>

definition encodeNum :: "int \<Rightarrow> nat \<Rightarrow> byte list res" where
  "encodeNum number w =
     (let byte_len = bitwidthToBytes w
      in if number < 0 \<and> 2 * number < - (2 ^ w) then Inl (Exc ''does not fit: negative'')
         else let n = (if number < 0 then 2 ^ w + number else number);
                  num_str = hex_nat (nat n)
              in if n \<ge> 2 ^ w then Inl (Exc ''does not fit'')
                 else fromhex (replicate (byte_len * 2 - length num_str) (CHR ''0'') @ num_str))"

definition decodeNum :: "byte list \<Rightarrow> int res" where
  "decodeNum bs = of_option (ValueError ''int'') (map_option int (read_nat 16 (bytes_hex bs)))"

text \<open>\<open>encode\<close> tries the textual forms in order; a string of no known form is passed on as it
  is, and the length of the outcome is asserted. A \<open>bool\<close> is not of type \<open>int\<close>.\<close>

datatype encoded = EBytes "byte list" | EText string

fun encoded_len :: "encoded \<Rightarrow> nat" where
  "encoded_len (EBytes b) = length b"
| "encoded_len (EText s) = length s"

definition unwrap_single :: "pyval \<Rightarrow> pyval" where
  "unwrap_single x = (case x of PList [y] \<Rightarrow> y | PTuple [y] \<Rightarrow> y | _ \<Rightarrow> x)"

definition encode_any :: "pyval \<Rightarrow> nat \<Rightarrow> encoded res" where
  "encode_any x w =
     (case x of
        PStr s \<Rightarrow>
          if matchesMac s then ebind (encodeMac s) (\<lambda>b. Inr (EBytes b))
          else if matchesIPv4 s then ebind (encodeIPv4 s) (\<lambda>b. Inr (EBytes b))
          else if matchesIPv6 s then ebind (encodeIPv6 s) (\<lambda>b. Inr (EBytes b))
          else Inr (EText s)
      | PInt n \<Rightarrow> ebind (encodeNum n w) (\<lambda>b. Inr (EBytes b))
      | _ \<Rightarrow> Inl (Exc ''Encoding objects of this type is not supported''))"

definition encode :: "pyval \<Rightarrow> nat \<Rightarrow> encoded res" where
  "encode x w =
     ebind (encode_any (unwrap_single x) w)
       (\<lambda>e. ebind (assert_that (encoded_len e = bitwidthToBytes w) ''encoded length'') (\<lambda>_. Inr e))"

section \<open>The big-endian reference encoding\<close>

lemma length_big_endian [simp]: "length (big_endian k n) = k"
  by (simp add: big_endian_def)

lemma big_endian_Suc: "big_endian (Suc k) n = big_endian k (n div 256) @ [word_of_nat n]"
proof -
  have "n div 256 ^ (k - i) = n div 256 div 256 ^ (k - 1 - i)" if "i < k" for i
  proof -
    have "k - i = Suc (k - 1 - i)" using that by simp
    then show ?thesis by (simp add: div_mult2_eq [symmetric])
  qed
  then show ?thesis by (simp add: big_endian_def)
qed

lemma byte_256 [simp]: "(256 :: byte) = 0"
  by (rule word_unat_eq_iff [THEN iffD2]) simp

lemma big_endian_value: "length bs = k \<Longrightarrow> big_endian k (value_in 256 (map unat bs)) = bs"
proof (induction bs arbitrary: k rule: rev_induct)
  case Nil
  then show ?case by (simp add: big_endian_def)
next
  case (snoc w bs)
  then obtain j where j: "k = Suc j" "length bs = j" by auto
  let ?v = "value_in 256 (map unat bs)"
  have "(?v * 256 + unat w) div 256 = ?v"
    using unat_byte_less [of w] by simp
  moreover have "word_of_nat (?v * 256 + unat w) = w"
    using byte_256 by simp
  ultimately show ?case
    using snoc.IH [OF j(2)] j by (simp add: big_endian_Suc)
qed

lemma value_big_endian: "value_in 256 (map unat (big_endian k n)) = n mod 256 ^ k"
proof (induction k arbitrary: n)
  case 0
  then show ?case by (simp add: big_endian_def)
next
  case (Suc k)
  have "n div 256 mod 256 ^ k * 256 + n mod 256 = n mod (256 * 256 ^ k)"
    using mod_mult2_eq [of n 256 "256 ^ k"] by simp
  then show ?case by (simp add: big_endian_Suc Suc unat_of_nat)
qed

lemma bytes_from_value:
  "length bs = k \<Longrightarrow> value_in 256 (map unat bs) = n \<Longrightarrow> bs = big_endian k n"
  using big_endian_value by metis

section \<open>Encoding numbers\<close>

lemma hexval_zero [simp]: "hexval (CHR ''0'') = Some 0"
  by (simp add: hexval_def)

lemma hexvals_replicate: "map (\<lambda>c. the (hexval c)) (replicate k (CHR ''0'')) = replicate k 0"
  by simp

lemma hexvals_hex_nat: "map (\<lambda>c. the (hexval c)) (hex_nat n) = numeral_in 16 n"
  using numeral_digits [of 16 n] by (auto simp: hex_nat_def comp_def intro!: map_idI)

lemma hex_nat_is_hex: "\<forall>c \<in> set (hex_nat n). is_hex c"
  using numeral_digits [of 16 n] by (auto simp: hex_nat_def)

lemma length_hex_nat_le:
  assumes "n < 2 ^ w" and "0 < w"
  shows "length (hex_nat n) \<le> 2 * bitwidthToBytes w"
proof -
  have "w \<le> 8 * bitwidthToBytes w" by (simp add: bitwidthToBytes_def)
  then have "(2::nat) ^ w \<le> 2 ^ (8 * bitwidthToBytes w)" by (intro power_increasing) auto
  also have "\<dots> = 16 ^ (2 * bitwidthToBytes w)"
    by (simp add: power_mult flip: power_mult [of "2::nat" 4])
  finally have "n < 16 ^ (2 * bitwidthToBytes w)" using assms(1) by simp
  moreover have "0 < 2 * bitwidthToBytes w" using assms(2) by (simp add: bitwidthToBytes_def)
  ultimately show ?thesis
    using numeral_length_le [of 16 n "2 * bitwidthToBytes w"] by (simp add: hex_nat_def)
qed

lemma fromhex_padded:
  assumes "n < 2 ^ w" and "0 < w"
  shows "fromhex (replicate (bitwidthToBytes w * 2 - length (hex_nat n)) (CHR ''0'') @ hex_nat n)
    = Inr (big_endian (bitwidthToBytes w) n)"
proof -
  let ?k = "bitwidthToBytes w"
  let ?s = "replicate (?k * 2 - length (hex_nat n)) (CHR ''0'') @ hex_nat n"
  have len: "length ?s = 2 * ?k" using length_hex_nat_le [OF assms] by simp
  have "\<forall>c \<in> set ?s. is_hex c" using hex_nat_is_hex by (auto simp: is_hex_def hexval_def)
  then obtain bs where bs: "fromhex ?s = Inr bs" "length bs = ?k"
    "value_in 256 (map unat bs) = value_in 16 (map (\<lambda>c. the (hexval c)) ?s)"
    using fromhex_pairs [of ?s] len by auto
  have "value_in 16 (map (\<lambda>c. the (hexval c)) ?s) = n"
    by (simp add: hexvals_replicate hexvals_hex_nat value_numeral)
  with bs show ?thesis by (metis bytes_from_value)
qed

lemma encodeNum_eq:
  assumes w: "0 < w"
  shows "encodeNum n w =
    (if - (2 ^ w) \<le> 2 * n \<and> n < 2 ^ w then Inr (big_endian (bitwidthToBytes w) (nat (n mod 2 ^ w)))
     else if n < 0 then Inl (Exc ''does not fit: negative'') else Inl (Exc ''does not fit''))"
proof (cases "n < 0")
  case True
  show ?thesis
  proof (cases "- (2 ^ w) \<le> 2 * n")
    case fits: True
    then have pos: "0 \<le> 2 ^ w + n" "2 ^ w + n < 2 ^ w" using True by auto
    then have m: "n mod 2 ^ w = 2 ^ w + n"
      by (metis mod_add_self1 mod_pos_pos_trivial)
    have "nat (2 ^ w + n) < 2 ^ w" using pos by (simp add: nat_less_iff)
    with fits True pos w m show ?thesis
      by (simp add: encodeNum_def Let_def fromhex_padded)
  qed (use True in \<open>simp add: encodeNum_def\<close>)
next
  case False
  show ?thesis
  proof (cases "n < 2 ^ w")
    case fits: True
    then have "nat n < 2 ^ w" using False by (simp add: nat_less_iff)
    with fits False w show ?thesis
      by (simp add: encodeNum_def Let_def fromhex_padded)
  qed (use False in \<open>simp add: encodeNum_def Let_def\<close>)
qed

lemma read_bytes_hex: "bs \<noteq> [] \<Longrightarrow> read_nat 16 (bytes_hex bs) = Some (value_in 256 (map unat bs))"
proof -
  assume ne: "bs \<noteq> []"
  have hex: "\<forall>c \<in> set (bytes_hex bs). is_hex c"
    using unat_byte_less by (auto simp: bytes_hex_def byte_hex_def less_mult_imp_div_less)
  have "bytes_hex bs \<noteq> []" using ne by (cases bs) (auto simp: bytes_hex_def byte_hex_def)
  moreover have "even (length (bytes_hex bs))"
    by (induction bs) (auto simp: bytes_hex_def byte_hex_def)
  then have "value_in 16 (map (\<lambda>c. the (hexval c)) (bytes_hex bs)) = value_in 256 (map unat bs)"
    using fromhex_pairs [OF _ hex] by simp
  moreover have "list_all (\<lambda>c. case hexval c of Some v \<Rightarrow> v < 16 | None \<Rightarrow> False) (bytes_hex bs)"
    using hex by (fastforce simp: list_all_iff is_hex_def dest: hexval_less)
  ultimately show ?thesis by (simp add: read_nat_def)
qed

section \<open>Encoding addresses\<close>

lemma filter_split_on: "filter (\<lambda>c. c \<noteq> x) s = concat (split_on x s)"
  by (induction s) (auto split: list.splits)

lemma concat_pairs:
  "list_all (\<lambda>p. length p = 2 \<and> list_all P p) ps \<Longrightarrow>
     length (concat ps) = 2 * length ps \<and> list_all P (concat ps)"
  by (induction ps) auto

lemma encodeMac_mac_shape:
  assumes "mac_shape s"
  shows "\<exists>bs. encodeMac s = Inr bs \<and> length bs = 6"
proof -
  let ?t = "concat (split_on (CHR '':'') s)"
  have "length ?t = 12" "\<forall>c \<in> set ?t. is_hex c"
    using concat_pairs [of is_hex "split_on (CHR '':'') s"] assms
    by (auto simp: mac_shape_def Let_def list_all_iff)
  then show ?thesis
    using fromhex_pairs [of ?t] by (auto simp: encodeMac_def filter_split_on)
qed

lemma drop_final_newline_cases:
  obtains "drop_final_newline s = s"
  | c where "s = drop_final_newline s @ [c]" "of_char c = (10 :: nat)"
proof (cases "s \<noteq> [] \<and> of_char (last s) = (10 :: nat)")
  case True
  then have "s = drop_final_newline s @ [last s]" by (simp add: drop_final_newline_def)
  with True show ?thesis using that(2) by blast
next
  case False
  then show ?thesis by (intro that(1)) (auto simp: drop_final_newline_def)
qed

lemma fromhex_append_space:
  "fromhex t = Inr bs \<Longrightarrow> is_space c \<Longrightarrow> fromhex (t @ [c]) = Inr bs"
proof (induction t arbitrary: bs rule: fromhex.induct)
  case (2 d)
  then show ?case by (cases "is_space d") auto
next
  case (3 a b s)
  then show ?case by (auto split: option.splits if_splits)
qed auto

lemma encodeMac_matches:
  assumes "matchesMac s"
  shows "\<exists>bs. encodeMac s = Inr bs \<and> length bs = 6"
proof (cases "mac_shape s")
  case True
  then show ?thesis by (rule encodeMac_mac_shape)
next
  case False
  then have m: "mac_shape (drop_final_newline s)" using assms by (simp add: matchesMac_def)
  then obtain bs where bs: "encodeMac (drop_final_newline s) = Inr bs" "length bs = 6"
    using encodeMac_mac_shape by blast
  from False m obtain c where c: "s = drop_final_newline s @ [c]" "of_char c = (10 :: nat)"
    by (metis drop_final_newline_cases)
  then have "is_space c" "c \<noteq> CHR '':''" by (auto simp: is_space_def Let_def)
  then have "encodeMac s = Inr bs"
    using bs(1) fromhex_append_space by (subst c(1)) (simp add: encodeMac_def)
  with bs(2) show ?thesis by blast
qed

text \<open>The canonical text of six bytes, and of four.\<close>

definition mac_text :: "byte list \<Rightarrow> string" where
  "mac_text bs = join '':'' (map byte_hex bs)"

lemma byte_hex_is_hex: "\<forall>c \<in> set (byte_hex w). is_hex c"
  using unat_byte_less [of w] by (simp add: byte_hex_def less_mult_imp_div_less)

lemma split_mac_text: "bs \<noteq> [] \<Longrightarrow> split_on (CHR '':'') (mac_text bs) = map byte_hex bs"
  unfolding mac_text_def
  by (rule split_on_join) (use byte_hex_is_hex in \<open>fastforce simp: is_hex_def hexval_def\<close>)+

lemma mac_text_roundtrip:
  assumes "length bs = 6"
  shows "matchesMac (mac_text bs) \<and> encodeMac (mac_text bs) = Inr bs"
proof -
  have ne: "bs \<noteq> []" using assms by auto
  have "mac_shape (mac_text bs)"
    using assms byte_hex_is_hex
    by (simp add: mac_shape_def split_mac_text [OF ne] list_all_iff) (simp add: byte_hex_def)
  moreover have "encodeMac (mac_text bs) = Inr bs"
    using fromhex_bytes_hex [of bs]
    by (simp add: encodeMac_def filter_split_on split_mac_text [OF ne] bytes_hex_def)
  ultimately show ?thesis by (simp add: matchesMac_def)
qed

lemma str_byte_length: "1 \<le> length (str_nat (unat (w :: byte))) \<and> length (str_nat (unat w)) \<le> 3"
proof -
  have "unat w < 256" by (rule unat_byte_less)
  then have "unat w < 10 ^ 3" by (rule less_trans) simp
  then have "length (numeral_in 10 (unat w)) \<le> 3" by (intro numeral_length_le) auto
  then show ?thesis by (simp add: str_nat_def Suc_le_eq)
qed

lemma hd_numeral_zero: "2 \<le> b \<Longrightarrow> hd (numeral_in b n) = 0 \<Longrightarrow> n = 0"
proof (induction n rule: less_induct)
  case (less n)
  show ?case
  proof (cases "n < b")
    case True
    with less.prems show ?thesis by (subst (asm) numeral_in.simps) simp
  next
    case False
    with less.prems have "n div b < n" by (simp add: div_less_dividend)
    moreover have "hd (numeral_in b (n div b)) = 0"
      using less.prems False by (subst (asm) numeral_in.simps) simp
    ultimately have "n div b = 0" using less by blast
    with False less.prems show ?thesis by (simp add: div_eq_0_iff)
  qed
qed

lemma aton_str_nat [simp]: "aton_number (str_nat n) = Some n"
proof -
  let ?s = "str_nat n"
  have d: "\<forall>c \<in> set ?s. is_digit c" by (rule str_nat_digits)
  then have hd: "is_digit (hd ?s)" by simp
  have nx: "take 2 ?s \<noteq> ''0x'' \<and> take 2 ?s \<noteq> ''0X''"
    using d by (cases ?s; cases "tl ?s") (auto simp: is_digit_def)
  show ?thesis
  proof (cases "hd ?s = CHR ''0''")
    case True
    then have "hexdig (hd (numeral_in 10 n)) = hexdig 0"
      by (simp add: str_nat_def hd_map) (simp add: hexdig_def hex_digits_def)
    moreover have "hd (numeral_in 10 n) < 10" using numeral_digits [of 10 n] by simp
    ultimately have "hd (numeral_in 10 n) = 0" by (intro hexdig_inj) auto
    then have "n = 0" using hd_numeral_zero [of 10] by simp
    then show ?thesis
      by (simp add: aton_number_def str_nat_def numeral_in.simps hexdig_def hex_digits_def
          is_digit_def read_nat_def hexval_def value_in_Cons)
  qed (use hd nx in \<open>simp add: aton_number_def\<close>)
qed

lemma dotted_text_split:
  assumes "length bs = 4"
  shows "split_on (CHR ''.'') (join ''.'' (map (\<lambda>w. str_nat (unat w)) bs))
           = map (\<lambda>w. str_nat (unat w)) bs"
  using assms str_nat_digits by (intro split_on_join) (fastforce simp: is_digit_def)+

lemma dotted_text_no_space:
  assumes "length bs = 4"
  shows "takeWhile (\<lambda>c. \<not> is_space c) (join ''.'' (map (\<lambda>w. str_nat (unat (w :: byte))) bs))
           = join ''.'' (map (\<lambda>w. str_nat (unat w)) bs)"
proof -
  obtain a b c d where "bs = [a, b, c, d]"
    using assms by (auto simp: length_Suc_conv numeral_eq_Suc)
  moreover have "\<not> is_space x" if "x \<in> set (str_nat n)" for x n
    using str_nat_digits [of n] that by (auto simp: is_digit_def is_space_def Let_def)
  moreover have "\<not> is_space (CHR ''.'')" by (simp add: is_space_def)
  ultimately show ?thesis by (auto simp: takeWhile_eq_all_conv)
qed

lemma decodeIPv4_matches:
  assumes "length (bs :: byte list) = 4"
  shows "matchesIPv4 (join ''.'' (map (\<lambda>w. str_nat (unat w)) bs))"
proof -
  have "is_dotted_quad (join ''.'' (map (\<lambda>w. str_nat (unat w)) bs))"
    using assms str_byte_length str_nat_digits
    by (auto simp: is_dotted_quad_def dotted_text_split list_all_iff)
  then show ?thesis by (simp add: matchesIPv4_def)
qed

lemma encode_decodeIPv4:
  assumes "length bs = 4"
  shows "encodeIPv4 (join ''.'' (map (\<lambda>w. str_nat (unat w)) bs)) = Inr bs"
proof -
  obtain a b c d where bs: "bs = [a, b, c, d]"
    using assms by (auto simp: length_Suc_conv numeral_eq_Suc)
  have "big_endian (Suc 0) (unat d) = [d]" by (simp add: big_endian_def)
  then show ?thesis
    unfolding encodeIPv4_def inet_aton_def dotted_text_split [OF assms]
      dotted_text_no_space [OF assms] Let_def
    using unat_byte_less by (simp add: bs)
qed

section \<open>Properties\<close>

text \<open>C3. \<open>encodeNum\<close> is the big-endian two's-complement encoding: a number between
  \<open>-2^(w-1)\<close> and \<open>2^w - 1\<close> becomes the \<open>bitwidthToBytes w\<close> bytes of its value modulo \<open>2^w\<close>;
  every other number raises the error of its sign. (For positive widths.)\<close>

theorem encodeNum_big_endian:
  assumes "0 < w"
  shows "encodeNum n w =
    (if - (2 ^ w) \<le> 2 * n \<and> n < 2 ^ w then Inr (big_endian (bitwidthToBytes w) (nat (n mod 2 ^ w)))
     else if n < 0 then Inl (Exc ''does not fit: negative'') else Inl (Exc ''does not fit''))"
  using assms by (rule encodeNum_eq)

theorem encodeNum_big_endian_witness:
  "encodeNum (-2) 12 = Inr [15, 254] \<and> encodeNum 4096 12 = Inl (Exc ''does not fit'')"
  using encodeNum_big_endian [of 12 "-2"] encodeNum_big_endian [of 12 4096]
  by (simp add: bitwidthToBytes_def big_endian_def upt_rec)

text \<open>Decoding an encoded number gives the number modulo \<open>2^w\<close>: exactly the number when it
  is not negative.\<close>

theorem decodeNum_encodeNum:
  assumes "0 < w" and "- (2 ^ w) \<le> 2 * n" and "n < 2 ^ w"
  shows "ebind (encodeNum n w) decodeNum = Inr (n mod 2 ^ w)"
proof -
  let ?k = "bitwidthToBytes w" and ?m = "nat (n mod 2 ^ w)"
  have "0 < ?k" using assms(1) by (simp add: bitwidthToBytes_def)
  then have ne: "big_endian ?k ?m \<noteq> []" by (metis length_0_conv length_big_endian less_irrefl)
  have "w \<le> 8 * ?k" by (simp add: bitwidthToBytes_def)
  then have "(2::nat) ^ w \<le> 2 ^ (8 * ?k)" by (intro power_increasing) auto
  then have "(2::nat) ^ w \<le> 256 ^ ?k" by (simp add: power_mult)
  moreover have "?m < 2 ^ w" by (simp add: nat_less_iff)
  ultimately have "?m mod 256 ^ ?k = ?m" by (meson less_le_trans mod_less)
  then show ?thesis
    using assms by (simp add: encodeNum_eq decodeNum_def read_bytes_hex [OF ne] value_big_endian)
qed

theorem decodeNum_encodeNum_witness:
  "ebind (encodeNum 1337 40) decodeNum = Inr 1337 \<and> ebind (encodeNum (-1) 9) decodeNum = Inr 511"
  using decodeNum_encodeNum [of 40 1337] decodeNum_encodeNum [of 9 "-1"] by simp

text \<open>C4. Every string that passes \<open>matchesMac\<close> encodes to six bytes, and \<open>encodeMac\<close> inverts the
  canonical text of a MAC address.\<close>

theorem encodeMac_six_bytes:
  "(matchesMac s \<longrightarrow> (\<exists>bs. encodeMac s = Inr bs \<and> length bs = 6))
   \<and> (length bs = 6 \<longrightarrow> matchesMac (mac_text bs) \<and> encodeMac (mac_text bs) = Inr bs)"
  using encodeMac_matches mac_text_roundtrip by blast

theorem encodeMac_six_bytes_witness:
  "encodeMac ''aa:bb:cc:dd:ee:ff'' = Inr [170, 187, 204, 221, 238, 255]
   \<and> (\<exists>bs. encodeMac ''aa:bb:cc:dd:ee:ff'' = Inr bs \<and> length bs = 6)
   \<and> matchesMac (mac_text [170, 187, 204, 221, 238, 255])"
proof -
  have "matchesMac ''aa:bb:cc:dd:ee:ff''" by code_simp
  moreover have "encodeMac ''aa:bb:cc:dd:ee:ff'' = Inr [170, 187, 204, 221, 238, 255]"
    by code_simp
  ultimately show ?thesis
    using encodeMac_six_bytes [of "''aa:bb:cc:dd:ee:ff''" "[170, 187, 204, 221, 238, 255]"]
    by simp
qed

text \<open>\<open>decodeMac\<close> raises on every non-empty byte string: it is no inverse of \<open>encodeMac\<close>.\<close>

theorem decodeMac_raises:
  "decodeMac bs = (if bs = [] then Inr [] else Inl (AttributeError ''int has no attribute hex''))"
  by (cases bs) (simp_all add: decodeMac_def)

text \<open>The dotted text of four bytes is recognised by \<open>matchesIPv4\<close> and encodes back to the
  same bytes.\<close>

theorem encodeIPv4_decodeIPv4:
  assumes "decodeIPv4 bs = Inr s"
  shows "matchesIPv4 s \<and> encodeIPv4 s = Inr bs"
proof -
  have "length bs = 4" "s = join ''.'' (map (\<lambda>w. str_nat (unat w)) bs)"
    using assms by (auto simp: decodeIPv4_def split: if_splits)
  then show ?thesis by (simp add: decodeIPv4_matches encode_decodeIPv4)
qed

theorem encodeIPv4_decodeIPv4_witness:
  "matchesIPv4 ''10.0.0.1'' \<and> encodeIPv4 ''10.0.0.1'' = Inr [10, 0, 0, 1]"
proof (rule encodeIPv4_decodeIPv4)
  show "decodeIPv4 [10, 0, 0, 1] = Inr ''10.0.0.1''" by code_simp
qed

end
