(* ===== verification/P4Info.thy ===== *)
theory P4Info
  imports Convert
begin

text \<open>
  code/tutorials/utils/p4runtime\_lib/helper.py: look-ups in the compiler's description of a P4
  program (P4Info) and the construction of P4Runtime table, multicast and clone entries from
  names and values. The protobuf messages are records with the fields the code reads and writes.
  \<open>get\<close> returns the preamble of the entity it finds, the only part its callers use.
\<close>

section \<open>The program description\<close>

datatype match_type = UNSPECIFIED | EXACT | LPM | TERNARY | RANGE | OPTIONAL

record preamble =
  pre_id :: int
  pre_name :: string
  pre_alias :: string

record match_field =
  mf_id :: int
  mf_name :: string
  mf_bitwidth :: nat
  mf_type :: match_type

record action_param =
  ap_id :: int
  ap_name :: string
  ap_bitwidth :: nat

record p4_table =
  tbl_preamble :: preamble
  tbl_match_fields :: "match_field list"

record p4_action =
  act_preamble :: preamble
  act_params :: "action_param list"

record p4info =
  info_tables :: "p4_table list"
  info_actions :: "p4_action list"
  info_other :: "(string \<times> preamble list) list"

definition entities :: "p4info \<Rightarrow> string \<Rightarrow> preamble list res" where
  "entities info entity_type =
     (if entity_type = ''tables'' then Inr (map tbl_preamble (info_tables info))
      else if entity_type = ''actions'' then Inr (map act_preamble (info_actions info))
      else of_option (AttributeError entity_type) (dict_get (info_other info) entity_type))"

section \<open>Look-ups\<close>

text \<open>The test \<open>if name:\<close> sends both \<open>None\<close> and the empty name to the search by id.\<close>

definition entity_matches :: "string option \<Rightarrow> int option \<Rightarrow> preamble \<Rightarrow> bool" where
  "entity_matches name eid pre =
     (case name of
        Some (c # cs) \<Rightarrow> pre_name pre = c # cs \<or> pre_alias pre = c # cs
      | _ \<Rightarrow> Some (pre_id pre) = eid)"

definition get :: "p4info \<Rightarrow> string \<Rightarrow> string option \<Rightarrow> int option \<Rightarrow> preamble res" where
  "get info entity_type name eid =
     (if name \<noteq> None \<and> eid \<noteq> None then Inl (AssertionError ''name or id must be None'')
      else ebind (entities info entity_type)
        (\<lambda>es. of_option (AttributeError ''Could not find'') (find (entity_matches name eid) es)))"

definition get_id :: "p4info \<Rightarrow> string \<Rightarrow> string \<Rightarrow> int res" where
  "get_id info entity_type name = ebind (get info entity_type (Some name) None) (\<lambda>o'. Inr (pre_id o'))"

definition get_name :: "p4info \<Rightarrow> string \<Rightarrow> int \<Rightarrow> string res" where
  "get_name info entity_type eid = ebind (get info entity_type None (Some eid)) (\<lambda>o'. Inr (pre_name o'))"

definition get_alias :: "p4info \<Rightarrow> string \<Rightarrow> int \<Rightarrow> string res" where
  "get_alias info entity_type eid = ebind (get info entity_type None (Some eid)) (\<lambda>o'. Inr (pre_alias o'))"

text \<open>\<open>__getattr__\<close>: the names \<open>get_<type>_id\<close> and \<open>get_<type>_name\<close> become look-ups.\<close>

datatype synthesized = IdOf string | NameOf string

definition is_word_char :: "char \<Rightarrow> bool" where
  "is_word_char c =
     (let n = of_char c :: nat in
      is_digit c \<or> (65 \<le> n \<and> n \<le> 90) \<or> (97 \<le> n \<and> n \<le> 122) \<or> c = CHR ''_'')"

definition between :: "string \<Rightarrow> string \<Rightarrow> string \<Rightarrow> string option" where
  "between pre suf s =
     (let mid = take (length s - length pre - length suf) (drop (length pre) s)
      in if length pre + length suf < length s \<and> prefix pre s \<and> suffix suf s
            \<and> list_all is_word_char mid
         then Some mid else None)"

definition getattr_synth :: "string \<Rightarrow> synthesized res" where
  "getattr_synth attr =
     (case between ''get_'' ''_id'' attr of
        Some p \<Rightarrow> Inr (IdOf p)
      | None \<Rightarrow> (case between ''get_'' ''_name'' attr of
                   Some p \<Rightarrow> Inr (NameOf p)
                 | None \<Rightarrow> Inl (AttributeError attr)))"

text \<open>The nested loops over tables (actions) of the given full name and their fields: the first
  field with the name, or, when no name is given, with the id.\<close>

definition get_match_field :: "p4info \<Rightarrow> string \<Rightarrow> string option \<Rightarrow> int option \<Rightarrow> match_field res" where
  "get_match_field info table_name name eid =
     of_option (AttributeError ''has no attribute'')
       (find (\<lambda>mf. case name of Some n \<Rightarrow> mf_name mf = n | None \<Rightarrow> Some (mf_id mf) = eid)
         (concat (map tbl_match_fields
           (filter (\<lambda>t. pre_name (tbl_preamble t) = table_name) (info_tables info)))))"

definition get_match_field_id :: "p4info \<Rightarrow> string \<Rightarrow> string \<Rightarrow> int res" where
  "get_match_field_id info t n = ebind (get_match_field info t (Some n) None) (\<lambda>m. Inr (mf_id m))"

definition get_match_field_name :: "p4info \<Rightarrow> string \<Rightarrow> int \<Rightarrow> string res" where
  "get_match_field_name info t i = ebind (get_match_field info t None (Some i)) (\<lambda>m. Inr (mf_name m))"

definition get_action_param :: "p4info \<Rightarrow> string \<Rightarrow> string option \<Rightarrow> int option \<Rightarrow> action_param res" where
  "get_action_param info action_name name eid =
     of_option (AttributeError ''has no param'')
       (find (\<lambda>p. case name of Some n \<Rightarrow> ap_name p = n | None \<Rightarrow> Some (ap_id p) = eid)
         (concat (map act_params
           (filter (\<lambda>a. pre_name (act_preamble a) = action_name) (info_actions info)))))"

definition get_action_param_id :: "p4info \<Rightarrow> string \<Rightarrow> string \<Rightarrow> int res" where
  "get_action_param_id info a n = ebind (get_action_param info a (Some n) None) (\<lambda>p. Inr (ap_id p))"

definition get_action_param_name :: "p4info \<Rightarrow> string \<Rightarrow> int \<Rightarrow> string res" where
  "get_action_param_name info a i = ebind (get_action_param info a None (Some i)) (\<lambda>p. Inr (ap_name p))"

section \<open>Building entries\<close>

datatype match_value =
    MExact encoded
  | MLpm encoded pyval
  | MTernary encoded encoded
  | MRange encoded encoded
  | MValid pyval

record match_pb =
  m_field_id :: int
  m_value :: match_value

definition encode_item :: "pyval \<Rightarrow> int \<Rightarrow> nat \<Rightarrow> encoded res" where
  "encode_item v i w = ebind (py_index v i) (\<lambda>x. encode x w)"

definition get_match_field_pb :: "p4info \<Rightarrow> string \<Rightarrow> string \<Rightarrow> pyval \<Rightarrow> match_pb res" where
  "get_match_field_pb info table_name field_name v =
     ebind (get_match_field info table_name (Some field_name) None) (\<lambda>mf.
       let w = mf_bitwidth mf; mk = (\<lambda>mv. Inr \<lparr>m_field_id = mf_id mf, m_value = mv\<rparr>)
       in case mf_type mf of
            EXACT \<Rightarrow> ebind (encode v w) (\<lambda>e. mk (MExact e))
          | LPM \<Rightarrow> ebind (encode_item v 0 w) (\<lambda>e. ebind (py_index v 1) (\<lambda>p. mk (MLpm e p)))
          | TERNARY \<Rightarrow> ebind (encode_item v 0 w) (\<lambda>e. ebind (encode_item v 1 w) (\<lambda>m. mk (MTernary e m)))
          | RANGE \<Rightarrow> ebind (encode_item v 0 w) (\<lambda>e. ebind (encode_item v 1 w) (\<lambda>m. mk (MRange e m)))
          | _ \<Rightarrow> Inl (Exc ''Unsupported match type''))"

text \<open>Reading a match message back: the value, or the pair of values.\<close>

datatype field_value = FSingle encoded | FPrefix encoded pyval | FPair encoded encoded | FValid pyval

fun get_match_field_value :: "match_pb \<Rightarrow> field_value" where
  "get_match_field_value m =
     (case m_value m of
        MValid v \<Rightarrow> FValid v
      | MExact e \<Rightarrow> FSingle e
      | MLpm e p \<Rightarrow> FPrefix e p
      | MTernary e k \<Rightarrow> FPair e k
      | MRange l h \<Rightarrow> FPair l h)"

record param_pb =
  p_param_id :: int
  p_value :: encoded

definition get_action_param_pb :: "p4info \<Rightarrow> string \<Rightarrow> string \<Rightarrow> pyval \<Rightarrow> param_pb res" where
  "get_action_param_pb info action_name param_name v =
     ebind (get_action_param info action_name (Some param_name) None) (\<lambda>p.
     ebind (encode v (ap_bitwidth p)) (\<lambda>e. Inr \<lparr>p_param_id = ap_id p, p_value = e\<rparr>))"

record action_pb =
  a_action_id :: int
  a_params :: "param_pb list"

record table_entry =
  te_table_id :: int
  te_priority :: "pyval option"
  te_match :: "match_pb list"
  te_is_default :: bool
  te_action :: "action_pb option"

text \<open>\<open>match_fields\<close>, \<open>default_action\<close>, \<open>action_name\<close> and \<open>action_params\<close> are tested for truth, so
  \<open>None\<close> and an empty dictionary (or name) are alike.\<close>

definition build_action :: "p4info \<Rightarrow> pyval \<Rightarrow> pyval \<Rightarrow> action_pb option res" where
  "build_action info action_name params =
     (if \<not> truthy action_name then Inr None
      else case action_name of
        PStr a \<Rightarrow>
          ebind (get_id info ''actions'' a) (\<lambda>aid.
          ebind (items_if_any params) (\<lambda>kvs.
          ebind (emap (\<lambda>(n, v). get_action_param_pb info a n v) kvs) (\<lambda>ps.
          Inr (Some \<lparr>a_action_id = aid, a_params = ps\<rparr>))))
      | _ \<Rightarrow> Inl (AttributeError ''Could not find''))"

definition buildTableEntry ::
  "p4info \<Rightarrow> string \<Rightarrow> pyval \<Rightarrow> pyval \<Rightarrow> pyval \<Rightarrow> pyval \<Rightarrow> pyval option \<Rightarrow> table_entry res" where
  "buildTableEntry info table_name match_fields default_action action_name action_params priority =
     ebind (get_id info ''tables'' table_name) (\<lambda>tid.
     ebind (items_if_any match_fields) (\<lambda>kvs.
     ebind (emap (\<lambda>(n, v). get_match_field_pb info table_name n v) kvs) (\<lambda>ms.
     ebind (build_action info action_name action_params) (\<lambda>act.
     Inr \<lparr>te_table_id = tid, te_priority = priority, te_match = ms,
          te_is_default = truthy default_action, te_action = act\<rparr>))))"

record replica =
  r_egress_port :: pyval
  r_instance :: pyval

datatype pre_entry =
    MulticastGroup pyval "replica list"
  | CloneSession pyval pyval "replica list"

definition build_replica :: "pyval \<Rightarrow> replica res" where
  "build_replica r =
     ebind (py_item r ''egress_port'') (\<lambda>p.
     ebind (py_item r ''instance'') (\<lambda>i. Inr \<lparr>r_egress_port = p, r_instance = i\<rparr>))"

definition buildMulticastGroupEntry :: "pyval \<Rightarrow> pyval list \<Rightarrow> pre_entry res" where
  "buildMulticastGroupEntry group_id replicas =
     ebind (emap build_replica replicas) (\<lambda>rs. Inr (MulticastGroup group_id rs))"

definition buildCloneSessionEntry :: "pyval \<Rightarrow> pyval list \<Rightarrow> pyval \<Rightarrow> pre_entry res" where
  "buildCloneSessionEntry session_id replicas packet_length =
     ebind (emap build_replica replicas) (\<lambda>rs. Inr (CloneSession session_id packet_length rs))"

section \<open>Facts about look-ups\<close>

lemma find_SomeD: "find P xs = Some x \<Longrightarrow> x \<in> set xs \<and> P x"
  by (induction xs) (auto split: if_splits)

lemma entity_matches_id: "entity_matches None (Some i) p \<longleftrightarrow> pre_id p = i"
  by (simp add: entity_matches_def)

lemma entity_matches_name:
  "n \<noteq> [] \<Longrightarrow> entity_matches (Some n) None p \<longleftrightarrow> pre_name p = n \<or> pre_alias p = n"
  by (cases n) (simp_all add: entity_matches_def)

lemma find_unique:
  "distinct (map f xs) \<Longrightarrow> x \<in> set xs \<Longrightarrow> find (\<lambda>y. f y = f x) xs = Some x"
proof (induction xs)
  case (Cons y ys)
  then show ?case by (cases "x = y") (use Cons.prems in force)+
qed simp

lemma get_id_in: "get_id info ty n = Inr i \<Longrightarrow>
    \<exists>es p. entities info ty = Inr es \<and> p \<in> set es \<and> pre_id p = i
      \<and> entity_matches (Some n) None p"
  by (auto simp: get_id_def get_def dest!: find_SomeD)

lemma encode_length: "encode x w = Inr e \<Longrightarrow> encoded_len e = bitwidthToBytes w"
  by (auto simp: encode_def assert_that_def split: if_splits)

lemma encode_item_length: "encode_item v i w = Inr e \<Longrightarrow> encoded_len e = bitwidthToBytes w"
  by (auto simp: encode_item_def dest: encode_length)

fun match_lengths :: "match_value \<Rightarrow> nat list" where
  "match_lengths (MExact e) = [encoded_len e]"
| "match_lengths (MLpm e p) = [encoded_len e]"
| "match_lengths (MTernary e k) = [encoded_len e, encoded_len k]"
| "match_lengths (MRange l h) = [encoded_len l, encoded_len h]"
| "match_lengths (MValid v) = []"

lemma get_match_field_pb_sound:
  assumes "get_match_field_pb info t n v = Inr m"
  obtains mf where "get_match_field info t (Some n) None = Inr mf" "m_field_id m = mf_id mf"
    "\<forall>l \<in> set (match_lengths (m_value m)). l = bitwidthToBytes (mf_bitwidth mf)"
    "mf_type mf \<in> {EXACT, LPM, TERNARY, RANGE}"
proof -
  from assms obtain mf where mf: "get_match_field info t (Some n) None = Inr mf"
    by (auto simp: get_match_field_pb_def)
  from assms mf have "m_field_id m = mf_id mf
      \<and> (\<forall>l \<in> set (match_lengths (m_value m)). l = bitwidthToBytes (mf_bitwidth mf))
      \<and> mf_type mf \<in> {EXACT, LPM, TERNARY, RANGE}"
    by (cases "mf_type mf")
      (auto simp: get_match_field_pb_def Let_def dest!: encode_length encode_item_length)
  with mf that show ?thesis by blast
qed

lemma get_match_field_name_eq:
  "get_match_field info t (Some n) None = Inr mf \<Longrightarrow> mf_name mf = n"
  by (auto simp: get_match_field_def find_Some_iff)

section \<open>Properties\<close>

text \<open>C5. Names and ids are inverse look-ups: where the entities of a type have distinct ids and
  no name doubles as another entity's name or alias, looking up the id of an entity's name and
  then the name of that id gives the name back.\<close>

theorem get_name_get_id:
  assumes "entities info ty = Inr es" and "p \<in> set es" and "pre_name p \<noteq> []"
    and "distinct (map pre_id es)"
    and "\<forall>q \<in> set es. pre_name q = pre_name p \<or> pre_alias q = pre_name p \<longrightarrow> q = p"
  shows "ebind (get_id info ty (pre_name p)) (get_name info ty) = Inr (pre_name p)"
proof -
  have "find (entity_matches (Some (pre_name p)) None) es = Some p"
  proof -
    have "find (entity_matches (Some (pre_name p)) None) es \<noteq> None"
      using assms(2,3) by (auto simp: find_None_iff entity_matches_name)
    then obtain q where q: "find (entity_matches (Some (pre_name p)) None) es = Some q" by blast
    then have "q \<in> set es" "entity_matches (Some (pre_name p)) None q"
      by (auto simp: find_Some_iff)
    then have "q = p" using assms(3,5) by (auto simp: entity_matches_name)
    with q show ?thesis by simp
  qed
  moreover have "find (entity_matches None (Some (pre_id p))) es = Some p"
    using find_unique [OF assms(4,2)] by (simp add: entity_matches_id [abs_def])
  ultimately show ?thesis
    using assms(1) by (simp add: get_id_def get_name_def get_def)
qed

definition demo_info :: p4info where
  "demo_info =
     \<lparr>info_tables =
        [\<lparr>tbl_preamble = \<lparr>pre_id = 7, pre_name = ''MyIngress.ipv4_lpm'', pre_alias = ''ipv4_lpm''\<rparr>,
          tbl_match_fields =
            [\<lparr>mf_id = 1, mf_name = ''hdr.ipv4.dstAddr'', mf_bitwidth = 32, mf_type = LPM\<rparr>]\<rparr>,
         \<lparr>tbl_preamble = \<lparr>pre_id = 8, pre_name = ''MyIngress.acl'', pre_alias = ''acl''\<rparr>,
          tbl_match_fields =
            [\<lparr>mf_id = 1, mf_name = ''port'', mf_bitwidth = 9, mf_type = TERNARY\<rparr>]\<rparr>],
      info_actions =
        [\<lparr>act_preamble = \<lparr>pre_id = 3, pre_name = ''MyIngress.ipv4_forward'', pre_alias = ''fwd''\<rparr>,
          act_params = [\<lparr>ap_id = 1, ap_name = ''dstAddr'', ap_bitwidth = 48\<rparr>,
                        \<lparr>ap_id = 2, ap_name = ''port'', ap_bitwidth = 9\<rparr>]\<rparr>],
      info_other = []\<rparr>"

theorem get_name_get_id_witness:
  "ebind (get_id demo_info ''tables'' ''MyIngress.acl'') (get_name demo_info ''tables'')
     = Inr ''MyIngress.acl''"
  using get_name_get_id [of demo_info "''tables''" "map tbl_preamble (info_tables demo_info)"
      "\<lparr>pre_id = 8, pre_name = ''MyIngress.acl'', pre_alias = ''acl''\<rparr>"]
  by (simp add: demo_info_def entities_def)

text \<open>C6. A table entry that \<open>buildTableEntry\<close> returns carries the id of a table of that name or
  alias, one match message per given field in the given order, each with the field's id and with
  values of exactly the width the field declares, and the given priority and default flag.\<close>

theorem buildTableEntry_sound:
  assumes "buildTableEntry info t ms d a ps pr = Inr te"
  shows "(\<exists>p \<in> set (map tbl_preamble (info_tables info)).
            pre_id p = te_table_id te \<and> entity_matches (Some t) None p)
    \<and> te_priority te = pr \<and> te_is_default te = truthy d
    \<and> (\<exists>fields. items_if_any ms = Inr fields \<and> list_all2 (\<lambda>(n, v) m. \<exists>mf. get_match_field info t (Some n) None = Inr mf
         \<and> m_field_id m = mf_id mf
         \<and> (\<forall>l \<in> set (match_lengths (m_value m)). l = bitwidthToBytes (mf_bitwidth mf)))
       fields (te_match te))"
proof -
  from assms obtain fields where id: "get_id info ''tables'' t = Inr (te_table_id te)"
    and fields: "items_if_any ms = Inr fields"
    and ms: "emap (\<lambda>(n, v). get_match_field_pb info t n v) fields = Inr (te_match te)"
    and rest: "te_priority te = pr" "te_is_default te = truthy d"
    by (auto simp: buildTableEntry_def)
  from ms have "list_all2 (\<lambda>(n, v) m. \<exists>mf. get_match_field info t (Some n) None = Inr mf
         \<and> m_field_id m = mf_id mf
         \<and> (\<forall>l \<in> set (match_lengths (m_value m)). l = bitwidthToBytes (mf_bitwidth mf)))
       fields (te_match te)"
    unfolding emap_Inr_iff
    by (rule list_all2_mono) (auto elim: get_match_field_pb_sound)
  with rest fields get_id_in [OF id] show ?thesis by (auto simp: entities_def)
qed

theorem buildTableEntry_sound_witness:
  "\<exists>te. buildTableEntry demo_info ''MyIngress.ipv4_lpm''
        (PDict [(''hdr.ipv4.dstAddr'', PList [PStr ''10.0.0.1'', PInt 32])]) PNone
        (PStr ''MyIngress.ipv4_forward'') (PDict [(''port'', PInt 3)]) None = Inr te
     \<and> te_table_id te = 7 \<and> te_priority te = None
     \<and> (\<exists>p \<in> set (map tbl_preamble (info_tables demo_info)). pre_id p = te_table_id te)"
proof -
  let ?r = "buildTableEntry demo_info ''MyIngress.ipv4_lpm''
      (PDict [(''hdr.ipv4.dstAddr'', PList [PStr ''10.0.0.1'', PInt 32])]) PNone
      (PStr ''MyIngress.ipv4_forward'') (PDict [(''port'', PInt 3)]) None"
  have "case ?r of Inr te \<Rightarrow> te_table_id te = 7 | Inl _ \<Rightarrow> False" by code_simp
  then obtain te where te: "?r = Inr te" "te_table_id te = 7" by (auto split: sum.splits)
  show ?thesis using buildTableEntry_sound [OF te(1)] te by blast
qed

text \<open>A table may be named by its alias for its id but not for its match fields: an entry with
  a match field for a table given by an alias that is no table's full name raises
  \<open>AttributeError\<close>.\<close>

theorem buildTableEntry_alias_fails:
  assumes "get_id info ''tables'' t = Inr tid" and "items_if_any ms = Inr (f # fs)"
    and "\<forall>tb \<in> set (info_tables info). pre_name (tbl_preamble tb) \<noteq> t"
  shows "buildTableEntry info t ms d a ps pr = Inl (AttributeError ''has no attribute'')"
proof -
  have "filter (\<lambda>tb. pre_name (tbl_preamble tb) = t) (info_tables info) = []"
    using assms(3) by (simp add: filter_empty_conv)
  then have "get_match_field info t (Some n) None = Inl (AttributeError ''has no attribute'')" for n
    by (simp add: get_match_field_def)
  then show ?thesis
    using assms(1,2) by (cases f) (simp add: buildTableEntry_def get_match_field_pb_def)
qed

theorem buildTableEntry_alias_fails_witness:
  "buildTableEntry demo_info ''ipv4_lpm''
     (PDict [(''hdr.ipv4.dstAddr'', PList [PStr ''10.0.0.1'', PInt 32])]) PNone PNone PNone None
   = Inl (AttributeError ''has no attribute'')"
proof (rule buildTableEntry_alias_fails)
  show "get_id demo_info ''tables'' ''ipv4_lpm'' = Inr 7" by code_simp
  show "items_if_any (PDict [(''hdr.ipv4.dstAddr'', PList [PStr ''10.0.0.1'', PInt 32])])
      = Inr [(''hdr.ipv4.dstAddr'', PList [PStr ''10.0.0.1'', PInt 32])]"
    by (simp add: items_if_any_def)
  show "\<forall>tb \<in> set (info_tables demo_info). pre_name (tbl_preamble tb) \<noteq> ''ipv4_lpm''"
    by (simp add: demo_info_def)
qed

end
