(* ===== verification/Py_IO.thy ===== *)
theory Py_IO
  imports Py_Text
begin

text \<open>
  Code that acts on the world: a statement takes the state and returns the exception or the
  value together with the new state. State changes made before an exception stay, as they do
  in Python. The locale \<open>step_relation\<close> states once which relations between the state before
  and the state after every combinator keeps; each component interprets it on its own state
  (a log that only grows, a field that stays).
\<close>

section \<open>The monad\<close>

type_synonym ('s, 'a) io = "'s \<Rightarrow> 'a res \<times> 's"

definition ret :: "'a \<Rightarrow> ('s, 'a) io" where
  "ret x s = (Inr x, s)"

definition raise :: "py_error \<Rightarrow> ('s, 'a) io" where
  "raise e s = (Inl e, s)"

definition bnd :: "('s, 'a) io \<Rightarrow> ('a \<Rightarrow> ('s, 'b) io) \<Rightarrow> ('s, 'b) io" where
  "bnd m f s = (case m s of (Inl e, t) \<Rightarrow> (Inl e, t) | (Inr x, t) \<Rightarrow> f x t)"

definition andthen :: "('s, 'a) io \<Rightarrow> ('s, 'b) io \<Rightarrow> ('s, 'b) io" where
  "andthen m n = bnd m (\<lambda>_. n)"

definition lift :: "'a res \<Rightarrow> ('s, 'a) io" where
  "lift r s = (r, s)"

definition gets :: "('s \<Rightarrow> 'a) \<Rightarrow> ('s, 'a) io" where
  "gets f s = (Inr (f s), s)"

definition modify :: "('s \<Rightarrow> 's) \<Rightarrow> ('s, unit) io" where
  "modify f s = (Inr (), f s)"

text \<open>\<open>try: m except Exception as e: h e\<close>, and \<open>try: m finally: f\<close> (an exception of \<open>f\<close>
  replaces the outcome of \<open>m\<close>).\<close>

definition try_except :: "('s, 'a) io \<Rightarrow> (py_error \<Rightarrow> ('s, 'a) io) \<Rightarrow> ('s, 'a) io" where
  "try_except m h s = (case m s of (Inl e, t) \<Rightarrow> h e t | (Inr x, t) \<Rightarrow> (Inr x, t))"

definition try_finally :: "('s, 'a) io \<Rightarrow> ('s, unit) io \<Rightarrow> ('s, 'a) io" where
  "try_finally m f s =
     (case m s of (r, t) \<Rightarrow> (case f t of (Inl e, u) \<Rightarrow> (Inl e, u) | (Inr _, u) \<Rightarrow> (r, u)))"

text \<open>\<open>for x in xs: f x\<close>: the first exception leaves the loop.\<close>

fun for_each :: "('b \<Rightarrow> ('s, unit) io) \<Rightarrow> 'b list \<Rightarrow> ('s, unit) io" where
  "for_each f [] s = (Inr (), s)"
| "for_each f (x # xs) s = (case f x s of (Inl e, t) \<Rightarrow> (Inl e, t) | (Inr _, t) \<Rightarrow> for_each f xs t)"

text \<open>A loop that carries local variables.\<close>

fun fold_io :: "('b \<Rightarrow> 'a \<Rightarrow> ('s, 'a) io) \<Rightarrow> 'b list \<Rightarrow> 'a \<Rightarrow> ('s, 'a) io" where
  "fold_io f [] a = ret a"
| "fold_io f (x # xs) a = bnd (f x a) (fold_io f xs)"

text \<open>\<open>except IOError\<close>, \<open>except Exception\<close>: what the handler does not name goes on.\<close>

definition try_matching :: "(py_error \<Rightarrow> bool) \<Rightarrow> ('s, 'a) io \<Rightarrow> (py_error \<Rightarrow> ('s, 'a) io) \<Rightarrow> ('s, 'a) io" where
  "try_matching P m h = try_except m (\<lambda>e. if P e then h e else raise e)"

lemmas io_defs = ret_def raise_def bnd_def andthen_def lift_def gets_def modify_def
  try_except_def try_finally_def

lemma io_eval [io_run]:
  "ret x s = (Inr x, s)"
  "raise e s = (Inl e, s)"
  "lift r s = (r, s)"
  "gets g s = (Inr (g s), s)"
  "modify h s = (Inr (), h s)"
  by (simp_all add: io_defs)

lemma bnd_Inr [io_run]: "m s = (Inr x, t) \<Longrightarrow> bnd m f s = f x t"
  by (simp add: bnd_def)

lemma bnd_Inl [io_run]: "m s = (Inl e, t) \<Longrightarrow> bnd m f s = (Inl e, t)"
  by (simp add: bnd_def)

lemma andthen_Inr [io_run]: "m s = (Inr x, t) \<Longrightarrow> andthen m n s = n t"
  by (simp add: andthen_def bnd_def)

lemma andthen_Inl [io_run]: "m s = (Inl e, t) \<Longrightarrow> andthen m n s = (Inl e, t)"
  by (simp add: andthen_def bnd_def)

lemma try_except_Inr [io_run]: "m s = (Inr x, t) \<Longrightarrow> try_except m h s = (Inr x, t)"
  by (simp add: try_except_def)

lemma try_except_Inl [io_run]: "m s = (Inl e, t) \<Longrightarrow> try_except m h s = h e t"
  by (simp add: try_except_def)

lemma bnd_eq_Inr:
  "bnd m f s = (Inr y, u) \<longleftrightarrow> (\<exists>x t. m s = (Inr x, t) \<and> f x t = (Inr y, u))"
  by (auto simp: bnd_def split: prod.splits sum.splits)

lemma bnd_eq_Inl:
  "bnd m f s = (Inl e, u) \<longleftrightarrow>
     m s = (Inl e, u) \<or> (\<exists>x t. m s = (Inr x, t) \<and> f x t = (Inl e, u))"
  by (auto simp: bnd_def split: prod.splits sum.splits)

lemma andthen_eq_Inr:
  "andthen m n s = (Inr y, u) \<longleftrightarrow> (\<exists>x t. m s = (Inr x, t) \<and> n t = (Inr y, u))"
  by (simp add: andthen_def bnd_eq_Inr)

lemma andthen_unit:
  fixes m :: "('s, unit) io"
  shows "andthen m n s = (Inr y, u) \<longleftrightarrow> (\<exists>t. m s = (Inr (), t) \<and> n t = (Inr y, u))"
  by (auto simp: andthen_eq_Inr)

lemma for_each_Cons_Inr:
  "for_each f (x # xs) s = (Inr (), t) \<longleftrightarrow>
     (\<exists>u. f x s = (Inr (), u) \<and> for_each f xs u = (Inr (), t))"
  by (cases "f x s"; cases "fst (f x s)") auto

lemma for_each_append:
  "for_each f (xs @ ys) s =
     (case for_each f xs s of (Inl e, t) \<Rightarrow> (Inl e, t) | (Inr _, t) \<Rightarrow> for_each f ys t)"
  by (induction xs arbitrary: s) (auto split: prod.splits sum.splits)

text \<open>Evaluating a run: what holds of the outcome of a successful run.\<close>

lemma run_ok:
  "(case m of (Inl _, _) \<Rightarrow> False | (Inr _, t) \<Rightarrow> P t) \<Longrightarrow> \<exists>x t. m = (Inr x, t) \<and> P t"
  by (cases m; cases "fst m") auto

lemma run_ok_unit:
  fixes m :: "unit res \<times> 's"
  shows "(case m of (Inl _, _) \<Rightarrow> False | (Inr _, t) \<Rightarrow> P t) \<Longrightarrow> \<exists>t. m = (Inr (), t) \<and> P t"
  by (drule run_ok) simp

section \<open>Statements that never raise\<close>

definition total :: "('s, 'a) io \<Rightarrow> bool" where
  "total m \<longleftrightarrow> (\<forall>s. \<exists>x t. m s = (Inr x, t))"

lemma totalI [intro?]: "(\<And>s. \<exists>x t. m s = (Inr x, t)) \<Longrightarrow> total m"
  by (simp add: total_def)

lemma totalE: "total m \<Longrightarrow> (\<And>x t. m s = (Inr x, t) \<Longrightarrow> thesis) \<Longrightarrow> thesis"
  by (auto simp: total_def)

named_theorems total_intros "closure of the statements that never raise"

lemma total_basic [total_intros, simp]:
  "total (ret x)" "total (gets g)" "total (modify h)" "total (lift (Inr x))"
  by (auto simp: total_def io_defs)

lemma total_bnd [total_intros]: "total m \<Longrightarrow> (\<And>x. total (f x)) \<Longrightarrow> total (bnd m f)"
  unfolding total_def bnd_def by (metis (no_types, lifting) case_prod_conv sum.case(2))

lemma total_andthen [total_intros]: "total m \<Longrightarrow> total n \<Longrightarrow> total (andthen m n)"
  unfolding andthen_def by (rule total_bnd)

lemma total_try_except [total_intros]: "(\<And>e. total (h e)) \<Longrightarrow> total (try_except m h)"
  by (auto simp: total_def try_except_def split: prod.splits sum.splits)

lemma total_if [total_intros]: "total m \<Longrightarrow> total n \<Longrightarrow> total (if b then m else n)"
  by simp

lemma total_for_each [total_intros]: "(\<And>x. total (f x)) \<Longrightarrow> total (for_each f xs)"
proof (induction xs)
  case (Cons x xs)
  show ?case
  proof
    fix s
    obtain y t where 1: "f x s = (Inr y, t)" using Cons.prems by (rule totalE)
    obtain z u where "for_each f xs t = (Inr z, u)" using Cons by (metis totalE)
    with 1 show "\<exists>y t. for_each f (x # xs) s = (Inr y, t)" by simp
  qed
qed (auto simp: total_def)

section \<open>Relations between the state before and after\<close>

definition keeps :: "('s \<Rightarrow> 's \<Rightarrow> bool) \<Rightarrow> ('s, 'a) io \<Rightarrow> bool" where
  "keeps R m \<longleftrightarrow> (\<forall>s. R s (snd (m s)))"

lemma keepsD: "keeps R m \<Longrightarrow> m s = (r, t) \<Longrightarrow> R s t"
  by (metis keeps_def snd_conv)

named_theorems keeps_intros "closure of a step relation under the combinators"

locale step_relation =
  fixes R :: "'s \<Rightarrow> 's \<Rightarrow> bool"
  assumes R_refl: "R s s"
    and R_trans: "R s t \<Longrightarrow> R t u \<Longrightarrow> R s u"
begin

lemma keeps_pure:
  "keeps R (ret x)" "keeps R (raise e)" "keeps R (lift r)" "keeps R (gets g)"
  by (simp_all add: keeps_def io_defs R_refl)

lemma keeps_bnd: "keeps R m \<Longrightarrow> (\<And>x. keeps R (f x)) \<Longrightarrow> keeps R (bnd m f)"
  unfolding keeps_def bnd_def
  by (auto split: prod.splits sum.splits) (metis R_trans snd_conv)+

lemma keeps_andthen: "keeps R m \<Longrightarrow> keeps R n \<Longrightarrow> keeps R (andthen m n)"
  unfolding andthen_def by (rule keeps_bnd)

lemma keeps_try_except:
  "keeps R m \<Longrightarrow> (\<And>e. keeps R (h e)) \<Longrightarrow> keeps R (try_except m h)"
  unfolding keeps_def try_except_def
  by (auto split: prod.splits sum.splits) (metis R_trans snd_conv)+

lemma keeps_try_finally: "keeps R m \<Longrightarrow> keeps R f \<Longrightarrow> keeps R (try_finally m f)"
  unfolding keeps_def try_finally_def
  by (auto split: prod.splits sum.splits) (metis R_trans snd_conv)+

lemma keeps_if: "keeps R m \<Longrightarrow> keeps R n \<Longrightarrow> keeps R (if b then m else n)"
  by simp

lemma keeps_for_each: "(\<And>x. keeps R (f x)) \<Longrightarrow> keeps R (for_each f xs)"
proof (induction xs)
  case Nil
  then show ?case by (simp add: keeps_def R_refl)
next
  case (Cons x xs)
  have "for_each f (x # xs) = andthen (f x) (for_each f xs)"
    by (simp add: fun_eq_iff andthen_def bnd_def split: prod.splits sum.splits)
  with Cons show ?case by (simp add: keeps_andthen)
qed

lemma keeps_try_matching:
  "keeps R m \<Longrightarrow> (\<And>e. keeps R (h e)) \<Longrightarrow> keeps R (try_matching P m h)"
  unfolding try_matching_def by (intro keeps_try_except keeps_if keeps_pure)

lemma keeps_fold_io: "(\<And>x a. keeps R (f x a)) \<Longrightarrow> keeps R (fold_io f xs a)"
  by (induction xs arbitrary: a) (auto intro: keeps_pure keeps_bnd)

lemmas keeps_rules = keeps_pure keeps_bnd keeps_andthen keeps_try_except keeps_try_finally
  keeps_if keeps_for_each keeps_try_matching keeps_fold_io

end

text \<open>A relation that also holds of every value read from the state by a projection.\<close>

lemma step_relation_eq: "step_relation (\<lambda>s t. f s = f t)"
  by unfold_locales simp_all

lemma step_relation_prefix: "step_relation (\<lambda>s t. prefix (f s) (f t))"
  by unfold_locales (auto intro: prefix_order.trans)

lemma step_relation_inv: "step_relation (\<lambda>s t. I s \<longrightarrow> I t)"
  by unfold_locales auto

end
