(* ===== verification/Switch_Conn.thy ===== *)
theory Switch_Conn
  imports P4Info Py_IO
begin

text \<open>
  code/tutorials/utils/p4runtime\_lib/switch.py and error\_utils.py: one connection to a switch's
  P4Runtime server. gRPC and the server are the parameter \<open>grpc\<close>: how it answers a call may
  depend on every call made before. The state of a connection is what the code did to it: the
  requests put on the bidirectional stream, the unary calls in order, the request log.
\<close>

section \<open>Requests\<close>

datatype update_type = INSERT | MODIFY

datatype entity =
    TableEntries int
  | CounterEntries int "int option"
  | RegisterEntries int

datatype request =
    Arbitration int int int
  | SetPipeline int string string
  | WriteTable int update_type table_entry
  | WritePRE int pre_entry
  | ReadEntity int entity

datatype stream_item = Item request | Sentinel

record conn =
  c_device_id :: int
  c_dump :: bool
  c_stream :: "stream_item list"
  c_cancelled :: bool
  c_sent :: "request list"
  c_log :: "string list"

record grpc =
  answer :: "request list \<Rightarrow> request \<Rightarrow> string list res"
  arbitrate :: "request list \<Rightarrow> request \<Rightarrow> string list res"
  method_name :: "request \<Rightarrow> string"
  show_request :: "request \<Rightarrow> string"
  utc_now :: "request list \<Rightarrow> string"

type_synonym 'a conn_io = "(conn, 'a) io"

section \<open>The request log and the request queue\<close>

definition MSG_LOG_MAX_LEN :: nat where
  "MSG_LOG_MAX_LEN = 1024"

definition newline :: string where
  "newline = [char_of (10 :: nat)]"

definition log_message :: "string \<Rightarrow> string \<Rightarrow> string \<Rightarrow> string" where
  "log_message ts method body =
     newline @ ''['' @ ts @ ''] '' @ method @ newline @ ''---'' @ newline
     @ (if length body < MSG_LOG_MAX_LEN then body
        else ''Message too long ('' @ str_nat (length body) @ '' bytes)! Skipping log...'' @ newline)
     @ ''---'' @ newline"

text \<open>\<open>IterableQueue\<close>: iterating takes items until the sentinel.\<close>

definition queue_iter :: "stream_item list \<Rightarrow> request list" where
  "queue_iter q = concat (map (\<lambda>i. case i of Item r \<Rightarrow> [r] | Sentinel \<Rightarrow> [])
     (takeWhile (\<lambda>i. i \<noteq> Sentinel) q))"

definition queue_put :: "stream_item \<Rightarrow> unit conn_io" where
  "queue_put i = modify (\<lambda>c. c\<lparr>c_stream := c_stream c @ [i]\<rparr>)"

definition queue_close :: "unit conn_io" where
  "queue_close = queue_put Sentinel"

section \<open>The connection\<close>

definition SwitchConnection :: "int \<Rightarrow> bool \<Rightarrow> conn" where
  "SwitchConnection device_id proto_dump =
     \<lparr>c_device_id = device_id, c_dump = proto_dump, c_stream = [], c_cancelled = False,
      c_sent = [], c_log = []\<rparr>"

text \<open>A unary call passes through the logging interceptor (when a dump file is given) and is then
  made; the interceptor writes before the call, so a failed call is logged too.\<close>

definition unary_call :: "grpc \<Rightarrow> request \<Rightarrow> string list conn_io" where
  "unary_call G req c =
     (let c1 = (if c_dump c
                then c\<lparr>c_log := c_log c @ [log_message (utc_now G (c_sent c)) (method_name G req)
                                           (show_request G req)]\<rparr>
                else c)
      in (answer G (c_sent c) req, c1\<lparr>c_sent := c_sent c @ [req]\<rparr>))"

definition call_unless_dry :: "grpc \<Rightarrow> bool \<Rightarrow> request \<Rightarrow> unit conn_io" where
  "call_unless_dry G dry_run req =
     (if dry_run then ret () else andthen (unary_call G req) (ret ()))"

definition read_unless_dry :: "grpc \<Rightarrow> bool \<Rightarrow> request \<Rightarrow> string list conn_io" where
  "read_unless_dry G dry_run req = (if dry_run then ret [] else unary_call G req)"

definition conn_shutdown :: "unit conn_io" where
  "conn_shutdown = andthen queue_close (modify (\<lambda>c. c\<lparr>c_cancelled := True\<rparr>))"

text \<open>Putting the request on the stream and returning the first response.\<close>

definition MasterArbitrationUpdate :: "grpc \<Rightarrow> bool \<Rightarrow> string option conn_io" where
  "MasterArbitrationUpdate G dry_run =
     bnd (gets c_device_id) (\<lambda>dev.
       let req = Arbitration dev 0 1
       in if dry_run then ret None
          else andthen (queue_put (Item req))
            (bnd (gets c_sent) (\<lambda>sent.
             bnd (lift (arbitrate G sent req)) (\<lambda>rs. ret (case rs of [] \<Rightarrow> None | r # _ \<Rightarrow> Some r)))))"

definition buildDeviceConfig :: "(string \<Rightarrow> string res) \<Rightarrow> string \<Rightarrow> string res" where
  "buildDeviceConfig read_text path = read_text path"

definition SetForwardingPipelineConfig ::
  "grpc \<Rightarrow> (string \<Rightarrow> string res) \<Rightarrow> string \<Rightarrow> string \<Rightarrow> bool \<Rightarrow> unit conn_io" where
  "SetForwardingPipelineConfig G read_text p4info_name json_path dry_run =
     bnd (lift (buildDeviceConfig read_text json_path)) (\<lambda>cfg.
     bnd (gets c_device_id) (\<lambda>dev.
     call_unless_dry G dry_run (SetPipeline dev p4info_name cfg)))"

definition WriteTableEntry :: "grpc \<Rightarrow> table_entry \<Rightarrow> bool \<Rightarrow> unit conn_io" where
  "WriteTableEntry G te dry_run =
     bnd (gets c_device_id) (\<lambda>dev.
     call_unless_dry G dry_run (WriteTable dev (if te_is_default te then MODIFY else INSERT) te))"

definition WritePREEntry :: "grpc \<Rightarrow> pre_entry \<Rightarrow> bool \<Rightarrow> unit conn_io" where
  "WritePREEntry G pe dry_run =
     bnd (gets c_device_id) (\<lambda>dev. call_unless_dry G dry_run (WritePRE dev pe))"

text \<open>The reading operations are generators; these are their runs to the end.\<close>

definition ReadTableEntries :: "grpc \<Rightarrow> int option \<Rightarrow> bool \<Rightarrow> string list conn_io" where
  "ReadTableEntries G table_id dry_run =
     bnd (gets c_device_id) (\<lambda>dev. read_unless_dry G dry_run
       (ReadEntity dev (TableEntries (case table_id of Some t \<Rightarrow> t | None \<Rightarrow> 0))))"

definition ReadCounters :: "grpc \<Rightarrow> int option \<Rightarrow> int option \<Rightarrow> bool \<Rightarrow> string list conn_io" where
  "ReadCounters G counter_id idx dry_run =
     bnd (gets c_device_id) (\<lambda>dev. read_unless_dry G dry_run
       (ReadEntity dev (CounterEntries (case counter_id of Some c \<Rightarrow> c | None \<Rightarrow> 0) idx)))"

text \<open>\<open>UpdateAckInfo\<close> leaves the request's device id at the protobuf default 0.\<close>

definition UpdateAckInfo :: "grpc \<Rightarrow> int option \<Rightarrow> bool \<Rightarrow> string list conn_io" where
  "UpdateAckInfo G register_id dry_run =
     read_unless_dry G dry_run
       (ReadEntity 0 (RegisterEntries (case register_id of Some r \<Rightarrow> r | None \<Rightarrow> 0)))"

definition ShutdownAllSwitchConnections :: "conn list \<Rightarrow> conn list" where
  "ShutdownAllSwitchConnections cs = map (\<lambda>c. snd (conn_shutdown c)) cs"

section \<open>Errors of a batch\<close>

text \<open>A gRPC error carries its status code and trailing metadata; the binary details, once parsed,
  are a list whose entries unpack to a P4 error (canonical code and message) or do not.\<close>

record rpc_error =
  e_code_unknown :: bool
  e_metadata :: "(string \<times> (int \<times> string) option list) list"

definition unpack_error :: "nat \<times> (int \<times> string) option \<Rightarrow> (nat \<times> int \<times> string) res" where
  "unpack_error d =
     (case snd d of
        None \<Rightarrow> Inl (FormatException ''Cannot convert Any message to p4.Error'')
      | Some err \<Rightarrow> Inr (fst d, err))"

definition parseGrpcErrorBinaryDetails ::
  "rpc_error option \<Rightarrow> (nat \<times> int \<times> string) list option res" where
  "parseGrpcErrorBinaryDetails err =
     (case err of
        None \<Rightarrow> Inl (FormatException ''Invalid gRPC error object'')
      | Some e \<Rightarrow>
          if \<not> e_code_unknown e then Inr None
          else case dict_get (e_metadata e) ''grpc-status-details-bin'' of
                 None \<Rightarrow> Inr None
               | Some ds \<Rightarrow>
                   if ds = [] then Inr None
                   else ebind (emap unpack_error (enumerate 0 ds))
                     (\<lambda>all_errors. Inr (Some (filter (\<lambda>x. fst (snd x) \<noteq> 0) all_errors))))"

section \<open>Facts\<close>

text \<open>The frame of the connection: calls are only ever appended, and what was put on the stream
  stays on it.\<close>

definition conn_grows :: "conn \<Rightarrow> conn \<Rightarrow> bool" where
  "conn_grows c d \<longleftrightarrow> prefix (c_sent c) (c_sent d) \<and> prefix (c_stream c) (c_stream d)
     \<and> c_device_id d = c_device_id c"

interpretation conn_frame: step_relation conn_grows
  by unfold_locales (auto simp: conn_grows_def intro: prefix_order.trans)

lemma call_keeps: "keeps conn_grows (unary_call G req)"
  by (auto simp: keeps_def conn_grows_def unary_call_def Let_def)

lemma queue_put_keeps: "keeps conn_grows (queue_put i)"
  by (auto simp: keeps_def conn_grows_def queue_put_def io_defs)

lemma writes_keep:
  "keeps conn_grows (WriteTableEntry G te dry)"
  "keeps conn_grows (WritePREEntry G pe dry)"
  unfolding WriteTableEntry_def WritePREEntry_def call_unless_dry_def
  by (intro conn_frame.keeps_rules call_keeps; simp)+

lemma unary_call_eq:
  "fst (unary_call G req c) = answer G (c_sent c) req"
  "c_sent (snd (unary_call G req c)) = c_sent c @ [req]"
  "c_cancelled (snd (unary_call G req c)) = c_cancelled c"
  "c_stream (snd (unary_call G req c)) = c_stream c"
  "c_device_id (snd (unary_call G req c)) = c_device_id c"
  by (simp_all add: unary_call_def Let_def)

lemma unary_call_state:
  assumes "unary_call G req c = (r, d)"
  shows "r = answer G (c_sent c) req \<and> c_sent d = c_sent c @ [req]
     \<and> c_cancelled d = c_cancelled c \<and> c_stream d = c_stream c \<and> c_device_id d = c_device_id c"
  using unary_call_eq [of G req c] unfolding assms by simp

lemma call_unless_dry_sent:
  assumes "call_unless_dry G False req c = (r, d)"
  shows "c_sent d = c_sent c @ [req] \<and> c_cancelled d = c_cancelled c \<and> c_stream d = c_stream c
     \<and> c_device_id d = c_device_id c"
proof -
  obtain q d' where "unary_call G req c = (q, d')" by (cases "unary_call G req c")
  with assms have "d = d'"
    by (auto simp: call_unless_dry_def andthen_def bnd_def ret_def split: sum.splits)
  with unary_call_state [OF \<open>unary_call G req c = (q, d')\<close>] show ?thesis by simp
qed

lemma conn_shutdown_eq:
  "conn_shutdown c = (Inr (), c\<lparr>c_stream := c_stream c @ [Sentinel], c_cancelled := True\<rparr>)"
  by (simp add: conn_shutdown_def queue_close_def queue_put_def io_defs)

lemma queue_iter_closed:
  "Sentinel \<notin> set q \<Longrightarrow> queue_iter (q @ Sentinel # rest) = queue_iter q"
  by (induction q) (auto simp: queue_iter_def)

lemma unpack_error_Inr: "unpack_error (i, x) = Inr y \<longleftrightarrow> (\<exists>err. x = Some err \<and> y = (i, err))"
  by (auto simp: unpack_error_def split: option.splits)

lemma unpack_all:
  assumes "emap unpack_error (enumerate 0 xs) = Inr ys"
  shows "length ys = length xs"
    and "i < length xs \<Longrightarrow> ys ! i = (i, the (xs ! i)) \<and> xs ! i \<noteq> None"
proof -
  show "length ys = length xs"
    using emap_length [OF assms] by simp
  show "ys ! i = (i, the (xs ! i)) \<and> xs ! i \<noteq> None" if "i < length xs"
    using emap_nth [OF assms, of i] that by (auto simp: nth_enumerate_eq unpack_error_Inr)
qed

lemma unpack_all_keys:
  "emap unpack_error (enumerate 0 xs) = Inr ys \<Longrightarrow> map fst ys = [0..<length xs]"
  by (rule nth_equalityI) (simp_all add: unpack_all)

lemma unpack_all_mem:
  assumes "emap unpack_error (enumerate 0 xs) = Inr ys"
  shows "(i, err) \<in> set ys \<longleftrightarrow> i < length xs \<and> xs ! i = Some err"
proof
  assume "(i, err) \<in> set ys"
  then obtain j where "j < length xs" "ys ! j = (i, err)"
    unfolding in_set_conv_nth by (auto simp: unpack_all(1) [OF assms])
  then show "i < length xs \<and> xs ! i = Some err"
    using unpack_all(2) [OF assms] by fastforce
next
  assume "i < length xs \<and> xs ! i = Some err"
  then show "(i, err) \<in> set ys"
    using unpack_all [OF assms] by (metis nth_mem option.sel)
qed

section \<open>Properties\<close>

text \<open>C7. Each entry of a parsed error batch names the position of a failed operation: the result
  lists, in increasing order of position, exactly the details whose code is not \<open>OK\<close>.\<close>

theorem parse_errors_positions:
  assumes "parseGrpcErrorBinaryDetails (Some e) = Inr (Some errs)"
  shows "\<exists>ds. dict_get (e_metadata e) ''grpc-status-details-bin'' = Some ds
     \<and> set errs = {(i, code, msg). i < length ds \<and> ds ! i = Some (code, msg) \<and> code \<noteq> 0}
     \<and> sorted_wrt (<) (map fst errs)"
proof -
  from assms obtain ds where ds: "dict_get (e_metadata e) ''grpc-status-details-bin'' = Some ds"
    by (auto simp: parseGrpcErrorBinaryDetails_def split: if_splits option.splits)
  with assms obtain all where all: "emap unpack_error (enumerate 0 ds) = Inr all"
    and errs: "errs = filter (\<lambda>x. fst (snd x) \<noteq> 0) all"
    by (auto simp: parseGrpcErrorBinaryDetails_def split: if_splits)
  have "set errs = {(i, code, msg). i < length ds \<and> ds ! i = Some (code, msg) \<and> code \<noteq> 0}"
    unfolding errs by (auto simp: unpack_all_mem [OF all])
  moreover have "sorted_wrt (\<lambda>x y. fst x < fst y) all"
    using unpack_all_keys [OF all] sorted_wrt_upt by (metis sorted_wrt_map)
  then have "sorted_wrt (<) (map fst errs)"
    unfolding errs sorted_wrt_map by (rule sorted_wrt_filter)
  ultimately show ?thesis using ds by blast
qed

definition demo_error :: rpc_error where
  "demo_error = \<lparr>e_code_unknown = True, e_metadata = [(''grpc-status-details-bin'',
      [Some (0, ''ok''), Some (5, ''bad''), Some (0, ''ok''), Some (2, ''worse'')])]\<rparr>"

theorem parse_errors_positions_witness:
  "\<exists>errs ds. parseGrpcErrorBinaryDetails (Some demo_error) = Inr (Some errs)
     \<and> errs = [(1, 5, ''bad''), (3, 2, ''worse'')]
     \<and> dict_get (e_metadata demo_error) ''grpc-status-details-bin'' = Some ds
     \<and> set errs = {(i, code, msg). i < length ds \<and> ds ! i = Some (code, msg) \<and> code \<noteq> 0}
     \<and> sorted_wrt (<) (map fst errs)"
proof -
  have run: "parseGrpcErrorBinaryDetails (Some demo_error) = Inr (Some [(1, 5, ''bad''), (3, 2, ''worse'')])"
    unfolding demo_error_def by code_simp
  from parse_errors_positions [OF run] run show ?thesis by blast
qed

end
