(* ===== verification/Controller.thy ===== *)
theory Controller
  imports Switch_Conn
begin

text \<open>
  code/tutorials/utils/p4runtime\_lib/simple\_controller.py: programming one switch from its
  runtime configuration. The session's state is what was printed and the connection, once one
  is open. The file system, the protobuf text parser and the switch are the parameter
  \<open>ctl_env\<close>; everything between them is the code's.
\<close>

record ctl_env =
  e_exists :: "string \<Rightarrow> bool"
  e_read :: "string \<Rightarrow> string res"
  e_json_ok :: "string \<Rightarrow> bool"
  e_load_info :: "string \<Rightarrow> p4info res"
  e_grpc :: grpc
  e_float :: "rat \<Rightarrow> string"

record session =
  s_out :: "string list"
  s_err :: "string list"
  s_sw :: "conn option"

type_synonym 'a session_io = "(session, 'a) io"

definition info :: "string \<Rightarrow> unit session_io" where
  "info msg = modify (\<lambda>s. s\<lparr>s_out := s_out s @ ['' - '' @ msg]\<rparr>)"

definition error :: "string \<Rightarrow> unit session_io" where
  "error msg = modify (\<lambda>s. s\<lparr>s_err := s_err s @ ['' - ERROR! '' @ msg]\<rparr>)"

definition on_sw :: "'a conn_io \<Rightarrow> 'a session_io" where
  "on_sw m s =
     (case s_sw s of
        None \<Rightarrow> (Inl (NameError ''sw''), s)
      | Some c \<Rightarrow> (case m c of (r, d) \<Rightarrow> (r, s\<lparr>s_sw := Some d\<rparr>)))"

section \<open>Checking the configuration\<close>

text \<open>A path component that is not a string makes \<open>os.path.join\<close> raise \<open>TypeError\<close>.\<close>

fun join_value :: "string \<Rightarrow> pyval \<Rightarrow> string res" where
  "join_value workdir (PStr p) = Inr (path_join workdir p)"
| "join_value workdir _ = Inl (TypeError ''join() argument must be str'')"

definition check_key :: "pyval \<Rightarrow> string \<Rightarrow> unit res" where
  "check_key conf k =
     ebind (py_in k conf) (\<lambda>present.
     if \<not> present then Inl (ConfException (''missing key '' @ k))
     else ebind (py_item conf k) (\<lambda>v. ebind (py_len v) (\<lambda>n.
       if n = 0 then Inl (ConfException (''missing key '' @ k)) else Inr ())))"

definition check_file :: "ctl_env \<Rightarrow> pyval \<Rightarrow> string \<Rightarrow> string \<Rightarrow> unit res" where
  "check_file E conf workdir k =
     ebind (py_item conf k) (\<lambda>v. ebind (join_value workdir v) (\<lambda>real_path.
       if \<not> e_exists E real_path then Inl (ConfException (''file does not exist '' @ real_path))
       else if k = ''bmv2_json'' then
         ebind (e_read E real_path) (\<lambda>txt.
           if e_json_ok E txt then Inr () else Inl (InvalidFileContent real_path))
       else Inr ()))"

definition check_switch_conf :: "ctl_env \<Rightarrow> pyval \<Rightarrow> string \<Rightarrow> unit res" where
  "check_switch_conf E conf workdir =
     ebind (py_in ''target'' conf) (\<lambda>present.
     if \<not> present then Inl (ConfException ''missing key target'')
     else ebind (py_item conf ''target'') (\<lambda>target.
       if target \<noteq> PStr ''bmv2'' then Inl (ConfException ''unknown target'')
       else let ks = [''p4info''] @ (if target = PStr ''bmv2'' then [''bmv2_json''] else [])
            in ebind (emap (check_key conf) ks) (\<lambda>_.
               ebind (emap (check_file E conf workdir) ks) (\<lambda>_. Inr ()))))"

text \<open>\<open>InvalidFileContentException\<close> is a subclass of \<open>ConfException\<close>.\<close>

fun is_conf_exception :: "py_error \<Rightarrow> bool" where
  "is_conf_exception (ConfException _) = True"
| "is_conf_exception (InvalidFileContent _) = True"
| "is_conf_exception _ = False"

section \<open>Entries as text\<close>

definition item_text :: "(rat \<Rightarrow> string) \<Rightarrow> pyval \<Rightarrow> pyval \<Rightarrow> string res" where
  "item_text sf d k = ebind (py_sub d k) (\<lambda>v. Inr (py_str sf k @ ''='' @ py_str sf v))"

definition items_text :: "(rat \<Rightarrow> string) \<Rightarrow> pyval \<Rightarrow> string res" where
  "items_text sf d =
     ebind (py_iter d) (\<lambda>ks. ebind (emap (item_text sf d) ks) (\<lambda>ts. Inr (join '', '' ts)))"

definition match_text :: "(rat \<Rightarrow> string) \<Rightarrow> pyval \<Rightarrow> string res" where
  "match_text sf flow =
     ebind (py_in ''match'' flow) (\<lambda>has_match.
     if has_match then ebind (py_item flow ''match'') (items_text sf)
     else ebind (py_in ''default_action'' flow) (\<lambda>has_default.
       if \<not> has_default then Inr ''(any)''
       else ebind (py_item flow ''default_action'') (\<lambda>d.
         Inr (if truthy d then ''(default action)'' else ''(any)''))))"

definition tableEntryToString :: "(rat \<Rightarrow> string) \<Rightarrow> pyval \<Rightarrow> string res" where
  "tableEntryToString sf flow =
     ebind (match_text sf flow) (\<lambda>match_str.
     ebind (py_item flow ''action_params'') (\<lambda>ps.
     ebind (items_text sf ps) (\<lambda>params.
     ebind (py_item flow ''table'') (\<lambda>table.
     ebind (py_item flow ''action_name'') (\<lambda>action.
     Inr (py_str sf table @ '': '' @ match_str @ '' => '' @ py_str sf action
          @ ''('' @ params @ '')''))))))"

definition ports_text :: "pyval \<Rightarrow> string res" where
  "ports_text rule =
     ebind (py_item rule ''replicas'') (\<lambda>rs. ebind (py_iter rs) (\<lambda>rs.
     ebind (emap (\<lambda>r. ebind (py_item r ''egress_port'') fmt_d) rs) (\<lambda>ps. Inr (join '', '' ps))))"

definition groupEntryToString :: "(rat \<Rightarrow> string) \<Rightarrow> pyval \<Rightarrow> string res" where
  "groupEntryToString sf rule =
     ebind (py_item rule ''multicast_group_id'') (\<lambda>g.
     ebind (ports_text rule) (\<lambda>ports.
     Inr (''Group '' @ py_str sf g @ '' => ('' @ ports @ '')'')))"

definition cloneEntryToString :: "(rat \<Rightarrow> string) \<Rightarrow> pyval \<Rightarrow> string res" where
  "cloneEntryToString sf rule =
     ebind (py_item rule ''clone_session_id'') (\<lambda>c.
     ebind (py_in ''packet_length_bytes'' rule) (\<lambda>has_len.
     ebind (if has_len then ebind (py_item rule ''packet_length_bytes'') (\<lambda>n. Inr (py_str sf n @ ''B''))
            else Inr ''NO_TRUNCATION'') (\<lambda>len.
     ebind (ports_text rule) (\<lambda>ports.
     Inr (''Clone Session '' @ py_str sf c @ '' => ('' @ ports @ '') ('' @ len @ '')'')))))"

section \<open>Validating and inserting entries\<close>

text \<open>A table name that is not a string matches no entity: both look-ups raise
  \<open>AttributeError\<close>.\<close>

fun as_name :: "pyval \<Rightarrow> string res" where
  "as_name (PStr s) = Inr s"
| "as_name _ = Inl (AttributeError ''Could not find'')"

definition needs_priority :: "match_type \<Rightarrow> bool" where
  "needs_priority ty = (ty = TERNARY \<or> ty = RANGE \<or> ty = OPTIONAL)"

definition no_priority :: "pyval \<Rightarrow> bool" where
  "no_priority p = (p = PNone \<or> is_number p \<and> number_of p = 0)"

definition validateTableEntry :: "pyval \<Rightarrow> p4info \<Rightarrow> string \<Rightarrow> unit res" where
  "validateTableEntry flow pinfo runtime_json =
     ebind (py_item flow ''table'') (\<lambda>table_name.
     ebind (py_get flow ''match'') (\<lambda>match_fields.
     ebind (py_get flow ''priority'') (\<lambda>priority.
     if match_fields \<noteq> PNone \<and> no_priority priority
     then ebind (py_items match_fields) (\<lambda>kvs.
          ebind (emap (\<lambda>(n, _). ebind (as_name table_name) (\<lambda>t.
                  ebind (get_match_field pinfo t (Some n) None) (\<lambda>mf.
                  if needs_priority (mf_type mf)
                  then Inl (AssertionError (''priority is required in '' @ runtime_json))
                  else Inr ()))) kvs) (\<lambda>_. Inr ()))
     else Inr ())))"

definition build_flow_entry :: "p4info \<Rightarrow> pyval \<Rightarrow> table_entry res" where
  "build_flow_entry pinfo flow =
     ebind (py_item flow ''table'') (\<lambda>table_name.
     ebind (py_get flow ''match'') (\<lambda>match_fields.
     ebind (py_item flow ''action_name'') (\<lambda>action_name.
     ebind (py_get flow ''default_action'') (\<lambda>default_action.
     ebind (py_item flow ''action_params'') (\<lambda>action_params.
     ebind (py_get flow ''priority'') (\<lambda>priority.
     ebind (as_name table_name) (\<lambda>t.
     buildTableEntry pinfo t match_fields default_action action_name action_params
       (if priority = PNone then None else Some priority))))))))"

definition insertTableEntry :: "grpc \<Rightarrow> p4info \<Rightarrow> pyval \<Rightarrow> unit session_io" where
  "insertTableEntry G pinfo flow =
     bnd (lift (build_flow_entry pinfo flow)) (\<lambda>te. on_sw (WriteTableEntry G te False))"

definition build_group_entry :: "pyval \<Rightarrow> pre_entry res" where
  "build_group_entry rule =
     ebind (py_item rule ''multicast_group_id'') (\<lambda>g.
     ebind (py_item rule ''replicas'') (\<lambda>rs. ebind (py_iter rs) (buildMulticastGroupEntry g)))"

definition insertMulticastGroupEntry :: "grpc \<Rightarrow> pyval \<Rightarrow> unit session_io" where
  "insertMulticastGroupEntry G rule =
     bnd (lift (build_group_entry rule)) (\<lambda>pe. on_sw (WritePREEntry G pe False))"

definition build_clone_entry :: "pyval \<Rightarrow> pre_entry res" where
  "build_clone_entry rule =
     ebind (py_item rule ''clone_session_id'') (\<lambda>c.
     ebind (py_item rule ''replicas'') (\<lambda>rs.
     ebind (py_in ''packet_length_bytes'' rule) (\<lambda>has_len.
     ebind (if has_len then py_item rule ''packet_length_bytes'' else Inr (PInt 0)) (\<lambda>len.
     ebind (py_iter rs) (\<lambda>rs. buildCloneSessionEntry c rs len)))))"

definition insertCloneGroupEntry :: "grpc \<Rightarrow> pyval \<Rightarrow> unit session_io" where
  "insertCloneGroupEntry G rule =
     bnd (lift (build_clone_entry rule)) (\<lambda>pe. on_sw (WritePREEntry G pe False))"

section \<open>Programming a switch\<close>

text \<open>One optional section of the configuration: announced with its length, then entry by
  entry.\<close>

definition insert_section ::
  "pyval \<Rightarrow> string \<Rightarrow> string \<Rightarrow> (pyval \<Rightarrow> unit session_io) \<Rightarrow> unit session_io" where
  "insert_section conf key what step =
     bnd (lift (py_in key conf)) (\<lambda>present.
     if \<not> present then ret ()
     else bnd (lift (py_item conf key)) (\<lambda>es.
          bnd (lift (py_len es)) (\<lambda>n.
          andthen (info (''Inserting '' @ str_nat n @ '' '' @ what @ '' entries...''))
          (bnd (lift (py_iter es)) (for_each step)))))"

definition table_step :: "ctl_env \<Rightarrow> p4info \<Rightarrow> string \<Rightarrow> pyval \<Rightarrow> unit session_io" where
  "table_step E pinfo runtime_json entry =
     andthen (bnd (lift (tableEntryToString (e_float E) entry)) info)
     (andthen (lift (validateTableEntry entry pinfo runtime_json))
       (insertTableEntry (e_grpc E) pinfo entry))"

definition group_step :: "ctl_env \<Rightarrow> pyval \<Rightarrow> unit session_io" where
  "group_step E entry =
     andthen (bnd (lift (groupEntryToString (e_float E) entry)) info)
       (insertMulticastGroupEntry (e_grpc E) entry)"

definition clone_step :: "ctl_env \<Rightarrow> pyval \<Rightarrow> unit session_io" where
  "clone_step E entry =
     andthen (bnd (lift (cloneEntryToString (e_float E) entry)) info)
       (insertCloneGroupEntry (e_grpc E) entry)"

definition program_pipeline ::
  "ctl_env \<Rightarrow> p4info \<Rightarrow> string \<Rightarrow> pyval \<Rightarrow> string \<Rightarrow> string \<Rightarrow> unit session_io" where
  "program_pipeline E pinfo info_path conf workdir runtime_json =
     bnd (lift (py_item conf ''bmv2_json'')) (\<lambda>json.
      andthen (info (''Setting pipeline config ('' @ py_str (e_float E) json @ '')...''))
     (bnd (lift (join_value workdir json)) (\<lambda>json_path.
      andthen (on_sw (SetForwardingPipelineConfig (e_grpc E) (e_read E) info_path json_path False))
     (andthen (insert_section conf ''table_entries'' ''table'' (table_step E pinfo runtime_json))
     (andthen (insert_section conf ''multicast_group_entries'' ''group'' (group_step E))
      (insert_section conf ''clone_session_entries'' ''clone'' (clone_step E)))))))"

definition program_body ::
  "ctl_env \<Rightarrow> p4info \<Rightarrow> string \<Rightarrow> pyval \<Rightarrow> string \<Rightarrow> string \<Rightarrow> unit session_io" where
  "program_body E pinfo info_path conf workdir runtime_json =
     andthen (on_sw (MasterArbitrationUpdate (e_grpc E) False))
       (program_pipeline E pinfo info_path conf workdir runtime_json)"

definition connect_and_program ::
  "ctl_env \<Rightarrow> string \<Rightarrow> int \<Rightarrow> pyval \<Rightarrow> string \<Rightarrow> string \<Rightarrow> unit session_io" where
  "connect_and_program E addr device_id conf workdir runtime_json =
     bnd (lift (py_item conf ''p4info'')) (\<lambda>p4info.
      andthen (info (''Using P4Info file '' @ py_str (e_float E) p4info @ ''...''))
     (bnd (lift (join_value workdir p4info)) (\<lambda>info_path.
      bnd (lift (e_load_info E info_path)) (\<lambda>pinfo.
      bnd (lift (py_item conf ''target'')) (\<lambda>target.
      andthen (info (''Connecting to P4Runtime server on '' @ addr @ '' (''
                     @ py_str (e_float E) target @ '')...''))
     (if target = PStr ''bmv2''
      then andthen (modify (\<lambda>s. s\<lparr>s_sw := Some (SwitchConnection device_id True)\<rparr>))
             (try_finally (program_body E pinfo info_path conf workdir runtime_json)
                (on_sw conn_shutdown))
      else raise (Exc ''unknown target'')))))))"

definition program_switch ::
  "ctl_env \<Rightarrow> string \<Rightarrow> int \<Rightarrow> pyval res \<Rightarrow> string \<Rightarrow> string \<Rightarrow> unit session_io" where
  "program_switch E addr device_id conf_file workdir runtime_json =
     bnd (lift conf_file) (\<lambda>conf.
       case check_switch_conf E conf workdir of
         Inl e \<Rightarrow>
           if is_conf_exception e
           then error ''While parsing input runtime configuration'' else raise e
       | Inr _ \<Rightarrow> connect_and_program E addr device_id conf workdir runtime_json)"

text \<open>\<open>main\<close> passes five of the six arguments; \<open>runtime_json\<close> has no default.\<close>

definition controller_main :: "ctl_env \<Rightarrow> string \<Rightarrow> int \<Rightarrow> string \<Rightarrow> pyval res \<Rightarrow> unit session_io" where
  "controller_main E addr device_id conf_path conf_file =
     (if \<not> e_exists E conf_path then raise (SystemExit 2)
      else andthen (lift (e_read E conf_path))
        (andthen (lift (bind_arguments
            [''addr'', ''device_id'', ''sw_conf_file'', ''workdir'', ''proto_dump_fpath'', ''runtime_json'']
            [''addr'', ''device_id'', ''sw_conf_file'', ''workdir'', ''proto_dump_fpath'']))
          (program_switch E addr device_id conf_file (dirname conf_path) [])))"

section \<open>Relations on the connection, lifted to the session\<close>

definition sw_rel :: "(conn \<Rightarrow> conn \<Rightarrow> bool) \<Rightarrow> session \<Rightarrow> session \<Rightarrow> bool" where
  "sw_rel R s t =
     (case s_sw s of
        None \<Rightarrow> s_sw t = None
      | Some c \<Rightarrow> (case s_sw t of None \<Rightarrow> False | Some d \<Rightarrow> R c d))"

lemma keeps_on_sw: "keeps R m \<Longrightarrow> keeps (sw_rel R) (on_sw m)"
  by (auto simp: keeps_def sw_rel_def on_sw_def split: option.splits prod.splits) (metis snd_conv)

text \<open>A relation that the calls of the controller keep is kept by everything it does after the
  arbitration.\<close>

locale controller_relation = step_relation R for R :: "conn \<Rightarrow> conn \<Rightarrow> bool" +
  assumes pipeline_keeps: "keeps R (SetForwardingPipelineConfig G read_text p path False)"
    and pre_keeps: "keeps R (WritePREEntry G pe False)"
    and table_keeps: "validateTableEntry flow pinfo runtime_json = Inr () \<Longrightarrow>
      build_flow_entry pinfo flow = Inr te \<Longrightarrow> keeps R (WriteTableEntry G te False)"

sublocale controller_relation \<subseteq> session: step_relation "sw_rel R"
  by unfold_locales
    (auto simp: sw_rel_def R_refl split: option.splits intro: R_trans)

context controller_relation
begin

lemma info_keeps: "keeps (sw_rel R) (info msg)"
  by (auto simp: keeps_def sw_rel_def info_def io_defs R_refl split: option.splits)

lemma group_step_keeps: "keeps (sw_rel R) (group_step E e)"
  unfolding group_step_def insertMulticastGroupEntry_def
  by (intro session.keeps_rules info_keeps keeps_on_sw pre_keeps)

lemma clone_step_keeps: "keeps (sw_rel R) (clone_step E e)"
  unfolding clone_step_def insertCloneGroupEntry_def
  by (intro session.keeps_rules info_keeps keeps_on_sw pre_keeps)

lemma validated_insert_keeps:
  "keeps (sw_rel R) (andthen (lift (validateTableEntry e pinfo rj)) (insertTableEntry G pinfo e))"
proof (cases "validateTableEntry e pinfo rj")
  case (Inl err)
  then show ?thesis
    by (simp add: keeps_def andthen_def bnd_def lift_def session.R_refl)
next
  case (Inr u)
  then have "keeps (sw_rel R) (insertTableEntry G pinfo e)"
    unfolding insertTableEntry_def
    by (cases "build_flow_entry pinfo e")
      (simp_all add: keeps_def bnd_def lift_def session.R_refl,
       metis keeps_def keeps_on_sw table_keeps)
  with Inr show ?thesis by (simp add: keeps_def andthen_def bnd_def lift_def)
qed

lemma table_step_keeps: "keeps (sw_rel R) (table_step E pinfo rj e)"
  unfolding table_step_def
  by (intro session.keeps_rules info_keeps validated_insert_keeps)

lemma insert_section_keeps:
  "(\<And>e. keeps (sw_rel R) (step e)) \<Longrightarrow> keeps (sw_rel R) (insert_section conf k what step)"
  unfolding insert_section_def
  by (intro session.keeps_rules info_keeps; simp)

lemma pipeline_step_keeps: "keeps (sw_rel R) (program_pipeline E pinfo path conf wd rj)"
  unfolding program_pipeline_def
  by (intro session.keeps_rules info_keeps keeps_on_sw pipeline_keeps insert_section_keeps
      table_step_keeps group_step_keeps clone_step_keeps)

end

section \<open>Runs of the controller\<close>

lemma info_state: "info msg s = (Inr (), s\<lparr>s_out := s_out s @ ['' - '' @ msg]\<rparr>)"
  by (simp add: info_def io_defs)

lemma info_ok: "info msg s = (r, u) \<Longrightarrow> s_sw u = s_sw s"
  by (auto simp: info_state)

text \<open>The calls leave the stream, the device id and the cancellation alone.\<close>

definition same_stream :: "conn \<Rightarrow> conn \<Rightarrow> bool" where
  "same_stream c d \<longleftrightarrow> c_stream d = c_stream c \<and> c_device_id d = c_device_id c
     \<and> c_cancelled d = c_cancelled c"

lemma same_stream_rel: "step_relation same_stream"
  by unfold_locales (auto simp: same_stream_def)

lemma same_stream_call: "keeps same_stream (call_unless_dry G dry req)"
  unfolding call_unless_dry_def
  by (intro step_relation.keeps_rules [OF same_stream_rel])
    (auto simp: keeps_def same_stream_def unary_call_eq)

lemma keeps_calls:
  assumes "step_relation R" and "\<And>req. keeps R (call_unless_dry G False req)"
  shows "keeps R (SetForwardingPipelineConfig G read_text p path False)"
    "keeps R (WritePREEntry G pe False)" "keeps R (WriteTableEntry G te False)"
  unfolding SetForwardingPipelineConfig_def WritePREEntry_def WriteTableEntry_def
  by (intro step_relation.keeps_rules [OF assms(1)] assms(2))+

interpretation ctl_frame: controller_relation same_stream
  by (intro controller_relation.intro same_stream_rel controller_relation_axioms.intro
      keeps_calls same_stream_call)

lemma arbitration_step:
  assumes "MasterArbitrationUpdate G False c = (r, d)"
  shows "d = c\<lparr>c_stream := c_stream c @ [Item (Arbitration (c_device_id c) 0 1)]\<rparr>"
  using assms
  by (auto simp: MasterArbitrationUpdate_def io_defs queue_put_def Let_def
      split: sum.splits prod.splits)

lemma program_body_conn:
  assumes "program_body E pinfo path conf wd rj s = (r, t)" and "s_sw s = Some c"
  obtains d where "s_sw t = Some d" "c_device_id d = c_device_id c" "c_cancelled d = c_cancelled c"
    "c_stream d = c_stream c @ [Item (Arbitration (c_device_id c) 0 1)]"
proof -
  obtain q c1 where arb: "MasterArbitrationUpdate (e_grpc E) False c = (q, c1)" by force
  then have on: "on_sw (MasterArbitrationUpdate (e_grpc E) False) s = (q, s\<lparr>s_sw := Some c1\<rparr>)"
    using assms(2) by (simp add: on_sw_def)
  note c1 = arbitration_step [OF arb]
  show ?thesis
  proof (cases q)
    case (Inl e)
    with assms(1) on c1 show ?thesis by (intro that [of c1]) (auto simp: program_body_def andthen_Inl)
  next
    case (Inr x)
    with assms(1) on have "program_pipeline E pinfo path conf wd rj (s\<lparr>s_sw := Some c1\<rparr>) = (r, t)"
      by (simp add: program_body_def andthen_Inr)
    from keepsD [OF ctl_frame.pipeline_step_keeps this] c1 that show ?thesis
      by (auto simp: sw_rel_def same_stream_def split: option.splits)
  qed
qed

text \<open>Either no connection was opened, or the body ran on a fresh one that was then shut down.\<close>

definition ran_and_closed ::
  "ctl_env \<Rightarrow> int \<Rightarrow> pyval \<Rightarrow> string \<Rightarrow> string \<Rightarrow> unit res \<Rightarrow> session \<Rightarrow> bool" where
  "ran_and_closed E dev conf wd rj r t \<longleftrightarrow>
     (\<exists>path pinfo s0 t0 d. ebind (py_item conf ''p4info'') (join_value wd) = Inr path
         \<and> e_load_info E path = Inr pinfo \<and> s_sw s0 = Some (SwitchConnection dev True)
         \<and> program_body E pinfo path conf wd rj s0 = (r, t0)
         \<and> s_sw t0 = Some d \<and> s_sw t = Some (snd (conn_shutdown d)))"

lemma body_then_shutdown:
  assumes "ebind (py_item conf ''p4info'') (join_value wd) = Inr path" and "e_load_info E path = Inr pinfo"
    and "try_finally (program_body E pinfo path conf wd rj) (on_sw conn_shutdown)
      (s\<lparr>s_sw := Some (SwitchConnection dev True)\<rparr>) = (r, t)"
  shows "ran_and_closed E dev conf wd rj r t"
proof -
  let ?s = "s\<lparr>s_sw := Some (SwitchConnection dev True)\<rparr>"
  obtain q t0 where body: "program_body E pinfo path conf wd rj ?s = (q, t0)" by force
  then obtain d where "s_sw t0 = Some d" by (rule program_body_conn) simp
  with assms(3) body have "q = r" "s_sw t = Some (snd (conn_shutdown d))"
    by (auto simp: try_finally_def on_sw_def conn_shutdown_eq)
  moreover have "s_sw ?s = Some (SwitchConnection dev True)" by simp
  ultimately show ?thesis
    using assms(1,2) body \<open>s_sw t0 = Some d\<close> unfolding ran_and_closed_def by blast
qed

lemma connect_cases:
  assumes "connect_and_program E addr dev conf wd rj s = (r, t)" and "s_sw s = None"
  shows "s_sw t = None \<and> (\<exists>e. r = Inl e) \<or> ran_and_closed E dev conf wd rj r t"
proof -
  obtain v where v: "py_item conf ''p4info'' = v" by simp
  show ?thesis
  proof (cases v)
    case (Inr p)
    show ?thesis
    proof (cases "join_value wd p")
      case path: (Inr path)
      show ?thesis
      proof (cases "e_load_info E path")
        case pinfo: (Inr pinfo)
        show ?thesis
          using assms v Inr path pinfo body_then_shutdown [OF _ pinfo, where t = t and r = r]
          by (cases "py_item conf ''target''")
            (auto simp: connect_and_program_def andthen_def bnd_def lift_def info_state
              modify_def raise_def split: if_splits)
      qed (use assms v Inr path in \<open>auto simp: connect_and_program_def andthen_def bnd_def
            lift_def info_state\<close>)
    qed (use assms v Inr in \<open>auto simp: connect_and_program_def andthen_def bnd_def lift_def
          info_state\<close>)
  qed (use assms v in \<open>auto simp: connect_and_program_def andthen_def bnd_def lift_def\<close>)
qed

lemma program_switch_cases:
  assumes "program_switch E addr dev (Inr conf) wd rj s = (r, t)" and "s_sw s = None"
  shows "s_sw t = None
    \<or> check_switch_conf E conf wd = Inr () \<and> ran_and_closed E dev conf wd rj r t"
  using assms connect_cases [OF _ assms(2), of E addr dev conf wd rj]
  by (auto simp: program_switch_def bnd_def lift_def error_def io_defs
      split: sum.splits if_splits)

section \<open>What a run sends\<close>

text \<open>A plan lists the requests of a run in their order, each computed from the configuration or
  the exception that stops the run there. A statement follows a plan when it sends an initial
  segment of it, whatever its outcome, and all of it when it returns.\<close>

type_synonym plan = "int \<Rightarrow> request res list"

definition follows :: "plan \<Rightarrow> 'a session_io \<Rightarrow> bool" where
  "follows plan m \<longleftrightarrow> (\<forall>s c r t. s_sw s = Some c \<longrightarrow> m s = (r, t) \<longrightarrow>
     (\<exists>d qs. s_sw t = Some d \<and> c_device_id d = c_device_id c \<and> c_sent d = c_sent c @ qs
       \<and> prefix (map Inr qs) (plan (c_device_id c))
       \<and> (\<forall>x. r = Inr x \<longrightarrow> map Inr qs = plan (c_device_id c))))"

lemma followsE:
  assumes "follows plan m" and "m s = (r, t)" and "s_sw s = Some c"
  obtains d qs where "s_sw t = Some d" "c_device_id d = c_device_id c" "c_sent d = c_sent c @ qs"
    "prefix (map Inr qs) (plan (c_device_id c))" "\<And>x. r = Inr x \<Longrightarrow> map Inr qs = plan (c_device_id c)"
  using assms unfolding follows_def by metis

lemma follows_silent: "(\<And>s. s_sw (snd (m s)) = s_sw s) \<Longrightarrow> follows (\<lambda>dev. []) m"
  unfolding follows_def by (metis append_Nil2 list.map(1) prefix_order.refl snd_conv)

lemma follows_andthen:
  assumes "follows p m" and "follows q n"
  shows "follows (\<lambda>dev. p dev @ q dev) (andthen m n)"
  unfolding follows_def
proof (intro allI impI)
  fix s c r t assume s: "s_sw s = Some c" and run: "andthen m n s = (r, t)"
  obtain r1 t1 where 1: "m s = (r1, t1)" by force
  from followsE [OF assms(1) 1 s] obtain d qs where d: "s_sw t1 = Some d" "c_device_id d = c_device_id c"
    "c_sent d = c_sent c @ qs" "prefix (map Inr qs) (p (c_device_id c))"
    and all: "\<And>x. r1 = Inr x \<Longrightarrow> map Inr qs = p (c_device_id c)" by blast
  show "\<exists>d qs. s_sw t = Some d \<and> c_device_id d = c_device_id c \<and> c_sent d = c_sent c @ qs
       \<and> prefix (map Inr qs) (p (c_device_id c) @ q (c_device_id c))
       \<and> (\<forall>x. r = Inr x \<longrightarrow> map Inr qs = p (c_device_id c) @ q (c_device_id c))"
  proof (cases r1)
    case (Inl e)
    with 1 run d show ?thesis by (auto simp: andthen_Inl intro: prefix_prefix)
  next
    case (Inr x)
    with 1 run have "n t1 = (r, t)" by (simp add: andthen_Inr)
    from followsE [OF assms(2) this d(1)] obtain d' qs' where "s_sw t = Some d'" "c_device_id d' = c_device_id d"
      "c_sent d' = c_sent d @ qs'" "prefix (map Inr qs') (q (c_device_id d))"
      "\<And>x. r = Inr x \<Longrightarrow> map Inr qs' = q (c_device_id d)" by blast
    with d all [OF Inr] show ?thesis
      by (intro exI [of _ d'] exI [of _ "qs @ qs'"]) (auto simp: prefix_def)
  qed
qed

lemma follows_lift: "(\<And>x. v = Inr x \<Longrightarrow> follows p (f x)) \<Longrightarrow> follows p (bnd (lift v) f)"
proof (cases v)
  case (Inl e)
  then have "bnd (lift v) f = (\<lambda>s. (Inl e, s))" by (simp add: fun_eq_iff bnd_def lift_def)
  then show ?thesis by (auto simp: follows_def)
next
  case (Inr x)
  then have "bnd (lift v) f = f x" by (simp add: fun_eq_iff bnd_def lift_def)
  moreover assume "\<And>x. v = Inr x \<Longrightarrow> follows p (f x)"
  ultimately show ?thesis using Inr by simp
qed

lemma follows_info: "follows p m \<Longrightarrow> follows p (andthen (info msg) m)"
  using follows_andthen [OF follows_silent, of "info msg" p m] by (simp add: info_state)

lemma follows_write:
  "follows (\<lambda>dev. [Inr (f dev)]) (on_sw (bnd (gets c_device_id) (\<lambda>dev. call_unless_dry G False (f dev))))"
  unfolding follows_def
  by (auto simp: on_sw_def bnd_def gets_def split: prod.splits dest!: call_unless_dry_sent)

lemma follows_on_sw_lift:
  assumes "\<And>x. v = Inr x \<Longrightarrow> follows p (on_sw (f x))"
  shows "follows p (on_sw (bnd (lift v) f))"
proof (cases v)
  case (Inl e)
  then show ?thesis by (auto simp: follows_def on_sw_def bnd_def lift_def)
next
  case (Inr x)
  then have "bnd (lift v) f = f x" by (simp add: fun_eq_iff bnd_def lift_def)
  with assms [OF Inr] show ?thesis by simp
qed

lemma follows_arbitration: "follows (\<lambda>dev. []) (on_sw (MasterArbitrationUpdate G False))"
proof -
  have "c_sent (snd (MasterArbitrationUpdate G False c)) = c_sent c
      \<and> c_device_id (snd (MasterArbitrationUpdate G False c)) = c_device_id c" for c
    by (simp add: MasterArbitrationUpdate_def io_defs queue_put_def Let_def split: sum.splits prod.splits)
  then show ?thesis by (auto simp: follows_def on_sw_def split: prod.splits) (metis snd_conv)+
qed

definition section_entries :: "pyval \<Rightarrow> string \<Rightarrow> pyval list res" where
  "section_entries conf key =
     ebind (py_in key conf) (\<lambda>present.
       if present then ebind (py_item conf key) py_iter else Inr [])"

definition section_plan :: "(int \<Rightarrow> pyval \<Rightarrow> request res) \<Rightarrow> pyval \<Rightarrow> string \<Rightarrow> plan" where
  "section_plan req conf key dev =
     (case section_entries conf key of Inl e \<Rightarrow> [Inl e] | Inr es \<Rightarrow> map (req dev) es)"

text \<open>A step of a section sends the request of its entry; then the section sends its entries'
  requests in their order.\<close>

locale sending_step =
  fixes step :: "pyval \<Rightarrow> unit session_io" and req :: "int \<Rightarrow> pyval \<Rightarrow> request res"
  assumes step_follows: "follows (\<lambda>dev. [req dev e]) (step e)"
begin

lemma for_each_follows: "follows (\<lambda>dev. map (req dev) es) (for_each step es)"
proof (induction es)
  case (Cons e es)
  have "for_each step (e # es) = andthen (step e) (for_each step es)"
    by (simp add: fun_eq_iff andthen_def bnd_def split: prod.splits sum.splits)
  with follows_andthen [OF step_follows Cons.IH, of e] show ?case by simp
qed (simp add: follows_silent)

lemma section_follows: "follows (section_plan req conf key) (insert_section conf key what step)"
  unfolding insert_section_def
proof (rule follows_lift)
  fix present assume here: "py_in key conf = Inr present"
  show "follows (section_plan req conf key) (if \<not> present then ret ()
     else bnd (lift (py_item conf key)) (\<lambda>es. bnd (lift (py_len es)) (\<lambda>n.
          andthen (info (''Inserting '' @ str_nat n @ '' '' @ what @ '' entries...''))
          (bnd (lift (py_iter es)) (for_each step)))))"
  proof (cases present)
    case True
    have "follows (section_plan req conf key) (bnd (lift (py_item conf key)) (\<lambda>es. bnd (lift (py_len es)) (\<lambda>n.
          andthen (info (''Inserting '' @ str_nat n @ '' '' @ what @ '' entries...''))
          (bnd (lift (py_iter es)) (for_each step)))))"
    proof (intro follows_lift follows_info)
      fix v n es assume "py_item conf key = Inr v" "py_len v = Inr n" "py_iter v = Inr es"
      with here True have "section_plan req conf key = (\<lambda>dev. map (req dev) es)"
        by (simp add: fun_eq_iff section_plan_def section_entries_def)
      with for_each_follows show "follows (section_plan req conf key) (for_each step es)" by simp
    qed
    with True show ?thesis by simp
  next
    case False
    with here have "section_plan req conf key = (\<lambda>dev. [])"
      by (simp add: fun_eq_iff section_plan_def section_entries_def)
    with False show ?thesis by (simp add: follows_silent io_defs)
  qed
qed

end

text \<open>What each kind of entry asks for. A table entry that fails its check stops the run.\<close>

definition table_request :: "p4info \<Rightarrow> string \<Rightarrow> int \<Rightarrow> pyval \<Rightarrow> request res" where
  "table_request pinfo rj dev e = ebind (validateTableEntry e pinfo rj) (\<lambda>_. ebind (build_flow_entry pinfo e)
     (\<lambda>te. Inr (WriteTable dev (if te_is_default te then MODIFY else INSERT) te)))"

definition group_request :: "int \<Rightarrow> pyval \<Rightarrow> request res" where
  "group_request dev e = ebind (build_group_entry e) (\<lambda>pe. Inr (WritePRE dev pe))"

definition clone_request :: "int \<Rightarrow> pyval \<Rightarrow> request res" where
  "clone_request dev e = ebind (build_clone_entry e) (\<lambda>pe. Inr (WritePRE dev pe))"

lemma follows_plan: "follows p m \<Longrightarrow> p = q \<Longrightarrow> follows q m"
  by simp

text \<open>Printing an entry before it is handled.\<close>

lemma follows_announced: "follows p m \<Longrightarrow> follows p (andthen (bnd (lift v) info) m)"
proof (cases v)
  case (Inl e)
  then have "andthen (bnd (lift v) info) m = (\<lambda>s. (Inl e, s))" by (simp add: fun_eq_iff andthen_def bnd_def lift_def)
  then show ?thesis by (auto simp: follows_def)
next
  case (Inr x)
  then have "bnd (lift v) info = info x" by (simp add: fun_eq_iff bnd_def lift_def)
  moreover assume "follows p m"
  ultimately show ?thesis by (simp add: follows_info)
qed

lemma follows_requests:
  "follows (\<lambda>dev. [ebind v (\<lambda>te. Inr (WriteTable dev (if te_is_default te then MODIFY else INSERT) te))])
     (bnd (lift v) (\<lambda>te. on_sw (WriteTableEntry G te False)))"
  "follows (\<lambda>dev. [ebind w (\<lambda>pe. Inr (WritePRE dev pe))]) (bnd (lift w) (\<lambda>pe. on_sw (WritePREEntry G pe False)))"
  unfolding WriteTableEntry_def WritePREEntry_def
  by (rule follows_lift, rule follows_plan [OF follows_write], simp add: fun_eq_iff)+

interpretation table_section: sending_step "table_step E pinfo rj" "table_request pinfo rj"
proof
  fix e
  show "follows (\<lambda>dev. [table_request pinfo rj dev e]) (table_step E pinfo rj e)"
    unfolding table_step_def
  proof (rule follows_announced)
    have "andthen (lift (validateTableEntry e pinfo rj)) (insertTableEntry (e_grpc E) pinfo e)
        = bnd (lift (validateTableEntry e pinfo rj)) (\<lambda>_. insertTableEntry (e_grpc E) pinfo e)"
      by (simp add: andthen_def)
    moreover have "follows (\<lambda>dev. [table_request pinfo rj dev e])
        (bnd (lift (validateTableEntry e pinfo rj)) (\<lambda>_. insertTableEntry (e_grpc E) pinfo e))"
      unfolding insertTableEntry_def
      by (rule follows_lift, rule follows_plan [OF follows_requests(1)]) (simp add: fun_eq_iff table_request_def)
    ultimately show "follows (\<lambda>dev. [table_request pinfo rj dev e])
        (andthen (lift (validateTableEntry e pinfo rj)) (insertTableEntry (e_grpc E) pinfo e))" by simp
  qed
qed

interpretation group_section: sending_step "group_step E" group_request
  by unfold_locales
    (simp add: group_step_def group_request_def insertMulticastGroupEntry_def follows_announced follows_requests(2))

interpretation clone_section: sending_step "clone_step E" clone_request
  by unfold_locales
    (simp add: clone_step_def clone_request_def insertCloneGroupEntry_def follows_announced follows_requests(2))

text \<open>The plan of a whole run, from the configuration alone: the pipeline that the configuration names,
  then its table entries, multicast groups and clone sessions.\<close>

definition pipeline_request :: "ctl_env \<Rightarrow> string \<Rightarrow> int \<Rightarrow> pyval \<Rightarrow> string \<Rightarrow> request res" where
  "pipeline_request E info_path dev conf wd =
     ebind (ebind (py_item conf ''bmv2_json'') (join_value wd)) (\<lambda>json_path.
     ebind (e_read E json_path) (\<lambda>cfg. Inr (SetPipeline dev info_path cfg)))"

definition planned_requests :: "ctl_env \<Rightarrow> pyval \<Rightarrow> string \<Rightarrow> string \<Rightarrow> plan" where
  "planned_requests E conf wd rj dev =
     (case ebind (py_item conf ''p4info'') (join_value wd) of
        Inl e \<Rightarrow> [Inl e]
      | Inr path \<Rightarrow>
          (case e_load_info E path of
             Inl e \<Rightarrow> [Inl e]
           | Inr pinfo \<Rightarrow>
               [pipeline_request E path dev conf wd]
               @ section_plan (table_request pinfo rj) conf ''table_entries'' dev
               @ section_plan group_request conf ''multicast_group_entries'' dev
               @ section_plan clone_request conf ''clone_session_entries'' dev))"

lemma program_pipeline_follows:
  assumes "ebind (py_item conf ''p4info'') (join_value wd) = Inr path" and "e_load_info E path = Inr pinfo"
  shows "follows (planned_requests E conf wd rj) (program_pipeline E pinfo path conf wd rj)"
  unfolding program_pipeline_def
proof (intro follows_lift follows_info)
  fix json json_path assume json: "py_item conf ''bmv2_json'' = Inr json" "join_value wd json = Inr json_path"
  let ?rest = "\<lambda>dev. section_plan (table_request pinfo rj) conf ''table_entries'' dev
     @ section_plan group_request conf ''multicast_group_entries'' dev
     @ section_plan clone_request conf ''clone_session_entries'' dev"
  have set: "follows (\<lambda>dev. [pipeline_request E path dev conf wd])
     (on_sw (SetForwardingPipelineConfig (e_grpc E) (e_read E) path json_path False))"
    unfolding SetForwardingPipelineConfig_def buildDeviceConfig_def
    by (rule follows_on_sw_lift, rule follows_plan [OF follows_write]) (simp add: fun_eq_iff pipeline_request_def json)
  show "follows (planned_requests E conf wd rj)
     (andthen (on_sw (SetForwardingPipelineConfig (e_grpc E) (e_read E) path json_path False))
     (andthen (insert_section conf ''table_entries'' ''table'' (table_step E pinfo rj))
     (andthen (insert_section conf ''multicast_group_entries'' ''group'' (group_step E))
      (insert_section conf ''clone_session_entries'' ''clone'' (clone_step E)))))"
    by (rule follows_plan [OF follows_andthen [OF set follows_andthen [OF table_section.section_follows
        follows_andthen [OF group_section.section_follows clone_section.section_follows]]]]) (simp add: fun_eq_iff planned_requests_def assms)
qed

section \<open>A discipline on the requests\<close>

definition all_sent :: "(request \<Rightarrow> bool) \<Rightarrow> conn \<Rightarrow> conn \<Rightarrow> bool" where
  "all_sent ok c d \<longleftrightarrow> ((\<forall>q \<in> set (c_sent c). ok q) \<longrightarrow> (\<forall>q \<in> set (c_sent d). ok q))"

lemma all_sent_rel: "step_relation (all_sent ok)"
  unfolding all_sent_def [abs_def] by (rule step_relation_inv)

lemma all_sent_call:
  assumes "ok req"
  shows "keeps (all_sent ok) (call_unless_dry G False req)"
  unfolding keeps_def all_sent_def
proof (intro allI impI)
  fix c :: conn assume "\<forall>q \<in> set (c_sent c). ok q"
  moreover obtain r d where run: "call_unless_dry G False req c = (r, d)" by force
  ultimately show "\<forall>q \<in> set (c_sent (snd (call_unless_dry G False req c))). ok q"
    using assms call_unless_dry_sent [OF run] by simp
qed

text \<open>A property of requests that every pipeline and replication request has, and every table
  write built from a validated entry, holds of everything the controller ever sends, whatever
  the outcome of the run.\<close>

locale request_discipline =
  fixes ok :: "request \<Rightarrow> bool"
  assumes pipeline_ok: "ok (SetPipeline dev name cfg)"
    and pre_ok: "ok (WritePRE dev pe)"
    and table_ok: "validateTableEntry flow pinfo rj = Inr () \<Longrightarrow>
      build_flow_entry pinfo flow = Inr te \<Longrightarrow> ok (WriteTable dev ut te)"

sublocale request_discipline \<subseteq> controller_relation "all_sent ok"
  by (intro controller_relation.intro all_sent_rel controller_relation_axioms.intro)
    (simp_all only: SetForwardingPipelineConfig_def WritePREEntry_def WriteTableEntry_def,
     (intro step_relation.keeps_rules [OF all_sent_rel] all_sent_call
        pipeline_ok pre_ok table_ok; assumption)+)

context request_discipline
begin

lemma program_switch_sends_ok:
  assumes "program_switch E addr dev (Inr conf) wd rj s = (r, t)"
    and "s_sw s = None" and "s_sw t = Some c"
  shows "\<forall>q \<in> set (c_sent c). ok q"
proof -
  from program_switch_cases [OF assms(1,2)] assms(3)
  obtain path pinfo s0 t0 d where s0: "s_sw s0 = Some (SwitchConnection dev True)"
    and body: "program_body E pinfo path conf wd rj s0 = (r, t0)"
    and t0: "s_sw t0 = Some d" and c: "c = snd (conn_shutdown d)"
    by (auto simp: ran_and_closed_def)
  have "keeps (sw_rel (all_sent ok)) (program_body E pinfo path conf wd rj)"
    unfolding program_body_def
    by (intro session.keeps_rules keeps_on_sw pipeline_step_keeps)
      (auto simp: keeps_def all_sent_def MasterArbitrationUpdate_def io_defs queue_put_def Let_def
        split: sum.splits prod.splits)
  from keepsD [OF this body] s0 t0 have "\<forall>q \<in> set (c_sent d). ok q"
    by (simp add: sw_rel_def all_sent_def SwitchConnection_def)
  then show ?thesis unfolding c by (simp add: conn_shutdown_eq)
qed

end

fun ranged :: "match_value \<Rightarrow> bool" where
  "ranged (MTernary _ _) = True"
| "ranged (MRange _ _) = True"
| "ranged _ = False"

fun has_priority :: "request \<Rightarrow> bool" where
  "has_priority (WriteTable _ _ te) =
     ((\<exists>m \<in> set (te_match te). ranged (m_value m)) \<longrightarrow>
      (case te_priority te of Some p \<Rightarrow> \<not> no_priority p | None \<Rightarrow> False))"
| "has_priority _ = True"

lemma ranged_needs_priority:
  "get_match_field_pb pinfo t n v = Inr m \<Longrightarrow> ranged (m_value m) \<Longrightarrow>
   get_match_field pinfo t (Some n) None = Inr mf \<Longrightarrow> needs_priority (mf_type mf)"
  by (cases "mf_type mf") (auto simp: get_match_field_pb_def Let_def needs_priority_def)

lemma validated_has_priority:
  assumes "validateTableEntry flow pinfo rj = Inr ()"
    and "build_flow_entry pinfo flow = Inr te"
  shows "has_priority (WriteTable dev ut te)"
proof (simp only: has_priority.simps, intro impI)
  from assms(2) obtain t M pr fields where
    flow: "py_item flow ''table'' = Inr (PStr t)" "py_get flow ''match'' = Inr M"
      "py_get flow ''priority'' = Inr pr"
    and te: "te_priority te = (if pr = PNone then None else Some pr)"
    and fields: "items_if_any M = Inr fields"
    and ms: "emap (\<lambda>(n, v). get_match_field_pb pinfo t n v) fields = Inr (te_match te)"
    by (auto simp: build_flow_entry_def buildTableEntry_def elim!: as_name.elims)
  assume "\<exists>m \<in> set (te_match te). ranged (m_value m)"
  then obtain m where m: "m \<in> set (te_match te)" "ranged (m_value m)" by blast
  then obtain n v where nv: "(n, v) \<in> set fields" "get_match_field_pb pinfo t n v = Inr m"
    using emap_source [OF ms m(1)] by auto
  then obtain mf where mf: "get_match_field pinfo t (Some n) None = Inr mf"
    by (auto simp: get_match_field_pb_def)
  from fields nv(1) have M: "M \<noteq> PNone" "py_items M = Inr fields"
    by (auto simp: items_if_any_def split: if_splits)
  have "\<not> no_priority pr"
  proof
    assume "no_priority pr"
    with assms(1) flow M obtain us where "emap (\<lambda>(n, _).
        ebind (get_match_field pinfo t (Some n) None) (\<lambda>mf. if needs_priority (mf_type mf)
          then Inl (AssertionError (''priority is required in '' @ rj)) else Inr ())) fields = Inr us"
      by (auto simp: validateTableEntry_def)
    from emap_image [OF this nv(1)] mf have "\<not> needs_priority (mf_type mf)"
      by (auto split: if_splits)
    with ranged_needs_priority [OF nv(2) m(2) mf] show False by simp
  qed
  then show "case te_priority te of Some p \<Rightarrow> \<not> no_priority p | None \<Rightarrow> False"
    using te by (auto simp: no_priority_def)
qed

interpretation priorities: request_discipline has_priority
  by unfold_locales (simp_all only: has_priority.simps(2-) validated_has_priority)

lemma switch_run_closed:
  assumes "program_switch E addr dev (Inr conf) wd rj s = (r, t)"
    and "s_sw s = None" and "s_sw t = Some c"
  shows "c_cancelled c \<and> c_stream c = [Item (Arbitration dev 0 1), Sentinel]
     \<and> queue_iter (c_stream c) = [Arbitration dev 0 1] \<and> check_switch_conf E conf wd = Inr ()"
proof -
  from program_switch_cases [OF assms(1,2)] assms(3)
  obtain path pinfo s0 t0 d where s0: "s_sw s0 = Some (SwitchConnection dev True)"
    and body: "program_body E pinfo path conf wd rj s0 = (r, t0)"
    and t0: "s_sw t0 = Some d" and c: "c = snd (conn_shutdown d)"
    and ok: "check_switch_conf E conf wd = Inr ()"
    by (auto simp: ran_and_closed_def)
  from program_body_conn [OF body s0] t0
  have "c_stream d = [Item (Arbitration dev 0 1)]"
    by (metis SwitchConnection_def append_Nil conn.select_convs(1,3) option.inject)
  with c ok show ?thesis by (simp add: conn_shutdown_eq queue_iter_def)
qed

section \<open>A run to test the properties on\<close>

definition demo_env :: ctl_env where
  "demo_env =
     \<lparr>e_exists = (\<lambda>p. p \<noteq> ''/w/missing''), e_read = (\<lambda>p. Inr ''{}''), e_json_ok = (\<lambda>t. t = ''{}''),
      e_load_info = (\<lambda>p. Inr demo_info),
      e_grpc = \<lparr>answer = (\<lambda>h q. Inr []), arbitrate = (\<lambda>h q. Inr [''primary'']),
                method_name = (\<lambda>q. ''Write''), show_request = (\<lambda>q. ''...''), utc_now = (\<lambda>h. ''now'')\<rparr>,
      e_float = (\<lambda>q. ''0.0'')\<rparr>"

definition demo_conf :: pyval where
  "demo_conf = PDict
     [(''target'', PStr ''bmv2''), (''p4info'', PStr ''a.p4info''), (''bmv2_json'', PStr ''a.json''),
      (''table_entries'', PList [PDict
         [(''table'', PStr ''MyIngress.acl''), (''match'', PDict [(''port'', PList [PInt 3, PInt 511])]),
          (''priority'', PInt 1), (''action_name'', PStr ''MyIngress.ipv4_forward''),
          (''action_params'', PDict [(''port'', PInt 4)])]]),
      (''multicast_group_entries'', PList [PDict
         [(''multicast_group_id'', PInt 9),
          (''replicas'', PList [PDict [(''egress_port'', PInt 1), (''instance'', PInt 1)]])]])]"

definition empty_session :: session where
  "empty_session = \<lparr>s_out = [], s_err = [], s_sw = None\<rparr>"

lemma demo_run:
  "\<exists>t c. program_switch demo_env ''addr'' 5 (Inr demo_conf) ''/w'' [] empty_session = (Inr (), t)
     \<and> s_sw t = Some c \<and> length (c_sent c) = 3"
proof -
  have "case program_switch demo_env ''addr'' 5 (Inr demo_conf) ''/w'' [] empty_session of
      (Inr _, t) \<Rightarrow> (case s_sw t of Some c \<Rightarrow> length (c_sent c) = 3 | None \<Rightarrow> False)
    | (Inl _, _) \<Rightarrow> False"
    by code_simp
  then show ?thesis by (auto split: prod.splits sum.splits option.splits)
qed

lemma empty_session_sw: "s_sw empty_session = None"
  by (simp add: empty_session_def)

section \<open>Properties\<close>

text \<open>A configuration object passes the check exactly when its target is \<open>bmv2\<close> and it names
  two existing files, the second of which reads as JSON.\<close>

theorem check_switch_conf_iff:
  "check_switch_conf E (PDict d) wd = Inr () \<longleftrightarrow>
     dict_get d ''target'' = Some (PStr ''bmv2'')
     \<and> (\<exists>p j txt. dict_get d ''p4info'' = Some (PStr p) \<and> p \<noteq> []
         \<and> dict_get d ''bmv2_json'' = Some (PStr j) \<and> j \<noteq> []
         \<and> e_exists E (path_join wd p) \<and> e_exists E (path_join wd j)
         \<and> e_read E (path_join wd j) = Inr txt \<and> e_json_ok E txt)"
proof -
  have key: "check_key (PDict d) k = Inr () \<longleftrightarrow>
      (\<exists>v n. dict_get d k = Some v \<and> py_len v = Inr n \<and> n \<noteq> 0)" for k
    by (cases "dict_get d k") (auto simp: check_key_def)
  have path: "check_file E (PDict d) wd k = Inr () \<longleftrightarrow>
      (\<exists>p. dict_get d k = Some (PStr p) \<and> e_exists E (path_join wd p)
        \<and> (k = ''bmv2_json'' \<longrightarrow> (\<exists>txt. e_read E (path_join wd p) = Inr txt \<and> e_json_ok E txt)))" for k
  proof (cases "dict_get d k")
    case (Some v)
    then show ?thesis by (cases v) (auto simp: check_file_def split: if_splits)
  qed (simp add: check_file_def)
  show ?thesis
    by (cases "dict_get d ''target''") (auto simp: check_switch_conf_def key path)
qed

text \<open>A configuration that fails the check is reported and nothing is done: no connection
  is opened, no request made, and the function returns normally.\<close>

theorem program_switch_rejects:
  assumes "check_switch_conf E conf wd = Inl e" and "is_conf_exception e"
  shows "program_switch E addr dev (Inr conf) wd rj s
    = (Inr (), s\<lparr>s_err := s_err s @ ['' - ERROR! While parsing input runtime configuration'']\<rparr>)"
  using assms by (simp add: program_switch_def bnd_def lift_def error_def modify_def)

theorem program_switch_rejects_witness:
  "program_switch demo_env ''addr'' 5 (Inr (PDict [(''target'', PStr ''tofino'')])) ''/w'' [] empty_session
    = (Inr (), empty_session\<lparr>s_err :=
        s_err empty_session @ ['' - ERROR! While parsing input runtime configuration'']\<rparr>)"
proof (rule program_switch_rejects)
  show "check_switch_conf demo_env (PDict [(''target'', PStr ''tofino'')]) ''/w''
      = Inl (ConfException ''unknown target'')" by code_simp
qed simp

text \<open>C8. Whatever happens while the switch is programmed, its connection is shut down: at the end
  the stream is cancelled and carries exactly the arbitration request and the sentinel, and the
  configuration had passed the check.\<close>

theorem program_switch_closes:
  assumes "program_switch E addr dev (Inr conf) wd rj s = (r, t)"
    and "s_sw s = None" and "s_sw t = Some c"
  shows "c_cancelled c \<and> c_stream c = [Item (Arbitration dev 0 1), Sentinel]
     \<and> queue_iter (c_stream c) = [Arbitration dev 0 1] \<and> check_switch_conf E conf wd = Inr ()"
  by (rule switch_run_closed [OF assms])

theorem program_switch_closes_witness:
  "\<exists>t c. program_switch demo_env ''addr'' 5 (Inr demo_conf) ''/w'' [] empty_session = (Inr (), t)
     \<and> s_sw t = Some c \<and> c_cancelled c \<and> c_stream c = [Item (Arbitration 5 0 1), Sentinel]"
  using demo_run program_switch_closes [OF _ empty_session_sw] by blast

text \<open>C9. Whatever the outcome of a run that opened a connection, the requests made are an initial
  segment of the plan read off the configuration: the pipeline of the files it names, its table
  entries, its multicast groups, its clone sessions, each section in its order, and nothing after an
  entry that cannot be built. A run that returns normally has made all of them.\<close>

theorem program_switch_order:
  assumes "program_switch E addr dev (Inr conf) wd rj s = (r, t)"
    and "s_sw s = None" and "s_sw t = Some c"
  shows "prefix (map Inr (c_sent c)) (planned_requests E conf wd rj dev)
     \<and> (r = Inr () \<longrightarrow> map Inr (c_sent c) = planned_requests E conf wd rj dev)"
proof -
  from program_switch_cases [OF assms(1,2)] assms(3)
  obtain path pinfo s0 t0 d where s0: "s_sw s0 = Some (SwitchConnection dev True)"
    and path: "ebind (py_item conf ''p4info'') (join_value wd) = Inr path" and load: "e_load_info E path = Inr pinfo"
    and body: "program_body E pinfo path conf wd rj s0 = (r, t0)"
    and t0: "s_sw t0 = Some d" and c: "c = snd (conn_shutdown d)"
    by (auto simp: ran_and_closed_def)
  have "follows (\<lambda>dev. [] @ planned_requests E conf wd rj dev) (program_body E pinfo path conf wd rj)"
    unfolding program_body_def
    by (intro follows_andthen follows_arbitration program_pipeline_follows path load)
  from followsE [OF this body s0] t0 c show ?thesis
    by (auto simp: SwitchConnection_def conn_shutdown_eq)
qed

theorem program_switch_order_witness:
  "\<exists>t c. program_switch demo_env ''addr'' 5 (Inr demo_conf) ''/w'' [] empty_session = (Inr (), t)
     \<and> s_sw t = Some c \<and> length (c_sent c) = 3
     \<and> map Inr (c_sent c) = planned_requests demo_env demo_conf ''/w'' [] 5"
  using demo_run program_switch_order [OF _ empty_session_sw] by blast

text \<open>C10. No run ever sends a table write with a ternary or range field and no priority, or
  priority 0, even when it fails half way.\<close>

theorem program_switch_priorities:
  assumes "program_switch E addr dev (Inr conf) wd rj s = (r, t)"
    and "s_sw s = None" and "s_sw t = Some c"
  shows "\<forall>q \<in> set (c_sent c). has_priority q"
  by (rule priorities.program_switch_sends_ok [OF assms])

theorem program_switch_priorities_witness:
  "\<exists>t c. program_switch demo_env ''addr'' 5 (Inr demo_conf) ''/w'' [] empty_session = (Inr (), t)
     \<and> s_sw t = Some c \<and> length (c_sent c) = 3 \<and> list_all has_priority (c_sent c)"
  using demo_run program_switch_priorities [OF _ empty_session_sw] unfolding list_all_iff by blast

text \<open>The command-line entry point never programs a switch: once its configuration file
  exists and reads, calling \<open>program_switch\<close> without \<open>runtime_json\<close> raises \<open>TypeError\<close>.\<close>

theorem controller_main_raises:
  assumes "e_exists E path" and "e_read E path = Inr content"
  shows "controller_main E addr dev path conf_file s = (Inl (TypeError ''missing required argument''), s)"
  using assms by (simp add: controller_main_def andthen_def bnd_def lift_def bind_arguments_def)

theorem controller_main_raises_witness:
  "controller_main demo_env ''addr'' 5 ''/w/conf.json'' (Inr demo_conf) empty_session
    = (Inl (TypeError ''missing required argument''), empty_session)"
  by (rule controller_main_raises [where content = "''{}''"]) (simp_all add: demo_env_def)

end
