(* ===== verification/Shortest_Path.thy ===== *)
theory Shortest_Path
  imports Py_Text
begin

text \<open>
  code/tutorials/utils/mininet/shortest\_path.py: the path search the application controller
  installs routes from. A graph is a dictionary from a node to its set of neighbours. A Python
  set has no defined order of iteration: it is a list here, and the theorems about the search
  hold of every graph, so for whatever order the lists have.
\<close>

type_synonym graph = "(string \<times> string list) list"

definition set_add :: "'a \<Rightarrow> 'a list \<Rightarrow> 'a list" where
  "set_add x xs = (if x \<in> set xs then xs else xs @ [x])"

definition neighbors :: "graph \<Rightarrow> string \<Rightarrow> string list" where
  "neighbors g a = (case dict_get g a of Some ns \<Rightarrow> ns | None \<Rightarrow> [])"

definition add_neighbor :: "string \<Rightarrow> string \<Rightarrow> graph \<Rightarrow> graph" where
  "add_neighbor a b g = dict_put a (set_add b (neighbors g a)) g"

definition addEdge :: "string \<times> string \<Rightarrow> graph \<Rightarrow> graph" where
  "addEdge e g = add_neighbor (snd e) (fst e) (add_neighbor (fst e) (snd e) g)"

definition ShortestPath :: "(string \<times> string) list \<Rightarrow> graph" where
  "ShortestPath edges = fold addEdge edges []"

section \<open>The search\<close>

text \<open>The test \<open>if path\<close> drops \<open>None\<close> and the empty path.\<close>

definition found :: "string list option list \<Rightarrow> string list list" where
  "found rs = map the (filter (\<lambda>r. r \<noteq> None \<and> r \<noteq> Some []) rs)"

definition best_path :: "string \<Rightarrow> string list list \<Rightarrow> string list option" where
  "best_path a paths = (case sort_key length paths of [] \<Rightarrow> None | p # _ \<Rightarrow> Some (a # p))"

text \<open>The neighbours the loop does not skip.\<close>

definition candidates :: "(string \<Rightarrow> bool) \<Rightarrow> string \<Rightarrow> string list \<Rightarrow> string list \<Rightarrow> string list" where
  "candidates exclude b new_visited ns =
     filter (\<lambda>n. n \<notin> set new_visited \<and> \<not> (exclude n \<and> n \<noteq> b)) ns"

function recPath ::
  "graph \<Rightarrow> (string \<Rightarrow> bool) \<Rightarrow> string \<Rightarrow> string \<Rightarrow> string list \<Rightarrow> string list option res" where
  "recPath g exclude b a visited =
     (if a = b then Inr (Some [a])
      else case dict_get g a of
             None \<Rightarrow> Inl (KeyError a)
           | Some ns \<Rightarrow>
               ebind (emap (\<lambda>n. recPath g exclude b n (visited @ [a]))
                           (candidates exclude b (visited @ [a]) ns))
                 (\<lambda>rs. Inr (best_path a (found rs))))"
  by pat_completeness auto

text \<open>Each call marks a node that has an entry and was unmarked, or (only at the first call) leaves
  the marks as they are and moves to an unmarked node.\<close>

termination
proof (relation "measure (\<lambda>(g, ex, b, a, vis).
    2 * card (fst ` set g - set vis) + (if a \<in> set vis then 1 else 0))")
  fix g :: graph and ex :: "string \<Rightarrow> bool" and b a :: string and vis ns :: "string list" and n
  assume ns: "dict_get g a = Some ns" and n: "n \<in> set (candidates ex b (vis @ [a]) ns)"
  let ?K = "fst ` set g"
  have a: "a \<in> ?K" using ns by (metis dict_get_None_iff option.distinct(1))
  have n': "n \<notin> set (vis @ [a])" using n by (auto simp: candidates_def)
  have "2 * card (?K - set (vis @ [a])) < 2 * card (?K - set vis) + (if a \<in> set vis then 1 else 0)"
  proof (cases "a \<in> set vis")
    case True
    then have "set (vis @ [a]) = set vis" by auto
    with True show ?thesis by simp
  next
    case False
    with a have "?K - set (vis @ [a]) \<subset> ?K - set vis" by auto
    then have "card (?K - set (vis @ [a])) < card (?K - set vis)" by (intro psubset_card_mono) auto
    with False show ?thesis by simp
  qed
  with n' show "((g, ex, b, n, vis @ [a]), (g, ex, b, a, vis)) \<in> measure (\<lambda>(g, ex, b, a, vis).
      2 * card (fst ` set g - set vis) + (if a \<in> set vis then 1 else 0))"
    by auto
qed simp

declare recPath.simps [simp del]

definition get_path :: "graph \<Rightarrow> string \<Rightarrow> string \<Rightarrow> (string \<Rightarrow> bool) \<Rightarrow> string list option res" where
  "get_path g a b exclude = recPath g exclude b a []"

section \<open>Walks\<close>

text \<open>The reference: a walk from \<open>a\<close> to \<open>b\<close> whose inner nodes are not excluded.\<close>

fun walk :: "graph \<Rightarrow> (string \<Rightarrow> bool) \<Rightarrow> string \<Rightarrow> string \<Rightarrow> string list \<Rightarrow> bool" where
  "walk g ex b a [] = False"
| "walk g ex b a [x] = (x = a \<and> a = b)"
| "walk g ex b a (x # y # p) =
     (x = a \<and> y \<in> set (neighbors g a) \<and> (ex y \<longrightarrow> y = b) \<and> walk g ex b y (y # p))"

definition simple_walk ::
  "graph \<Rightarrow> (string \<Rightarrow> bool) \<Rightarrow> string \<Rightarrow> string \<Rightarrow> string list \<Rightarrow> string list \<Rightarrow> bool" where
  "simple_walk g ex b a vis p \<longleftrightarrow> walk g ex b a p \<and> distinct p \<and> set p \<inter> set vis = {}"

lemma walk_hd: "walk g ex b a p \<Longrightarrow> p \<noteq> [] \<and> hd p = a"
  by (cases "(g, ex, b, a, p)" rule: walk.cases) auto

lemma walk_last: "walk g ex b a p \<Longrightarrow> last p = b"
  by (induction g ex b a p rule: walk.induct) auto

lemma walk_Cons: "walk g ex b n p \<Longrightarrow> n \<in> set (neighbors g a) \<Longrightarrow> (ex n \<longrightarrow> n = b) \<Longrightarrow>
  walk g ex b a (a # p)"
  by (frule walk_hd) (cases p; auto)

lemma walk_suffix: "walk g ex b a (p @ y # q) \<Longrightarrow> walk g ex b y (y # q)"
proof (induction p arbitrary: a)
  case Nil
  then show ?case by (cases q) auto
next
  case (Cons x p)
  then show ?case by (cases p) auto
qed

lemma walk_replace_suffix:
  "walk g ex b a (p @ y # q) \<Longrightarrow> walk g ex b y (y # r) \<Longrightarrow> walk g ex b a (p @ y # r)"
proof (induction p arbitrary: a)
  case Nil
  then show ?case by (cases q) auto
next
  case (Cons x p)
  then show ?case by (cases p) auto
qed

text \<open>Cutting out a cycle gives a shorter walk, so every walk is at least as long as some simple
  one.\<close>

lemma walk_simple:
  "walk g ex b a p \<Longrightarrow> \<exists>q. simple_walk g ex b a [] q \<and> length q \<le> length p"
proof (induction "length p" arbitrary: p rule: less_induct)
  case less
  show ?case
  proof (cases "distinct p")
    case True
    with less.prems show ?thesis by (auto simp: simple_walk_def)
  next
    case False
    then obtain xs ys zs y where p: "p = xs @ [y] @ ys @ [y] @ zs"
      using not_distinct_decomp by blast
    from less.prems have "walk g ex b y (y # zs)"
      unfolding p using walk_suffix [of g ex b a "xs @ y # ys" y zs] by simp
    with less.prems have "walk g ex b a (xs @ y # zs)"
      unfolding p using walk_replace_suffix by fastforce
    from less.hyps [OF _ this] show ?thesis unfolding p by fastforce
  qed
qed

section \<open>The search against the reference\<close>

lemma found_set: "p \<in> set (found rs) \<longleftrightarrow> Some p \<in> set rs \<and> p \<noteq> []"
  by (force simp: found_def)

lemma best_path_None: "best_path a ps = None \<longleftrightarrow> ps = []"
proof -
  have "sort_key length ps = [] \<longleftrightarrow> ps = []"
    by (metis length_0_conv length_sort)
  then show ?thesis by (auto simp: best_path_def split: list.splits)
qed

lemma best_path_Some:
  assumes "best_path a ps = Some q"
  obtains p where "q = a # p" "p \<in> set ps" "\<forall>r \<in> set ps. length p \<le> length r"
proof -
  from assms obtain p rest where s: "sort_key length ps = p # rest" and q: "q = a # p"
    by (auto simp: best_path_def split: list.splits)
  have set: "set ps = set (p # rest)" by (metis s set_sort)
  have "sorted (map length (p # rest))" by (metis s sorted_sort_key)
  with set have "\<forall>r \<in> set ps. length p \<le> length r" by auto
  with q set that show ?thesis by simp
qed

lemma recPath_step:
  assumes "recPath g ex b a vis = Inr r" and "a \<noteq> b"
  obtains ns rs where "dict_get g a = Some ns"
    "emap (\<lambda>n. recPath g ex b n (vis @ [a])) (candidates ex b (vis @ [a]) ns) = Inr rs"
    "r = best_path a (found rs)"
  using assms by (subst (asm) recPath.simps) (auto split: option.splits)

lemma recPath_sound:
  "recPath g ex b a vis = Inr (Some p) \<Longrightarrow> a \<notin> set vis \<Longrightarrow> simple_walk g ex b a vis p"
proof (induction g ex b a vis arbitrary: p rule: recPath.induct)
  case (1 g ex b a vis)
  show ?case
  proof (cases "a = b")
    case True
    with "1.prems" show ?thesis by (subst (asm) recPath.simps) (auto simp: simple_walk_def)
  next
    case False
    from recPath_step [OF "1.prems"(1) False] obtain ns rs where ns: "dict_get g a = Some ns"
      and rs: "emap (\<lambda>n. recPath g ex b n (vis @ [a])) (candidates ex b (vis @ [a]) ns) = Inr rs"
      and p: "Some p = best_path a (found rs)" .
    obtain q where q: "p = a # q" "q \<in> set (found rs)"
      using best_path_Some [OF p [symmetric]] by metis
    with emap_source [OF rs] obtain n where n: "n \<in> set (candidates ex b (vis @ [a]) ns)"
      "recPath g ex b n (vis @ [a]) = Inr (Some q)" by (auto simp: found_set)
    then have "n \<notin> set (vis @ [a])" by (simp add: candidates_def)
    from "1.IH" [OF False ns n(1,2) this] have "simple_walk g ex b n (vis @ [a]) q" .
    moreover have "n \<in> set (neighbors g a)" "ex n \<longrightarrow> n = b"
      using n(1) ns by (auto simp: candidates_def neighbors_def)
    ultimately show ?thesis
      using q(1) "1.prems"(2) by (auto simp: simple_walk_def intro: walk_Cons)
  qed
qed

lemma recPath_minimal:
  "recPath g ex b a vis = Inr r \<Longrightarrow> simple_walk g ex b a vis q \<Longrightarrow>
     \<exists>p. r = Some p \<and> length p \<le> length q"
proof (induction g ex b a vis arbitrary: r q rule: recPath.induct)
  case (1 g ex b a vis)
  show ?case
  proof (cases "a = b")
    case True
    moreover have "q \<noteq> []" using "1.prems"(2) by (auto simp: simple_walk_def)
    ultimately show ?thesis
      using "1.prems"(1) by (subst (asm) recPath.simps) (cases q, auto)
  next
    case False
    from recPath_step [OF "1.prems"(1) False] obtain ns rs where ns: "dict_get g a = Some ns"
      and rs: "emap (\<lambda>n. recPath g ex b n (vis @ [a])) (candidates ex b (vis @ [a]) ns) = Inr rs"
      and r: "r = best_path a (found rs)" .
    from "1.prems"(2) False obtain n q' where q: "q = a # n # q'"
      unfolding simple_walk_def by (metis list.exhaust walk.simps(1,2) walk_hd list.sel(1))
    with "1.prems"(2) ns have n: "n \<in> set (candidates ex b (vis @ [a]) ns)"
      by (auto simp: simple_walk_def candidates_def neighbors_def)
    from emap_image [OF rs n] obtain y where y: "y \<in> set rs"
      "recPath g ex b n (vis @ [a]) = Inr y" by auto
    have "simple_walk g ex b n (vis @ [a]) (n # q')"
      using "1.prems"(2) unfolding q by (auto simp: simple_walk_def)
    from "1.IH" [OF False ns n y(2) this] obtain p where p: "y = Some p"
      "length p \<le> length (n # q')" by auto
    have "p \<noteq> []"
      using y(2) p(1) recPath_sound [of g ex b n "vis @ [a]" p] n
      by (auto simp: simple_walk_def candidates_def)
    with y p have "p \<in> set (found rs)" by (simp add: found_set)
    then obtain z where z: "r = Some z" using best_path_None r by fastforce
    from best_path_Some [OF z [unfolded r]] obtain m where m: "z = a # m"
      "\<forall>x \<in> set (found rs). length m \<le> length x" by blast
    have "length z \<le> length q"
      using m(2) \<open>p \<in> set (found rs)\<close> p(2) unfolding m(1) q by fastforce
    with z show ?thesis by blast
  qed
qed

section \<open>The graph of a list of edges\<close>

lemma set_set_add [simp]: "set (set_add x xs) = insert x (set xs)"
  by (auto simp: set_add_def)

lemma neighbors_add: "set (neighbors (add_neighbor a b g) c)
    = (if c = a then insert b (set (neighbors g a)) else set (neighbors g c))"
  by (auto simp: neighbors_def add_neighbor_def alist.get_put)

lemma known_add: "dict_get (add_neighbor a b g) c \<noteq> None \<longleftrightarrow> c = a \<or> dict_get g c \<noteq> None"
  by (simp add: add_neighbor_def alist.get_put)

lemma neighbors_fold:
  "set (neighbors (fold addEdge edges g) a)
    = set (neighbors g a) \<union> {b. (a, b) \<in> set edges \<or> (b, a) \<in> set edges}"
  by (induction edges arbitrary: g) (auto simp: addEdge_def neighbors_add)

lemma neighbors_ShortestPath:
  "set (neighbors (ShortestPath edges) a) = {b. (a, b) \<in> set edges \<or> (b, a) \<in> set edges}"
  by (simp add: ShortestPath_def neighbors_fold) (simp add: neighbors_def)

lemma known_fold:
  "dict_get (fold addEdge edges g) a \<noteq> None \<longleftrightarrow>
     dict_get g a \<noteq> None \<or> a \<in> fst ` set edges \<union> snd ` set edges"
proof (induction edges arbitrary: g)
  case (Cons e edges)
  then show ?case
    by (simp only: fold.simps comp_apply Cons.IH)
      (auto simp only: addEdge_def known_add list.set image_insert)
qed simp

lemma known_ShortestPath:
  "dict_get (ShortestPath edges) a \<noteq> None \<longleftrightarrow> a \<in> fst ` set edges \<union> snd ` set edges"
  unfolding ShortestPath_def known_fold by simp

definition closed_graph :: "graph \<Rightarrow> bool" where
  "closed_graph g \<longleftrightarrow> (\<forall>a. \<forall>n \<in> set (neighbors g a). dict_get g n \<noteq> None)"

lemma closed_ShortestPath: "closed_graph (ShortestPath edges)"
  unfolding closed_graph_def known_ShortestPath neighbors_ShortestPath by force

lemma recPath_total:
  "closed_graph g \<Longrightarrow> dict_get g a \<noteq> None \<or> a = b \<Longrightarrow> \<exists>r. recPath g ex b a vis = Inr r"
proof (induction g ex b a vis rule: recPath.induct)
  case (1 g ex b a vis)
  show ?case
  proof (cases "a = b")
    case False
    with "1.prems" obtain ns where ns: "dict_get g a = Some ns" by blast
    have "\<exists>r. recPath g ex b n (vis @ [a]) = Inr r"
      if n: "n \<in> set (candidates ex b (vis @ [a]) ns)" for n
    proof (rule "1.IH" [OF False ns n "1.prems"(1)])
      have "n \<in> set (neighbors g a)" using n ns by (auto simp: neighbors_def candidates_def)
      with "1.prems"(1) show "dict_get g n \<noteq> None \<or> n = b" by (auto simp: closed_graph_def)
    qed
    then obtain rs where
      "emap (\<lambda>n. recPath g ex b n (vis @ [a])) (candidates ex b (vis @ [a]) ns) = Inr rs"
      using emap_total_iff by metis
    with False ns show ?thesis by (subst recPath.simps) simp
  qed (simp add: recPath.simps)
qed

section \<open>Properties\<close>

text \<open>The reference in terms of the edges alone.\<close>

definition joined :: "(string \<times> string) list \<Rightarrow> string \<Rightarrow> string \<Rightarrow> bool" where
  "joined edges x y \<longleftrightarrow> (x, y) \<in> set edges \<or> (y, x) \<in> set edges"

definition route :: "(string \<times> string) list \<Rightarrow> (string \<Rightarrow> bool) \<Rightarrow> string \<Rightarrow> string \<Rightarrow> string list \<Rightarrow> bool" where
  "route edges ex b a p \<longleftrightarrow> p \<noteq> [] \<and> hd p = a \<and> last p = b \<and> successively (joined edges) p
     \<and> (\<forall>x \<in> set (tl p). ex x \<longrightarrow> x = b)"

lemma walk_route: "walk (ShortestPath edges) ex b a p \<longleftrightarrow> route edges ex b a p"
  by (induction "ShortestPath edges" ex b a p rule: walk.induct)
    (auto simp: route_def joined_def neighbors_ShortestPath)

lemma walks_ex: "(\<exists>q. walk g ex b a q) \<Longrightarrow> \<exists>q. simple_walk g ex b a [] q"
  using walk_simple by blast

lemma get_path_None: "get_path g a b ex = Inr None \<Longrightarrow> \<not> walk g ex b a q"
  using recPath_minimal walks_ex unfolding get_path_def by (metis option.distinct(1))

lemma get_path_Some: "get_path g a b ex = Inr (Some p) \<Longrightarrow> walk g ex b a p"
  using recPath_sound [of g ex b a "[]"] by (auto simp: get_path_def simple_walk_def)

text \<open>C11. The search on the graph of a list of edges always ends. It returns a path exactly when some
  route along the edges, in either direction, joins the ends through allowed nodes, and the path it
  returns is one; without a route it raises \<open>KeyError\<close> when its start is no node of the graph, and
  returns \<open>None\<close> otherwise.\<close>

theorem get_path_returns:
  "if \<exists>q. route edges ex b a q
   then \<exists>p. get_path (ShortestPath edges) a b ex = Inr (Some p) \<and> route edges ex b a p
   else get_path (ShortestPath edges) a b ex
     = (if a \<in> fst ` set edges \<union> snd ` set edges then Inr None else Inl (KeyError a))"
proof -
  let ?g = "ShortestPath edges"
  have start: "route edges ex b a [a]" if "a = b" using that by (simp add: route_def)
  have known: "a = b \<or> a \<in> fst ` set edges \<union> snd ` set edges" if "route edges ex b a q" for q
  proof (cases "tl q")
    case Nil
    with that show ?thesis by (cases q) (auto simp: route_def)
  next
    case (Cons y ys)
    with that have "joined edges a y" by (cases q) (auto simp: route_def)
    then show ?thesis by (force simp: joined_def)
  qed
  show ?thesis
  proof (cases "a = b \<or> a \<in> fst ` set edges \<union> snd ` set edges")
    case True
    then obtain r where r: "get_path ?g a b ex = Inr r"
      unfolding get_path_def
      using recPath_total [OF closed_ShortestPath, of edges a b ex "[]"] known_ShortestPath by blast
    show ?thesis
    proof (cases r)
      case None
      with r get_path_None walk_route have none: "\<not> route edges ex b a q" for q by blast
      with start True have "a \<in> fst ` set edges \<union> snd ` set edges" by blast
      with none r None show ?thesis by simp
    next
      case (Some p)
      with r get_path_Some walk_route have "route edges ex b a p" by blast
      with r Some show ?thesis by auto
    qed
  next
    case False
    then have "dict_get ?g a = None" using known_ShortestPath by blast
    with False have "get_path ?g a b ex = Inl (KeyError a)" by (simp add: get_path_def recPath.simps)
    with False known show ?thesis by auto
  qed
qed

text \<open>C12. What the search returns is a shortest path: \<open>None\<close> only when no walk through allowed
  nodes joins the ends, and otherwise a walk along edges that repeats no node, enters no excluded
  node but the goal, and is no longer than any other such walk.\<close>

theorem get_path_shortest:
  assumes "get_path g a b ex = Inr r"
  shows "case r of
           None \<Rightarrow> \<forall>q. \<not> walk g ex b a q
         | Some p \<Rightarrow> walk g ex b a p \<and> distinct p \<and> (\<forall>q. walk g ex b a q \<longrightarrow> length p \<le> length q)"
proof -
  note run = assms [unfolded get_path_def]
  have min: "\<exists>p. r = Some p \<and> length p \<le> length q" if q: "walk g ex b a q" for q
  proof -
    obtain q' where "simple_walk g ex b a [] q'" "length q' \<le> length q"
      using walk_simple [OF q] by blast
    with recPath_minimal [OF run] show ?thesis by fastforce
  qed
  show ?thesis
  proof (cases r)
    case None
    with min show ?thesis by fastforce
  next
    case (Some p)
    with recPath_sound [of g ex b a "[]" p] run min show ?thesis
      by (fastforce simp: simple_walk_def)
  qed
qed

definition demo_edges :: "(string \<times> string) list" where
  "demo_edges = [(''1'', ''2''), (''1'', ''3''), (''2'', ''4''), (''3'', ''4''), (''7'', ''8'')]"

theorem get_path_shortest_witness:
  "get_path (ShortestPath demo_edges) ''1'' ''4'' (\<lambda>n. n = ''2'') = Inr (Some [''1'', ''3'', ''4''])
   \<and> walk (ShortestPath demo_edges) (\<lambda>n. n = ''2'') ''4'' ''1'' [''1'', ''3'', ''4'']"
proof -
  have run: "get_path (ShortestPath demo_edges) ''1'' ''4'' (\<lambda>n. n = ''2'')
      = Inr (Some [''1'', ''3'', ''4''])" by code_simp
  from get_path_shortest [OF run] run show ?thesis by simp
qed

end
