(* ===== verification/Topology.thy ===== *)
theory Topology
  imports Py_IO "HOL-Library.List_Lexorder" "HOL-Library.Char_ord" "HOL-Library.Multiset"
begin

text \<open>
  code/tutorials/utils/mininet/apptopo.py: the topology of a multi-switch application, and the
  record of which port of which switch leads where. Mininet is what receives the calls: they are
  kept as a list of events.
\<close>

section \<open>Events and state\<close>

datatype topo_event =
    AddSwitch string string
  | AddHost string
  | AddLink string string string pyval "string option" "string option"

record host_link =
  hl_idx :: nat
  hl_host_mac :: string
  hl_host_ip :: string
  hl_sw :: string
  hl_sw_mac :: string
  hl_sw_ip :: string
  hl_sw_port :: nat

record port_info =
  po_mac :: string
  po_port :: nat

record app_topo =
  at_events :: "topo_event list"
  at_sw_ports :: "(string \<times> string list) list"
  at_host_links :: "(string \<times> (string \<times> host_link) list) list"
  at_sw_links :: "(string \<times> (string \<times> port_info \<times> port_info) list) list"

type_synonym 'a topo_io = "(app_topo, 'a) io"

definition emit :: "topo_event \<Rightarrow> unit topo_io" where
  "emit e = modify (\<lambda>t. t\<lparr>at_events := at_events t @ [e]\<rparr>)"

section \<open>Names and addresses\<close>

definition starts :: "char \<Rightarrow> string \<Rightarrow> bool res" where
  "starts c n = (case n of [] \<Rightarrow> Inl IndexError | x # _ \<Rightarrow> Inr (x = c))"

text \<open>\<open>sorted(list(set([n for n in nodes if n[0] == c])))\<close>\<close>

definition names_of :: "char \<Rightarrow> string list \<Rightarrow> string list res" where
  "names_of c nodes =
     ebind (emap (starts c) nodes)
       (\<lambda>bs. Inr (sort (remdups (map fst (filter snd (zip nodes bs))))))"

text \<open>\<open>'%02x' % i\<close> and \<open>'%d' % i\<close> on integers.\<close>

definition fmt_02x :: "int \<Rightarrow> string" where
  "fmt_02x i = (if i < 0 then CHR ''-'' # hex_nat (nat (- i)) else hex2 (nat i))"

definition host_mac_of :: "int \<Rightarrow> int \<Rightarrow> string" where
  "host_mac_of sw_num host_num = ''00:00:00:00:'' @ fmt_02x sw_num @ '':'' @ fmt_02x host_num"

definition sw_port_mac :: "int \<Rightarrow> int \<Rightarrow> string" where
  "sw_port_mac a b = ''00:00:00:'' @ fmt_02x a @ '':'' @ fmt_02x b @ '':00''"

definition ip_of :: "int \<Rightarrow> int \<Rightarrow> string" where
  "ip_of sw_num n = ''10.0.'' @ str_int sw_num @ ''.'' @ str_int n"

text \<open>\<open>xs.index(x)\<close>: the first position of \<open>x\<close>, \<open>ValueError\<close> when there is none.\<close>

fun index_of :: "'a \<Rightarrow> 'a list \<Rightarrow> nat option" where
  "index_of x [] = None"
| "index_of x (y # ys) = (if x = y then Some 0 else map_option Suc (index_of x ys))"

definition delay_for :: "(string \<times> string) list \<Rightarrow> string \<Rightarrow> string" where
  "delay_for latencies k = (case dict_get latencies k of Some d \<Rightarrow> d | None \<Rightarrow> ''0ms'')"

definition bw_for :: "(string \<times> pyval) list \<Rightarrow> string \<Rightarrow> pyval" where
  "bw_for bws k = (case dict_get bws k of Some b \<Rightarrow> b | None \<Rightarrow> PNone)"

section \<open>Building the topology\<close>

text \<open>\<open>sw\_ports[sw].append(n)\<close>, and \<open>sw\_ports[sw].index(n)+1\<close>.\<close>

definition append_port :: "string \<Rightarrow> string \<Rightarrow> unit topo_io" where
  "append_port sw n =
     bnd (gets at_sw_ports) (\<lambda>ports.
     case dict_get ports sw of
       None \<Rightarrow> raise (KeyError sw)
     | Some ns \<Rightarrow> modify (\<lambda>t. t\<lparr>at_sw_ports := dict_put sw (ns @ [n]) (at_sw_ports t)\<rparr>))"

definition port_of :: "(string \<times> string list) list \<Rightarrow> string \<Rightarrow> string \<Rightarrow> nat res" where
  "port_of ports sw n =
     (case dict_get ports sw of
        None \<Rightarrow> Inl (KeyError sw)
      | Some ns \<Rightarrow> of_option (ValueError ''not in list'') (map_option Suc (index_of n ns)))"

definition put_host_link :: "string \<Rightarrow> string \<Rightarrow> host_link \<Rightarrow> unit topo_io" where
  "put_host_link host sw l =
     bnd (gets at_host_links) (\<lambda>ls.
     case dict_get ls host of
       None \<Rightarrow> raise (KeyError host)
     | Some m \<Rightarrow> modify (\<lambda>t. t\<lparr>at_host_links := dict_put host (dict_put sw l m) (at_host_links t)\<rparr>))"

definition put_sw_link :: "string \<Rightarrow> string \<Rightarrow> port_info \<times> port_info \<Rightarrow> unit topo_io" where
  "put_sw_link sw1 sw2 ps =
     bnd (gets at_sw_links) (\<lambda>ls.
     case dict_get ls sw1 of
       None \<Rightarrow> raise (KeyError sw1)
     | Some m \<Rightarrow> modify (\<lambda>t. t\<lparr>at_sw_links := dict_put sw1 (dict_put sw2 ps m) (at_sw_links t)\<rparr>))"

definition record_host_link :: "string \<Rightarrow> string \<Rightarrow> (nat \<Rightarrow> host_link) \<Rightarrow> unit topo_io" where
  "record_host_link host sw mk =
     bnd (gets at_sw_ports) (\<lambda>ports.
     bnd (lift (port_of ports sw host)) (\<lambda>p. put_host_link host sw (mk p)))"

definition record_sw_links :: "string \<Rightarrow> string \<Rightarrow> int \<Rightarrow> int \<Rightarrow> unit topo_io" where
  "record_sw_links sw1 sw2 n1 n2 =
     bnd (gets at_sw_ports) (\<lambda>ports.
     bnd (lift (port_of ports sw1 sw2)) (\<lambda>p1.
     bnd (lift (port_of ports sw2 sw1)) (\<lambda>p2.
     let i1 = \<lparr>po_mac = sw_port_mac n1 n2, po_port = p1\<rparr>;
         i2 = \<lparr>po_mac = sw_port_mac n2 n1, po_port = p2\<rparr>
     in andthen (put_sw_link sw1 sw2 (i1, i2)) (put_sw_link sw2 sw1 (i2, i1)))))"

definition connect_host ::
  "(string \<times> string) list \<Rightarrow> (string \<times> pyval) list \<Rightarrow> string \<Rightarrow> int \<Rightarrow> nat \<times> string \<times> string \<Rightarrow> unit topo_io" where
  "connect_host latencies bws host host_num il =
     (let idx = fst il; l0 = fst (snd il); l1 = snd (snd il); sw = (if l0 \<noteq> host then l0 else l1)
      in bnd (lift (py_int (tl sw))) (\<lambda>sw_num.
         bnd (lift (starts (CHR ''s'') sw)) (\<lambda>ok.
         andthen (lift (assert_that ok (''Hosts should be connected to switches, not '' @ sw)))
        (let mac = host_mac_of sw_num host_num; key = host @ sw
         in andthen (append_port sw host)
           (andthen (record_host_link host sw (\<lambda>p.
              \<lparr>hl_idx = idx, hl_host_mac = mac, hl_host_ip = ip_of sw_num host_num, hl_sw = sw,
               hl_sw_mac = mac, hl_sw_ip = ip_of sw_num 254, hl_sw_port = p\<rparr>))
           (emit (AddLink host sw (delay_for latencies key) (bw_for bws key) (Some mac) (Some mac))))))))"

definition add_app_host ::
  "(string \<times> string) list \<Rightarrow> (string \<times> string) list \<Rightarrow> (string \<times> pyval) list \<Rightarrow> string \<Rightarrow> unit topo_io" where
  "add_app_host links latencies bws host =
     bnd (lift (py_int (tl host))) (\<lambda>host_num.
     andthen (emit (AddHost host))
    (andthen (modify (\<lambda>t. t\<lparr>at_host_links := dict_put host [] (at_host_links t)\<rparr>))
     (for_each (connect_host latencies bws host host_num)
        (enumerate 0 (filter (\<lambda>l. fst l = host \<or> snd l = host) links)))))"

definition connect_switches ::
  "(string \<times> string) list \<Rightarrow> (string \<times> pyval) list \<Rightarrow> string \<times> string \<Rightarrow> unit topo_io" where
  "connect_switches latencies bws l =
     (let sw1 = fst l; sw2 = snd l; key = concat (sort [sw1, sw2])
      in bnd (lift (starts (CHR ''s'') sw1)) (\<lambda>a.
         bnd (if a then lift (starts (CHR ''s'') sw2) else ret False) (\<lambda>b.
         if \<not> b then ret ()
         else andthen (emit (AddLink sw1 sw2 (delay_for latencies key) (bw_for bws key) None None))
             (andthen (append_port sw1 sw2)
             (andthen (append_port sw2 sw1)
             (bnd (lift (py_int (tl sw1))) (\<lambda>n1.
              bnd (lift (py_int (tl sw2))) (\<lambda>n2. record_sw_links sw1 sw2 n1 n2))))))))"

definition initial_topo :: app_topo where
  "initial_topo = \<lparr>at_events = [], at_sw_ports = [], at_host_links = [], at_sw_links = []\<rparr>"

definition AppTopo ::
  "(string \<times> string) list \<Rightarrow> (string \<times> string) list \<Rightarrow> (string \<times> pyval) list \<Rightarrow> string \<Rightarrow> unit topo_io" where
  "AppTopo links latencies bws log_dir =
     (let nodes = map fst links @ map snd links
      in bnd (lift (names_of (CHR ''h'') nodes)) (\<lambda>host_names.
         bnd (lift (names_of (CHR ''s'') nodes)) (\<lambda>sw_names.
         andthen (modify (\<lambda>t. t\<lparr>at_sw_ports := map (\<lambda>s. (s, [])) sw_names,
                                at_host_links := [],
                                at_sw_links := map (\<lambda>s. (s, [])) sw_names\<rparr>))
        (andthen (for_each (\<lambda>s. emit (AddSwitch s (log_dir @ ''/'' @ s @ ''.log''))) sw_names)
        (andthen (for_each (add_app_host links latencies bws) host_names)
         (for_each (connect_switches latencies bws) links))))))"

section \<open>The port invariant\<close>

definition at_port :: "(string \<times> string list) list \<Rightarrow> string \<Rightarrow> nat \<Rightarrow> string \<Rightarrow> bool" where
  "at_port ports sw p n \<longleftrightarrow>
     (\<exists>ns. dict_get ports sw = Some ns \<and> 1 \<le> p \<and> p \<le> length ns \<and> ns ! (p - 1) = n)"

text \<open>Every recorded port of a switch is the position of the neighbour it is recorded for.\<close>

definition ports_ok :: "app_topo \<Rightarrow> bool" where
  "ports_ok t \<longleftrightarrow>
     (\<forall>h m sw l. dict_get (at_host_links t) h = Some m \<longrightarrow> dict_get m sw = Some l \<longrightarrow>
        at_port (at_sw_ports t) sw (hl_sw_port l) h)
     \<and> (\<forall>s1 m s2 i1 i2. dict_get (at_sw_links t) s1 = Some m \<longrightarrow> dict_get m s2 = Some (i1, i2) \<longrightarrow>
        at_port (at_sw_ports t) s1 (po_port i1) s2 \<and> at_port (at_sw_ports t) s2 (po_port i2) s1)"

lemma index_of_Some: "index_of x xs = Some i \<Longrightarrow> i < length xs \<and> xs ! i = x"
  by (induction xs arbitrary: i) (auto split: if_splits)

lemma port_of_at_port: "port_of ports sw n = Inr p \<Longrightarrow> at_port ports sw p n"
  by (auto simp: port_of_def at_port_def split: option.splits dest: index_of_Some)

lemma at_port_append:
  "at_port ports sw p n \<Longrightarrow> dict_get ports s = Some ns \<Longrightarrow> at_port (dict_put s (ns @ [m]) ports) sw p n"
  by (auto simp: at_port_def alist.get_put nth_append)

lemma at_port_unique: "at_port ports sw p n \<Longrightarrow> at_port ports sw p m \<Longrightarrow> n = m"
  by (auto simp: at_port_def)

interpretation ports: step_relation "\<lambda>s t. ports_ok s \<longrightarrow> ports_ok t"
  by (rule step_relation_inv)

abbreviation keeps_ports :: "unit topo_io \<Rightarrow> bool" where
  "keeps_ports m \<equiv> keeps (\<lambda>s t. ports_ok s \<longrightarrow> ports_ok t) m"

lemma emit_keeps: "keeps_ports (emit e)"
  by (auto simp: keeps_def emit_def modify_def ports_ok_def)

lemma append_port_keeps: "keeps_ports (append_port sw n)"
  by (auto simp: keeps_def append_port_def bnd_def gets_def raise_def modify_def ports_ok_def
      split: option.splits intro: at_port_append)

lemma new_host_keeps: "keeps_ports (modify (\<lambda>t. t\<lparr>at_host_links := dict_put h [] (at_host_links t)\<rparr>))"
  by (auto simp: keeps_def modify_def ports_ok_def alist.get_put split: if_splits)

lemma record_host_link_keeps:
  assumes "\<And>p. hl_sw_port (mk p) = p"
  shows "keeps_ports (record_host_link h sw mk)"
  using assms
  by (auto simp: keeps_def record_host_link_def put_host_link_def io_defs ports_ok_def
      alist.get_put dest!: port_of_at_port split: option.splits sum.splits if_splits)

lemma put_sw_link_ok:
  assumes "ports_ok t" "at_port (at_sw_ports t) s1 (po_port i1) s2"
    "at_port (at_sw_ports t) s2 (po_port i2) s1"
  shows "ports_ok (snd (put_sw_link s1 s2 (i1, i2) t))
     \<and> at_sw_ports (snd (put_sw_link s1 s2 (i1, i2) t)) = at_sw_ports t"
  using assms
  by (auto simp: put_sw_link_def io_defs ports_ok_def alist.get_put
      split: option.splits if_splits)

lemma record_sw_links_keeps: "keeps_ports (record_sw_links s1 s2 n1 n2)"
proof -
  have "ports_ok (snd (andthen (put_sw_link s1 s2 (i1, i2)) (put_sw_link s2 s1 (i2, i1)) t))"
    if "ports_ok t" "at_port (at_sw_ports t) s1 (po_port i1) s2"
      "at_port (at_sw_ports t) s2 (po_port i2) s1" for t i1 i2
    using put_sw_link_ok [OF that] put_sw_link_ok [of "snd (put_sw_link s1 s2 (i1, i2) t)" s2 i2 s1 i1] that
    by (auto simp: andthen_def bnd_def split: prod.splits sum.splits)
  then show ?thesis
    by (auto simp: keeps_def record_sw_links_def bnd_def gets_def lift_def Let_def
        dest!: port_of_at_port split: sum.splits)
qed

lemmas topo_keeps = emit_keeps append_port_keeps new_host_keeps record_sw_links_keeps

lemma connect_host_keeps: "keeps_ports (connect_host lat bws h n il)"
  unfolding connect_host_def Let_def
  by (intro ports.keeps_rules topo_keeps record_host_link_keeps) simp

lemma add_app_host_keeps: "keeps_ports (add_app_host links lat bws h)"
  unfolding add_app_host_def
  by (intro ports.keeps_rules topo_keeps connect_host_keeps)

lemma connect_switches_keeps: "keeps_ports (connect_switches lat bws l)"
  unfolding connect_switches_def Let_def
  by (intro ports.keeps_rules topo_keeps)

section \<open>Properties\<close>

text \<open>C15. Whatever the links, and even if building stops with an exception: every port the
  topology records, for a host or for another switch, is the position of that neighbour in the
  switch's port list; so two neighbours of a switch never share a recorded port.\<close>

theorem AppTopo_ports:
  assumes "AppTopo links lat bws log_dir initial_topo = (r, t)"
  shows "ports_ok t
     \<and> (\<forall>h1 h2 m1 m2 sw l1 l2.
          dict_get (at_host_links t) h1 = Some m1 \<and> dict_get m1 sw = Some l1
          \<and> dict_get (at_host_links t) h2 = Some m2 \<and> dict_get m2 sw = Some l2
          \<and> hl_sw_port l1 = hl_sw_port l2 \<longrightarrow> h1 = h2)"
proof -
  have fresh: "keeps_ports (modify (\<lambda>t. t\<lparr>at_sw_ports := map (\<lambda>s. (s, [])) sws,
      at_host_links := [], at_sw_links := map (\<lambda>s. (s, [])) sws\<rparr>))" for sws
    by (auto simp: keeps_def modify_def ports_ok_def dict_get_def map_of_map_restrict
        restrict_map_def split: if_splits)
  have "keeps_ports (AppTopo links lat bws log_dir)"
    unfolding AppTopo_def Let_def
    by (intro ports.keeps_rules topo_keeps add_app_host_keeps connect_switches_keeps fresh)
  from keepsD [OF this assms] have ok: "ports_ok t"
    by (simp add: ports_ok_def initial_topo_def)
  moreover from ok have "at_port (at_sw_ports t) sw (hl_sw_port l) h"
    if "dict_get (at_host_links t) h = Some m" "dict_get m sw = Some l" for h m sw l
    using that unfolding ports_ok_def by blast
  ultimately show ?thesis by (metis at_port_unique)
qed

theorem AppTopo_ports_witness:
  "\<exists>t. AppTopo [(''h1'', ''s1''), (''h2'', ''s1''), (''s1'', ''s2'')] [(''s1s2'', ''5ms'')] [] ''/tmp'' initial_topo
      = (Inr (), t)
     \<and> dict_get (at_sw_ports t) ''s1'' = Some [''h1'', ''h2'', ''s2''] \<and> ports_ok t"
proof -
  let ?run = "AppTopo [(''h1'', ''s1''), (''h2'', ''s1''), (''s1'', ''s2'')] [(''s1s2'', ''5ms'')] []
      ''/tmp'' initial_topo"
  have "case ?run of
      (Inr _, t) \<Rightarrow> dict_get (at_sw_ports t) ''s1'' = Some [''h1'', ''h2'', ''s2''] | _ \<Rightarrow> False"
    by code_simp
  then obtain t where "?run = (Inr (), t)"
      "dict_get (at_sw_ports t) ''s1'' = Some [''h1'', ''h2'', ''s2'']"
    by (auto split: prod.splits sum.splits)
  with AppTopo_ports [OF this(1)] show ?thesis by blast
qed

end
