(* ===== verification/Exercise.thy ===== *)
theory Exercise
  imports Controller Topology
begin

text \<open>
  code/tutorials/utils/run\_exercise.py: reading an exercise's topology, building the Mininet
  network, programming hosts and switches, running the command line. The state is the list of
  what was done; Mininet, the file system and the switches are the parameter \<open>run_env\<close>.
\<close>

section \<open>Links\<close>

record ex_link =
  el_node1 :: string
  el_node2 :: string
  el_latency :: string
  el_bandwidth :: pyval

definition format_latency :: "(rat \<Rightarrow> string) \<Rightarrow> pyval \<Rightarrow> string" where
  "format_latency sf l = (case l of PStr s \<Rightarrow> s | _ \<Rightarrow> py_str sf l @ ''ms'')"

definition link_ends :: "pyval \<Rightarrow> (string \<times> string) res" where
  "link_ends l =
     ebind (ebind (py_index l 0) as_str) (\<lambda>s.
     ebind (ebind (py_index l 1) as_str) (\<lambda>t.
     Inr (if s > t then (t, s) else (s, t))))"

definition link_options :: "(rat \<Rightarrow> string) \<Rightarrow> pyval \<Rightarrow> (string \<times> pyval) res" where
  "link_options sf l =
     ebind (py_len l) (\<lambda>n.
     ebind (if n > 2 then ebind (py_index l 2) (\<lambda>x. Inr (format_latency sf x)) else Inr ''0ms'') (\<lambda>lat.
     ebind (if n > 3 then py_index l 3 else Inr PNone) (\<lambda>bw. Inr (lat, bw))))"

definition check_ends :: "string \<Rightarrow> string \<Rightarrow> unit res" where
  "check_ends s t =
     ebind (starts (CHR ''h'') s) (\<lambda>host.
     if host then ebind (starts (CHR ''s'') t) (\<lambda>sw.
       assert_that sw (''Hosts should be connected to switches, not '' @ t))
     else Inr ())"

definition parse_link :: "(rat \<Rightarrow> string) \<Rightarrow> pyval \<Rightarrow> ex_link res" where
  "parse_link sf l =
     ebind (link_ends l) (\<lambda>ends.
     ebind (link_options sf l) (\<lambda>opts.
     ebind (check_ends (fst ends) (snd ends)) (\<lambda>_.
     Inr \<lparr>el_node1 = fst ends, el_node2 = snd ends, el_latency = fst opts,
          el_bandwidth = snd opts\<rparr>)))"

definition parse_links :: "(rat \<Rightarrow> string) \<Rightarrow> pyval \<Rightarrow> ex_link list res" where
  "parse_links sf unparsed = ebind (py_iter unparsed) (emap (parse_link sf))"

definition parse_switch_node :: "string \<Rightarrow> (string \<times> int) res" where
  "parse_switch_node node =
     (case split_on (CHR ''-'') node of
        [sw_name, sw_port] \<Rightarrow>
          (case py_int (tl sw_port) of
             Inl _ \<Rightarrow> Inl (Exc (''Invalid switch node in topology file: '' @ node))
           | Inr p \<Rightarrow> Inr (sw_name, p))
      | _ \<Rightarrow> Inl (AssertionError ''node''))"

section \<open>What is done\<close>

datatype ex_event =
    ESwitch string string "pyval option" "pyval option"
  | EHost string pyval pyval
  | ELink string string "int option" "int option" string pyval
  | NetStart
  | HostCmd string pyval
  | Logged string
  | SwitchCli string string int
  | Session string "unit res" session
  | CommandLine
  | NetStop

type_synonym ex_io = "(ex_event list, unit) io"

definition act :: "ex_event \<Rightarrow> ex_io" where
  "act e = modify (\<lambda>es. es @ [e])"

definition logger :: "bool \<Rightarrow> string \<Rightarrow> ex_io" where
  "logger quiet msg = (if quiet then ret () else act (Logged msg))"

section \<open>The topology\<close>

definition optional_item :: "pyval \<Rightarrow> string \<Rightarrow> pyval option res" where
  "optional_item d k =
     ebind (py_in k d) (\<lambda>present. if present then ebind (py_item d k) (\<lambda>v. Inr (Some v)) else Inr None)"

definition add_ex_switch :: "string \<Rightarrow> string \<times> pyval \<Rightarrow> ex_io" where
  "add_ex_switch log_dir sp =
     bnd (lift (optional_item (snd sp) ''program'')) (\<lambda>prog.
     bnd (lift (optional_item (snd sp) ''cpu_port'')) (\<lambda>cpu.
     act (ESwitch (fst sp) (log_dir @ ''/'' @ fst sp @ ''.log'') cpu prog)))"

definition add_host_link :: "pyval \<Rightarrow> ex_link \<Rightarrow> ex_io" where
  "add_host_link hosts l =
     bnd (lift (parse_switch_node (el_node2 l))) (\<lambda>(sw, port).
     bnd (lift (ebind (py_item hosts (el_node1 l)) (\<lambda>h. py_item h ''ip''))) (\<lambda>ip.
     bnd (lift (ebind (py_item hosts (el_node1 l)) (\<lambda>h. py_item h ''mac''))) (\<lambda>mac.
     andthen (act (EHost (el_node1 l) ip mac))
       (act (ELink (el_node1 l) sw None (Some port) (el_latency l) (el_bandwidth l))))))"

definition add_switch_link :: "ex_link \<Rightarrow> ex_io" where
  "add_switch_link l =
     bnd (lift (parse_switch_node (el_node1 l))) (\<lambda>(sw1, port1).
     bnd (lift (parse_switch_node (el_node2 l))) (\<lambda>(sw2, port2).
     act (ELink sw1 sw2 (Some port1) (Some port2) (el_latency l) (el_bandwidth l))))"

definition is_host_link :: "ex_link \<Rightarrow> bool" where
  "is_host_link l = (starts (CHR ''h'') (el_node1 l) = Inr True)"

definition ExerciseTopo :: "pyval \<Rightarrow> pyval \<Rightarrow> ex_link list \<Rightarrow> string \<Rightarrow> ex_io" where
  "ExerciseTopo hosts switches links log_dir =
     bnd (lift (emap (\<lambda>l. starts (CHR ''h'') (el_node1 l)) links)) (\<lambda>_.
     andthen (bnd (lift (py_items switches)) (for_each (add_ex_switch log_dir)))
    (andthen (for_each (add_host_link hosts) (filter is_host_link links))
     (for_each add_switch_link (filter (\<lambda>l. \<not> is_host_link l) links))))"

section \<open>Programming the network\<close>

record sw_obj =
  so_grpc_port :: "int option"
  so_thrift_port :: "int option"
  so_device_id :: int

record run_env =
  re_ctl :: ctl_env
  re_open :: "string \<Rightarrow> unit res"
  re_json :: "string \<Rightarrow> pyval res"
  re_obj :: "string \<Rightarrow> sw_obj"
  re_cwd :: string
  re_start :: "unit res"
  re_cli :: "unit res"

record exercise =
  ex_hosts :: pyval
  ex_switches :: pyval
  ex_links :: "ex_link list"
  ex_log_dir :: string
  ex_quiet :: bool

text \<open>\<open>net.get(name)\<close> knows the nodes that the topology added.\<close>

fun adds_node :: "string \<Rightarrow> ex_event \<Rightarrow> bool" where
  "adds_node n (ESwitch m _ _ _) = (m = n)"
| "adds_node n (EHost m _ _) = (m = n)"
| "adds_node n _ = False"

definition net_get :: "string \<Rightarrow> ex_io" where
  "net_get n = bnd (gets (\<lambda>es. \<exists>e \<in> set es. adds_node n e))
     (\<lambda>known. if known then ret () else raise (KeyError n))"

definition program_switch_p4runtime :: "run_env \<Rightarrow> bool \<Rightarrow> string \<Rightarrow> pyval \<Rightarrow> ex_io" where
  "program_switch_p4runtime E quiet sw_name sw_dict =
     andthen (net_get sw_name)
    (bnd (lift (of_option (AttributeError ''grpc_port'') (so_grpc_port (re_obj E sw_name)))) (\<lambda>grpc_port.
     bnd (lift (ebind (py_item sw_dict ''runtime_json'') as_str)) (\<lambda>runtime_json.
     andthen (logger quiet (''Configuring switch '' @ sw_name @ '' using P4Runtime with file '' @ runtime_json))
    (andthen (lift (re_open E runtime_json))
    (case program_switch (re_ctl E) (''127.0.0.1:'' @ str_int grpc_port) (so_device_id (re_obj E sw_name))
            (re_json E runtime_json) (re_cwd E) runtime_json empty_session of
       (r, s) \<Rightarrow> andthen (act (Session sw_name r s)) (lift r))))))"

definition program_switch_cli :: "run_env \<Rightarrow> bool \<Rightarrow> string \<Rightarrow> pyval \<Rightarrow> ex_io" where
  "program_switch_cli E quiet sw_name sw_dict =
     andthen (net_get sw_name)
    (bnd (lift (of_option (AttributeError ''thrift_port'') (so_thrift_port (re_obj E sw_name)))) (\<lambda>thrift_port.
     bnd (lift (ebind (py_item sw_dict ''cli_input'') as_str)) (\<lambda>cli_input.
     andthen (logger quiet (''Configuring switch '' @ sw_name @ '' with file '' @ cli_input))
    (andthen (lift (re_open E cli_input)) (act (SwitchCli sw_name cli_input thrift_port))))))"

definition program_one :: "run_env \<Rightarrow> bool \<Rightarrow> string \<times> pyval \<Rightarrow> ex_io" where
  "program_one E quiet sd =
     bnd (lift (py_in ''cli_input'' (snd sd))) (\<lambda>cli.
     bnd (lift (py_in ''runtime_json'' (snd sd))) (\<lambda>rt.
     if \<not> cli \<and> \<not> rt
     then logger quiet (''Warning: No control plane file provided for switch '' @ fst sd @ ''.'')
     else andthen (if cli then program_switch_cli E quiet (fst sd) (snd sd) else ret ())
                  (if rt then program_switch_p4runtime E quiet (fst sd) (snd sd) else ret ())))"

definition program_switches :: "run_env \<Rightarrow> exercise \<Rightarrow> ex_io" where
  "program_switches E x =
     bnd (lift (py_items (ex_switches x))) (for_each (program_one E (ex_quiet x)))"

definition program_host :: "string \<times> pyval \<Rightarrow> ex_io" where
  "program_host hi =
     andthen (net_get (fst hi))
    (bnd (lift (py_in ''commands'' (snd hi))) (\<lambda>has.
     if \<not> has then ret ()
     else bnd (lift (ebind (py_item (snd hi) ''commands'') py_iter))
            (for_each (\<lambda>cmd. act (HostCmd (fst hi) cmd)))))"

definition program_hosts :: "exercise \<Rightarrow> ex_io" where
  "program_hosts x = bnd (lift (py_items (ex_hosts x))) (for_each program_host)"

definition create_network :: "exercise \<Rightarrow> ex_io" where
  "create_network x =
     andthen (logger (ex_quiet x) ''Building mininet topology.'')
       (ExerciseTopo (ex_hosts x) (ex_switches x) (ex_links x) (ex_log_dir x))"

definition run_exercise :: "run_env \<Rightarrow> exercise \<Rightarrow> ex_io" where
  "run_exercise E x =
     andthen (create_network x)
    (andthen (lift (re_start E))
    (andthen (act NetStart)
    (andthen (program_hosts x)
    (andthen (program_switches E x)
    (andthen (lift (re_cli E))
    (andthen (act CommandLine)
     (act NetStop)))))))"

text \<open>Reading the topology file; the directories are made when they are missing.\<close>

definition ensure_dir :: "(string \<Rightarrow> bool) \<Rightarrow> (string \<Rightarrow> bool) \<Rightarrow> string \<Rightarrow> unit res" where
  "ensure_dir is_dir exists d =
     (if \<not> is_dir d \<and> exists d then Inl (Exc (d @ '' exists and is not a directory!'')) else Inr ())"

definition ExerciseRunner ::
  "(rat \<Rightarrow> string) \<Rightarrow> (string \<Rightarrow> bool) \<Rightarrow> (string \<Rightarrow> bool) \<Rightarrow> pyval res \<Rightarrow> string \<Rightarrow> string \<Rightarrow> bool \<Rightarrow> exercise res" where
  "ExerciseRunner sf is_dir exists topo_file log_dir pcap_dir quiet =
     ebind topo_file (\<lambda>topo.
     ebind (py_item topo ''hosts'') (\<lambda>hosts.
     ebind (py_item topo ''switches'') (\<lambda>switches.
     ebind (ebind (py_item topo ''links'') (parse_links sf)) (\<lambda>links.
     ebind (emap (ensure_dir is_dir exists) [log_dir, pcap_dir]) (\<lambda>_.
     Inr \<lparr>ex_hosts = hosts, ex_switches = switches, ex_links = links, ex_log_dir = log_dir,
          ex_quiet = quiet\<rparr>)))))"

section \<open>Facts\<close>

lemma starts_Inr: "starts c s = Inr b \<longleftrightarrow> (s \<noteq> [] \<and> b = (hd s = c))"
  by (cases s) (auto simp: starts_def)

lemma link_ends_Inr:
  "link_ends raw = Inr e \<longleftrightarrow>
     (\<exists>a b. py_index raw 0 = Inr (PStr a) \<and> py_index raw 1 = Inr (PStr b) \<and> e = (min a b, max a b))"
proof -
  have order: "(if s > t then (t, s) else (s, t)) = (min s t, max s t)" for s t :: string
    by (auto simp: min_def max_def)
  show ?thesis unfolding link_ends_def order by auto
qed

lemma check_ends_Inr:
  "check_ends s t = Inr u \<longleftrightarrow>
     s \<noteq> [] \<and> (starts (CHR ''h'') s = Inr True \<longrightarrow> starts (CHR ''s'') t = Inr True)"
  by (cases s; cases t) (auto simp: check_ends_def starts_def assert_that_def)

lemma parse_link_Inr:
  assumes "parse_link sf raw = Inr l"
  shows "\<exists>a b. py_index raw 0 = Inr (PStr a) \<and> py_index raw 1 = Inr (PStr b)
     \<and> el_node1 l = min a b \<and> el_node2 l = max a b
     \<and> (is_host_link l \<longrightarrow> starts (CHR ''s'') (el_node2 l) = Inr True)"
proof -
  from assms obtain ends opts where "link_ends raw = Inr ends"
    and "check_ends (fst ends) (snd ends) = Inr ()"
    and l: "l = \<lparr>el_node1 = fst ends, el_node2 = snd ends, el_latency = fst opts,
      el_bandwidth = snd opts\<rparr>"
    by (auto simp: parse_link_def)
  then show ?thesis
    unfolding link_ends_Inr check_ends_Inr is_host_link_def by auto
qed

definition ends_of :: "ex_link \<Rightarrow> ex_event res" where
  "ends_of l =
     (if is_host_link l
      then ebind (parse_switch_node (el_node2 l)) (\<lambda>(sw, p).
             Inr (ELink (el_node1 l) sw None (Some p) (el_latency l) (el_bandwidth l)))
      else ebind (parse_switch_node (el_node1 l)) (\<lambda>(sw1, p1).
           ebind (parse_switch_node (el_node2 l)) (\<lambda>(sw2, p2).
             Inr (ELink sw1 sw2 (Some p1) (Some p2) (el_latency l) (el_bandwidth l)))))"

fun is_link :: "ex_event \<Rightarrow> bool" where
  "is_link (ELink _ _ _ _ _ _) = True"
| "is_link _ = False"

text \<open>A step that adds exactly the link event of its argument, besides other events.\<close>

lemma for_each_links:
  assumes "\<And>l es es'. f l es = (Inr (), es') \<Longrightarrow> P l \<Longrightarrow>
      \<exists>e. ends_of l = Inr e \<and> filter is_link es' = filter is_link es @ [e]"
  shows "for_each f ls es = (Inr (), es') \<Longrightarrow> \<forall>l \<in> set ls. P l \<Longrightarrow>
      \<exists>evs. emap ends_of ls = Inr evs \<and> filter is_link es' = filter is_link es @ evs"
proof (induction ls arbitrary: es)
  case (Cons l ls)
  from Cons.prems(1) obtain u where u: "f l es = (Inr (), u)" "for_each f ls u = (Inr (), es')"
    unfolding for_each_Cons_Inr by blast
  from Cons.prems(2) have "P l" "\<forall>l \<in> set ls. P l" by simp_all
  from assms [OF u(1) this(1)] obtain e where
    e: "ends_of l = Inr e" "filter is_link u = filter is_link es @ [e]" by blast
  from Cons.IH [OF u(2) \<open>\<forall>l \<in> set ls. P l\<close>] obtain evs where
    "emap ends_of ls = Inr evs" "filter is_link es' = filter is_link u @ evs" by blast
  with e show ?case by simp
qed simp

lemma add_host_link_adds:
  "add_host_link hosts l es = (Inr (), es') \<Longrightarrow> is_host_link l \<Longrightarrow>
     \<exists>e. ends_of l = Inr e \<and> filter is_link es' = filter is_link es @ [e]"
  by (auto simp: add_host_link_def ends_of_def act_def bnd_eq_Inr andthen_eq_Inr lift_def modify_def)

lemma add_switch_link_adds:
  "add_switch_link l es = (Inr (), es') \<Longrightarrow> \<not> is_host_link l \<Longrightarrow>
     \<exists>e. ends_of l = Inr e \<and> filter is_link es' = filter is_link es @ [e]"
  by (auto simp: add_switch_link_def ends_of_def act_def bnd_eq_Inr lift_def modify_def)

lemma add_switches_no_links:
  "keeps (\<lambda>s t. filter is_link s = filter is_link t)
     (bnd (lift (py_items v)) (for_each (add_ex_switch d)))"
  unfolding add_ex_switch_def
  by (intro step_relation.keeps_rules [OF step_relation_eq]) (simp add: keeps_def act_def modify_def)

section \<open>Sessions are closed\<close>

definition closed_session :: "session \<Rightarrow> bool" where
  "closed_session s =
     (case s_sw s of
        None \<Rightarrow> True
      | Some c \<Rightarrow> c_cancelled c \<and> (\<exists>dev. queue_iter (c_stream c) = [Arbitration dev 0 1]))"

definition sessions_closed :: "ex_event list \<Rightarrow> bool" where
  "sessions_closed es \<longleftrightarrow> (\<forall>n r s. Session n r s \<in> set es \<longrightarrow> closed_session s)"

interpretation closing: step_relation "\<lambda>s t. sessions_closed s \<longrightarrow> sessions_closed t"
  by (rule step_relation_inv)

lemma act_closed: "(\<And>n r s. e = Session n r s \<Longrightarrow> closed_session s) \<Longrightarrow>
    keeps (\<lambda>s t. sessions_closed s \<longrightarrow> sessions_closed t) (act e)"
  by (auto simp: keeps_def act_def modify_def sessions_closed_def)

lemma program_switch_closed:
  assumes "program_switch E addr dev conf wd rj empty_session = (r, s)"
  shows "closed_session s"
proof (cases conf)
  case (Inl e)
  with assms show ?thesis
    by (auto simp: program_switch_def bnd_def lift_def closed_session_def empty_session_def)
next
  case (Inr c)
  show ?thesis
  proof (cases "s_sw s")
    case (Some d)
    from switch_run_closed [OF assms [unfolded Inr] empty_session_sw Some] Some
    show ?thesis by (auto simp: closed_session_def)
  qed (simp add: closed_session_def)
qed

lemma program_one_closed: "keeps (\<lambda>s t. sessions_closed s \<longrightarrow> sessions_closed t) (program_one E q sd)"
proof -
  have log: "keeps (\<lambda>s t. sessions_closed s \<longrightarrow> sessions_closed t) (logger q msg)" for msg
    unfolding logger_def by (intro closing.keeps_rules act_closed) simp
  have net: "keeps (\<lambda>s t. sessions_closed s \<longrightarrow> sessions_closed t) (net_get n)" for n
    unfolding net_get_def by (intro closing.keeps_rules)
  have cli: "keeps (\<lambda>s t. sessions_closed s \<longrightarrow> sessions_closed t) (program_switch_cli E q n d)" for n d
    unfolding program_switch_cli_def by (intro closing.keeps_rules act_closed log net) simp
  have run: "keeps (\<lambda>s t. sessions_closed s \<longrightarrow> sessions_closed t)
      (case program_switch (re_ctl E) a dev conf wd rj empty_session of
         (r, s) \<Rightarrow> andthen (act (Session n r s)) (lift r))" for a dev conf wd rj n
    by (cases "program_switch (re_ctl E) a dev conf wd rj empty_session")
      (auto intro!: closing.keeps_rules act_closed program_switch_closed)
  have rt: "keeps (\<lambda>s t. sessions_closed s \<longrightarrow> sessions_closed t) (program_switch_p4runtime E q n d)" for n d
    unfolding program_switch_p4runtime_def by (intro closing.keeps_rules log net run)
  show ?thesis
    unfolding program_one_def by (intro closing.keeps_rules log cli rt)
qed

lemma act_not_stop: "e \<noteq> NetStop \<Longrightarrow> keeps (\<lambda>s t. (NetStop \<in> set s) = (NetStop \<in> set t)) (act e)"
  by (auto simp: keeps_def act_def modify_def)

section \<open>A small exercise\<close>

definition demo_exercise :: exercise where
  "demo_exercise =
     \<lparr>ex_hosts = PDict [(''h1'', PDict [(''ip'', PStr ''10.0.1.1/24''), (''mac'', PStr ''08:00:00:00:01:11''),
                         (''commands'', PList [PStr ''route add default''])])],
      ex_switches = PDict [(''s1'', PDict [(''runtime_json'', PStr ''s1.json'')]), (''s2'', PDict [])],
      ex_links = [\<lparr>el_node1 = ''h1'', el_node2 = ''s1-p1'', el_latency = ''0ms'', el_bandwidth = PNone\<rparr>,
                  \<lparr>el_node1 = ''s1-p2'', el_node2 = ''s2-p1'', el_latency = ''5ms'', el_bandwidth = PNone\<rparr>],
      ex_log_dir = ''logs'', ex_quiet = False\<rparr>"

definition demo_run_env :: run_env where
  "demo_run_env =
     \<lparr>re_ctl = demo_env, re_open = (\<lambda>f. Inr ()), re_json = (\<lambda>f. Inr demo_conf),
      re_obj = (\<lambda>n. \<lparr>so_grpc_port = Some 50051, so_thrift_port = None, so_device_id = 0\<rparr>),
      re_cwd = ''/w'', re_start = Inr (), re_cli = Inr ()\<rparr>"

section \<open>Properties\<close>

text \<open>Every parsed link has the endpoints of its description in alphabetical order, so that a
  host comes first; and a link that starts at a host ends at a switch.\<close>

theorem parse_links_ordered:
  assumes "parse_links sf v = Inr ls"
  shows "\<exists>raws. py_iter v = Inr raws \<and> list_all2 (\<lambda>raw l.
     \<exists>a b. py_index raw 0 = Inr (PStr a) \<and> py_index raw 1 = Inr (PStr b)
       \<and> el_node1 l = min a b \<and> el_node2 l = max a b
       \<and> (is_host_link l \<longrightarrow> starts (CHR ''s'') (el_node2 l) = Inr True)) raws ls"
proof -
  from assms obtain raws where raws: "py_iter v = Inr raws"
    and ls: "list_all2 (\<lambda>raw l. parse_link sf raw = Inr l) raws ls"
    by (auto simp: parse_links_def emap_Inr_iff)
  have "list_all2 (\<lambda>raw l.
     \<exists>a b. py_index raw 0 = Inr (PStr a) \<and> py_index raw 1 = Inr (PStr b)
       \<and> el_node1 l = min a b \<and> el_node2 l = max a b
       \<and> (is_host_link l \<longrightarrow> starts (CHR ''s'') (el_node2 l) = Inr True)) raws ls"
    by (rule list_all2_mono [OF ls]) (rule parse_link_Inr)
  with raws show ?thesis by blast
qed

theorem parse_links_ordered_witness:
  "parse_links (\<lambda>q. ''0.5'') (PList [PList [PStr ''s1-p1'', PStr ''h1'', PInt 5]])
     = Inr [\<lparr>el_node1 = ''h1'', el_node2 = ''s1-p1'', el_latency = ''5ms'', el_bandwidth = PNone\<rparr>]
   \<and> (\<exists>a b. ''h1'' = min a b \<and> ''s1-p1'' = max a b \<and> (a = ''s1-p1'' \<and> b = ''h1''))"
proof -
  let ?l = "\<lparr>el_node1 = ''h1'', el_node2 = ''s1-p1'', el_latency = ''5ms'', el_bandwidth = PNone\<rparr> :: ex_link"
  have run: "parse_links (\<lambda>q. ''0.5'') (PList [PList [PStr ''s1-p1'', PStr ''h1'', PInt 5]]) = Inr [?l]"
    by code_simp
  from parse_links_ordered [OF run] show ?thesis
    using run by (auto simp: py_nth_def from_end_def)
qed

text \<open>The port of a switch node \<open>name-pN\<close> is read back from its text; the name may contain
  any character but the dash.\<close>

theorem parse_switch_node_text:
  assumes "CHR ''-'' \<notin> set sw"
  shows "parse_switch_node (sw @ ''-p'' @ str_nat n) = Inr (sw, int n)"
proof -
  have "CHR ''-'' \<notin> set (str_nat n)"
    using str_nat_digits [of n] by (auto simp: is_digit_def)
  then have "split_on (CHR ''-'') (sw @ ''-p'' @ str_nat n) = [sw, CHR ''p'' # str_nat n]"
    using split_on_append_sep [OF assms, of "CHR ''p'' # str_nat n"]
    by (simp add: split_on_fresh)
  then show ?thesis by (simp add: parse_switch_node_def)
qed

theorem parse_switch_node_text_witness:
  "parse_switch_node (''s12'' @ ''-p'' @ str_nat 305) = Inr (''s12'', 305)"
  using parse_switch_node_text [of "''s12''" 305] by simp

text \<open>When the topology is built, the links handed to Mininet are exactly the parsed links,
  each once, with the ports their node names give: first those of hosts, then those between
  switches, in the order of the file.\<close>

theorem ExerciseTopo_links:
  assumes "ExerciseTopo hosts switches links log_dir [] = (Inr (), es)"
  shows "\<exists>hs ss. emap ends_of (filter is_host_link links) = Inr hs
     \<and> emap ends_of (filter (\<lambda>l. \<not> is_host_link l) links) = Inr ss
     \<and> filter is_link es = hs @ ss"
proof -
  let ?A = "bnd (lift (py_items switches)) (for_each (add_ex_switch log_dir))"
    and ?B = "for_each (add_host_link hosts) (filter is_host_link links)"
    and ?C = "for_each add_switch_link (filter (\<lambda>l. \<not> is_host_link l) links)"
  have "andthen ?A (andthen ?B ?C) [] = (Inr (), es)"
    using assms
    by (cases "emap (\<lambda>l. starts (CHR ''h'') (el_node1 l)) links")
      (simp_all add: ExerciseTopo_def bnd_def [of "lift _"] lift_def)
  then obtain u v where 1: "?A [] = (Inr (), u)" and 2: "?B u = (Inr (), v)"
    and 3: "?C v = (Inr (), es)"
    unfolding andthen_unit by blast
  from keepsD [OF add_switches_no_links 1] have u: "filter is_link u = []" by simp
  have "\<exists>hs. emap ends_of (filter is_host_link links) = Inr hs
      \<and> filter is_link v = filter is_link u @ hs"
    by (rule for_each_links [OF add_host_link_adds 2]) auto
  moreover have "\<exists>ss. emap ends_of (filter (\<lambda>l. \<not> is_host_link l) links) = Inr ss
      \<and> filter is_link es = filter is_link v @ ss"
    by (rule for_each_links [OF add_switch_link_adds 3]) auto
  ultimately show ?thesis unfolding u by fastforce
qed

theorem ExerciseTopo_links_witness:
  "\<exists>es hs ss. ExerciseTopo (ex_hosts demo_exercise) (ex_switches demo_exercise)
       (ex_links demo_exercise) ''logs'' [] = (Inr (), es)
     \<and> filter is_link es = hs @ ss \<and> length es = 5"
proof -
  let ?run = "ExerciseTopo (ex_hosts demo_exercise) (ex_switches demo_exercise)
       (ex_links demo_exercise) ''logs'' []"
  have "case ?run of (Inl _, _) \<Rightarrow> False | (Inr _, es) \<Rightarrow> length es = 5" by code_simp
  from run_ok_unit [OF this] obtain es where es: "?run = (Inr (), es)" "length es = 5" by blast
  from ExerciseTopo_links [OF es(1)] es show ?thesis by blast
qed

text \<open>Programming the switches leaves no connection open: however it ends, every session it
  ran has cancelled its stream after exactly one arbitration request.\<close>

theorem program_switches_closed:
  assumes "program_switches E x es0 = (r, es)" and "sessions_closed es0"
  shows "\<forall>n q s. Session n q s \<in> set es \<longrightarrow> closed_session s"
proof -
  have "keeps (\<lambda>s t. sessions_closed s \<longrightarrow> sessions_closed t) (program_switches E x)"
    unfolding program_switches_def by (intro closing.keeps_rules program_one_closed)
  from keepsD [OF this assms(1)] assms(2) show ?thesis by (simp add: sessions_closed_def)
qed

theorem program_switches_closed_witness:
  "\<exists>q s. Session ''s1'' q s \<in> set (snd (program_switches demo_run_env demo_exercise
       [ESwitch ''s1'' ''s1.log'' None None])) \<and> closed_session s"
proof -
  let ?es = "snd (program_switches demo_run_env demo_exercise [ESwitch ''s1'' ''s1.log'' None None])"
  obtain q s where "program_switch demo_env (''127.0.0.1:'' @ str_int 50051) 0 (Inr demo_conf) ''/w'' ''s1.json''
      empty_session = (q, s)" by force
  then have "Session ''s1'' q s \<in> set ?es"
    by (cases q) (simp_all add: program_switches_def program_one_def program_switch_p4runtime_def net_get_def
        logger_def act_def io_defs demo_run_env_def demo_exercise_def)
  moreover have "sessions_closed [ESwitch ''s1'' ''s1.log'' None None]"
    by (simp add: sessions_closed_def)
  ultimately show ?thesis
    using program_switches_closed [OF surjective_pairing] by blast
qed

text \<open>The network is stopped exactly when everything else went well: any exception, from the
  topology to the command line, leaves a started network running.\<close>

theorem run_exercise_stops:
  assumes "run_exercise E x [] = (r, es)"
  shows "NetStop \<in> set es \<longleftrightarrow> r = Inr ()"
proof -
  let ?R = "\<lambda>s t :: ex_event list. (NetStop \<in> set s) = (NetStop \<in> set t)"
  note rules = step_relation.keeps_rules [OF step_relation_eq [of "\<lambda>s. NetStop \<in> set s"]]
  have log: "keeps ?R (logger q m)" for q m
    unfolding logger_def by (intro rules act_not_stop) simp
  have topo: "keeps ?R (create_network x)"
    unfolding create_network_def ExerciseTopo_def add_ex_switch_def add_host_link_def
      add_switch_link_def case_prod_unfold
    by (intro rules log act_not_stop; simp)
  have net: "keeps ?R (net_get n)" for n
    unfolding net_get_def by (intro rules)
  have hosts: "keeps ?R (program_hosts x)"
    unfolding program_hosts_def program_host_def by (intro rules net act_not_stop) simp
  have p4: "keeps ?R (program_switch_p4runtime E q n d)" for q n d
    unfolding program_switch_p4runtime_def case_prod_unfold by (intro rules log net act_not_stop) simp
  have cli: "keeps ?R (program_switch_cli E q n d)" for q n d
    unfolding program_switch_cli_def by (intro rules log net act_not_stop) simp
  have sws: "keeps ?R (program_switches E x)"
    unfolding program_switches_def program_one_def by (intro rules log p4 cli)
  let ?before = "andthen (create_network x) (andthen (lift (re_start E)) (andthen (act NetStart)
    (andthen (program_hosts x) (andthen (program_switches E x) (andthen (lift (re_cli E)) (act CommandLine))))))"
  have "keeps ?R ?before"
    by (intro rules topo hosts sws act_not_stop) simp_all
  moreover obtain q u where q: "?before [] = (q, u)" by force
  ultimately have "NetStop \<notin> set u" using keepsD by fastforce
  moreover have "run_exercise E x [] = andthen ?before (act NetStop) []"
    by (simp add: run_exercise_def andthen_def bnd_def split: prod.splits sum.splits)
  ultimately show ?thesis
    using assms q by (cases q) (auto simp: andthen_def bnd_def act_def modify_def)
qed

theorem run_exercise_stops_witness:
  "NetStop \<in> set (snd (run_exercise demo_run_env
     (demo_exercise\<lparr>ex_hosts := PDict [], ex_switches := PDict [(''s1'', PDict [])], ex_links := []\<rparr>) []))"
    (is "_ \<in> set (snd (run_exercise _ ?x _))")
proof -
  have "fst (run_exercise demo_run_env ?x []) = Inr ()"
    by (simp add: run_exercise_def create_network_def ExerciseTopo_def add_ex_switch_def
        optional_item_def program_hosts_def program_switches_def program_one_def logger_def
        demo_exercise_def demo_run_env_def act_def io_defs)
  with run_exercise_stops [OF surjective_pairing, of demo_run_env ?x] show ?thesis by blast
qed

end
