(* ===== verification/Switch_Alloc.thy ===== *)
theory Switch_Alloc
  imports Py_IO
begin

text \<open>
  code/tutorials/utils/p4runtime\_switch.py, p4\_mininet.py and netstat.py: the BMv2
  switches of a Mininet network. The state is the class attributes: the next device id and the
  next gRPC and Thrift ports, shared by all switches, and the next Thrift port of each class that
  a call of \<open>configureP4Switch\<close> made, the calls being numbered. The host is the parameter \<open>sw_env\<close>: which files
  exist and which ports are taken.
\<close>

section \<open>State\<close>

record counters =
  k_device_id :: int
  k_grpc_port :: int
  k_thrift_port :: int
  k_class_ports :: "(nat \<times> int) list"

record sw_env =
  w_path_ok :: "string \<Rightarrow> bool"
  w_is_file :: "string \<Rightarrow> bool"
  w_listening :: "int list"

record switch_opts =
  so_name :: string
  so_sw_path :: "string option"
  so_json_path :: "string option"
  so_grpc_port :: "int option"
  so_thrift_port :: "int option"
  so_pcap_dump :: "string option"
  so_log_console :: bool
  so_device_id :: "int option"
  so_enable_debugger :: bool
  so_log_file :: "string option"
  so_cpu_port :: "int option"

record p4_switch =
  sw_name :: string
  sw_path :: string
  sw_json_path :: "string option"
  sw_grpc_port :: int
  sw_thrift_port :: "int option"
  sw_pcap_dump :: "string option"
  sw_log_console :: bool
  sw_device_id :: int
  sw_enable_debugger :: bool
  sw_log_file :: string
  sw_cpu_port :: "int option"

type_synonym 'a alloc_io = "(counters, 'a) io"

definition initial_counters :: counters where
  "initial_counters = \<lparr>k_device_id = 0, k_grpc_port = 50051, k_thrift_port = 9090, k_class_ports = []\<rparr>"

definition check_listening_on_port :: "int list \<Rightarrow> int \<Rightarrow> bool" where
  "check_listening_on_port listening port = (port \<in> set listening)"

definition default_log :: "string \<Rightarrow> string" where
  "default_log n = ''/tmp/p4s.'' @ n @ ''.log''"

definition nanomsg :: "int \<Rightarrow> string" where
  "nanomsg d = ''ipc:///tmp/bm-'' @ str_int d @ ''-log.ipc''"

section \<open>Allocation\<close>

text \<open>An explicit id raises the counter to that id, not past it.\<close>

definition take_device_id :: "int option \<Rightarrow> int alloc_io" where
  "take_device_id given =
     (case given of
        Some d \<Rightarrow> andthen (modify (\<lambda>k. k\<lparr>k_device_id := max (k_device_id k) d\<rparr>)) (ret d)
      | None \<Rightarrow> bnd (gets k_device_id) (\<lambda>d.
                  andthen (modify (\<lambda>k. k\<lparr>k_device_id := k_device_id k + 1\<rparr>)) (ret d)))"

definition take_grpc_port :: "int option \<Rightarrow> int alloc_io" where
  "take_grpc_port given =
     (case given of
        Some p \<Rightarrow> ret p
      | None \<Rightarrow> bnd (gets k_grpc_port) (\<lambda>p.
                  andthen (modify (\<lambda>k. k\<lparr>k_grpc_port := k_grpc_port k + 1\<rparr>)) (ret p)))"

definition take_thrift_port :: "int option \<Rightarrow> int alloc_io" where
  "take_thrift_port given =
     (case given of
        Some p \<Rightarrow> ret p
      | None \<Rightarrow> bnd (gets k_thrift_port) (\<lambda>p.
                  andthen (modify (\<lambda>k. k\<lparr>k_thrift_port := k_thrift_port k + 1\<rparr>)) (ret p)))"

text \<open>\<open>ConfiguredP4Switch.next_thrift_port\<close>: every call of \<open>configureP4Switch\<close> makes a class whose
  counter starts at 9090.\<close>

definition take_class_port :: "nat \<Rightarrow> int alloc_io" where
  "take_class_port cls =
     bnd (gets (\<lambda>k. case dict_get (k_class_ports k) cls of Some p \<Rightarrow> p | None \<Rightarrow> 9090)) (\<lambda>p.
     andthen (modify (\<lambda>k. k\<lparr>k_class_ports := dict_put cls (p + 1) (k_class_ports k)\<rparr>)) (ret p))"

text \<open>\<open>assert sw_path\<close>, \<open>pathCheck\<close> and the test of the JSON file: a missing program or file ends
  the process.\<close>

definition check_paths :: "sw_env \<Rightarrow> string option \<Rightarrow> string option \<Rightarrow> string res" where
  "check_paths W path json =
     (case path of
        Some (c # cs) \<Rightarrow>
          if \<not> w_path_ok W (c # cs) then Inl (SystemExit 1)
          else (case json of
                  Some j \<Rightarrow> if w_is_file W j then Inr (c # cs) else Inl (SystemExit 1)
                | None \<Rightarrow> Inr (c # cs))
      | _ \<Rightarrow> Inl (AssertionError ''sw_path''))"

definition P4RuntimeSwitch :: "sw_env \<Rightarrow> switch_opts \<Rightarrow> p4_switch alloc_io" where
  "P4RuntimeSwitch W opts =
     bnd (lift (check_paths W (so_sw_path opts) (so_json_path opts))) (\<lambda>path.
     bnd (take_grpc_port (so_grpc_port opts)) (\<lambda>grpc.
     bnd (take_thrift_port (so_thrift_port opts)) (\<lambda>thrift.
     if check_listening_on_port (w_listening W) grpc then raise (SystemExit 1)
     else bnd (take_device_id (so_device_id opts)) (\<lambda>dev.
       ret \<lparr>sw_name = so_name opts, sw_path = path, sw_json_path = so_json_path opts,
            sw_grpc_port = grpc, sw_thrift_port = Some thrift, sw_pcap_dump = so_pcap_dump opts,
            sw_log_console = so_log_console opts, sw_device_id = dev,
            sw_enable_debugger = so_enable_debugger opts,
            sw_log_file = (case so_log_file opts of Some f \<Rightarrow> f | None \<Rightarrow> default_log (so_name opts)),
            sw_cpu_port = so_cpu_port opts\<rparr>))))"

text \<open>\<open>P4Switch\<close> has no gRPC port (the field is 0 here and never read); its error message for a
  taken Thrift port names one, which raises \<open>AttributeError\<close>.\<close>

definition P4Switch :: "sw_env \<Rightarrow> switch_opts \<Rightarrow> p4_switch alloc_io" where
  "P4Switch W opts =
     andthen (lift (case so_json_path opts of
        None \<Rightarrow> Inl (AssertionError ''json_path'')
      | Some [] \<Rightarrow> Inl (AssertionError ''json_path'')
      | Some j \<Rightarrow> Inr ()))
    (bnd (lift (check_paths W (so_sw_path opts) (so_json_path opts))) (\<lambda>path.
     if (case so_thrift_port opts of Some p \<Rightarrow> check_listening_on_port (w_listening W) p | None \<Rightarrow> False)
     then raise (AttributeError ''grpc_port'')
     else bnd (take_device_id (so_device_id opts)) (\<lambda>dev.
       ret \<lparr>sw_name = so_name opts, sw_path = path, sw_json_path = so_json_path opts,
            sw_grpc_port = 0, sw_thrift_port = so_thrift_port opts, sw_pcap_dump = so_pcap_dump opts,
            sw_log_console = so_log_console opts, sw_device_id = dev,
            sw_enable_debugger = so_enable_debugger opts,
            sw_log_file = (case so_log_file opts of Some f \<Rightarrow> f | None \<Rightarrow> default_log (so_name opts)),
            sw_cpu_port = None\<rparr>)))"

text \<open>\<open>configureP4Switch\<close>: the class of a switch depends on its program's name; plain switches get
  their Thrift port from the configured class's own counter.\<close>

datatype switch_class = Runtime | Plain

definition configureP4Switch :: "string option \<Rightarrow> switch_class" where
  "configureP4Switch path =
     (case path of Some p \<Rightarrow> if sublist ''grpc'' p then Runtime else Plain | None \<Rightarrow> Plain)"

definition make_switch :: "sw_env \<Rightarrow> nat \<Rightarrow> switch_opts \<Rightarrow> p4_switch alloc_io" where
  "make_switch W cls opts =
     (case configureP4Switch (so_sw_path opts) of
        Runtime \<Rightarrow> P4RuntimeSwitch W opts
      | Plain \<Rightarrow> bnd (take_class_port cls) (\<lambda>p. P4Switch W (opts\<lparr>so_thrift_port := Some p\<rparr>)))"

section \<open>Starting\<close>

text \<open>The command line; an interface with an IP address is not a data port.\<close>

definition intf_args :: "(int \<times> string \<times> bool) list \<Rightarrow> string list" where
  "intf_args intfs =
     concat (map (\<lambda>(port, n, has_ip). if has_ip then [] else [''-i'', str_int port @ ''@'' @ n]) intfs)"

definition runtime_args :: "p4_switch \<Rightarrow> (int \<times> string \<times> bool) list \<Rightarrow> string list" where
  "runtime_args s intfs =
     [sw_path s] @ intf_args intfs
     @ (case sw_pcap_dump s of Some (c # d) \<Rightarrow> [''--pcap '' @ c # d] | _ \<Rightarrow> [])
     @ [''--nanolog'', nanomsg (sw_device_id s), ''--device-id'', str_int (sw_device_id s)]
     @ (case sw_json_path s of Some (c # j) \<Rightarrow> [c # j] | _ \<Rightarrow> [''--no-p4''])
     @ (if sw_enable_debugger s then [''--debugger''] else [])
     @ (if sw_log_console s then [''--log-console''] else [])
     @ (case sw_thrift_port s of
          Some p \<Rightarrow> if p \<noteq> 0 then [''--thrift-port '' @ str_int p] else [] | None \<Rightarrow> [])
     @ (if sw_grpc_port s \<noteq> 0
        then [''-- --grpc-server-addr 0.0.0.0:'' @ str_int (sw_grpc_port s)] else [])
     @ (case sw_cpu_port s of
          Some p \<Rightarrow> if p \<noteq> 0 then [''--cpu-port '' @ str_int p] else [] | None \<Rightarrow> [])"

definition plain_args :: "p4_switch \<Rightarrow> (int \<times> string \<times> bool) list \<Rightarrow> string list" where
  "plain_args s intfs =
     [sw_path s] @ intf_args intfs
     @ (case sw_pcap_dump s of Some (c # d) \<Rightarrow> [''--pcap '' @ c # d] | _ \<Rightarrow> [])
     @ (case sw_thrift_port s of
          Some p \<Rightarrow> if p \<noteq> 0 then [''--thrift-port'', str_int p] else [] | None \<Rightarrow> [])
     @ [''--nanolog'', nanomsg (sw_device_id s), ''--device-id'', str_int (sw_device_id s)]
     @ (case sw_json_path s of Some j \<Rightarrow> [j] | None \<Rightarrow> [])
     @ (if sw_enable_debugger s then [''--debugger''] else [])
     @ (if sw_log_console s then [''--log-console''] else [])"

text \<open>Waiting for the server: poll \<open>i\<close> sees whether the process lives and whether the port is
  served. The gRPC switch polls 20 times and then falls through (\<open>None\<close>); the plain switch polls
  for ever.\<close>

definition start_timeout :: nat where
  "start_timeout = 10"

fun poll_started :: "nat \<Rightarrow> nat \<Rightarrow> (nat \<Rightarrow> bool) \<Rightarrow> (nat \<Rightarrow> bool) \<Rightarrow> bool option" where
  "poll_started 0 i alive serving = None"
| "poll_started (Suc n) i alive serving =
     (if \<not> alive i then Some False
      else if serving i then Some True
      else poll_started n (Suc i) alive serving)"

definition check_runtime_started :: "(nat \<Rightarrow> bool) \<Rightarrow> (nat \<Rightarrow> bool) \<Rightarrow> bool option" where
  "check_runtime_started alive serving = poll_started (start_timeout * 2) 0 alive serving"

partial_function (option) check_plain_started ::
  "nat \<Rightarrow> (nat \<Rightarrow> bool) \<Rightarrow> (nat \<Rightarrow> bool) \<Rightarrow> bool option" where
  "check_plain_started i alive serving =
     (if \<not> alive i then Some False
      else if serving i then Some True
      else check_plain_started (Suc i) alive serving)"

definition start_runtime ::
  "p4_switch \<Rightarrow> (int \<times> string \<times> bool) list \<Rightarrow> (nat \<Rightarrow> bool) \<Rightarrow> (nat \<Rightarrow> bool) \<Rightarrow> string alloc_io" where
  "start_runtime s intfs alive serving =
     andthen (modify (\<lambda>k. k\<lparr>k_device_id := k_device_id k + 1\<rparr>))
       (if check_runtime_started alive serving = Some True
        then ret (join '' '' (runtime_args s intfs) @ '' >'' @ sw_log_file s)
        else raise (SystemExit 1))"

section \<open>Facts\<close>

lemma poll_started_iff:
  "poll_started n i alive serving = Some b \<longleftrightarrow>
     (\<exists>j < n. (\<forall>m < j. alive (i + m) \<and> \<not> serving (i + m))
        \<and> (if b then alive (i + j) \<and> serving (i + j) else \<not> alive (i + j)))"
proof (induction n arbitrary: i)
  case (Suc n)
  show ?case
  proof (cases "\<not> alive i \<or> serving i")
    case True
    then have "(\<exists>j < Suc n. (\<forall>m < j. alive (i + m) \<and> \<not> serving (i + m)) \<and> Q j) \<longleftrightarrow> Q 0" for Q
      by (metis Nat.add_0_right bot_nat_0.not_eq_extremum less_nat_zero_code zero_less_Suc)
    with True show ?thesis by (cases b) auto
  next
    case False
    have "(\<exists>j < Suc n. (\<forall>m < j. alive (i + m) \<and> \<not> serving (i + m))
          \<and> (if b then alive (i + j) \<and> serving (i + j) else \<not> alive (i + j)))
      \<longleftrightarrow> (\<exists>j < n. (\<forall>m < j. alive (Suc i + m) \<and> \<not> serving (Suc i + m))
          \<and> (if b then alive (Suc i + j) \<and> serving (Suc i + j) else \<not> alive (Suc i + j)))"
      using False by (simp add: Ex_less_Suc2 All_less_Suc2 split: if_splits)
    with False Suc.IH [of "Suc i"] show ?thesis by simp
  qed
qed simp

lemma poll_le_plain: "poll_started n i alive serving = Some b \<Longrightarrow> check_plain_started i alive serving = Some b"
proof (induction n arbitrary: i)
  case (Suc n)
  then show ?case by (subst check_plain_started.simps) (auto split: if_splits)
qed simp

lemma plain_le_poll:
  assumes "check_plain_started i alive serving = Some b"
  shows "\<exists>n. poll_started n i alive serving = Some b"
  using _ assms
proof (rule check_plain_started.raw_induct
    [where P = "\<lambda>i alive serving b. \<exists>n. poll_started n i alive serving = Some b"])
  fix f i b and alive serving :: "nat \<Rightarrow> bool"
  assume IH: "\<And>i alive serving b. f i alive serving = Some b \<Longrightarrow> \<exists>n. poll_started n i alive serving = Some b"
    and run: "(if \<not> alive i then Some False else if serving i then Some True
      else f (Suc i) alive serving) = Some b"
  show "\<exists>n. poll_started n i alive serving = Some b"
  proof (cases "\<not> alive i \<or> serving i")
    case True
    with run have "poll_started (Suc 0) i alive serving = Some b" by (auto split: if_splits)
    then show ?thesis by blast
  next
    case False
    with run IH obtain n where "poll_started n (Suc i) alive serving = Some b" by fastforce
    with False have "poll_started (Suc n) i alive serving = Some b" by simp
    then show ?thesis by blast
  qed
qed

text \<open>Building the switches of a network, in order.\<close>

fun create_all :: "sw_env \<Rightarrow> (nat \<times> switch_opts) list \<Rightarrow> p4_switch list alloc_io" where
  "create_all W [] = ret []"
| "create_all W (co # rest) =
     bnd (make_switch W (fst co) (snd co)) (\<lambda>s. bnd (create_all W rest) (\<lambda>ss. ret (s # ss)))"

definition default_ids :: "(nat \<times> switch_opts) list \<Rightarrow> p4_switch list \<Rightarrow> int list" where
  "default_ids optss ss = map (\<lambda>(co, s). sw_device_id s)
     (filter (\<lambda>(co, s). so_device_id (snd co) = None) (zip optss ss))"

lemma default_ids_Cons [simp]:
  "default_ids (co # optss) (s # ss)
    = (if so_device_id (snd co) = None then [sw_device_id s] else []) @ default_ids optss ss"
  by (simp add: default_ids_def)

lemma take_device_id_Inr:
  "take_device_id g k = (Inr d, k') \<Longrightarrow>
     k_device_id k \<le> k_device_id k' \<and> k_grpc_port k' = k_grpc_port k \<and> k_thrift_port k' = k_thrift_port k
     \<and> (g = None \<longrightarrow> d = k_device_id k \<and> k_device_id k' = d + 1) \<and> (\<forall>x. g = Some x \<longrightarrow> d = x)"
  by (auto simp: take_device_id_def io_defs split: option.splits)

lemma take_port_Inr:
  "take_grpc_port g k = (Inr p, k') \<Longrightarrow> k_device_id k' = k_device_id k"
  "take_thrift_port g k = (Inr p, k') \<Longrightarrow> k_device_id k' = k_device_id k"
  "take_class_port cls k = (Inr p, k') \<Longrightarrow> k_device_id k' = k_device_id k"
  by (auto simp: take_grpc_port_def take_thrift_port_def take_class_port_def io_defs split: option.splits)

lemma P4RuntimeSwitch_Inr:
  assumes "P4RuntimeSwitch W opts k = (Inr s, k')"
  obtains k1 where "k_device_id k1 = k_device_id k"
    "take_device_id (so_device_id opts) k1 = (Inr (sw_device_id s), k')"
  using assms
  by (auto simp: P4RuntimeSwitch_def bnd_eq_Inr lift_def ret_def raise_def split: if_splits
      dest!: take_port_Inr)

lemma P4Switch_Inr:
  assumes "P4Switch W opts k = (Inr s, k')"
  shows "take_device_id (so_device_id opts) k = (Inr (sw_device_id s), k')"
  using assms
  by (auto simp: P4Switch_def bnd_eq_Inr andthen_eq_Inr lift_def ret_def raise_def split: if_splits)

lemma make_switch_id:
  assumes "make_switch W cls opts k = (Inr s, k')"
  shows "k_device_id k \<le> k_device_id k'
     \<and> (so_device_id opts = None \<longrightarrow> sw_device_id s = k_device_id k \<and> k_device_id k' = sw_device_id s + 1)
     \<and> (\<forall>d. so_device_id opts = Some d \<longrightarrow> sw_device_id s = d)"
proof (cases "configureP4Switch (so_sw_path opts)")
  case Runtime
  with assms have "P4RuntimeSwitch W opts k = (Inr s, k')" by (simp add: make_switch_def)
  then obtain k1 where "k_device_id k1 = k_device_id k"
    "take_device_id (so_device_id opts) k1 = (Inr (sw_device_id s), k')" by (rule P4RuntimeSwitch_Inr)
  with take_device_id_Inr [OF this(2)] show ?thesis by simp
next
  case Plain
  with assms obtain p k1 where "take_class_port cls k = (Inr p, k1)"
      "P4Switch W (opts\<lparr>so_thrift_port := Some p\<rparr>) k1 = (Inr s, k')"
    by (auto simp: make_switch_def bnd_eq_Inr)
  with take_port_Inr(3) take_device_id_Inr [OF P4Switch_Inr [OF this(2)]] show ?thesis by fastforce
qed

lemma make_switch_raises_counter:
  assumes "make_switch W cls opts k = (Inr s, k')" and "so_device_id opts = Some d"
  shows "k_device_id k' = max (k_device_id k) d"
proof (cases "configureP4Switch (so_sw_path opts)")
  case Runtime
  with assms have "P4RuntimeSwitch W opts k = (Inr s, k')" by (simp add: make_switch_def)
  then obtain k1 where "k_device_id k1 = k_device_id k"
    "take_device_id (so_device_id opts) k1 = (Inr (sw_device_id s), k')" by (rule P4RuntimeSwitch_Inr)
  with assms(2) show ?thesis by (auto simp: take_device_id_def io_defs)
next
  case Plain
  with assms obtain p k1 where 1: "take_class_port cls k = (Inr p, k1)"
      "P4Switch W (opts\<lparr>so_thrift_port := Some p\<rparr>) k1 = (Inr s, k')"
    by (auto simp: make_switch_def bnd_eq_Inr)
  from P4Switch_Inr [OF 1(2)] take_port_Inr(3) [OF 1(1)] assms(2) show ?thesis
    by (auto simp: take_device_id_def io_defs)
qed

lemma create_all_ids:
  "create_all W optss k = (Inr ss, k') \<Longrightarrow>
     k_device_id k \<le> k_device_id k' \<and> sorted_wrt (<) (default_ids optss ss)
     \<and> (\<forall>d \<in> set (default_ids optss ss). k_device_id k \<le> d \<and> d < k_device_id k')"
proof (induction optss arbitrary: k ss)
  case (Cons co optss)
  from Cons.prems obtain s k1 rest where s: "make_switch W (fst co) (snd co) k = (Inr s, k1)"
    and rest: "create_all W optss k1 = (Inr rest, k')" and ss: "ss = s # rest"
    by (auto simp: bnd_eq_Inr ret_def)
  note IH = Cons.IH [OF rest] and id = make_switch_id [OF s]
  show ?case
  proof (cases "so_device_id (snd co)")
    case None
    with IH id show ?thesis unfolding ss by (auto simp: less_le_trans)
  next
    case (Some d)
    with IH id show ?thesis unfolding ss by auto
  qed
qed (simp add: default_ids_def ret_def)

definition demo_opts :: "int option \<Rightarrow> switch_opts" where
  "demo_opts d = \<lparr>so_name = ''s1'', so_sw_path = Some ''simple_switch_grpc'', so_json_path = None,
     so_grpc_port = None, so_thrift_port = None, so_pcap_dump = None, so_log_console = True,
     so_device_id = d, so_enable_debugger = False, so_log_file = None, so_cpu_port = None\<rparr>"

definition demo_plain :: switch_opts where
  "demo_plain = (demo_opts None)\<lparr>so_sw_path := Some ''simple_switch'', so_json_path := Some ''p.json''\<rparr>"

definition demo_host :: sw_env where
  "demo_host = \<lparr>w_path_ok = (\<lambda>p. True), w_is_file = (\<lambda>p. True), w_listening = [22, 8080]\<rparr>"

lemma make_plain_port:
  assumes "make_switch W cls opts k = (Inr s, k')" and "configureP4Switch (so_sw_path opts) = Plain"
  shows "sw_thrift_port s = Some (case dict_get (k_class_ports k) cls of Some p \<Rightarrow> p | None \<Rightarrow> 9090)
     \<and> k_class_ports k' = dict_put cls (the (sw_thrift_port s) + 1) (k_class_ports k)"
  using assms
  by (auto simp: make_switch_def P4Switch_def take_class_port_def take_device_id_def io_defs
      split: if_splits option.splits prod.splits sum.splits)

section \<open>Properties\<close>

text \<open>C20. Among switches that take their device id from the shared counter, built in any order
  and mixed with switches of explicit ids, no two get the same id.\<close>

theorem default_ids_distinct:
  assumes "create_all W optss k = (Inr ss, k')"
  shows "distinct (default_ids optss ss)"
  using create_all_ids [OF assms] by (simp add: strict_sorted_iff)

theorem default_ids_distinct_witness:
  "distinct (default_ids [(0, demo_opts None), (1, demo_opts (Some 0)), (2, demo_opts None)]
     (case fst (create_all demo_host [(0, demo_opts None), (1, demo_opts (Some 0)), (2, demo_opts None)] initial_counters)
      of Inr ss \<Rightarrow> ss | Inl _ \<Rightarrow> []))"
proof -
  let ?os = "[(0, demo_opts None), (1, demo_opts (Some 0)), (2, demo_opts None)]"
  have "case create_all demo_host ?os initial_counters of
      (Inl _, _) \<Rightarrow> False | (Inr _, k) \<Rightarrow> k_device_id k = 2" by code_simp
  from run_ok [OF this] obtain ss k where run: "create_all demo_host ?os initial_counters = (Inr ss, k)"
    by blast
  from default_ids_distinct [OF run] run show ?thesis by simp
qed

text \<open>An explicit id at or above the counter is handed out again: the next switch without one
  gets the same id.\<close>

theorem explicit_id_collides:
  assumes "make_switch W c1 o1 k = (Inr s1, k1)" and "make_switch W c2 o2 k1 = (Inr s2, k2)"
    and "so_device_id o1 = Some d" and "k_device_id k \<le> d" and "so_device_id o2 = None"
  shows "sw_device_id s1 = sw_device_id s2"
proof -
  from make_switch_id [OF assms(1)] assms(3) have "sw_device_id s1 = d" by simp
  moreover have "k_device_id k1 = d"
    using make_switch_raises_counter [OF assms(1,3)] assms(4) by simp
  moreover from make_switch_id [OF assms(2)] assms(5) have "sw_device_id s2 = k_device_id k1" by simp
  ultimately show ?thesis by simp
qed

theorem explicit_id_collides_witness:
  "\<exists>s1 s2 k1 k2. make_switch demo_host 0 (demo_opts (Some 3)) initial_counters = (Inr s1, k1)
     \<and> make_switch demo_host 0 (demo_opts None) k1 = (Inr s2, k2) \<and> sw_device_id s1 = sw_device_id s2"
proof -
  have "case make_switch demo_host 0 (demo_opts (Some 3)) initial_counters of
      (Inl _, _) \<Rightarrow> False | (Inr _, k) \<Rightarrow> k = \<lparr>k_device_id = 3, k_grpc_port = 50052, k_thrift_port = 9091, k_class_ports = []\<rparr>"
    by code_simp
  from run_ok [OF this] obtain s1 where s1: "make_switch demo_host 0 (demo_opts (Some 3)) initial_counters
      = (Inr s1, \<lparr>k_device_id = 3, k_grpc_port = 50052, k_thrift_port = 9091, k_class_ports = []\<rparr>)" by blast
  have "case make_switch demo_host 0 (demo_opts None)
        \<lparr>k_device_id = 3, k_grpc_port = 50052, k_thrift_port = 9091, k_class_ports = []\<rparr> of
      (Inl _, _) \<Rightarrow> False | (Inr _, k) \<Rightarrow> k_device_id k = 4"
    by code_simp
  from run_ok [OF this] obtain s2 k2 where s2: "make_switch demo_host 0 (demo_opts None)
      \<lparr>k_device_id = 3, k_grpc_port = 50052, k_thrift_port = 9091, k_class_ports = []\<rparr> = (Inr s2, k2)" by blast
  have "sw_device_id s1 = sw_device_id s2"
    by (rule explicit_id_collides [OF s1 s2, of 3])
      (simp_all add: demo_opts_def initial_counters_def)
  with s1 s2 show ?thesis by blast
qed

text \<open>Thrift ports of plain switches: two switches of one configured class get different
  ports, but switches of two classes made by separate calls both get 9090, although the helper
  promises every switch a port of its own.\<close>

theorem class_ports:
  assumes "make_switch W c1 o1 k = (Inr s1, k1)" and "make_switch W c2 o2 k1 = (Inr s2, k2)"
    and "configureP4Switch (so_sw_path o1) = Plain" and "configureP4Switch (so_sw_path o2) = Plain"
    and "dict_get (k_class_ports k) c1 = None" and "dict_get (k_class_ports k) c2 = None"
  shows "sw_thrift_port s1 = Some 9090
     \<and> sw_thrift_port s2 = Some (if c1 = c2 then 9091 else 9090)"
  using make_plain_port [OF assms(1,3)] make_plain_port [OF assms(2,4)] assms(5,6)
  by (simp add: alist.get_put)

theorem class_ports_witness:
  "\<exists>s1 s2 k1 k2. make_switch demo_host 0 demo_plain initial_counters = (Inr s1, k1)
     \<and> make_switch demo_host 1 demo_plain k1 = (Inr s2, k2) \<and> sw_thrift_port s1 = sw_thrift_port s2"
proof -
  have "case make_switch demo_host 0 demo_plain initial_counters of
      (Inl _, _) \<Rightarrow> False | (Inr _, k) \<Rightarrow> k = initial_counters\<lparr>k_device_id := 1, k_class_ports := [(0, 9091)]\<rparr>"
    by code_simp
  from run_ok [OF this] obtain s1 where s1: "make_switch demo_host 0 demo_plain initial_counters
      = (Inr s1, initial_counters\<lparr>k_device_id := 1, k_class_ports := [(0, 9091)]\<rparr>)" by blast
  have "case make_switch demo_host 1 demo_plain (initial_counters\<lparr>k_device_id := 1, k_class_ports := [(0, 9091)]\<rparr>) of
      (Inl _, _) \<Rightarrow> False | (Inr _, k) \<Rightarrow> k_device_id k = 2"
    by code_simp
  from run_ok [OF this] obtain s2 k2 where s2: "make_switch demo_host 1 demo_plain
      (initial_counters\<lparr>k_device_id := 1, k_class_ports := [(0, 9091)]\<rparr>) = (Inr s2, k2)" by blast
  have "sw_thrift_port s1 = Some 9090 \<and> sw_thrift_port s2 = Some (if (0 :: nat) = 1 then 9091 else 9090)"
    by (rule class_ports [OF s1 s2])
      (simp_all add: demo_plain_def configureP4Switch_def initial_counters_def, code_simp+)
  with s1 s2 show ?thesis by auto
qed

text \<open>Waiting for a switch: the plain switch's loop ends exactly when the process dies or
  serves its port at some poll, and the gRPC switch's 20 polls, when they decide, decide the
  same.\<close>

theorem check_started_agree:
  "(check_plain_started 0 alive serving = None \<longleftrightarrow> (\<forall>i. alive i \<and> \<not> serving i))
   \<and> (check_runtime_started alive serving = None \<longleftrightarrow> (\<forall>i < 20. alive i \<and> \<not> serving i))
   \<and> (\<forall>b. check_runtime_started alive serving = Some b \<longrightarrow> check_plain_started 0 alive serving = Some b)"
proof (intro conjI)
  have never: "poll_started n 0 alive serving = None \<longleftrightarrow> (\<forall>i < n. alive i \<and> \<not> serving i)" for n
  proof -
    have "(\<exists>b. poll_started n 0 alive serving = Some b) \<longleftrightarrow> (\<exists>i < n. \<not> alive i \<or> serving i)"
      (is "?l \<longleftrightarrow> ?r")
    proof
      assume ?r
      then obtain i where "i < n \<and> (\<not> alive i \<or> serving i)" by blast
      define j where "j = (LEAST i. i < n \<and> (\<not> alive i \<or> serving i))"
      have j: "j < n \<and> (\<not> alive j \<or> serving j)"
        unfolding j_def by (rule LeastI) fact
      have "\<forall>m < j. alive m \<and> \<not> serving m"
        using not_less_Least j unfolding j_def by (metis (no_types, lifting) less_trans)
      with j have "poll_started n 0 alive serving = Some (alive j)"
        unfolding poll_started_iff by (intro exI [of _ j]) auto
      then show ?l by blast
    next
      assume ?l
      then obtain b where "poll_started n 0 alive serving = Some b" by blast
      then show ?r unfolding poll_started_iff by (auto split: if_splits)
    qed
    then show ?thesis by (metis not_None_eq)
  qed
  show "check_runtime_started alive serving = None \<longleftrightarrow> (\<forall>i < 20. alive i \<and> \<not> serving i)"
    using never [of 20] by (simp add: check_runtime_started_def start_timeout_def)
  show "check_plain_started 0 alive serving = None \<longleftrightarrow> (\<forall>i. alive i \<and> \<not> serving i)"
    using never plain_le_poll [of 0 alive serving] poll_le_plain [of _ 0 alive serving]
    by (metis lessI not_None_eq)
  show "\<forall>b. check_runtime_started alive serving = Some b \<longrightarrow> check_plain_started 0 alive serving = Some b"
    using poll_le_plain by (simp add: check_runtime_started_def)
qed

theorem check_started_agree_witness:
  "check_runtime_started (\<lambda>i. i < 9) (\<lambda>i. i = 4) = Some True
   \<and> check_plain_started 0 (\<lambda>i. i < 9) (\<lambda>i. i = 4) = Some True"
proof -
  have "check_runtime_started (\<lambda>i. i < 9) (\<lambda>i. i = 4) = Some True" by code_simp
  with check_started_agree [of "\<lambda>i. i < 9" "\<lambda>i. i = 4"] show ?thesis by blast
qed

end
