(* ===== verification/Remote.thy ===== *)
theory Remote
  imports Py_IO
begin

text \<open>
  experiments/scripts/experiment.py, the remote operations: running and spawning ssh and scp
  commands, with the handling of their failures. The state is the trace of what was done to the
  outside world, in order. How the world answers is the parameter \<open>env\<close>: every answer may depend
  on the whole trace before it. What the scripts print is not recorded.
\<close>

section \<open>Actions and the world\<close>

datatype outcome = Success | ExitCode int string | Breaks py_error

datatype action =
    Run "string list"
  | RunShell string
  | Spawn "string list"
  | WaitFor nat
  | PollProc nat
  | KillProc nat
  | TermProc nat
  | WriteFile string string
  | AppendFile string string
  | ReadFile string
  | MakeDir string
  | MoveFile string string
  | Sleep pyval
  | RandInt int int
  | SwitchExec string string
  | SwitchPut string string string
  | SwitchConnect string string string
  | SwitchClose string

type_synonym trace = "action list"
type_synonym 'a act_io = "(trace, 'a) io"

record env =
  en_run :: "trace \<Rightarrow> action \<Rightarrow> outcome"
  en_spawn :: "trace \<Rightarrow> string list \<Rightarrow> nat res"
  en_running :: "trace \<Rightarrow> nat \<Rightarrow> bool"
  en_random :: "trace \<Rightarrow> int \<Rightarrow> int \<Rightarrow> int"
  en_read :: "trace \<Rightarrow> string \<Rightarrow> string res"
  en_write :: "trace \<Rightarrow> string \<Rightarrow> unit res"
  en_move :: "trace \<Rightarrow> string \<Rightarrow> string \<Rightarrow> unit res"
  en_listdir :: "trace \<Rightarrow> string \<Rightarrow> string list res"
  en_glob :: "trace \<Rightarrow> string \<Rightarrow> string list"
  en_isdir :: "trace \<Rightarrow> string \<Rightarrow> bool"
  en_toml :: "string \<Rightarrow> pyval res"
  en_json :: "string \<Rightarrow> pyval res"
  en_dump_yaml :: "pyval \<Rightarrow> string"
  en_dump_json :: "pyval \<Rightarrow> string"
  en_switch :: "trace \<Rightarrow> action \<Rightarrow> unit res"
  en_float :: "rat \<Rightarrow> string"
  en_parse_float :: "string \<Rightarrow> rat res"
  en_exists :: "trace \<Rightarrow> string \<Rightarrow> bool"
  en_size :: "trace \<Rightarrow> string \<Rightarrow> int res"
  en_abspath :: "string \<Rightarrow> string"
  en_timestamp :: string
  en_uuid :: "trace \<Rightarrow> string"
  en_base :: string
  en_home :: "string \<Rightarrow> string"

section \<open>Primitive actions\<close>

definition perform :: "action \<Rightarrow> unit act_io" where
  "perform a = modify (\<lambda>tr. tr @ [a])"

text \<open>\<open>subprocess.run(argv, check=True)\<close>: the outcome, seen as a value.\<close>

definition run_action :: "env \<Rightarrow> action \<Rightarrow> outcome act_io" where
  "run_action E a tr = (Inr (en_run E tr a), tr @ [a])"

text \<open>\<open>except CalledProcessError\<close> and \<open>except Exception\<close> both return \<open>False\<close>.\<close>

definition run_checked :: "env \<Rightarrow> string list \<Rightarrow> bool act_io" where
  "run_checked E argv = bnd (run_action E (Run argv)) (\<lambda>o'. ret (o' = Success))"

text \<open>Only \<open>CalledProcessError\<close> is caught; any other exception goes on.\<close>

definition run_or_raise :: "env \<Rightarrow> string list \<Rightarrow> bool act_io" where
  "run_or_raise E argv =
     bnd (run_action E (Run argv)) (\<lambda>o'. case o' of
       Success \<Rightarrow> ret True | ExitCode c err \<Rightarrow> ret False | Breaks e \<Rightarrow> raise e)"

definition spawn :: "env \<Rightarrow> string list \<Rightarrow> nat act_io" where
  "spawn E argv tr = (en_spawn E tr argv, tr @ [Spawn argv])"

definition write_file :: "env \<Rightarrow> string \<Rightarrow> string \<Rightarrow> unit act_io" where
  "write_file E path content tr = (en_write E tr path, tr @ [WriteFile path content])"

definition append_file :: "env \<Rightarrow> string \<Rightarrow> string \<Rightarrow> unit act_io" where
  "append_file E path content tr = (en_write E tr path, tr @ [AppendFile path content])"

definition read_file :: "env \<Rightarrow> string \<Rightarrow> string act_io" where
  "read_file E path tr = (en_read E tr path, tr @ [ReadFile path])"

definition random_int :: "env \<Rightarrow> int \<Rightarrow> int \<Rightarrow> int act_io" where
  "random_int E a b tr = (Inr (en_random E tr a b), tr @ [RandInt a b])"

definition make_dir :: "env \<Rightarrow> string \<Rightarrow> unit act_io" where
  "make_dir E path tr = (en_write E tr path, tr @ [MakeDir path])"

definition move_file :: "env \<Rightarrow> string \<Rightarrow> string \<Rightarrow> unit act_io" where
  "move_file E src tgt tr = (en_move E tr src tgt, tr @ [MoveFile src tgt])"

definition sleep :: "pyval \<Rightarrow> unit act_io" where
  "sleep v = perform (Sleep v)"

text \<open>Looking at the world leaves no trace: \<open>os.listdir\<close>, \<open>glob\<close>, \<open>os.path.isdir\<close>, \<open>os.path.exists\<close>,
  \<open>os.path.getsize\<close>, \<open>uuid.uuid4\<close>.\<close>

definition look :: "(trace \<Rightarrow> 'a) \<Rightarrow> 'a act_io" where
  "look f tr = (Inr (f tr), tr)"

definition look_res :: "(trace \<Rightarrow> 'a res) \<Rightarrow> 'a act_io" where
  "look_res f tr = (f tr, tr)"

text \<open>\<open>process.poll() is None\<close>, \<open>process.kill()\<close>, \<open>process.wait()\<close>.\<close>

definition still_running :: "env \<Rightarrow> nat \<Rightarrow> bool act_io" where
  "still_running E pid tr = (Inr (en_running E tr pid), tr @ [PollProc pid])"

section \<open>Command lines\<close>

definition ssh_options :: "string \<Rightarrow> string list" where
  "ssh_options ssh_key =
     [''-i'', ssh_key, ''-o'', ''StrictHostKeyChecking=no'', ''-o'', ''UserKnownHostsFile=/dev/null'']"

definition ssh :: "string \<Rightarrow> string \<Rightarrow> string \<Rightarrow> string \<Rightarrow> string list" where
  "ssh ssh_key user ip command = [''ssh''] @ ssh_options ssh_key @ [user @ ''@'' @ ip, command]"

definition scp :: "string \<Rightarrow> string \<Rightarrow> string \<Rightarrow> string list" where
  "scp ssh_key source target = [''scp''] @ ssh_options ssh_key @ [source, target]"

section \<open>Starting and killing programs\<close>

definition kill_process :: "env \<Rightarrow> string \<Rightarrow> string \<Rightarrow> string \<Rightarrow> string \<Rightarrow> unit act_io" where
  "kill_process E process_name ssh_key ssh_user ip =
     andthen (spawn E (ssh ssh_key ssh_user ip (''killall '' @ process_name))) (ret ())"

text \<open>Both handlers return a name that the function never binds.\<close>

definition execute_arbitrary_remote_command ::
  "env \<Rightarrow> string \<Rightarrow> string \<Rightarrow> string \<Rightarrow> string \<Rightarrow> nat act_io" where
  "execute_arbitrary_remote_command E ip ssh_user ssh_key remote_command =
     try_except (spawn E (ssh ssh_key ssh_user ip remote_command)) (\<lambda>e. raise (NameError ''log_filename''))"

definition remote_log_name :: "string \<Rightarrow> string \<Rightarrow> nat \<Rightarrow> string" where
  "remote_log_name prfx ip exp_index = prfx @ ''_'' @ ip @ ''_'' @ str_nat exp_index @ ''.txt''"

definition execute_remote_command ::
  "env \<Rightarrow> string \<Rightarrow> string \<Rightarrow> string \<Rightarrow> string \<Rightarrow> string \<Rightarrow> nat \<Rightarrow> string \<Rightarrow> (nat option \<times> string) act_io" where
  "execute_remote_command E ip program_path config_filename ssh_key ssh_user exp_index prfx =
     (let log_filename = remote_log_name prfx ip exp_index;
          remote_command = program_path @ '' ~/'' @ config_filename @ '' > ~/'' @ log_filename @ '' &''
      in try_except
           (bnd (spawn E (ssh ssh_key ssh_user ip remote_command)) (\<lambda>pid. ret (Some pid, log_filename)))
           (\<lambda>e. ret (None, log_filename)))"

section \<open>Files\<close>

definition transfer_file ::
  "env \<Rightarrow> string \<Rightarrow> string \<Rightarrow> string \<Rightarrow> string \<Rightarrow> string option \<Rightarrow> string option \<Rightarrow> bool act_io" where
  "transfer_file E local_path remote_ip remote_user ssh_key remote_filename remote_filepath =
     (let fname = (case remote_filename of Some (c # cs) \<Rightarrow> c # cs | _ \<Rightarrow> basename local_path);
          path = (case remote_filepath of Some (c # cs) \<Rightarrow> (c # cs) @ ''/'' @ fname | _ \<Rightarrow> ''~/'' @ fname)
      in run_checked E (scp ssh_key local_path (remote_user @ ''@'' @ remote_ip @ '':'' @ path)))"

definition copy_results_back ::
  "env \<Rightarrow> string \<Rightarrow> string \<Rightarrow> string \<Rightarrow> string \<Rightarrow> string \<Rightarrow> bool act_io" where
  "copy_results_back E remote_ip remote_user ssh_key json_name_prefix local_target_dir =
     run_checked E (scp ssh_key
       (remote_user @ ''@'' @ remote_ip @ '':~/'' @ json_name_prefix @ ''*.json'') local_target_dir)"

definition copy_log_file_back ::
  "env \<Rightarrow> string \<Rightarrow> string \<Rightarrow> string \<Rightarrow> string \<Rightarrow> string \<Rightarrow> string \<Rightarrow> bool act_io" where
  "copy_log_file_back E remote_ip remote_user ssh_key log_filename local_target_dir remote_dir =
     run_checked E (scp ssh_key (remote_user @ ''@'' @ remote_ip @ '':'' @ remote_dir @ ''/'' @ log_filename)
       (path_join local_target_dir log_filename))"

text \<open>Cleaning up reports success whatever happened.\<close>

definition cleanup_remote_json_files ::
  "env \<Rightarrow> string \<Rightarrow> string \<Rightarrow> string \<Rightarrow> string \<Rightarrow> bool act_io" where
  "cleanup_remote_json_files E ip ssh_key ssh_user json_name_prefix =
     andthen (run_checked E (ssh ssh_key ssh_user ip (''rm -f ~/'' @ json_name_prefix @ ''*.json''))) (ret True)"

definition cleanup_remote_yaml_files :: "env \<Rightarrow> string list \<Rightarrow> string \<Rightarrow> string \<Rightarrow> unit act_io" where
  "cleanup_remote_yaml_files E hosts ssh_key ssh_user =
     for_each (\<lambda>ip. andthen (run_action E (RunShell
         (''ssh -i '' @ ssh_key @ '' -o StrictHostKeyChecking=no -o UserKnownHostsFile=/dev/null ''
          @ ssh_user @ ''@'' @ ip @ '' '' @ [char_of (34 :: nat)] @ ''rm -f ~/*.yaml'' @ [char_of (34 :: nat)])))
       (ret ())) hosts"

section \<open>Synchronous commands\<close>

definition run_remote_command_sync :: "env \<Rightarrow> string \<Rightarrow> string \<Rightarrow> string \<Rightarrow> string \<Rightarrow> bool act_io" where
  "run_remote_command_sync E ip command ssh_key ssh_user = run_checked E (ssh ssh_key ssh_user ip command)"

definition kill_remote_process :: "env \<Rightarrow> string \<Rightarrow> string \<Rightarrow> string \<Rightarrow> string \<Rightarrow> bool act_io" where
  "kill_remote_process E ip process_name ssh_key ssh_user =
     run_remote_command_sync E ip (''sudo pkill '' @ process_name) ssh_key ssh_user"

definition run_setup_script :: "env \<Rightarrow> string \<Rightarrow> string \<Rightarrow> string \<Rightarrow> string \<Rightarrow> bool act_io" where
  "run_setup_script E ip setup_script_path ssh_key ssh_user =
     run_checked E (ssh ssh_key ssh_user ip setup_script_path)"

definition compilation_dir :: "env \<Rightarrow> string" where
  "compilation_dir E = en_base E @ ''/pringles/build''"

definition run_compile_command :: "env \<Rightarrow> string \<Rightarrow> string \<Rightarrow> string \<Rightarrow> bool act_io" where
  "run_compile_command E ip ssh_key ssh_user =
     run_checked E (ssh ssh_key ssh_user ip (''cd '' @ compilation_dir E @ '' && meson compile''))"

section \<open>Profiling\<close>

definition perf_record :: "string \<Rightarrow> nat \<Rightarrow> string" where
  "perf_record binary_name duration =
     ''sudo perf record -F 99 -g -t $(pgrep '' @ binary_name
     @ '' | xargs -I {} ls /proc/{}/task | tr ''
     @ [char_of (39 :: nat), char_of (92 :: nat), CHR ''n'', char_of (39 :: nat)] @ '' ''
     @ [char_of (39 :: nat), CHR '','', char_of (39 :: nat)] @ '' | sed ''
     @ [char_of (39 :: nat)] @ ''s/,$//'' @ [char_of (39 :: nat)]
     @ '') -o /tmp/perf.data -- sleep '' @ str_nat duration @ '' &''"

definition run_perf :: "env \<Rightarrow> string \<Rightarrow> string list \<Rightarrow> nat \<Rightarrow> string \<Rightarrow> string \<Rightarrow> unit act_io" where
  "run_perf E binary_name hosts duration username key =
     for_each (\<lambda>host. andthen (execute_arbitrary_remote_command E host username key
                (perf_record binary_name duration)) (ret ())) hosts"

definition perf_name :: "string \<Rightarrow> nat \<Rightarrow> string" where
  "perf_name binary_name i = binary_name @ ''_'' @ str_nat i @ ''.perf''"

text \<open>The listing is run without \<open>check\<close>: a non-zero exit is no exception, a failure to run is.\<close>

definition get_perf_files :: "env \<Rightarrow> string \<Rightarrow> string list \<Rightarrow> string \<Rightarrow> string \<Rightarrow> string \<Rightarrow> unit act_io" where
  "get_perf_files E binary_name hosts username key target_dir =
     for_each (\<lambda>(i, host).
       andthen (execute_arbitrary_remote_command E host username key
         (''sudo perf script -i /tmp/perf.data > '' @ perf_name binary_name i))
      (bnd (run_action E (RunShell (''ssh -i '' @ key @ '' '' @ username @ ''@'' @ host @ '' ''
              @ [char_of (39 :: nat)] @ ''ls -lh /users/murray22/'' @ perf_name binary_name i
              @ [char_of (39 :: nat)])))
        (\<lambda>o'. case o' of
           Breaks e \<Rightarrow> raise e
         | _ \<Rightarrow> andthen (perform (Sleep (PInt 1)))
                 (andthen (copy_log_file_back E host username key (perf_name binary_name i) target_dir ''~'')
                   (ret ()))))) (enumerate 0 hosts)"

section \<open>Facts\<close>

lemma run_checked_eq:
  "run_checked E argv tr = (Inr (en_run E tr (Run argv) = Success), tr @ [Run argv])"
  by (simp add: run_checked_def run_action_def bnd_def ret_def)

lemmas remote_defs = transfer_file_def copy_results_back_def copy_log_file_back_def
  run_remote_command_sync_def kill_remote_process_def run_setup_script_def run_compile_command_def

text \<open>The trace only grows.\<close>

interpretation tracing: step_relation "\<lambda>s t :: trace. prefix s t"
  by (rule step_relation_prefix [of "\<lambda>s. s"])

lemma primitive_grows:
  "keeps prefix (run_action E a)" "keeps prefix (spawn E argv)" "keeps prefix (perform a)"
  "keeps prefix (write_file E p c)" "keeps prefix (read_file E p)" "keeps prefix (random_int E lo hi)"
  by (simp_all add: keeps_def run_action_def spawn_def perform_def modify_def write_file_def
      read_file_def random_int_def)

lemma checked_grows: "keeps prefix (run_checked E argv)"
  by (simp add: keeps_def run_checked_eq)

lemma total_run_checked [total_intros, simp]: "total (run_checked E argv)"
  by (auto simp: total_def run_checked_eq)

lemma total_remote_ops [total_intros, simp]:
  "total (transfer_file E p ip user k fn fp)"
  "total (copy_results_back E ip user k n d)"
  "total (copy_log_file_back E ip user k l d rd)"
  "total (run_remote_command_sync E ip c k user)"
  "total (kill_remote_process E ip n k user)"
  "total (run_setup_script E ip p k user)"
  "total (run_compile_command E ip k user)"
  by (simp_all add: remote_defs Let_def)

lemma total_execute_remote [total_intros, simp]: "total (execute_remote_command E ip p c k u i x)"
  unfolding execute_remote_command_def Let_def by (intro total_intros total_basic)

section \<open>Which actions a statement can do\<close>

text \<open>All that was added to the trace satisfies \<open>P\<close>.\<close>

definition adds :: "(action \<Rightarrow> bool) \<Rightarrow> trace \<Rightarrow> trace \<Rightarrow> bool" where
  "adds P s t \<longleftrightarrow> (\<exists>acts. t = s @ acts \<and> (\<forall>a \<in> set acts. P a))"

lemma step_relation_adds: "step_relation (adds P)"
proof
  show "adds P s s" for s by (simp add: adds_def)
  show "adds P s u" if "adds P s t" "adds P t u" for s t u
  proof -
    from that obtain xs ys where "t = s @ xs" "u = t @ ys" "\<forall>a \<in> set xs. P a" "\<forall>a \<in> set ys. P a"
      unfolding adds_def by blast
    then show ?thesis unfolding adds_def by (intro exI [of _ "xs @ ys"]) auto
  qed
qed

named_theorems adds_intros "statements that add only allowed actions"

lemma adds_primitive [adds_intros]:
  "P a \<Longrightarrow> keeps (adds P) (run_action E a)"
  "P a \<Longrightarrow> keeps (adds P) (perform a)"
  "P (Spawn argv) \<Longrightarrow> keeps (adds P) (spawn E argv)"
  "P (WriteFile p c) \<Longrightarrow> keeps (adds P) (write_file E p c)"
  "P (AppendFile p c) \<Longrightarrow> keeps (adds P) (append_file E p c)"
  "P (ReadFile p) \<Longrightarrow> keeps (adds P) (read_file E p)"
  "P (RandInt lo hi) \<Longrightarrow> keeps (adds P) (random_int E lo hi)"
  "P (MakeDir p) \<Longrightarrow> keeps (adds P) (make_dir E p)"
  "P (MoveFile p q) \<Longrightarrow> keeps (adds P) (move_file E p q)"
  "P (Sleep v) \<Longrightarrow> keeps (adds P) (sleep v)"
  "P (PollProc pid) \<Longrightarrow> keeps (adds P) (still_running E pid)"
  "P (Run argv) \<Longrightarrow> keeps (adds P) (run_checked E argv)"
  "keeps (adds P) (look f)" "keeps (adds P) (look_res g)"
  by (auto simp: keeps_def adds_def run_action_def perform_def modify_def spawn_def write_file_def
      append_file_def read_file_def random_int_def make_dir_def move_file_def sleep_def still_running_def
      run_checked_eq look_def look_res_def)

lemma adds_remote [adds_intros]:
  assumes "\<And>argv. P (Run argv)"
  shows "keeps (adds P) (transfer_file E p ip user k fn fp)"
    "keeps (adds P) (copy_results_back E ip user k n d)"
    "keeps (adds P) (copy_log_file_back E ip user k l d rd)"
    "keeps (adds P) (run_remote_command_sync E ip c k user)"
    "keeps (adds P) (kill_remote_process E ip n k user)"
  unfolding remote_defs Let_def by (intro adds_intros assms)+

lemma adds_spawning [adds_intros]:
  assumes "\<And>argv. P (Spawn argv)"
  shows "keeps (adds P) (kill_process E n k user ip)"
    "keeps (adds P) (execute_arbitrary_remote_command E ip user k c)"
    "keeps (adds P) (execute_remote_command E ip prog cf k user i x)"
  unfolding kill_process_def execute_arbitrary_remote_command_def execute_remote_command_def Let_def
  by (intro step_relation.keeps_rules [OF step_relation_adds] adds_intros assms)+

end
