(* ===== verification/Setup_Nodes.thy ===== *)
theory Setup_Nodes
  imports Remote
begin

text \<open>
  experiments/scripts/experiment.py, installing the systems Pringles is compared with:
  \<open>setup\_kafka\_nodes\<close> and \<open>setup\_scalog\_nodes\<close>. Both are fail-stop: they return \<open>True\<close> only
  when every command succeeded and do nothing after a command that failed.
\<close>

section \<open>Steps that may fail\<close>

text \<open>\<open>if not step: return False\<close>, and a loop of such steps.\<close>

definition if_ok :: "bool act_io \<Rightarrow> bool act_io \<Rightarrow> bool act_io" where
  "if_ok m n = bnd m (\<lambda>ok. if ok then n else ret False)"

fun each_ok :: "('b \<Rightarrow> bool act_io) \<Rightarrow> 'b list \<Rightarrow> bool act_io" where
  "each_ok f [] = ret True"
| "each_ok f (x # xs) = if_ok (f x) (each_ok f xs)"

section \<open>Kafka\<close>

definition java_install_cmd :: string where
  "java_install_cmd =
     ''if ! command -v java &>/dev/null; then sudo apt-get update -qq && sudo apt-get install -y -qq default-jre-headless; fi''"

definition kafka_install_cmd :: "string \<Rightarrow> string \<Rightarrow> string" where
  "kafka_install_cmd kafka_dir download_url =
     ''if [ ! -d '' @ kafka_dir @ '' ]; then wget '' @ download_url @ '' -O /tmp/kafka.tgz && ''
     @ ''sudo mkdir -p '' @ kafka_dir @ '' && sudo tar -xzf /tmp/kafka.tgz -C '' @ kafka_dir
     @ '' --strip-components=1 && sudo chmod -R 755 '' @ kafka_dir @ '' && rm /tmp/kafka.tgz; fi''"

definition plugins_sbt :: string where
  "plugins_sbt = ''addSbtPlugin('' @ [char_of (34 :: nat)] @ ''com.eed3si9n'' @ [char_of (34 :: nat)] @ '' % ''
     @ [char_of (34 :: nat)] @ ''sbt-assembly'' @ [char_of (34 :: nat)] @ '' % '' @ [char_of (34 :: nat)]
     @ ''2.2.0'' @ [char_of (34 :: nat)] @ '')'' @ [char_of (10 :: nat)]"

definition merge_strategy :: string where
  "merge_strategy = (let nl = [char_of (10 :: nat)]; q = [char_of (34 :: nat)]
     in nl @ ''assemblyMergeStrategy in assembly := {'' @ nl
        @ ''  case PathList('' @ q @ ''META-INF'' @ q @ '', _*) => MergeStrategy.discard'' @ nl
        @ ''  case _                        => MergeStrategy.first'' @ nl @ ''}'' @ nl)"

definition build_jar :: "env \<Rightarrow> string \<Rightarrow> bool act_io" where
  "build_jar E src =
     bnd (look (\<lambda>tr. en_isdir E tr src)) (\<lambda>there.
     if_ok (if there then ret True
            else run_or_raise E [''git'', ''clone'', ''https://github.com/mmurray22/kafka-log'', src])
    (andthen (write_file E (path_join (path_join src ''project'') ''plugins.sbt'') plugins_sbt)
    (andthen (append_file E (path_join src ''build.sbt'') merge_strategy)
      (run_or_raise E [''sbt'', ''assembly'']))))"

definition send_jar :: "env \<Rightarrow> string \<Rightarrow> string \<Rightarrow> string \<Rightarrow> string \<Rightarrow> string \<Rightarrow> bool act_io" where
  "send_jar E local_jar jar_remote ssh_key ssh_user ip =
     (let jar_filename = basename jar_remote; jar_dir = dirname jar_remote
      in if_ok (transfer_file E local_jar ip ssh_user ssh_key (Some jar_filename) None)
           (if jar_dir \<noteq> [] \<and> jar_dir \<noteq> ''~''
            then run_remote_command_sync E ip (''mkdir -p '' @ jar_dir @ '' && mv ~/'' @ jar_filename
                   @ '' '' @ jar_remote) ssh_key ssh_user
            else ret True))"

record kafka_setup =
  ks_seq_ips :: "string list"
  ks_cli_ips :: "string list"
  ks_dir :: string
  ks_url :: string
  ks_src :: string
  ks_jar_remote :: string

definition kafka_setup_of :: "pyval \<Rightarrow> kafka_setup res" where
  "kafka_setup_of config =
     ebind (py_item config ''network_setup'') (\<lambda>net.
     ebind (py_get_default net ''seq_ips'' (PList [])) (\<lambda>seq.
     ebind (py_item net ''cli_ips'') (\<lambda>cli.
     ebind (py_item config ''program_paths'') (\<lambda>paths.
     ebind (py_get_default paths ''kafka_dir'' (PStr ''/opt/kafka'')) (\<lambda>dir.
     ebind (py_get_default paths ''kafka_download_url'' (PStr [])) (\<lambda>url.
     ebind (item_str paths ''kafka_log_local_src'') (\<lambda>src.
     ebind (item_str paths ''kafka_log_jar_remote'') (\<lambda>jar.
     ebind (str_list seq) (\<lambda>seq_ips. ebind (str_list cli) (\<lambda>cli_ips.
     ebind (as_str dir) (\<lambda>d. ebind (as_str url) (\<lambda>u.
     Inr \<lparr>ks_seq_ips = seq_ips, ks_cli_ips = cli_ips, ks_dir = d, ks_url = u, ks_src = src,
          ks_jar_remote = jar\<rparr>))))))))))))"

definition setup_kafka_nodes :: "env \<Rightarrow> pyval \<Rightarrow> string \<Rightarrow> string \<Rightarrow> bool act_io" where
  "setup_kafka_nodes E config ssh_key ssh_user =
     bnd (lift (kafka_setup_of config)) (\<lambda>k.
     if ks_url k = [] then ret False
     else if_ok (each_ok (\<lambda>ip. run_remote_command_sync E ip java_install_cmd ssh_key ssh_user)
                  (dedup (ks_seq_ips k @ ks_cli_ips k)))
         (if_ok (each_ok (\<lambda>ip. run_remote_command_sync E ip (kafka_install_cmd (ks_dir k) (ks_url k))
                           ssh_key ssh_user) (ks_seq_ips k))
         (if_ok (build_jar E (ks_src k))
         (bnd (look (\<lambda>tr. en_glob E tr (path_join (ks_src k) ''target/**/*assembly*.jar''))) (\<lambda>jars.
          case jars of
            [] \<Rightarrow> ret False
          | local_jar # _ \<Rightarrow>
              each_ok (send_jar E local_jar (ks_jar_remote k) ssh_key ssh_user) (ks_cli_ips k))))))"

section \<open>Scalog\<close>

record scalog_binary =
  sb_name :: string
  sb_package :: string
  sb_remote_path :: string
  sb_targets :: "string list"

definition scalog_binaries :: "pyval \<Rightarrow> (string \<times> scalog_binary list) res" where
  "scalog_binaries config =
     ebind (py_item config ''network_setup'') (\<lambda>net.
     ebind (ebind (py_get_default net ''seq_ips'' (PList [])) str_list) (\<lambda>seq_ips.
     ebind (ebind (py_get_default net ''stor_ips'' (PList [])) str_list) (\<lambda>stor_ips.
     ebind (ebind (py_item net ''cli_ips'') str_list) (\<lambda>cli_ips.
     ebind (py_item config ''program_paths'') (\<lambda>paths.
     ebind (item_str paths ''scalog_local_src'') (\<lambda>src.
     ebind (item_str paths ''path_discovery'') (\<lambda>disc.
     ebind (py_nth seq_ips 0) (\<lambda>seq0.
     ebind (item_str paths ''path_order'') (\<lambda>order.
     ebind (item_str paths ''path_data'') (\<lambda>data.
     ebind (item_str paths ''path_client'') (\<lambda>client.
     Inr (src,
       [\<lparr>sb_name = ''discovery'', sb_package = ''./cmd/discovery'', sb_remote_path = disc, sb_targets = [seq0]\<rparr>,
        \<lparr>sb_name = ''order'', sb_package = ''./cmd/order'', sb_remote_path = order, sb_targets = seq_ips\<rparr>,
        \<lparr>sb_name = ''data'', sb_package = ''./cmd/data'', sb_remote_path = data, sb_targets = stor_ips\<rparr>,
        \<lparr>sb_name = ''client'', sb_package = ''./cmd/client'', sb_remote_path = client, sb_targets = cli_ips\<rparr>]))))))))))))"

definition build_binary :: "env \<Rightarrow> string \<Rightarrow> scalog_binary \<Rightarrow> bool act_io" where
  "build_binary E dir b =
     run_or_raise E [''go'', ''build'', ''-mod=vendor'', ''-o'', path_join dir (sb_name b), sb_package b]"

definition install_binary :: "env \<Rightarrow> string \<Rightarrow> string \<Rightarrow> string \<Rightarrow> scalog_binary \<Rightarrow> string \<Rightarrow> bool act_io" where
  "install_binary E dir ssh_key ssh_user b ip =
     if_ok (transfer_file E (path_join dir (sb_name b)) ip ssh_user ssh_key (Some (sb_name b)) None)
       (run_remote_command_sync E ip (''mkdir -p '' @ dirname (sb_remote_path b) @ '' && mv ~/'' @ sb_name b
          @ '' '' @ sb_remote_path b @ '' && chmod +x '' @ sb_remote_path b) ssh_key ssh_user)"

definition setup_scalog_nodes :: "env \<Rightarrow> pyval \<Rightarrow> string \<Rightarrow> string \<Rightarrow> bool act_io" where
  "setup_scalog_nodes E config ssh_key ssh_user =
     bnd (lift (scalog_binaries config)) (\<lambda>(src, binaries).
     let dir = path_join src ''_build_linux_amd64''
     in bnd (look (\<lambda>tr. en_isdir E tr src)) (\<lambda>there.
        if_ok (if there then ret True
               else run_or_raise E [''git'', ''clone'', ''https://github.com/chn0318/scalog'', src])
       (andthen (make_dir E dir)
       (if_ok (each_ok (build_binary E dir) binaries)
         (each_ok (\<lambda>b. each_ok (install_binary E dir ssh_key ssh_user b) (sb_targets b)) binaries)))))"

section \<open>Fail-stop\<close>

fun failed :: "env \<Rightarrow> trace \<Rightarrow> action \<Rightarrow> bool" where
  "failed E h (Run argv) = (en_run E h (Run argv) \<noteq> Success)"
| "failed E h _ = False"

text \<open>The actions of a run, where the only command that may have failed is the last one, and then
  the outcome is not \<open>True\<close>.\<close>

definition stopped_at_failure :: "env \<Rightarrow> trace \<Rightarrow> bool res \<Rightarrow> trace \<Rightarrow> bool" where
  "stopped_at_failure E tr r tr' \<longleftrightarrow>
     (\<exists>acts. tr' = tr @ acts \<and> (\<forall>i < length acts. failed E (tr @ take i acts) (acts ! i) \<longrightarrow>
        Suc i = length acts \<and> r \<noteq> Inr True))"

definition fail_stop :: "env \<Rightarrow> bool act_io \<Rightarrow> bool" where
  "fail_stop E m \<longleftrightarrow> (\<forall>tr. stopped_at_failure E tr (fst (m tr)) (snd (m tr)))"

lemma fail_stopD: "fail_stop E m \<Longrightarrow> m tr = (r, tr') \<Longrightarrow> stopped_at_failure E tr r tr'"
  by (metis fail_stop_def fst_conv snd_conv)

lemma stopped_refl: "stopped_at_failure E tr r tr"
  by (simp add: stopped_at_failure_def)

lemma stopped_one:
  "(failed E tr a \<Longrightarrow> r \<noteq> Inr True) \<Longrightarrow> stopped_at_failure E tr r (tr @ [a])"
  unfolding stopped_at_failure_def by (intro exI [of _ "[a]"]) simp

lemma stopped_trans:
  assumes "stopped_at_failure E s (Inr True) t" and "stopped_at_failure E t r u"
  shows "stopped_at_failure E s r u"
proof -
  from assms obtain xs bs where t: "t = s @ xs" and u: "u = t @ bs"
    and 1: "\<forall>i < length xs. \<not> failed E (s @ take i xs) (xs ! i)"
    and 2: "\<forall>i < length bs. failed E (t @ take i bs) (bs ! i) \<longrightarrow> Suc i = length bs \<and> r \<noteq> Inr True"
    unfolding stopped_at_failure_def by blast
  have "Suc i = length (xs @ bs) \<and> r \<noteq> Inr True"
    if i: "i < length (xs @ bs)" and f: "failed E (s @ take i (xs @ bs)) ((xs @ bs) ! i)" for i
  proof (cases "i < length xs")
    case True
    with 1 f show ?thesis by (simp add: nth_append)
  next
    case False
    with i f have "failed E (t @ take (i - length xs) bs) (bs ! (i - length xs))"
      unfolding t by (simp add: nth_append)
    moreover from i False have "i - length xs < length bs" by simp
    ultimately have "Suc (i - length xs) = length bs \<and> r \<noteq> Inr True" using 2 by blast
    with False show ?thesis by auto
  qed
  then show ?thesis unfolding stopped_at_failure_def u t by (intro exI [of _ "xs @ bs"]) simp
qed

named_theorems fail_stop_intros "closure of the fail-stop statements"

lemma fail_stop_ret [fail_stop_intros]: "fail_stop E (ret b)"
  by (simp add: fail_stop_def ret_def stopped_refl)

lemma fail_stop_if_ok [fail_stop_intros]:
  assumes "fail_stop E m" and "fail_stop E n"
  shows "fail_stop E (if_ok m n)"
  unfolding fail_stop_def
proof
  fix tr
  obtain r t where m: "m tr = (r, t)" by force
  show "stopped_at_failure E tr (fst (if_ok m n tr)) (snd (if_ok m n tr))"
  proof (cases "r = Inr True")
    case True
    obtain q u where n: "n t = (q, u)" by force
    with m True have "if_ok m n tr = (q, u)" by (simp add: if_ok_def bnd_def)
    with stopped_trans [OF fail_stopD [OF assms(1) m [unfolded True]] fail_stopD [OF assms(2) n]]
    show ?thesis by simp
  next
    case False
    with m have "if_ok m n tr = (r, t)"
      by (auto simp: if_ok_def bnd_def ret_def split: sum.splits)
    with fail_stopD [OF assms(1) m] show ?thesis by simp
  qed
qed

lemma fail_stop_each_ok [fail_stop_intros]:
  "(\<And>x. fail_stop E (f x)) \<Longrightarrow> fail_stop E (each_ok f xs)"
  by (induction xs) (auto intro: fail_stop_intros)

lemma fail_stop_if [fail_stop_intros]:
  "fail_stop E m \<Longrightarrow> fail_stop E n \<Longrightarrow> fail_stop E (if b then m else n)"
  by simp

lemma fail_stop_checked [fail_stop_intros]: "fail_stop E (run_checked E argv)"
  by (auto simp: fail_stop_def run_checked_eq intro!: stopped_one)

lemma fail_stop_raise [fail_stop_intros]: "fail_stop E (run_or_raise E argv)"
  by (auto simp: fail_stop_def run_or_raise_def run_action_def io_defs split: outcome.splits
      intro!: stopped_one)

text \<open>A statement before it that looks at the world or does something other than running a
  command.\<close>

lemma fail_stop_bnd_pure [fail_stop_intros]:
  "(\<And>x. fail_stop E (n x)) \<Longrightarrow> fail_stop E (bnd (lift r) n)"
  "(\<And>x. fail_stop E (n x)) \<Longrightarrow> fail_stop E (bnd (look g) n)"
  by (cases r) (auto simp: fail_stop_def bnd_def lift_def look_def stopped_refl)

lemma fail_stop_andthen:
  assumes "\<And>tr. (\<exists>a. snd (m tr) = tr @ [a] \<and> \<not> failed E tr a)" and "fail_stop E n"
  shows "fail_stop E (andthen m n)"
  unfolding fail_stop_def
proof
  fix tr
  obtain r t where m: "m tr = (r, t)" by force
  with assms(1) obtain a where t: "t = tr @ [a]" "\<not> failed E tr a" by (metis snd_conv)
  show "stopped_at_failure E tr (fst (andthen m n tr)) (snd (andthen m n tr))"
  proof (cases r)
    case (Inl e)
    with m t show ?thesis by (simp add: andthen_Inl stopped_one)
  next
    case (Inr x)
    obtain q u where n: "n t = (q, u)" by force
    have "stopped_at_failure E tr (Inr True) t" unfolding t(1) by (rule stopped_one) (use t(2) in simp)
    from stopped_trans [OF this fail_stopD [OF assms(2) n]] m n Inr show ?thesis
      by (simp add: andthen_Inr)
  qed
qed

lemma file_action_no_failure:
  "\<exists>a. snd (write_file E p c tr) = tr @ [a] \<and> \<not> failed E tr a"
  "\<exists>a. snd (append_file E p c tr) = tr @ [a] \<and> \<not> failed E tr a"
  "\<exists>a. snd (make_dir E d tr) = tr @ [a] \<and> \<not> failed E tr a"
  by (simp_all add: write_file_def append_file_def make_dir_def)

lemma fail_stop_remote [fail_stop_intros]:
  "fail_stop E (transfer_file E p ip user k fn fp)"
  "fail_stop E (run_remote_command_sync E ip c k user)"
  by (simp_all add: remote_defs Let_def fail_stop_checked)

section \<open>Properties\<close>

text \<open>C21. Setting up the Kafka nodes is fail-stop: however it ends, the only command that can have
  failed is the last one, and in that case the result is not \<open>True\<close>.\<close>

theorem setup_kafka_fail_stop: "fail_stop E (setup_kafka_nodes E config ssh_key ssh_user)"
proof -
  have jar: "fail_stop E (build_jar E src)" for src
    unfolding build_jar_def by (intro fail_stop_intros fail_stop_andthen file_action_no_failure)
  have send: "fail_stop E (send_jar E j r k u ip)" for j r k u ip
    unfolding send_jar_def Let_def by (intro fail_stop_intros)
  have distribute: "fail_stop E (case jars of [] \<Rightarrow> ret False | j # _ \<Rightarrow> each_ok (send_jar E j r k u) ips)"
    for jars r k u ips
    by (cases jars) (auto intro: fail_stop_intros send)
  show ?thesis
    unfolding setup_kafka_nodes_def by (intro fail_stop_intros jar distribute)
qed

text \<open>Setting up the Scalog nodes is fail-stop in the same sense.\<close>

theorem setup_scalog_fail_stop: "fail_stop E (setup_scalog_nodes E config ssh_key ssh_user)"
  unfolding setup_scalog_nodes_def case_prod_unfold Let_def
  by (intro fail_stop_intros fail_stop_andthen file_action_no_failure)
    (simp_all add: build_binary_def install_binary_def fail_stop_intros)

end
