(* ===== verification/Exp_Config.thy ===== *)
theory Exp_Config
  imports Remote
begin

text \<open>
  experiments/scripts/experiment.py, the configurations: merging the parameters of an experiment,
  grouping storage servers into shards, and generating the files the clients, servers, switches
  and the compared systems read. Configurations are the values TOML gives; a missing key is a
  \<open>KeyError\<close>, as in the code.
\<close>

section \<open>Evaluating dictionary displays\<close>

definition cfg :: "pyval \<Rightarrow> string \<Rightarrow> string \<Rightarrow> pyval res" where
  "cfg config a b = ebind (py_item config a) (\<lambda>d. py_item d b)"

definition field :: "string \<times> pyval res \<Rightarrow> (string \<times> pyval) res" where
  "field kr = ebind (snd kr) (\<lambda>v. Inr (fst kr, v))"

definition display :: "(string \<times> pyval res) list \<Rightarrow> (string \<times> pyval) list res" where
  "display kvs = ebind (emap field kvs) (\<lambda>d. Inr (dict_update [] d))"

definition quoted :: "pyval res \<Rightarrow> pyval res" where
  "quoted r = ebind r (\<lambda>v. Inr (PQuoted v))"

definition quoted_list :: "pyval res \<Rightarrow> pyval res" where
  "quoted_list r = ebind r (\<lambda>v. ebind (py_iter v) (\<lambda>xs. Inr (PList (map PQuoted xs))))"

fun is_float :: "pyval \<Rightarrow> bool" where
  "is_float (PFloat _) = True"
| "is_float _ = False"

fun str_of :: "pyval \<Rightarrow> string option" where
  "str_of (PStr s) = Some s"
| "str_of _ = None"

fun list_of :: "pyval \<Rightarrow> pyval list option" where
  "list_of (PList xs) = Some xs"
| "list_of _ = None"

text \<open>Integers and booleans add up to an integer; a float makes the sum a float.\<close>

definition py_add :: "pyval \<Rightarrow> pyval \<Rightarrow> pyval res" where
  "py_add v w =
     (if is_number v \<and> is_number w then
        (let x = number_of v + number_of w
         in Inr (if is_float v \<or> is_float w then PFloat x else PInt \<lfloor>x\<rfloor>))
      else case (str_of v, str_of w, list_of v, list_of w) of
             (Some s, Some t, _, _) \<Rightarrow> Inr (PStr (s @ t))
           | (_, _, Some xs, Some ys) \<Rightarrow> Inr (PList (xs @ ys))
           | _ \<Rightarrow> Inl (TypeError ''unsupported operand types for +''))"

section \<open>Constants\<close>

definition BASE_PORT :: int where "BASE_PORT = 30000"
definition SERVER_START_DELAY :: int where "SERVER_START_DELAY = 5"
definition SWITCH_START_DELAY :: int where "SWITCH_START_DELAY = 5"
definition EXPERIMENT_DELAY :: int where "EXPERIMENT_DELAY = 10"

section \<open>Switches\<close>

definition switch_fields ::
  "pyval \<Rightarrow> int \<Rightarrow> pyval \<Rightarrow> int \<Rightarrow> pyval \<Rightarrow> int \<Rightarrow> pyval \<Rightarrow> pyval \<Rightarrow> (string \<times> pyval res) list" where
  "switch_fields base i cntrl_port_num ring_size client_recv_port serv_recv_port loopback_port threads =
     (let sw = cfg base ''switches''
      in [(''loopback_port'', Inr loopback_port),
          (''switch_ports'', ebind (sw (''switch_ports'' @ str_int i)) (\<lambda>v. ebind (py_iter v) (\<lambda>xs. Inr (PList xs)))),
          (''cntrl_port'', Inr cntrl_port_num),
          (''cpu_port'', sw ''cpu_port''),
          (''listen_port'', sw ''listen_port''),
          (''dummy_ip_addr'', quoted (sw ''dummy_ip_addr'')),
          (''mac_dst_addr'', quoted (sw ''mac_dst_addr'')),
          (''mac_src_addr'', quoted (sw ''mac_src_addr'')),
          (''device_number'', sw ''dev_number''),
          (''cpu_interface'', quoted (sw ''cpu_interface'')),
          (''external_interface'', quoted (sw ''external_interface'')),
          (''port_speed'', Inr (PQuoted (PStr ''BF_SPEED_10G''))),
          (''port_fec'', Inr (PQuoted (PStr ''BF_FEC_TYP_NONE''))),
          (''loopback_mode'', Inr (PQuoted (PStr ''BF_LPBK_MAC_NEAR''))),
          (''meta_circulate'', Inr (PInt 1)), (''in_cntrl'', Inr (PInt 1)), (''out_cntrl'', Inr (PInt 1)),
          (''storage_server_ip'', quoted (ebind (cfg base ''network_setup'' ''stor_ips'') (\<lambda>v. py_index v 0))),
          (''storage_server_recv_port'', quoted (cfg base ''network_setup'' ''stor_recv_port'')),
          (''client_ip'', quoted (ebind (cfg base ''network_setup'' ''cli_ips'') (\<lambda>v. py_index v 0))),
          (''size_of_ring'', Inr (PInt ring_size)),
          (''switch_mac'', quoted (ebind (sw ''switch_macs'') (\<lambda>v. py_index v i))),
          (''switch_ip'', quoted (ebind (sw ''switch_ips'') (\<lambda>v. py_index v i))),
          (''client_mac'', quoted (sw ''jump_mac'')),
          (''client_ip'', quoted (sw ''jump_ip'')),
          (''num_client_threads'', cfg base ''experiment_parameters'' ''num_client_threads''),
          (''client_recv_port'', Inr client_recv_port),
          (''use_stor'', cfg base ''experiment_parameters'' ''use_store''),
          (''ipv4_table_entries'', quoted_list (sw ''ipv4_table_entries'')),
          (''cli_d_port'', Inr client_recv_port),
          (''num_client_threads'', Inr threads),
          (''serv_d_port'', Inr (PInt serv_recv_port))])"

definition last_in_ring :: "pyval \<Rightarrow> pyval res" where
  "last_in_ring base =
     ebind (cfg base ''experiment_parameters'' ''switches_in_ring'') (\<lambda>ring.
     ebind (py_len ring) (\<lambda>n. py_index ring (int n - 1)))"

definition generate_switch_config ::
  "pyval \<Rightarrow> int \<Rightarrow> pyval \<Rightarrow> int \<Rightarrow> pyval \<Rightarrow> int \<Rightarrow> pyval \<Rightarrow> pyval \<Rightarrow> (string \<times> pyval) list res" where
  "generate_switch_config base i cntrl_port_num ring_size client_recv_port serv_recv_port loopback_port threads =
     ebind (py_item base ''switches'') (\<lambda>_.
     ebind (display (switch_fields base i cntrl_port_num ring_size client_recv_port serv_recv_port
              loopback_port threads)) (\<lambda>d.
     ebind (last_in_ring base) (\<lambda>l.
     Inr (dict_put ''send_cntrl_pkt'' (PInt (if l = PInt i then 1 else 0)) d))))"

section \<open>Clients, servers and the software switch\<close>

record yaml_args =
  ya_type :: string
  ya_ip :: string
  ya_offset :: int
  ya_server_ips :: "string list"
  ya_id :: pyval
  ya_idx :: pyval
  ya_json_name :: pyval
  ya_num_failures :: pyval
  ya_interface :: pyval
  ya_shard_id :: pyval
  ya_total_shards :: pyval
  ya_total_multicast :: pyval
  ya_shard_multicast :: pyval

definition final_duration :: "pyval \<Rightarrow> string \<Rightarrow> pyval res" where
  "final_duration base entity_type =
     ebind (cfg base ''experiment_parameters'' ''experiment_duration'') (\<lambda>d.
     ebind (cfg base ''experiment_parameters'' ''warm_up'') (\<lambda>w.
     ebind (cfg base ''experiment_parameters'' ''cool_down'') (\<lambda>c.
     ebind (ebind (py_add d w) (\<lambda>x. py_add x c)) (\<lambda>t.
     if entity_type = ''server'' then py_add t (PInt SERVER_START_DELAY)
     else if entity_type = ''switch'' then py_add t (PInt SWITCH_START_DELAY)
     else Inr t))))"

definition common_fields :: "pyval \<Rightarrow> pyval \<Rightarrow> yaml_args \<Rightarrow> pyval \<Rightarrow> (string \<times> pyval res) list" where
  "common_fields base pr a duration =
     (let gen = cfg base ''experiment_parameters''; ex = cfg pr ''experiment_parameters'';
          net = cfg pr ''network_setup''
      in [(''log_level'', gen ''log_level''),
          (''switch_ip'', quoted (net ''switch_ip'')),
          (''switch_mac'', quoted (net ''switch_mac'')),
          (''cli_macs'', quoted_list (net ''cli_macs'')),
          (''cli_ips'', quoted_list (net ''cli_ips'')),
          (''stor_macs'', quoted_list (net ''stor_macs'')),
          (''stor_ips'', Inr (PList (map (PQuoted \<circ> PStr) (ya_server_ips a)))),
          (''send_port'', Inr (PQuoted (PInt (BASE_PORT + ya_offset a)))),
          (''recv_port'', Inr (PQuoted (PInt (BASE_PORT + ya_offset a + 1)))),
          (''stor_recv_port'', quoted (net ''stor_recv_port'')),
          (''switch_recv_port'', quoted (net ''switch_recv_port'')),
          (''switch_append_req_port'', quoted (net ''switch_append_req_port'')),
          (''switch_append_resp_port'', quoted (net ''switch_append_resp_port'')),
          (''socket_type'', quoted (ex ''socket_type'')),
          (''self_ip'', Inr (PQuoted (PStr (ya_ip a)))),
          (''batch_size'', ex ''batch_size''),
          (''batch_usec_timeout'', ex ''batch_usec_timeout''),
          (''batch_on'', ex ''batch_on''),
          (''experiment_duration'', Inr duration),
          (''payload_size'', gen ''message_size''),
          (''use_switch'', ex ''use_switch''), (''use_store'', ex ''use_store''),
          (''use_shard'', ex ''use_shard''), (''use_streams'', ex ''use_streams''),
          (''ack_threshold'', ex ''ack_threshold''),
          (''use_client_count_acks'', ex ''use_client_count_acks'')])"

definition client_fields :: "pyval \<Rightarrow> yaml_args \<Rightarrow> (string \<times> pyval res) list" where
  "client_fields base a =
     [(''num_client_threads'', cfg base ''experiment_parameters'' ''num_client_threads''),
      (''cli_id'', Inr (ya_id a)),
      (''json_name'', Inr (PQuoted (ya_json_name a))),
      (''num_failures'', Inr (ya_num_failures a)),
      (''warm_up'', cfg base ''experiment_parameters'' ''warm_up''),
      (''cool_down'', cfg base ''experiment_parameters'' ''cool_down''),
      (''interface'', Inr (PQuoted (ya_interface a))),
      (''cli_idx'', Inr (ya_idx a)),
      (''shard_multicast_addr'', Inr (PQuoted (PStr [])))]"

definition server_fields :: "pyval \<Rightarrow> pyval \<Rightarrow> yaml_args \<Rightarrow> int \<Rightarrow> (string \<times> pyval res) list" where
  "server_fields base pr a shard_switch_id =
     [(''shard_id'', Inr (ya_shard_id a)),
      (''shard_switch_id'', Inr (PInt shard_switch_id)),
      (''stor_id'', Inr (ya_id a)),
      (''use_switch'', cfg pr ''experiment_parameters'' ''use_switch''),
      (''num_storage_threads'', cfg pr ''experiment_parameters'' ''num_storage_threads''),
      (''interface'', Inr (PQuoted (ya_interface a))),
      (''append_store_threads'', cfg base ''experiment_parameters'' ''append_store_threads''),
      (''shard_multicast_addr'', Inr (PQuoted (ya_shard_multicast a)))]"

definition soft_switch_fields :: "pyval \<Rightarrow> yaml_args \<Rightarrow> (string \<times> pyval res) list" where
  "soft_switch_fields base a =
     [(''interface'', Inr (PQuoted (ya_interface a))),
      (''all_shards'', Inr (ya_total_shards a)),
      (''all_shards_multicast'', Inr (ya_total_multicast a)),
      (''append_req_threads'', cfg base ''experiment_parameters'' ''append_req_threads''),
      (''append_resp_threads'', cfg base ''experiment_parameters'' ''append_resp_threads''),
      (''shard_multicast_addr'', Inr (PQuoted (PStr [])))]"

definition with_fields :: "(string \<times> pyval) list \<Rightarrow> (string \<times> pyval res) list \<Rightarrow> (string \<times> pyval) list res" where
  "with_fields d kvs = ebind (display kvs) (\<lambda>e. Inr (dict_update d e))"

text \<open>Only a server draws a random number.\<close>

definition generate_yaml_config :: "env \<Rightarrow> pyval \<Rightarrow> pyval \<Rightarrow> yaml_args \<Rightarrow> (string \<times> pyval) list act_io" where
  "generate_yaml_config E base pr a =
     bnd (lift (ebind (py_item base ''experiment_parameters'') (\<lambda>_.
          ebind (py_item pr ''experiment_parameters'') (\<lambda>_.
          ebind (py_item pr ''network_setup'') (\<lambda>_.
          ebind (final_duration base (ya_type a)) (\<lambda>dur. display (common_fields base pr a dur))))))) (\<lambda>d.
     if ya_type a = ''client'' then lift (with_fields d (client_fields base a))
     else if ya_type a = ''server'' then
       bnd (random_int E 0 9) (\<lambda>r. lift (with_fields d (server_fields base pr a r)))
     else if ya_type a = ''switch'' then lift (with_fields d (soft_switch_fields base a))
     else ret d)"

section \<open>Shards\<close>

text \<open>The loop over \<open>range(0, len(ips), sz)\<close>; each shard reads \<open>sz\<close> addresses and a short rest is
  an \<open>IndexError\<close>. \<open>k\<close> counts the shards made.\<close>

function shard_loop :: "nat \<Rightarrow> int \<Rightarrow> nat \<Rightarrow> string list \<Rightarrow> string list list res" where
  "shard_loop sz max_num k ips =
     (if ips = [] \<or> sz = 0 then Inr []
      else if length ips < sz then Inl IndexError
      else if int (Suc k) = max_num then Inr [take sz ips]
      else ebind (shard_loop sz max_num (Suc k) (drop sz ips)) (\<lambda>ss. Inr (take sz ips # ss)))"
  by pat_completeness auto
termination by (relation "measure (\<lambda>(_, _, _, ips). length ips)") auto

declare shard_loop.simps [simp del]

record sharding =
  sh_shards :: "string list list"
  sh_server_ips :: "string list"
  sh_ip_to_shard :: "(string \<times> nat) list"
  sh_multicast :: "string list"

definition multicast_addr :: "nat \<Rightarrow> string" where
  "multicast_addr i = ''239.1.1.'' @ str_nat i"

definition number_ips :: "string list list \<Rightarrow> (string \<times> nat) list" where
  "number_ips shards =
     fold (\<lambda>(k, ip). dict_put ip k) (concat (map (\<lambda>(k, s). map (\<lambda>ip. (k, ip)) s) (enumerate 0 shards))) []"

definition setup_shards :: "string list \<Rightarrow> bool \<Rightarrow> int \<Rightarrow> int \<Rightarrow> sharding res" where
  "setup_shards all_server_ips use_shard sz max_num =
     (if use_shard then
        if sz = 0 then Inl (ValueError ''range() arg 3 must not be zero'')
        else ebind (shard_loop (nat sz) max_num 0 all_server_ips) (\<lambda>shards.
          Inr \<lparr>sh_shards = shards, sh_server_ips = concat shards, sh_ip_to_shard = number_ips shards,
               sh_multicast = map multicast_addr [0..<length shards]\<rparr>)
      else ebind (py_nth all_server_ips 0) (\<lambda>ip.
          Inr \<lparr>sh_shards = [[ip]], sh_server_ips = [ip], sh_ip_to_shard = [(ip, 0)],
               sh_multicast = [multicast_addr 0]\<rparr>))"

section \<open>Merging the parameters of an experiment\<close>

definition merge_params :: "(string \<times> pyval) list \<Rightarrow> (string \<times> pyval) list \<Rightarrow> (string \<times> pyval) list" where
  "merge_params ps overrides =
     fold (\<lambda>(k, v) d. if dict_get d k \<noteq> None then dict_put k v d else d) overrides ps"

definition merge_experiment :: "(string \<times> pyval) list \<Rightarrow> (string \<times> pyval) list \<Rightarrow> (string \<times> pyval) list res" where
  "merge_experiment config overrides =
     (case dict_get config ''experiment_parameters'' of
        None \<Rightarrow> Inr config
      | Some (PDict ps) \<Rightarrow> Inr (dict_put ''experiment_parameters'' (PDict (merge_params ps overrides)) config)
      | Some v \<Rightarrow> ebind (emap (\<lambda>(k, _). ebind (py_in k v) (\<lambda>b.
            if b then Inl (TypeError ''item assignment'') else Inr ())) overrides) (\<lambda>_. Inr config))"

section \<open>Compared systems\<close>

definition lines_text :: "string list \<Rightarrow> string" where
  "lines_text ls = concat (map (\<lambda>l. l @ [char_of (10 :: nat)]) ls)"

text \<open>\<open>min(replication\_factor, len(all\_seq\_ips))\<close>\<close>

definition internal_rf :: "pyval \<Rightarrow> nat \<Rightarrow> pyval res" where
  "internal_rf replication_factor brokers =
     ebind (py_gt replication_factor (int brokers)) (\<lambda>more.
     Inr (if more then PInt (int brokers) else replication_factor))"

definition generate_kafka_server_properties ::
  "(rat \<Rightarrow> string) \<Rightarrow> nat \<Rightarrow> string \<Rightarrow> string list \<Rightarrow> pyval \<Rightarrow> pyval \<Rightarrow> string \<Rightarrow> string res" where
  "generate_kafka_server_properties sf node_id ip all_seq_ips num_partitions replication_factor log_dir =
     ebind (internal_rf replication_factor (length all_seq_ips)) (\<lambda>irf.
     Inr (lines_text
        [''# KRaft mode (no ZooKeeper)'',
         ''node.id='' @ str_nat node_id,
         ''process.roles=broker,controller'',
         ''listeners=PLAINTEXT://0.0.0.0:9092,CONTROLLER://0.0.0.0:9093'',
         ''advertised.listeners=PLAINTEXT://'' @ ip @ '':9092'',
         ''controller.quorum.voters=''
           @ join '','' (map (\<lambda>(i, q). str_nat (i + 1) @ ''@'' @ q @ '':9093'') (enumerate 0 all_seq_ips)),
         ''controller.listener.names=CONTROLLER'',
         ''inter.broker.listener.name=PLAINTEXT'',
         ''log.dirs='' @ log_dir,
         ''num.partitions='' @ py_str sf num_partitions,
         ''default.replication.factor='' @ py_str sf replication_factor,
         ''offsets.topic.replication.factor='' @ py_str sf irf,
         ''transaction.state.log.replication.factor='' @ py_str sf irf,
         ''transaction.state.log.min.isr=1'']))"

definition generate_scalog_config ::
  "(pyval \<Rightarrow> string) \<Rightarrow> string \<Rightarrow> string list \<Rightarrow> string list \<Rightarrow> pyval \<Rightarrow> pyval \<Rightarrow> pyval \<Rightarrow> pyval \<Rightarrow> pyval \<Rightarrow> pyval \<Rightarrow> pyval
     \<Rightarrow> (string \<times> pyval) list \<times> string" where
  "generate_scalog_config dump discovery_ip order_ips data_ips order_rf data_rf interval disc_port order_port data_port raft_port =
     (let base = [(''order-port'', order_port), (''raft-port'', raft_port), (''data-port'', data_port),
                  (''disc-port'', disc_port), (''disc-ip'', PQuoted (PStr discovery_ip)),
                  (''order-replication-factor'', order_rf), (''data-replication-factor'', data_rf),
                  (''order-batching-interval'', PQuoted interval), (''data-batching-interval'', PQuoted interval)];
          orders = map (\<lambda>(i, ip). (''order-'' @ str_nat i @ ''-ip'', PQuoted (PStr ip))) (enumerate 0 order_ips);
          datas = map (\<lambda>(i, ip). (''data-0-'' @ str_nat i @ ''-ip'', PQuoted (PStr ip))) (enumerate 0 data_ips);
          c = dict_update (dict_update base orders) datas
      in (c, dump (PDict c)))"

definition generate_scalog_stats_config :: "(pyval \<Rightarrow> string) \<Rightarrow> pyval \<Rightarrow> string \<Rightarrow> string" where
  "generate_scalog_stats_config dump json_name client_ip =
     dump (PDict [(''json_name'', json_name), (''client_ip'', PQuoted (PStr client_ip))])"

section \<open>Reading generated dictionaries\<close>

lemma map_of_fields:
  "list_all2 (\<lambda>kr kv. field kr = Inr kv) kvs d \<Longrightarrow>
     map_of d k = (case map_of kvs k of Some (Inr v) \<Rightarrow> Some v | _ \<Rightarrow> None)"
  by (induction kvs d rule: list_all2_induct) (auto simp: field_def)

lemma display_get:
  assumes "display kvs = Inr d"
  shows "dict_get d k = (case map_of (rev kvs) k of Some (Inr v) \<Rightarrow> Some v | _ \<Rightarrow> None)"
proof -
  from assms obtain e where e: "list_all2 (\<lambda>kr kv. field kr = Inr kv) kvs e"
    and d: "d = dict_update [] e" by (auto simp: display_def emap_Inr_iff)
  from e have "list_all2 (\<lambda>kr kv. field kr = Inr kv) (rev kvs) (rev e)" by simp
  from map_of_fields [OF this] show ?thesis
    unfolding d by (simp add: dict_get_update split: option.splits sum.splits)
qed

lemma display_distinct: "display kvs = Inr d \<Longrightarrow> distinct (map fst d)"
proof -
  have "distinct (map fst (fold (\<lambda>(k, v). dict_put k v) e d))" if "distinct (map fst d)" for d e :: "(string \<times> pyval) list"
    using that by (induction e arbitrary: d) (auto intro: distinct_dict_put)
  then show "display kvs = Inr d \<Longrightarrow> distinct (map fst d)"
    by (auto simp: display_def dict_update_def)
qed

lemma with_fields_get:
  assumes "with_fields d kvs = Inr e"
  shows "dict_get e k = (case map_of (rev kvs) k of Some (Inr v) \<Rightarrow> Some v | _ \<Rightarrow> dict_get d k)"
proof -
  from assms obtain f where f: "display kvs = Inr f" and e: "e = dict_update d f"
    by (auto simp: with_fields_def)
  show ?thesis
    unfolding e dict_get_update map_of_rev_distinct [OF display_distinct [OF f]]
    using display_get [OF f, of k] by (simp add: dict_get_def split: option.splits sum.splits)
qed

section \<open>Facts about shards\<close>

lemma shard_loop_Inr:
  "shard_loop n m k ips = Inr ss \<Longrightarrow> 0 < n \<Longrightarrow>
     concat ss = take (length ss * n) ips \<and> (\<forall>s \<in> set ss. length s = n)
     \<and> length ss * n \<le> length ips
     \<and> (int k < m \<longrightarrow> int (k + length ss) \<le> m)
     \<and> (length ss * n = length ips \<or> int (k + length ss) = m)"
proof (induction n m k ips arbitrary: ss rule: shard_loop.induct)
  case (1 n m k ips)
  show ?case
  proof (cases "ips = [] \<or> length ips < n \<or> int (Suc k) = m")
    case True
    with "1.prems" show ?thesis by (subst (asm) shard_loop.simps) (auto split: if_splits)
  next
    case False
    with "1.prems" obtain rest where rest: "shard_loop n m (Suc k) (drop n ips) = Inr rest"
      and ss: "ss = take n ips # rest" by (subst (asm) shard_loop.simps) auto
    from False "1.prems"(2) have cond: "\<not> (ips = [] \<or> n = 0)" "\<not> length ips < n" "int (Suc k) \<noteq> m" by auto
    from "1.IH" [OF cond rest "1.prems"(2)] cond show ?thesis
      unfolding ss by (auto simp: take_add [symmetric] not_less)
  qed
qed

lemma shard_loop_Inl:
  "0 < n \<Longrightarrow> shard_loop n m k ips = Inl e \<longleftrightarrow>
     e = IndexError \<and> \<not> n dvd length ips \<and> (m \<le> int k \<or> int (k + length ips div n) < m)"
proof (induction n m k ips rule: shard_loop.induct)
  case (1 n m k ips)
  consider "ips = []" | "ips \<noteq> []" "length ips < n" | "n \<le> length ips" "ips \<noteq> []" "int (Suc k) = m"
    | "n \<le> length ips" "ips \<noteq> []" "int (Suc k) \<noteq> m" by linarith
  then show ?case
  proof cases
    case 1
    then show ?thesis by (subst shard_loop.simps) simp
  next
    case 2
    then have "\<not> n dvd length ips" by (auto dest: dvd_imp_le)
    with 2 "1.prems" show ?thesis by (subst shard_loop.simps) auto
  next
    case 3
    then have "0 < length ips div n" using "1.prems" by (simp add: div_greater_zero_iff)
    with 3 "1.prems" show ?thesis by (subst shard_loop.simps) auto
  next
    case 4
    then have cond: "\<not> (ips = [] \<or> n = 0)" "\<not> length ips < n" using "1.prems" by auto
    have len: "length (drop n ips) div n = length ips div n - 1" "n dvd length (drop n ips) \<longleftrightarrow> n dvd length ips"
      "0 < length ips div n"
      using 4 "1.prems" by (simp_all add: dvd_minus_self div_greater_zero_iff le_div_geq)
    have "shard_loop n m k ips = Inl e \<longleftrightarrow> shard_loop n m (Suc k) (drop n ips) = Inl e"
      using cond 4 by (subst shard_loop.simps) (simp add: ebind_eq_Inl)
    also have "\<dots> \<longleftrightarrow> e = IndexError \<and> \<not> n dvd length ips
        \<and> (m \<le> int (Suc k) \<or> int (Suc k + (length ips div n - 1)) < m)"
      using "1.IH" [OF cond 4(3) "1.prems"] len(1,2) by simp
    also have "\<dots> \<longleftrightarrow> e = IndexError \<and> \<not> n dvd length ips
        \<and> (m \<le> int k \<or> int (k + length ips div n) < m)"
      using 4(3) len(3) by auto
    finally show ?thesis .
  qed
qed

lemma fold_dict_put_get:
  "dict_get (fold (\<lambda>(k, x). dict_put x k) kxs d) y
    = (case map_of (rev (map prod.swap kxs)) y of Some k \<Rightarrow> Some k | None \<Rightarrow> dict_get d y)"
  by (induction kxs arbitrary: d) (auto simp: alist.get_put map_add_def split: option.splits)

lemma number_ips_get:
  assumes "distinct (concat shards)" and "k < length shards" and "ip \<in> set (shards ! k)"
  shows "dict_get (number_ips shards) ip = Some k"
proof -
  let ?kx = "concat (map (\<lambda>(k, s). map (\<lambda>ip. (k, ip)) s) (enumerate 0 shards))"
  have "map snd ?kx = concat shards"
    by (simp add: map_concat comp_def case_prod_unfold)
  then have dist: "distinct (map fst (map prod.swap ?kx))"
    using assms(1) by (simp add: comp_def)
  have "(k, ip) \<in> set ?kx"
    using assms(2,3) by (force simp: in_set_enumerate_eq)
  then have "(ip, k) \<in> set (map prod.swap ?kx)" by force
  with dist have "map_of (map prod.swap ?kx) ip = Some k" by (simp add: map_of_eq_Some_iff)
  then show ?thesis
    unfolding number_ips_def fold_dict_put_get map_of_rev_distinct [OF dist] by simp
qed

lemma map_numbered: "map (\<lambda>p. f (fst p)) (enumerate 0 xs) = map f [0..<length xs]"
  by (rule nth_equalityI) (simp_all add: nth_enumerate_eq)

section \<open>A configuration to test the properties on\<close>

definition demo_base :: pyval where
  "demo_base = PDict
     [(''experiment_parameters'', PDict
        [(''experiment_duration'', PInt 20), (''warm_up'', PInt 2), (''cool_down'', PInt 3),
         (''log_level'', PStr ''info''), (''message_size'', PInt 64), (''num_client_threads'', PInt 4),
         (''append_store_threads'', PInt 1), (''append_req_threads'', PInt 1), (''append_resp_threads'', PInt 1),
         (''socket_type'', PStr ''UDP''), (''batch_size'', PInt 1), (''batch_usec_timeout'', PInt 10),
         (''batch_on'', PInt 0), (''use_switch'', PInt 1), (''use_store'', PInt 1), (''use_shard'', PInt 1),
         (''use_streams'', PInt 0), (''ack_threshold'', PInt 1), (''use_client_count_acks'', PInt 0),
         (''num_storage_threads'', PInt 1), (''switches_in_ring'', PList [PInt 0, PInt 1])]),
      (''network_setup'', PDict
        [(''stor_ips'', PList [PStr ''10.0.0.3'']), (''cli_ips'', PList [PStr ''10.0.0.4'']),
         (''stor_macs'', PList [PStr ''aa'']), (''cli_macs'', PList [PStr ''bb'']),
         (''switch_ip'', PStr ''10.0.0.1''), (''switch_mac'', PStr ''cc''),
         (''stor_recv_port'', PInt 7), (''switch_recv_port'', PInt 8), (''switch_append_req_port'', PInt 9),
         (''switch_append_resp_port'', PInt 10)]),
      (''switches'', PDict
        [(''switch_ports0'', PList [PInt 1]), (''switch_ports1'', PList [PInt 2]), (''cpu_port'', PInt 64),
         (''listen_port'', PInt 5), (''dummy_ip_addr'', PStr ''1.1.1.1''), (''mac_dst_addr'', PStr ''d''),
         (''mac_src_addr'', PStr ''s''), (''dev_number'', PInt 0), (''cpu_interface'', PStr ''e0''),
         (''external_interface'', PStr ''e1''), (''switch_macs'', PList [PStr ''m0'', PStr ''m1'']),
         (''switch_ips'', PList [PStr ''i0'', PStr ''i1'']), (''jump_mac'', PStr ''jm''), (''jump_ip'', PStr ''ji''),
         (''ipv4_table_entries'', PList [])])]"

definition demo_world :: env where
  "demo_world =
     \<lparr>en_run = (\<lambda>h a. Success), en_spawn = (\<lambda>h argv. Inr (length h)), en_running = (\<lambda>h p. False),
      en_random = (\<lambda>h lo hi. lo), en_read = (\<lambda>h f. Inr ''{}''), en_write = (\<lambda>h f. Inr ()),
      en_move = (\<lambda>h s t. Inr ()), en_listdir = (\<lambda>h d. Inr []), en_glob = (\<lambda>h p. []),
      en_isdir = (\<lambda>h d. True), en_toml = (\<lambda>f. Inr demo_base), en_json = (\<lambda>s. Inr (PDict [])),
      en_dump_yaml = (\<lambda>v. ''yaml''), en_dump_json = (\<lambda>v. ''json''), en_switch = (\<lambda>h a. Inr ()),
      en_float = (\<lambda>q. ''0.0''), en_parse_float = (\<lambda>s. Inr 0), en_exists = (\<lambda>h f. False),
      en_size = (\<lambda>h f. Inr 0), en_abspath = (\<lambda>p. ''/work/'' @ p), en_timestamp = ''t'', en_uuid = (\<lambda>h. ''u''),
      en_base = ''/proj/'', en_home = (\<lambda>p. p)\<rparr>"

definition demo_server :: yaml_args where
  "demo_server = \<lparr>ya_type = ''server'', ya_ip = ''10.0.0.3'', ya_offset = 0, ya_server_ips = [''10.0.0.3''],
     ya_id = PInt 1, ya_idx = PInt 0, ya_json_name = PNone, ya_num_failures = PNone, ya_interface = PStr ''e0'',
     ya_shard_id = PInt 0, ya_total_shards = PNone, ya_total_multicast = PNone,
     ya_shard_multicast = PStr ''239.1.1.0''\<rparr>"

section \<open>Properties\<close>

text \<open>C22. Sharding the storage servers, when it succeeds: every shard has exactly the configured
  number of servers, the shards in order are a prefix of the server list, each server is recorded
  under the number of its shard, each shard has its own multicast address, and sharding stops at
  the configured number of shards or when the servers are used up.\<close>

theorem setup_shards_partition:
  assumes "setup_shards ips True n m = Inr sh" and "0 < n" and "distinct ips"
  shows "(\<forall>s \<in> set (sh_shards sh). int (length s) = n)
     \<and> concat (sh_shards sh) = sh_server_ips sh
     \<and> sh_server_ips sh = take (length (sh_shards sh) * nat n) ips
     \<and> (\<forall>k < length (sh_shards sh). \<forall>ip \<in> set (sh_shards sh ! k). dict_get (sh_ip_to_shard sh) ip = Some k)
     \<and> distinct (sh_multicast sh) \<and> length (sh_multicast sh) = length (sh_shards sh)
     \<and> (int (length (sh_shards sh)) = m \<or> sh_server_ips sh = ips)"
proof -
  from assms obtain ss where ss: "shard_loop (nat n) m 0 ips = Inr ss"
    and sh: "sh = \<lparr>sh_shards = ss, sh_server_ips = concat ss, sh_ip_to_shard = number_ips ss,
               sh_multicast = map multicast_addr [0..<length ss]\<rparr>"
    by (auto simp: setup_shards_def)
  have "0 < nat n" using assms(2) by simp
  note loop = shard_loop_Inr [OF ss this]
  then have "distinct (concat ss)" using assms(3) by (metis distinct_take)
  from number_ips_get [OF this] have "\<forall>k < length ss. \<forall>ip \<in> set (ss ! k). dict_get (number_ips ss) ip = Some k"
    by blast
  moreover have "distinct (map multicast_addr [0..<length ss])"
    by (auto simp: distinct_map inj_on_def multicast_addr_def)
  ultimately show ?thesis
    using loop assms(2) unfolding sh by auto
qed

theorem setup_shards_partition_witness:
  "\<exists>sh. setup_shards [''a'', ''b'', ''c'', ''d'', ''e''] True 2 2 = Inr sh
     \<and> sh_server_ips sh = [''a'', ''b'', ''c'', ''d''] \<and> dict_get (sh_ip_to_shard sh) ''c'' = Some 1"
proof -
  have "case setup_shards [''a'', ''b'', ''c'', ''d'', ''e''] True 2 2 of
      Inl _ \<Rightarrow> False | Inr sh \<Rightarrow> sh_shards sh = [[''a'', ''b''], [''c'', ''d'']]"
    by code_simp
  then obtain sh where sh: "setup_shards [''a'', ''b'', ''c'', ''d'', ''e''] True 2 2 = Inr sh"
      "sh_shards sh = [[''a'', ''b''], [''c'', ''d'']]" by (auto split: sum.splits)
  have "concat (sh_shards sh) = sh_server_ips sh
      \<and> (\<forall>k < length (sh_shards sh). \<forall>ip \<in> set (sh_shards sh ! k). dict_get (sh_ip_to_shard sh) ip = Some k)"
    using setup_shards_partition [OF sh(1)] by simp
  then have "sh_server_ips sh = [''a'', ''b'', ''c'', ''d'']" and "dict_get (sh_ip_to_shard sh) ''c'' = Some 1"
    unfolding sh(2) by (simp, force dest: spec [of _ 1])
  with sh(1) show ?thesis by blast
qed

text \<open>Sharding fails only with \<open>IndexError\<close>, and exactly when the servers do not divide evenly
  and more shards are asked for than there are full ones (or no positive number is).\<close>

theorem setup_shards_fails:
  assumes "0 < n"
  shows "setup_shards ips True n m = Inl e \<longleftrightarrow>
     e = IndexError \<and> \<not> nat n dvd length ips \<and> (m \<le> 0 \<or> int (length ips div nat n) < m)"
  using assms shard_loop_Inl [of "nat n" m 0 ips e] by (auto simp: setup_shards_def ebind_eq_Inl)

theorem setup_shards_fails_witness:
  "setup_shards [''a'', ''b'', ''c''] True 2 2 = Inl IndexError"
  using setup_shards_fails [of 2 "[''a'', ''b'', ''c'']" 2 IndexError] by simp

text \<open>A parameter that the defaults lack is never set; the others take their last override.\<close>

lemma get_merge_params:
  "dict_get (merge_params ps x) k = (if dict_get ps k = None then None
      else case map_of (rev x) k of Some v \<Rightarrow> Some v | None \<Rightarrow> dict_get ps k)"
  unfolding merge_params_def by (rule alist.get_fold_guarded_put)

text \<open>Of the switches of a ring exactly one is configured to send the first control packet:
  the last one.\<close>

theorem one_switch_starts:
  assumes "cfg base ''experiment_parameters'' ''switches_in_ring'' = Inr (PList (map PInt ring))"
    and "ring \<noteq> []"
    and "\<forall>i \<in> set ring. generate_switch_config base i (cp i) n crp srp (lp i) th = Inr (d i)"
  shows "{i \<in> set ring. dict_get (d i) ''send_cntrl_pkt'' = Some (PInt 1)} = {last ring}"
proof -
  have last: "last_in_ring base = Inr (PInt (last ring))"
    using assms(1,2) by (simp add: last_in_ring_def py_nth_def from_end_def last_conv_nth
        nat_diff_distrib' of_nat_diff Let_def)
  have "dict_get (d i) ''send_cntrl_pkt'' = Some (PInt (if i = last ring then 1 else 0))"
    if "i \<in> set ring" for i
  proof -
    from assms(3) that have "generate_switch_config base i (cp i) n crp srp (lp i) th = Inr (d i)" by blast
    with last obtain x where "dict_put ''send_cntrl_pkt'' (PInt (if last ring = i then 1 else 0)) x = d i"
      by (auto simp: generate_switch_config_def)
    from this [symmetric] show ?thesis by (auto simp: alist.get_put)
  qed
  then show ?thesis using assms(2) by (auto split: if_splits)
qed

definition demo_switch :: "int \<Rightarrow> (string \<times> pyval) list" where
  "demo_switch i =
     (case generate_switch_config demo_base i PNone 2 (PInt 1) 2 PNone PNone of Inr d \<Rightarrow> d | Inl _ \<Rightarrow> [])"

theorem one_switch_starts_witness:
  "{i \<in> set [0, 1]. dict_get (demo_switch i) ''send_cntrl_pkt'' = Some (PInt 1)} = {last [0, 1]}"
proof (rule one_switch_starts [of demo_base "[0, 1]" "\<lambda>i. PNone" 2 "PInt 1" 2 "\<lambda>i. PNone" PNone])
  have "case generate_switch_config demo_base 0 PNone 2 (PInt 1) 2 PNone PNone of Inr d \<Rightarrow> True | Inl _ \<Rightarrow> False"
    by code_simp
  moreover have "case generate_switch_config demo_base 1 PNone 2 (PInt 1) 2 PNone PNone of Inr d \<Rightarrow> True | Inl _ \<Rightarrow> False"
    by code_simp
  ultimately show "\<forall>i \<in> set [0, 1]. generate_switch_config demo_base i PNone 2 (PInt 1) 2 PNone PNone = Inr (demo_switch i)"
    by (simp add: demo_switch_def split: sum.splits)
  show "cfg demo_base ''experiment_parameters'' ''switches_in_ring'' = Inr (PList (map PInt [0, 1]))"
    by (simp add: cfg_def demo_base_def)
qed simp

text \<open>The duration in a generated configuration: a server and a switch run five seconds
  longer than a client of the same experiment.\<close>

theorem generated_duration:
  assumes "generate_yaml_config E base pr a tr = (Inr y, tr')"
    and "cfg base ''experiment_parameters'' ''experiment_duration'' = Inr (PInt d)"
    and "cfg base ''experiment_parameters'' ''warm_up'' = Inr (PInt w)"
    and "cfg base ''experiment_parameters'' ''cool_down'' = Inr (PInt c)"
  shows "dict_get y ''experiment_duration'' =
    Some (PInt (d + w + c + (if ya_type a = ''server'' \<or> ya_type a = ''switch'' then 5 else 0)))"
proof -
  let ?t = "PInt (d + w + c + (if ya_type a = ''server'' \<or> ya_type a = ''switch'' then 5 else 0))"
  have dur: "final_duration base (ya_type a) = Inr ?t"
    using assms(2-4)
    by (simp add: final_duration_def py_add_def SERVER_START_DELAY_def SWITCH_START_DELAY_def Let_def
        flip: of_int_add)
  from assms(1) dur obtain x where x: "display (common_fields base pr a ?t) = Inr x"
    and y: "y = x \<or> with_fields x (client_fields base a) = Inr y
      \<or> (\<exists>r. with_fields x (server_fields base pr a r) = Inr y)
      \<or> with_fields x (soft_switch_fields base a) = Inr y"
    by (auto simp: generate_yaml_config_def bnd_eq_Inr lift_def ret_def random_int_def split: if_splits)
  from display_get [OF x, of "''experiment_duration''"]
  have "dict_get x ''experiment_duration'' = Some ?t"
    by (simp add: common_fields_def Let_def)
  with y show ?thesis
    by (auto simp: with_fields_get client_fields_def server_fields_def soft_switch_fields_def)
qed

theorem generated_duration_witness:
  "\<exists>y tr. generate_yaml_config demo_world demo_base demo_base demo_server [] = (Inr y, tr)
     \<and> dict_get y ''experiment_duration'' = Some (PInt 30)"
proof -
  have "case generate_yaml_config demo_world demo_base demo_base demo_server [] of
      (Inl _, _) \<Rightarrow> False | (Inr _, tr) \<Rightarrow> tr = [RandInt 0 9]" by code_simp
  from run_ok [OF this] obtain y tr where
    run: "generate_yaml_config demo_world demo_base demo_base demo_server [] = (Inr y, tr)" by blast
  from generated_duration [OF run, of 20 2 3] run show ?thesis
    by (simp add: cfg_def demo_base_def demo_server_def)
qed

text \<open>The generated Scalog configuration gives every order node and every data node its address
  under its own key.\<close>

theorem scalog_config_nodes:
  assumes "generate_scalog_config dump disc orders datas orf drf iv dp op dap rp = (c, s)"
    and "i < length orders" and "j < length datas"
  shows "dict_get c (''order-'' @ str_nat i @ ''-ip'') = Some (PQuoted (PStr (orders ! i)))
     \<and> dict_get c (''data-0-'' @ str_nat j @ ''-ip'') = Some (PQuoted (PStr (datas ! j)))
     \<and> s = dump (PDict c)"
proof -
  let ?o = "map (\<lambda>(i, ip). (''order-'' @ str_nat i @ ''-ip'', PQuoted (PStr ip))) (enumerate 0 orders)"
  let ?d = "map (\<lambda>(i, ip). (''data-0-'' @ str_nat i @ ''-ip'', PQuoted (PStr ip))) (enumerate 0 datas)"
  obtain base where c: "c = dict_update (dict_update base ?o) ?d"
    using assms(1) by (auto simp: generate_scalog_config_def Let_def)
  have keys: "map fst ?o = map (\<lambda>i. ''order-'' @ str_nat i @ ''-ip'') [0..<length orders]"
    "map fst ?d = map (\<lambda>i. ''data-0-'' @ str_nat i @ ''-ip'') [0..<length datas]"
    by (simp_all add: comp_def case_prod_unfold map_numbered [of "\<lambda>i. ''order-'' @ str_nat i @ ''-ip''", simplified]
        map_numbered [of "\<lambda>i. ''data-0-'' @ str_nat i @ ''-ip''", simplified])
  have dist: "distinct (map fst ?o)" "distinct (map fst ?d)"
    unfolding keys by (simp_all add: distinct_map inj_on_def)
  have "(''order-'' @ str_nat i @ ''-ip'', PQuoted (PStr (orders ! i))) \<in> set ?o"
    using assms(2) by (force simp: in_set_enumerate_eq)
  then have o: "map_of ?o (''order-'' @ str_nat i @ ''-ip'') = Some (PQuoted (PStr (orders ! i)))"
    using dist(1) by (simp only: map_of_eq_Some_iff)
  have "(''data-0-'' @ str_nat j @ ''-ip'', PQuoted (PStr (datas ! j))) \<in> set ?d"
    using assms(3) by (force simp: in_set_enumerate_eq)
  then have d: "map_of ?d (''data-0-'' @ str_nat j @ ''-ip'') = Some (PQuoted (PStr (datas ! j)))"
    using dist(2) by (simp only: map_of_eq_Some_iff)
  have "map_of ?d (''order-'' @ str_nat i @ ''-ip'') = None"
    by (auto simp: map_of_eq_None_iff)
  with o d show ?thesis
    using assms(1) unfolding c dict_get_update map_of_rev_distinct [OF dist(1)] map_of_rev_distinct [OF dist(2)]
    by (auto simp: generate_scalog_config_def Let_def)
qed

theorem scalog_config_nodes_witness:
  "\<exists>c s. generate_scalog_config (en_dump_yaml demo_world) ''d'' [''o0'', ''o1''] [''s0''] PNone PNone PNone PNone
       PNone PNone PNone = (c, s)
     \<and> dict_get c ''order-1-ip'' = Some (PQuoted (PStr ''o1''))"
proof -
  obtain c s where cs: "generate_scalog_config (en_dump_yaml demo_world) ''d'' [''o0'', ''o1''] [''s0''] PNone PNone
      PNone PNone PNone PNone PNone = (c, s)" by (cases "generate_scalog_config (en_dump_yaml demo_world) ''d''
        [''o0'', ''o1''] [''s0''] PNone PNone PNone PNone PNone PNone PNone")
  have "str_nat 1 = ''1''" by code_simp
  with scalog_config_nodes [OF cs, of 1 0] cs show ?thesis by simp
qed

end
