(* ===== verification/Aggregate.thy ===== *)
theory Aggregate
  imports Exp_Config "HOL-Library.Multiset"
begin

text \<open>
  experiments/scripts/experiment.py, from raw results to summaries: the two aggregation functions,
  each as the code has it, and the parsers that bring the compared systems' output into the common
  schema. Sums are exact: the rounding of floats is not modelled.
\<close>

section \<open>Result files\<close>

definition is_result_file :: "string \<Rightarrow> bool" where
  "is_result_file f = (ends_with f ''.json'' \<and> 1 < length (split_on (CHR ''_'') f))"

text \<open>The JSON object between the first opening and the last closing brace. \<open>None\<close>: the file is
  skipped. A \<open>JSONDecodeError\<close> is a \<open>ValueError\<close> here.\<close>

definition parse_content :: "env \<Rightarrow> string \<Rightarrow> pyval option res" where
  "parse_content E text =
     (let content = strip text
      in case (find_char (CHR ''{'') content, rfind_char (CHR ''}'') content) of
           (Some i, Some j) \<Rightarrow>
             if i < j then
               (case en_json E (take (j + 1 - i) (drop i content)) of
                  Inr v \<Rightarrow> Inr (Some v)
                | Inl (ValueError m) \<Rightarrow> Inr None
                | Inl e \<Rightarrow> Inl e)
             else Inr None
         | _ \<Rightarrow> Inr None)"

definition read_result :: "env \<Rightarrow> string \<Rightarrow> string \<Rightarrow> pyval option act_io" where
  "read_result E dir f =
     try_matching is_os_error
       (bnd (read_file E (path_join dir f)) (\<lambda>text. lift (parse_content E text)))
       (\<lambda>e. ret None)"

section \<open>Totals\<close>

record totals =
  t_tput :: rat
  t_lat :: rat
  t_sub :: rat
  t_count :: nat
  t_clients :: pyval
  t_batch :: pyval

definition no_totals :: totals where
  "no_totals = \<lparr>t_tput = 0, t_lat = 0, t_sub = 0, t_count = 0, t_clients = PInt 0, t_batch = PInt 0\<rparr>"

definition num_field :: "pyval \<Rightarrow> string \<Rightarrow> rat option res" where
  "num_field data k = ebind (py_get data k) (\<lambda>v. Inr (if is_number v then Some (number_of v) else None))"

definition or_zero :: "rat option \<Rightarrow> rat" where
  "or_zero x = (case x of Some q \<Rightarrow> q | None \<Rightarrow> 0)"

definition add_result :: "pyval \<Rightarrow> totals \<Rightarrow> totals res" where
  "add_result data a =
     ebind (num_field data ''throughput'') (\<lambda>tput.
     ebind (num_field data ''avg_latency'') (\<lambda>lat.
     ebind (py_get data ''batch_size'') (\<lambda>batch.
     ebind (num_field data ''sub_lat'') (\<lambda>sub.
     Inr (a\<lparr>t_tput := t_tput a + or_zero tput, t_lat := t_lat a + or_zero lat,
            t_count := t_count a + (if lat = None then 0 else 1), t_batch := batch,
            t_sub := t_sub a + or_zero sub\<rparr>)))))"

definition add_baseline :: "pyval \<Rightarrow> totals \<Rightarrow> totals res" where
  "add_baseline data a =
     ebind (num_field data ''throughput'') (\<lambda>tput.
     ebind (py_get data ''num_clients'') (\<lambda>clients.
     ebind (if is_number clients then py_add (t_clients a) clients else Inr (t_clients a)) (\<lambda>n.
     ebind (num_field data ''avg_latency'') (\<lambda>lat.
     ebind (py_get data ''batch_size'') (\<lambda>batch.
     Inr (a\<lparr>t_tput := t_tput a + or_zero tput, t_clients := n, t_lat := t_lat a + or_zero lat,
            t_count := t_count a + (if lat = None then 0 else 1), t_batch := batch\<rparr>))))))"

definition add_file ::
  "env \<Rightarrow> (pyval \<Rightarrow> totals \<Rightarrow> totals res) \<Rightarrow> string \<Rightarrow> string \<Rightarrow> totals \<Rightarrow> totals act_io" where
  "add_file E step dir f a =
     bnd (read_result E dir f) (\<lambda>d. case d of None \<Rightarrow> ret a | Some data \<Rightarrow> lift (step data a))"

definition average :: "rat \<Rightarrow> nat \<Rightarrow> rat" where
  "average q n = (if 0 < n then q / of_nat n else 0)"

section \<open>Summaries\<close>

text \<open>\<open>num_switches\<close>: only for Pringles is the ring looked at. The baseline computes it and does not
  use it, but a missing key raises there too.\<close>

definition num_switches :: "string \<Rightarrow> pyval \<Rightarrow> int res" where
  "num_switches system_name system =
     (if system_name = ''pringles''
      then ebind (cfg system ''experiment_parameters'' ''switches_in_ring'') (\<lambda>r.
           ebind (py_len r) (\<lambda>n. Inr (int n)))
      else Inr 0)"

definition result_summary :: "string \<Rightarrow> pyval \<Rightarrow> pyval \<Rightarrow> totals \<Rightarrow> (string \<times> pyval) list res" where
  "result_summary system_name base system a =
     ebind (num_switches system_name system) (\<lambda>switches.
     let exp = cfg base ''experiment_parameters''
     in display
        [(''agg_tput'', Inr (PFloat (t_tput a))),
         (''total_avg_latency'', Inr (PFloat (average (t_lat a) (t_count a)))),
         (''subscribe_delay'', Inr (PFloat (average (t_sub a) (t_count a)))),
         (''num_clients'', Inr (PInt (int (t_count a)))),
         (''batch_size'', Inr (t_batch a)),
         (''payload_size'', exp ''message_size''),
         (''num_switches_in_ring'', Inr (PInt switches)),
         (''num_shards'', exp ''num_shards''),
         (''num_servers_per_shard'', exp ''num_servers_per_shard''),
         (''git_hash'', exp ''git_hash''),
         (''system_name'', Inr (PStr system_name))])"

definition baseline_summary :: "string \<Rightarrow> pyval \<Rightarrow> pyval \<Rightarrow> totals \<Rightarrow> (string \<times> pyval) list res" where
  "baseline_summary system_name base system a =
     ebind (num_switches system_name system) (\<lambda>_.
     let exp = cfg base ''experiment_parameters''
     in display
        [(''agg_tput'', Inr (PFloat (t_tput a))),
         (''total_avg_latency'', Inr (PFloat (average (t_lat a) (t_count a)))),
         (''num_clients'', Inr (t_clients a)),
         (''batch_size'', Inr (t_batch a)),
         (''payload_size'', exp ''message_size''),
         (''git_hash'', exp ''git_hash''),
         (''system_name'', Inr (PStr system_name))])"

section \<open>Putting the files away\<close>

fun is_shutil_error :: "py_error \<Rightarrow> bool" where
  "is_shutil_error (ShutilError _) = True"
| "is_shutil_error _ = False"

definition move_result :: "env \<Rightarrow> string \<Rightarrow> string \<Rightarrow> string \<Rightarrow> unit act_io" where
  "move_result E dir target f =
     try_matching is_shutil_error (move_file E (path_join dir f) target) (\<lambda>e. ret ())"

definition move_pattern :: "env \<Rightarrow> string \<Rightarrow> string \<Rightarrow> string \<Rightarrow> unit act_io" where
  "move_pattern E dir target pattern =
     bnd (look (\<lambda>tr. en_glob E tr (path_join dir pattern)))
       (for_each (\<lambda>f. move_file E (path_join dir f) target))"

definition write_summary :: "env \<Rightarrow> string \<Rightarrow> (string \<times> pyval) list \<Rightarrow> unit act_io" where
  "write_summary E path d =
     try_matching is_os_error (write_file E path (en_dump_json E (PDict d))) (\<lambda>e. ret ())"

definition put_away :: "env \<Rightarrow> string \<Rightarrow> string \<Rightarrow> string list \<Rightarrow> (string \<times> pyval) list \<Rightarrow> unit act_io" where
  "put_away E dir json_name files summary =
     (let target = path_join dir json_name
      in andthen (make_dir E target)
        (andthen (for_each (move_result E dir target) files)
        (andthen (for_each (move_pattern E dir target) [''*.txt'', ''*.log'', ''*.perf''])
         (write_summary E (path_join dir (json_name @ ''.json'')) summary))))"

definition process_and_aggregate_results ::
  "env \<Rightarrow> string \<Rightarrow> string \<Rightarrow> string \<Rightarrow> pyval \<Rightarrow> pyval \<Rightarrow> unit act_io" where
  "process_and_aggregate_results E dir json_name system_name base system =
     bnd (look_res (\<lambda>tr. en_listdir E tr dir)) (\<lambda>all_files.
     let files = filter is_result_file all_files
     in if files = [] then ret ()
        else bnd (fold_io (add_file E add_result dir) files no_totals) (\<lambda>a.
             bnd (lift (result_summary system_name base system a)) (put_away E dir json_name files)))"

definition process_and_aggregate_baseline_results ::
  "env \<Rightarrow> string \<Rightarrow> string \<Rightarrow> string \<Rightarrow> pyval \<Rightarrow> pyval \<Rightarrow> unit act_io" where
  "process_and_aggregate_baseline_results E dir json_name system_name base system =
     bnd (look_res (\<lambda>tr. en_listdir E tr dir)) (\<lambda>all_files.
     let files = filter is_result_file all_files
     in if files = [] then ret ()
        else bnd (fold_io (add_file E add_baseline dir) files no_totals) (\<lambda>a.
             bnd (lift (baseline_summary system_name base system a)) (put_away E dir json_name files)))"

section \<open>Output of the compared systems\<close>

definition write_measurement :: "env \<Rightarrow> string \<Rightarrow> rat \<Rightarrow> rat \<Rightarrow> string act_io" where
  "write_measurement E path tput lat =
     andthen (try_matching is_os_error
        (write_file E path (en_dump_json E (PDict
           [(''throughput'', PFloat tput), (''avg_latency'', PFloat lat), (''batch_size'', PInt 1)])))
        (\<lambda>e. ret ())) (ret path)"

text \<open>\<open>float(v)\<close>.\<close>

fun py_float :: "env \<Rightarrow> pyval \<Rightarrow> rat res" where
  "py_float E (PStr s) = en_parse_float E s"
| "py_float E v = (if is_number v then Inr (number_of v) else Inl (TypeError ''float()''))"

definition kafka_throughput :: "env \<Rightarrow> string \<Rightarrow> rat res" where
  "kafka_throughput E text =
     ebind (en_json E text) (\<lambda>data.
     ebind (py_get_default data ''Overall_Throughput_MPS'' (PFloat 0)) (py_float E))"

definition kafka_latency :: "env \<Rightarrow> string \<Rightarrow> rat option" where
  "kafka_latency E line =
     (if sublist ''Kafka message processing latency:'' line then
        (case split_ws (strip line) of
           [] \<Rightarrow> None
         | ps \<Rightarrow> (case en_parse_float E (replace_all ''ms'' [] (last ps)) of Inr q \<Rightarrow> Some q | Inl _ \<Rightarrow> None))
      else None)"

definition kafka_avg_latency :: "env \<Rightarrow> string \<Rightarrow> rat" where
  "kafka_avg_latency E text =
     (let ls = List.map_filter (kafka_latency E) (file_lines text) in average (sum_list ls) (length ls))"

definition parse_kafka_results ::
  "env \<Rightarrow> string \<Rightarrow> string \<Rightarrow> string \<Rightarrow> nat \<Rightarrow> string \<Rightarrow> string act_io" where
  "parse_kafka_results E output_path log_path json_name exp_index dir =
     bnd (try_matching is_exception
            (bnd (read_file E output_path) (\<lambda>t. lift (kafka_throughput E t))) (\<lambda>e. ret 0)) (\<lambda>tput.
     bnd (try_matching is_exception
            (bnd (read_file E log_path) (\<lambda>t. ret (kafka_avg_latency E t))) (\<lambda>e. ret 0)) (\<lambda>lat.
     write_measurement E (path_join dir (json_name @ ''_'' @ str_nat exp_index @ ''_kafka.json'')) tput lat))"

text \<open>The first word of a line that reads as a number, after the given characters are taken out.\<close>

definition first_float :: "env \<Rightarrow> (string \<Rightarrow> string) \<Rightarrow> string \<Rightarrow> rat option" where
  "first_float E clean line =
     (case List.map_filter (\<lambda>p. case en_parse_float E (clean p) of Inr q \<Rightarrow> Some q | Inl _ \<Rightarrow> None)
             (split_ws (strip line)) of
        [] \<Rightarrow> None
      | q # _ \<Rightarrow> Some q)"

definition scalog_line :: "env \<Rightarrow> string \<Rightarrow> rat \<times> rat \<Rightarrow> rat \<times> rat" where
  "scalog_line E line acc =
     (let l = lower line
      in if sublist ''throughput'' l then
           (case first_float E (replace_all '','' []) line of Some q \<Rightarrow> (q, snd acc) | None \<Rightarrow> acc)
         else if sublist ''latency'' l \<and> sublist ''avg'' l then
           (case first_float E (\<lambda>p. replace_all '','' [] (replace_all ''ms'' [] p)) line of
              Some q \<Rightarrow> (fst acc, q) | None \<Rightarrow> acc)
         else acc)"

definition parse_scalog_results :: "env \<Rightarrow> string \<Rightarrow> string \<Rightarrow> nat \<Rightarrow> string \<Rightarrow> string act_io" where
  "parse_scalog_results E log_path json_name exp_index dir =
     bnd (try_matching is_exception
            (bnd (read_file E log_path) (\<lambda>t. ret (fold (scalog_line E) (file_lines t) (0, 0))))
            (\<lambda>e. ret (0, 0))) (\<lambda>acc.
     write_measurement E (path_join dir (json_name @ ''_'' @ str_nat exp_index @ ''_scalog.json''))
       (fst acc) (snd acc))"

section \<open>Facts\<close>

lemma adds_aggregate [adds_intros]:
  assumes "\<And>p. P (ReadFile p)" "\<And>p c. P (WriteFile p c)" "\<And>p. P (MakeDir p)" "\<And>p q. P (MoveFile p q)"
  shows "keeps (adds P) (process_and_aggregate_results E dir json_name system_name base system)"
    "keeps (adds P) (process_and_aggregate_baseline_results E dir json_name system_name base system)"
proof -
  note rules = step_relation.keeps_rules [OF step_relation_adds]
  have each: "keeps (adds P) (add_file E step dir f a)" for step f a
    unfolding add_file_def read_result_def
    by (intro rules adds_intros assms) (auto split: option.split intro!: rules)
  have away: "keeps (adds P) (put_away E dir json_name files summary)" for files summary
    unfolding put_away_def Let_def move_result_def move_pattern_def write_summary_def
    by (intro rules adds_intros assms)
  show "keeps (adds P) (process_and_aggregate_results E dir json_name system_name base system)"
    "keeps (adds P) (process_and_aggregate_baseline_results E dir json_name system_name base system)"
    unfolding process_and_aggregate_results_def process_and_aggregate_baseline_results_def Let_def
    by (intro rules adds_intros each away)+
qed

text \<open>Where reading a file does not depend on what was done before, a result file has one content.\<close>

definition data_at :: "env \<Rightarrow> (string \<Rightarrow> string res) \<Rightarrow> string \<Rightarrow> string \<Rightarrow> pyval option res" where
  "data_at E content dir f =
     (case ebind (content (path_join dir f)) (parse_content E) of
        Inl e \<Rightarrow> if is_os_error e then Inr None else Inl e
      | Inr d \<Rightarrow> Inr d)"

lemma read_result_static:
  "en_read E = (\<lambda>tr. content) \<Longrightarrow>
     read_result E dir f tr = (data_at E content dir f, tr @ [ReadFile (path_join dir f)])"
  by (cases "content (path_join dir f)"; cases "parse_content E (projr (content (path_join dir f)))")
    (auto simp: read_result_def data_at_def try_matching_def try_except_def bnd_def read_file_def io_defs)

lemma add_file_static:
  "en_read E = (\<lambda>tr. content) \<Longrightarrow>
     add_file E step dir f a tr =
       (case data_at E content dir f of Inl e \<Rightarrow> Inl e
        | Inr d \<Rightarrow> (case d of None \<Rightarrow> Inr a | Some data \<Rightarrow> step data a), tr @ [ReadFile (path_join dir f)])"
  by (simp add: add_file_def bnd_def read_result_static io_defs split: sum.splits option.splits)

text \<open>A number a result carries under a key.\<close>

fun measure_of :: "string \<Rightarrow> pyval option \<Rightarrow> rat option" where
  "measure_of k (Some (PDict d)) =
     (case dict_get d k of Some v \<Rightarrow> if is_number v then Some (number_of v) else None | None \<Rightarrow> None)"
| "measure_of k _ = None"

lemma num_field_Inr:
  "num_field data k = Inr q \<longleftrightarrow> (\<exists>d. data = PDict d) \<and> q = measure_of k (Some data)"
  by (cases data) (auto simp: num_field_def split: option.splits)

lemma py_get_Inr: "py_get data k = Inr v \<Longrightarrow> \<exists>d. data = PDict d"
  by (cases data) auto

fun usable :: "pyval option \<Rightarrow> bool" where
  "usable None = True"
| "usable (Some (PDict _)) = True"
| "usable _ = False"

lemma add_result_total: "(\<exists>b. add_result data a = Inr b) \<longleftrightarrow> usable (Some data)"
  by (cases data) (auto simp: add_result_def num_field_def)

lemma add_result_fields:
  assumes "add_result data a = Inr b"
  shows "t_tput b = t_tput a + or_zero (measure_of ''throughput'' (Some data))"
    "t_lat b = t_lat a + or_zero (measure_of ''avg_latency'' (Some data))"
    "t_sub b = t_sub a + or_zero (measure_of ''sub_lat'' (Some data))"
    "t_count b = t_count a + length (List.map_filter (measure_of ''avg_latency'') [Some data])"
  using assms by (auto simp: add_result_def num_field_Inr List.map_filter_def)

definition latencies :: "pyval option list \<Rightarrow> rat list" where
  "latencies ds = List.map_filter (measure_of ''avg_latency'') ds"

lemma latencies_Cons:
  "latencies (d # ds) = (case measure_of ''avg_latency'' d of Some q \<Rightarrow> q # latencies ds | None \<Rightarrow> latencies ds)"
  by (simp add: latencies_def List.map_filter_def split: option.splits)

definition measured :: "string \<Rightarrow> pyval option list \<Rightarrow> rat" where
  "measured k ds = (\<Sum>d\<leftarrow>ds. or_zero (measure_of k d))"

lemma measured_simps [simp]:
  "measured k [] = 0" "measured k (d # ds) = or_zero (measure_of k d) + measured k ds"
  by (simp_all add: measured_def)

lemma measured_latencies: "measured ''avg_latency'' ds = sum_list (latencies ds)"
  by (induction ds) (auto simp: latencies_Cons or_zero_def latencies_def List.map_filter_def split: option.splits)

lemma or_zero_None [simp]: "or_zero None = 0"
  by (simp add: or_zero_def)

lemma totals_of_run:
  assumes "en_read E = (\<lambda>tr. content)"
  shows "fold_io (add_file E add_result dir) files a tr = (Inr b, tr') \<Longrightarrow>
    \<exists>ds. emap (data_at E content dir) files = Inr ds
      \<and> t_tput b = t_tput a + measured ''throughput'' ds \<and> t_lat b = t_lat a + measured ''avg_latency'' ds
      \<and> t_sub b = t_sub a + measured ''sub_lat'' ds \<and> t_count b = t_count a + length (latencies ds)"
proof (induction files arbitrary: a tr)
  case Nil
  then show ?case by (simp add: ret_def latencies_def List.map_filter_def)
next
  case (Cons f files)
  from Cons.prems obtain c tr1 where first: "add_file E add_result dir f a tr = (Inr c, tr1)"
    and rest: "fold_io (add_file E add_result dir) files c tr1 = (Inr b, tr')"
    by (auto simp: bnd_eq_Inr)
  from first obtain d where d: "data_at E content dir f = Inr d"
    and step: "(case d of None \<Rightarrow> Inr a | Some data \<Rightarrow> add_result data a) = Inr c"
    by (auto simp: add_file_static [OF assms] split: sum.splits)
  from Cons.IH [OF rest] obtain ds where ds: "emap (data_at E content dir) files = Inr ds"
      "t_tput b = t_tput c + measured ''throughput'' ds" "t_lat b = t_lat c + measured ''avg_latency'' ds"
      "t_sub b = t_sub c + measured ''sub_lat'' ds" "t_count b = t_count c + length (latencies ds)"
    by blast
  show ?case
  proof (cases d)
    case None
    with ds d step show ?thesis by (intro exI [of _ "d # ds"]) (simp add: latencies_Cons)
  next
    case (Some data)
    with step have "add_result data a = Inr c" by simp
    from add_result_fields [OF this] ds d Some show ?thesis
      by (intro exI [of _ "d # ds"]) (auto simp: latencies_Cons List.map_filter_def split: option.splits)
  qed
qed

lemma run_succeeds_iff:
  assumes "en_read E = (\<lambda>tr. content)"
  shows "(\<exists>b tr'. fold_io (add_file E add_result dir) files a tr = (Inr b, tr'))
    \<longleftrightarrow> (\<forall>f \<in> set files. \<exists>d. data_at E content dir f = Inr d \<and> usable d)"
proof (induction files arbitrary: a tr)
  case Nil
  then show ?case by (simp add: ret_def)
next
  case (Cons f files)
  show ?case
  proof (cases "data_at E content dir f")
    case (Inl e)
    then show ?thesis by (simp add: bnd_def add_file_static [OF assms])
  next
    case (Inr d)
    show ?thesis
    proof (cases d)
      case None
      with Inr Cons.IH show ?thesis
        by (simp add: bnd_def add_file_static [OF assms])
    next
      case (Some data)
      show ?thesis
      proof (cases "add_result data a")
        case (Inl e)
        with add_result_total [of data a] have "\<not> usable (Some data)" by simp
        with Inl \<open>data_at E content dir f = Inr d\<close> Some show ?thesis
          by (simp add: bnd_def add_file_static [OF assms])
      next
        case (Inr c)
        with add_result_total [of data a] have "usable (Some data)" by blast
        with Inr \<open>data_at E content dir f = Inr d\<close> Some Cons.IH show ?thesis
          by (simp add: bnd_def add_file_static [OF assms])
      qed
    qed
  qed
qed

lemma mset_emap: "emap g xs = Inr ys \<Longrightarrow> mset ys = image_mset (\<lambda>x. projr (g x)) (mset xs)"
  by (induction xs arbitrary: ys) auto

lemma measured_mset: "mset xs = mset ys \<Longrightarrow> measured k xs = measured k ys"
  unfolding measured_def by (metis mset_map sum_mset_sum_list)

lemma latencies_mset: "mset xs = mset ys \<Longrightarrow> mset (latencies xs) = mset (latencies ys)"
  unfolding latencies_def List.map_filter_def by simp

lemma average_between:
  assumes "qs \<noteq> []"
  shows "Min (set qs) \<le> average (sum_list qs) (length qs) \<and> average (sum_list qs) (length qs) \<le> Max (set qs)"
proof -
  have n: "0 < (of_nat (length qs) :: rat)" using assms by simp
  have "of_nat (length xs) * lo \<le> sum_list xs \<and> sum_list xs \<le> of_nat (length xs) * hi"
    if "\<forall>x \<in> set xs. lo \<le> x \<and> x \<le> hi" for xs and lo hi :: rat
    using that by (induction xs) (auto simp: algebra_simps)
  from this [of qs "Min (set qs)" "Max (set qs)"] have
    "of_nat (length qs) * Min (set qs) \<le> sum_list qs" "sum_list qs \<le> of_nat (length qs) * Max (set qs)"
    by simp_all
  with n assms show ?thesis
    by (simp add: average_def pos_le_divide_eq pos_divide_le_eq mult.commute)
qed

lemma write_summary_last:
  "write_summary E path d tr = (r, tr') \<Longrightarrow> last tr' = WriteFile path (en_dump_json E (PDict d))"
  by (cases "en_write E tr path")
    (auto simp: write_summary_def try_matching_def try_except_def write_file_def io_defs split: if_splits)

definition same_sums :: "totals \<Rightarrow> totals \<Rightarrow> bool" where
  "same_sums a b \<longleftrightarrow> t_tput b = t_tput a \<and> t_lat b = t_lat a \<and> t_count b = t_count a
     \<and> t_batch b = t_batch a \<and> is_number (t_clients b)"

lemma py_add_number: "is_number v \<Longrightarrow> is_number w \<Longrightarrow> \<exists>x. py_add v w = Inr x \<and> is_number x"
  by (auto simp: py_add_def Let_def)

lemma steps_agree:
  assumes "same_sums a b"
  shows "case add_result data a of
      Inl e \<Rightarrow> add_baseline data b = Inl e
    | Inr a' \<Rightarrow> \<exists>b'. add_baseline data b = Inr b' \<and> same_sums a' b'"
proof (cases data)
  case (PDict d)
  show ?thesis
  proof (cases "\<exists>c. dict_get d ''num_clients'' = Some c \<and> is_number c")
    case True
    then obtain c x where "dict_get d ''num_clients'' = Some c" "is_number c"
        "py_add (t_clients b) c = Inr x" "is_number x"
      using py_add_number assms unfolding same_sums_def by blast
    with assms PDict show ?thesis by (simp add: add_result_def add_baseline_def num_field_def same_sums_def)
  next
    case False
    with assms PDict show ?thesis
      by (auto simp: add_result_def add_baseline_def num_field_def same_sums_def split: option.splits)
  qed
qed (simp_all add: add_result_def add_baseline_def num_field_def)

lemma steps_agree_rules:
  "same_sums a b \<Longrightarrow> add_result data a = Inl e \<Longrightarrow> add_baseline data b = Inl e"
  "same_sums a b \<Longrightarrow> add_result data a = Inr a' \<Longrightarrow> \<exists>b'. add_baseline data b = Inr b' \<and> same_sums a' b'"
  using steps_agree [of a b data] by auto

definition same_outcome :: "totals res \<times> trace \<Rightarrow> totals res \<times> trace \<Rightarrow> bool" where
  "same_outcome p q \<longleftrightarrow> snd q = snd p \<and>
     (case fst p of Inl e \<Rightarrow> fst q = Inl e | Inr a \<Rightarrow> \<exists>b. fst q = Inr b \<and> same_sums a b)"

lemma file_agree: "same_sums a b \<Longrightarrow> same_outcome (add_file E add_result dir f a t) (add_file E add_baseline dir f b t)"
  by (auto simp: same_outcome_def add_file_def bnd_def io_defs split: option.splits sum.splits prod.splits
      dest: steps_agree_rules)

lemma fold_agree:
  "same_sums a b \<Longrightarrow> same_outcome (fold_io (add_file E add_result dir) files a t)
     (fold_io (add_file E add_baseline dir) files b t)"
proof (induction files arbitrary: a b t)
  case Nil
  then show ?case by (simp add: same_outcome_def ret_def)
next
  case (Cons f files)
  obtain r t1 where r: "add_file E add_result dir f a t = (r, t1)" by force
  note step = file_agree [OF Cons.prems, of E dir f t, unfolded r same_outcome_def]
  show ?case
  proof (cases r)
    case (Inl e)
    with step have "add_file E add_baseline dir f b t = (Inl e, t1)" by (simp add: prod_eq_iff)
    with r Inl show ?thesis by (simp add: bnd_def same_outcome_def)
  next
    case (Inr a')
    with step obtain b' where "add_file E add_baseline dir f b t = (Inr b', t1)" "same_sums a' b'"
      by (auto simp: prod_eq_iff)
    with r Inr Cons.IH show ?thesis by (simp add: bnd_def)
  qed
qed

definition demo_files :: "string \<Rightarrow> string res" where
  "demo_files f =
     (if f = ''res/c_1.json'' then Inr '' {1} '' else if f = ''res/c_2.json'' then Inr ''log {2}''
      else if f = ''res/c_3.json'' then Inr ''empty'' else Inl (FileNotFound f))"

definition result_world :: env where
  "result_world = demo_world\<lparr>en_read := (\<lambda>tr. demo_files),
     en_listdir := (\<lambda>tr d. Inr [''c_1.json'', ''run.txt'', ''c_2.json'', ''c_3.json'', ''c_4.json'']),
     en_json := (\<lambda>s. if s = ''{1}'' then Inr (PDict [(''throughput'', PInt 10), (''avg_latency'', PInt 2)])
                     else Inr (PDict [(''throughput'', PInt 5), (''avg_latency'', PInt 4)]))\<rparr>"

definition demo_summary_base :: pyval where
  "demo_summary_base = PDict [(''experiment_parameters'', PDict [(''message_size'', PInt 64),
     (''num_shards'', PInt 1), (''num_servers_per_shard'', PInt 1), (''git_hash'', PStr ''h'')])]"

section \<open>Properties\<close>

text \<open>C24. The summary: the aggregate throughput is the sum of the throughputs of the readable result
  files, the latency is the mean of the latencies they carry, and the number of clients is the number
  of those latencies; the summary is the last thing written, under the experiment's name.\<close>

theorem aggregate_summary:
  assumes "process_and_aggregate_results E dir json_name system_name base system tr = (Inr (), tr')"
    and "en_read E = (\<lambda>tr. content)" and "en_listdir E tr dir = Inr listing"
    and "filter is_result_file listing \<noteq> []"
  shows "\<exists>ds d. emap (data_at E content dir) (filter is_result_file listing) = Inr ds
     \<and> last tr' = WriteFile (path_join dir (json_name @ ''.json'')) (en_dump_json E (PDict d))
     \<and> dict_get d ''agg_tput'' = Some (PFloat (measured ''throughput'' ds))
     \<and> dict_get d ''total_avg_latency'' = Some (PFloat (average (sum_list (latencies ds)) (length (latencies ds))))
     \<and> dict_get d ''num_clients'' = Some (PInt (int (length (latencies ds))))"
proof -
  let ?files = "filter is_result_file listing"
  from assms obtain a tr1 d where run: "fold_io (add_file E add_result dir) ?files no_totals tr = (Inr a, tr1)"
    and d: "result_summary system_name base system a = Inr d"
    and away: "put_away E dir json_name ?files d tr1 = (Inr (), tr')"
    by (auto simp: process_and_aggregate_results_def bnd_eq_Inr look_res_def lift_def Let_def)
  from totals_of_run [OF assms(2) run] obtain ds where
    ds: "emap (data_at E content dir) ?files = Inr ds" "t_tput a = measured ''throughput'' ds"
      "t_lat a = sum_list (latencies ds)" "t_count a = length (latencies ds)"
    by (auto simp: no_totals_def measured_latencies)
  from d obtain sw where "display (let exp = cfg base ''experiment_parameters'' in
        [(''agg_tput'', Inr (PFloat (t_tput a))),
         (''total_avg_latency'', Inr (PFloat (average (t_lat a) (t_count a)))),
         (''subscribe_delay'', Inr (PFloat (average (t_sub a) (t_count a)))),
         (''num_clients'', Inr (PInt (int (t_count a)))),
         (''batch_size'', Inr (t_batch a)),
         (''payload_size'', exp ''message_size''),
         (''num_switches_in_ring'', Inr (PInt sw)),
         (''num_shards'', exp ''num_shards''),
         (''num_servers_per_shard'', exp ''num_servers_per_shard''),
         (''git_hash'', exp ''git_hash''),
         (''system_name'', Inr (PStr system_name))]) = Inr d"
    by (auto simp: result_summary_def Let_def)
  note got = display_get [OF this, unfolded Let_def]
  from away have "last tr' = WriteFile (path_join dir (json_name @ ''.json'')) (en_dump_json E (PDict d))"
    by (auto simp: put_away_def Let_def andthen_eq_Inr dest!: write_summary_last)
  with ds got [of "''agg_tput''"] got [of "''total_avg_latency''"] got [of "''num_clients''"] show ?thesis
    by (intro exI [of _ ds] exI [of _ d]) simp
qed

theorem aggregate_summary_witness:
  "\<exists>tr' d. process_and_aggregate_results result_world ''res'' ''x'' ''kafka'' demo_summary_base PNone [] = (Inr (), tr')
     \<and> last tr' = WriteFile ''res/x.json'' (en_dump_json result_world (PDict d))
     \<and> dict_get d ''agg_tput'' = Some (PFloat 15) \<and> dict_get d ''total_avg_latency'' = Some (PFloat 3)
     \<and> dict_get d ''num_clients'' = Some (PInt 2)"
proof -
  have "case process_and_aggregate_results result_world ''res'' ''x'' ''kafka'' demo_summary_base PNone [] of
      (Inl _, _) \<Rightarrow> False | (Inr _, t) \<Rightarrow> True" by code_simp
  from run_ok_unit [OF this] obtain tr' where
    run: "process_and_aggregate_results result_world ''res'' ''x'' ''kafka'' demo_summary_base PNone [] = (Inr (), tr')"
    by blast
  have files: "filter is_result_file [''c_1.json'', ''run.txt'', ''c_2.json'', ''c_3.json'', ''c_4.json'']
      = [''c_1.json'', ''c_2.json'', ''c_3.json'', ''c_4.json'']" by code_simp
  have data: "emap (data_at result_world demo_files ''res'') [''c_1.json'', ''c_2.json'', ''c_3.json'', ''c_4.json'']
      = Inr [Some (PDict [(''throughput'', PInt 10), (''avg_latency'', PInt 2)]),
             Some (PDict [(''throughput'', PInt 5), (''avg_latency'', PInt 4)]), None, None]" by code_simp
  have path: "path_join ''res'' (''x'' @ ''.json'') = ''res/x.json''" by code_simp
  have world: "en_read result_world = (\<lambda>tr. demo_files)"
    "en_listdir result_world [] ''res'' = Inr [''c_1.json'', ''run.txt'', ''c_2.json'', ''c_3.json'', ''c_4.json'']"
    by (simp_all add: result_world_def)
  have nums: "measured ''throughput'' [Some (PDict [(''throughput'', PInt 10), (''avg_latency'', PInt 2)]),
        Some (PDict [(''throughput'', PInt 5), (''avg_latency'', PInt 4)]), None, None] = 15"
    "latencies [Some (PDict [(''throughput'', PInt 10), (''avg_latency'', PInt 2)]),
        Some (PDict [(''throughput'', PInt 5), (''avg_latency'', PInt 4)]), None, None] = [2, 4]"
    by (simp_all add: or_zero_def latencies_def List.map_filter_def)
  from aggregate_summary [OF run world, unfolded files data path] obtain d where
    "last tr' = WriteFile ''res/x.json'' (en_dump_json result_world (PDict d))"
    "dict_get d ''agg_tput'' = Some (PFloat 15)" "dict_get d ''total_avg_latency'' = Some (PFloat (average 6 2))"
    "dict_get d ''num_clients'' = Some (PInt 2)"
    by (auto simp: nums or_zero_def numeral_2_eq_2)
  with run show ?thesis by (auto simp: average_def)
qed

text \<open>The order in which the operating system lists the files does not matter: any two orders
  succeed alike and give the same sums, counts and averages. (The batch size is the last file's.)\<close>

theorem aggregate_order:
  assumes "fold_io (add_file E add_result dir) files no_totals tr = (Inr a, tr1)"
    and "mset files = mset files'" and "en_read E = (\<lambda>tr. content)"
  shows "\<exists>b tr2. fold_io (add_file E add_result dir) files' no_totals tr' = (Inr b, tr2)
     \<and> t_tput b = t_tput a \<and> t_count b = t_count a
     \<and> average (t_lat b) (t_count b) = average (t_lat a) (t_count a)
     \<and> average (t_sub b) (t_count b) = average (t_sub a) (t_count a)"
proof -
  have "set files = set files'" using assms(2) by (metis set_mset_mset)
  with assms(1) run_succeeds_iff [OF assms(3)] obtain b tr2 where
    b: "fold_io (add_file E add_result dir) files' no_totals tr' = (Inr b, tr2)" by metis
  from totals_of_run [OF assms(3,1)] totals_of_run [OF assms(3) b] obtain xs ys where
    xs: "emap (data_at E content dir) files = Inr xs" "t_tput a = measured ''throughput'' xs"
      "t_lat a = measured ''avg_latency'' xs" "t_sub a = measured ''sub_lat'' xs" "t_count a = length (latencies xs)"
    and ys: "emap (data_at E content dir) files' = Inr ys" "t_tput b = measured ''throughput'' ys"
      "t_lat b = measured ''avg_latency'' ys" "t_sub b = measured ''sub_lat'' ys" "t_count b = length (latencies ys)"
    by (auto simp: no_totals_def)
  have m: "mset xs = mset ys"
    using mset_emap [OF xs(1)] mset_emap [OF ys(1)] assms(2) by simp
  have "length (latencies xs) = length (latencies ys)"
    using latencies_mset [OF m] by (metis size_mset)
  with xs ys measured_mset [OF m] b show ?thesis by auto
qed

theorem aggregate_order_witness:
  "\<exists>a b tr1 tr2. fold_io (add_file result_world add_result ''res'') [''c_1.json'', ''c_2.json''] no_totals [] = (Inr a, tr1)
     \<and> fold_io (add_file result_world add_result ''res'') [''c_2.json'', ''c_1.json''] no_totals [] = (Inr b, tr2)
     \<and> t_tput b = t_tput a"
proof -
  have "case fold_io (add_file result_world add_result ''res'') [''c_1.json'', ''c_2.json''] no_totals [] of
      (Inl _, _) \<Rightarrow> False | (Inr _, t) \<Rightarrow> True" by code_simp
  from run_ok [OF this] obtain a tr1 where
    a: "fold_io (add_file result_world add_result ''res'') [''c_1.json'', ''c_2.json''] no_totals [] = (Inr a, tr1)"
    by blast
  have "en_read result_world = (\<lambda>tr. demo_files)" by (simp add: result_world_def)
  from aggregate_order [OF a _ this, of "[''c_2.json'', ''c_1.json'']" "[]"] a show ?thesis by auto
qed

text \<open>C25. The baseline's aggregation agrees with the other one on what both compute: on the same
  files both read the same, fail alike, and find the same throughput, latencies and batch size.\<close>

theorem aggregate_baseline_agrees:
  "case (fold_io (add_file E add_result dir) files no_totals tr,
         fold_io (add_file E add_baseline dir) files no_totals tr) of
     ((Inl e, t), (r, u)) \<Rightarrow> r = Inl e \<and> u = t
   | ((Inr a, t), (r, u)) \<Rightarrow> (\<exists>b. r = Inr b \<and> t_tput b = t_tput a \<and> t_lat b = t_lat a
        \<and> t_count b = t_count a \<and> t_batch b = t_batch a) \<and> u = t"
proof -
  have "same_outcome (fold_io (add_file E add_result dir) files no_totals tr)
      (fold_io (add_file E add_baseline dir) files no_totals tr)"
    by (rule fold_agree) (simp add: same_sums_def no_totals_def)
  then show ?thesis
    by (auto simp: same_outcome_def same_sums_def split: prod.splits sum.splits)
qed

text \<open>The average latency of a summary lies between the smallest and the largest latency the
  result files carry.\<close>

theorem average_latency_bounds:
  assumes "fold_io (add_file E add_result dir) files no_totals tr = (Inr a, tr')"
    and "en_read E = (\<lambda>tr. content)" and "0 < t_count a"
  shows "\<exists>ds. emap (data_at E content dir) files = Inr ds
     \<and> Min (set (latencies ds)) \<le> average (t_lat a) (t_count a)
     \<and> average (t_lat a) (t_count a) \<le> Max (set (latencies ds))"
proof -
  from totals_of_run [OF assms(2,1)] obtain ds where
    ds: "emap (data_at E content dir) files = Inr ds" "t_lat a = sum_list (latencies ds)"
      "t_count a = length (latencies ds)"
    by (auto simp: no_totals_def measured_latencies)
  with average_between [of "latencies ds"] assms(3) show ?thesis by auto
qed

theorem average_latency_bounds_witness:
  "\<exists>a tr'. fold_io (add_file result_world add_result ''res'') [''c_1.json'', ''c_2.json''] no_totals [] = (Inr a, tr')
     \<and> 2 \<le> average (t_lat a) (t_count a) \<and> average (t_lat a) (t_count a) \<le> 4"
proof -
  have "case fold_io (add_file result_world add_result ''res'') [''c_1.json'', ''c_2.json''] no_totals [] of
      (Inl _, _) \<Rightarrow> False | (Inr a, t) \<Rightarrow> t_count a = 2" by code_simp
  then obtain a tr1 where
    a: "fold_io (add_file result_world add_result ''res'') [''c_1.json'', ''c_2.json''] no_totals [] = (Inr a, tr1)"
      "t_count a = 2"
    by (auto split: prod.splits sum.splits)
  have data: "emap (data_at result_world demo_files ''res'') [''c_1.json'', ''c_2.json'']
      = Inr [Some (PDict [(''throughput'', PInt 10), (''avg_latency'', PInt 2)]),
             Some (PDict [(''throughput'', PInt 5), (''avg_latency'', PInt 4)])]" by code_simp
  have lats: "latencies [Some (PDict [(''throughput'', PInt 10), (''avg_latency'', PInt 2)]),
      Some (PDict [(''throughput'', PInt 5), (''avg_latency'', PInt 4)])] = [2, 4]"
    by (simp add: latencies_def List.map_filter_def)
  have "en_read result_world = (\<lambda>tr. demo_files)" by (simp add: result_world_def)
  from average_latency_bounds [OF a(1) this] a data show ?thesis
    by (intro exI [of _ a] exI [of _ tr1]) (auto simp: lats simp del: fold_io.simps)
qed

text \<open>A summary is itself taken for a raw result by the next aggregation of the directory
  exactly when its name has an underscore.\<close>

theorem summary_recounted: "is_result_file (json_name @ ''.json'') \<longleftrightarrow> CHR ''_'' \<in> set json_name"
  using count_list_0_iff [of json_name "CHR ''_''"]
  by (auto simp: is_result_file_def ends_with_def length_split_on suffix_def)

end
