(* ===== verification/Switch_Remote.thy ===== *)
theory Switch_Remote
  imports Exp_Config
begin

text \<open>
  experiments/scripts/experiment.py, the hardware switches: copying a file to every switch of the
  ring, running a program there, and setting the switches up, through a jump host. One action
  \<open>SwitchConnect\<close> stands for the two SSH connections and the channel between them; it may raise, as
  every action on a switch may, and nothing closes what is open then.
\<close>

section \<open>Actions on a switch\<close>

definition switch_do :: "env \<Rightarrow> action \<Rightarrow> unit act_io" where
  "switch_do E a tr = (en_switch E tr a, tr @ [a])"

record ring =
  ri_jump_host :: string
  ri_jump_user :: string
  ri_ips :: pyval
  ri_order :: "pyval list"

text \<open>\<open>switch\_ips[idx]\<close>: a list wants an integer.\<close>

fun ring_index :: "pyval \<Rightarrow> int res" where
  "ring_index (PInt i) = Inr i"
| "ring_index _ = Inl (TypeError ''list indices must be integers'')"

definition ring_of :: "pyval \<Rightarrow> string list \<Rightarrow> ring res" where
  "ring_of config ks =
     ebind (ebind (cfg config ''switches'' ''jump_host'') as_str) (\<lambda>host.
     ebind (ebind (cfg config ''switches'' ''jump_user'') as_str) (\<lambda>user.
     ebind (emap (cfg config ''switches'') ks) (\<lambda>_.
     ebind (cfg config ''switches'' ''switch_ips'') (\<lambda>ips.
     ebind (ebind (cfg config ''experiment_parameters'' ''switches_in_ring'') py_iter) (\<lambda>order.
     Inr \<lparr>ri_jump_host = host, ri_jump_user = user, ri_ips = ips, ri_order = order\<rparr>)))))"

text \<open>One switch of the ring: connect, act, close.\<close>

definition on_switch :: "env \<Rightarrow> ring \<Rightarrow> (int \<Rightarrow> string \<Rightarrow> unit act_io) \<Rightarrow> pyval \<Rightarrow> unit act_io" where
  "on_switch E r body v =
     bnd (lift (ring_index v)) (\<lambda>idx.
     bnd (lift (ebind (py_index (ri_ips r) idx) as_str)) (\<lambda>ip.
     andthen (switch_do E (SwitchConnect (ri_jump_host r) (ri_jump_user r) ip))
    (andthen (body idx ip)
     (switch_do E (SwitchClose ip)))))"

definition execute_scp_switch_cmd :: "env \<Rightarrow> pyval \<Rightarrow> string \<Rightarrow> string \<Rightarrow> unit act_io" where
  "execute_scp_switch_cmd E config program_path binary_name =
     bnd (lift (ring_of config [])) (\<lambda>r.
     bnd (lift (cfg config ''switches'' ''config_name'')) (\<lambda>_.
     for_each (on_switch E r (\<lambda>idx ip. switch_do E (SwitchPut ip program_path (''/root/'' @ binary_name))))
       (ri_order r)))"

definition in_background :: "string \<Rightarrow> string \<Rightarrow> string" where
  "in_background program output = ''nohup '' @ program @ ''> ~/'' @ output @ '' 2>&1 &''"

definition execute_remote_switch_cmd :: "env \<Rightarrow> pyval \<Rightarrow> string \<Rightarrow> string \<Rightarrow> unit act_io" where
  "execute_remote_switch_cmd E config program_path config_filename =
     bnd (lift (ring_of config [])) (\<lambda>r.
     for_each (on_switch E r (\<lambda>idx ip.
       andthen (switch_do E (SwitchExec ip (in_background program_path config_filename)))
         (sleep (PInt 5)))) (ri_order r))"

section \<open>Setting the switches up\<close>

text \<open>The first switch of the ring is controlled over the port towards the last one, every other over
  the port towards the one before it.\<close>

definition control_neighbour :: "pyval list \<Rightarrow> nat \<Rightarrow> pyval res" where
  "control_neighbour order k =
     (if k = 0 then py_nth order (int (length order) - 1) else py_nth order (int k - 1))"

definition control_port :: "pyval \<Rightarrow> int \<Rightarrow> pyval list \<Rightarrow> nat \<Rightarrow> pyval res" where
  "control_port config idx order k =
     ebind (cfg config ''switches'' (''cntrl_port_switch'' @ str_int idx)) (\<lambda>ports.
     ebind (control_neighbour order k) (py_sub ports))"

definition switch_config :: "pyval \<Rightarrow> int \<Rightarrow> pyval list \<Rightarrow> nat \<Rightarrow> (string \<times> pyval) list res" where
  "switch_config config idx order k =
     ebind (control_port config idx order k) (\<lambda>cntrl.
     ebind (ebind (cfg config ''network_setup'' ''stor_ips'') py_len) (\<lambda>servers.
     ebind (cfg config ''experiment_parameters'' ''num_client_threads'') (\<lambda>threads.
     ebind (py_add (PInt (BASE_PORT + int servers * 2)) threads) (\<lambda>client_recv_port.
     ebind (ebind (cfg config ''switches'' ''loopback_ports'') (\<lambda>p. py_index p idx)) (\<lambda>loopback.
     generate_switch_config config idx cntrl (int (length order)) client_recv_port (BASE_PORT + 3)
       loopback threads)))))"

definition quote_cmd :: "string \<Rightarrow> string" where
  "quote_cmd p = ''pkill -9 -f '' @ [char_of (39 :: nat)] @ p @ [char_of (39 :: nat)]"

definition setup_switch ::
  "env \<Rightarrow> pyval \<Rightarrow> pyval list \<Rightarrow> string \<Rightarrow> string \<Rightarrow> string \<Rightarrow> nat \<Rightarrow> int \<Rightarrow> string \<Rightarrow> unit act_io" where
  "setup_switch E config order config_name switchd control_plane k idx ip =
     bnd (lift (switch_config config idx order k)) (\<lambda>sc.
     andthen (write_file E config_name (en_dump_yaml E (PDict sc)))
    (andthen (switch_do E (SwitchPut ip (en_abspath E config_name) (''/root/'' @ config_name)))
    (andthen (switch_do E (SwitchExec ip (quote_cmd ''bf_switchd|run_switchd.sh'')))
    (andthen (sleep (PInt 5))
    (andthen (switch_do E (SwitchExec ip (in_background switchd ''switch_switchd_log.txt'')))
    (andthen (sleep (PInt 10))
    (andthen (switch_do E (SwitchExec ip (quote_cmd ''run_p4_tests.sh|/root/bf-sde-9.4.0/install/bin/ptf'')))
    (andthen (sleep (PInt 5))
    (andthen (switch_do E (SwitchExec ip (in_background control_plane ''control_plane_log.txt'')))
     (sleep (PInt 5)))))))))))"

definition setup_switches :: "env \<Rightarrow> pyval \<Rightarrow> unit act_io" where
  "setup_switches E config =
     bnd (lift (ring_of config [''tofino_model'', ''arch''])) (\<lambda>r.
     bnd (lift (ebind (cfg config ''switches'' ''switchd'') as_str)) (\<lambda>switchd.
     bnd (lift (ebind (cfg config ''switches'' ''ptf_test'') as_str)) (\<lambda>control_plane.
     bnd (lift (ebind (cfg config ''switches'' ''config_name'') as_str)) (\<lambda>config_name.
     for_each (\<lambda>(k, v). on_switch E r (setup_switch E config (ri_order r) config_name switchd control_plane k) v)
       (enumerate 0 (ri_order r))))))"

section \<open>Facts\<close>

text \<open>The address of a ring entry, and what doing one thing on every switch amounts to.\<close>

definition switch_addr :: "ring \<Rightarrow> pyval \<Rightarrow> string res" where
  "switch_addr r v = ebind (ring_index v) (\<lambda>idx. ebind (py_index (ri_ips r) idx) as_str)"

lemma switch_do_Inr: "switch_do E a tr = (Inr (), t) \<longleftrightarrow> en_switch E tr a = Inr () \<and> t = tr @ [a]"
  by (auto simp: switch_do_def)

lemma on_switch_run:
  assumes "on_switch E r body v tr = (Inr (), t)"
    and body: "\<And>idx ip s u. body idx ip s = (Inr (), u) \<Longrightarrow> u = s @ acts ip"
  shows "\<exists>ip. switch_addr r v = Inr ip
     \<and> t = tr @ SwitchConnect (ri_jump_host r) (ri_jump_user r) ip # acts ip @ [SwitchClose ip]"
  using assms(1)
  by (auto simp: on_switch_def switch_addr_def bnd_eq_Inr andthen_unit lift_def switch_do_Inr dest!: body)

lemma ring_run:
  assumes body: "\<And>idx ip s u. body idx ip s = (Inr (), u) \<Longrightarrow> u = s @ acts ip"
  shows "for_each (on_switch E r body) vs tr = (Inr (), t) \<Longrightarrow>
    \<exists>ips. emap (switch_addr r) vs = Inr ips
     \<and> t = tr @ concat (map (\<lambda>ip. SwitchConnect (ri_jump_host r) (ri_jump_user r) ip # acts ip @ [SwitchClose ip]) ips)"
proof (induction vs arbitrary: tr)
  case (Cons v vs)
  from Cons.prems obtain u where u: "on_switch E r body v tr = (Inr (), u)"
    "for_each (on_switch E r body) vs u = (Inr (), t)"
    by (auto simp: for_each_Cons_Inr simp del: for_each.simps)
  obtain ip where ip: "switch_addr r v = Inr ip"
    "u = tr @ SwitchConnect (ri_jump_host r) (ri_jump_user r) ip # acts ip @ [SwitchClose ip]"
    using on_switch_run [where acts = acts, OF u(1)] body by blast
  from Cons.IH [OF u(2)] obtain ips where "emap (switch_addr r) vs = Inr ips"
    "t = u @ concat (map (\<lambda>ip. SwitchConnect (ri_jump_host r) (ri_jump_user r) ip # acts ip @ [SwitchClose ip]) ips)"
    by blast
  with ip show ?case by (intro exI [of _ "ip # ips"]) simp
qed simp

section \<open>Properties\<close>

text \<open>The copy of a program to the ring, when it gets through, visits the switches in the order of
  the ring and does on each exactly this: connect through the jump host, put the file under
  \<open>/root\<close>, close the connection.\<close>

theorem scp_switches_ring:
  assumes "execute_scp_switch_cmd E config path name tr = (Inr (), t)" and "ring_of config [] = Inr r"
  shows "\<exists>ips. emap (switch_addr r) (ri_order r) = Inr ips
     \<and> t = tr @ concat (map (\<lambda>ip. [SwitchConnect (ri_jump_host r) (ri_jump_user r) ip,
           SwitchPut ip path (''/root/'' @ name), SwitchClose ip]) ips)"
proof -
  let ?put = "\<lambda>ip. SwitchPut ip path (''/root/'' @ name)"
  from assms have "for_each (on_switch E r (\<lambda>idx ip. switch_do E (?put ip))) (ri_order r) tr = (Inr (), t)"
    by (auto simp: execute_scp_switch_cmd_def bnd_eq_Inr lift_def)
  from ring_run [OF _ this, of "\<lambda>ip. [?put ip]"] show ?thesis
    by (auto simp: switch_do_Inr)
qed

definition demo_ring :: pyval where
  "demo_ring = PDict
     [(''switches'', PDict [(''jump_host'', PStr ''j''), (''jump_user'', PStr ''u''), (''config_name'', PStr ''c''),
        (''switch_ips'', PList [PStr ''10.0.0.1'', PStr ''10.0.0.2''])]),
      (''experiment_parameters'', PDict [(''switches_in_ring'', PList [PInt 1, PInt 0])])]"

theorem scp_switches_ring_witness:
  "\<exists>t. execute_scp_switch_cmd demo_world demo_ring ''p'' ''b'' [] = (Inr (), t)
     \<and> take 2 t = [SwitchConnect ''j'' ''u'' ''10.0.0.2'', SwitchPut ''10.0.0.2'' ''p'' ''/root/b'']"
proof -
  have "fst (execute_scp_switch_cmd demo_world demo_ring ''p'' ''b'' []) = Inr ()" by code_simp
  then obtain t where t: "execute_scp_switch_cmd demo_world demo_ring ''p'' ''b'' [] = (Inr (), t)"
    by (cases "execute_scp_switch_cmd demo_world demo_ring ''p'' ''b'' []") simp
  have r: "ring_of demo_ring [] = Inr \<lparr>ri_jump_host = ''j'', ri_jump_user = ''u'',
      ri_ips = PList [PStr ''10.0.0.1'', PStr ''10.0.0.2''], ri_order = [PInt 1, PInt 0]\<rparr>" by code_simp
  have "emap (switch_addr \<lparr>ri_jump_host = ''j'', ri_jump_user = ''u'',
      ri_ips = PList [PStr ''10.0.0.1'', PStr ''10.0.0.2''], ri_order = [PInt 1, PInt 0]\<rparr>) [PInt 1, PInt 0]
    = Inr [''10.0.0.2'', ''10.0.0.1'']" by code_simp
  with scp_switches_ring [OF t r] t show ?thesis by auto
qed

text \<open>The two branches that choose the switch a control packet comes from are the cyclic
  predecessor: the entry at \<open>(it - 1) % len(switches_in_ring)\<close>, with Python's modulo.\<close>

theorem control_neighbour_cyclic:
  assumes "k < length order"
  shows "control_neighbour order k = py_nth order ((int k - 1) mod int (length order))"
proof (cases k)
  case 0
  with assms have "(-1 :: int) mod int (length order) = int (length order) - 1"
    by (simp add: zmod_minus1)
  with 0 show ?thesis by (simp add: control_neighbour_def)
qed (use assms in \<open>simp add: control_neighbour_def\<close>)

theorem control_neighbour_cyclic_witness:
  "control_neighbour [PInt 4, PInt 5, PInt 6] 0 = Inr (PInt 6)"
  using control_neighbour_cyclic [of 0 "[PInt 4, PInt 5, PInt 6]"] by (simp add: py_nth_def from_end_def zmod_minus1)

end
