(* ===== verification/Cycle_Base.thy ===== *)
theory Cycle_Base
  imports Aggregate Switch_Remote
begin

text \<open>
  experiments/scripts/experiment.py, what the experiment cycles share: reading the system's
  configuration file, running its experiments one after the other on one shared configuration, and
  the parameters of a run. A cycle's Python locals outlive a run of its loop body and are seen by
  \<open>except\<close> and \<open>finally\<close>: they are part of the state, next to the trace.
\<close>

section \<open>Locals and the trace\<close>

record 'l cycle =
  cy_trace :: trace
  cy_vars :: 'l

type_synonym ('l, 'a) cycle_io = "('l cycle, 'a) io"

definition does :: "'a act_io \<Rightarrow> ('l, 'a) cycle_io" where
  "does m s = (case m (cy_trace s) of (r, t) \<Rightarrow> (r, s\<lparr>cy_trace := t\<rparr>))"

definition var :: "('l \<Rightarrow> 'a) \<Rightarrow> ('l, 'a) cycle_io" where
  "var f = gets (\<lambda>s. f (cy_vars s))"

definition assign :: "('l \<Rightarrow> 'l) \<Rightarrow> ('l, unit) cycle_io" where
  "assign f = modify (\<lambda>s. s\<lparr>cy_vars := f (cy_vars s)\<rparr>)"

definition with_vars :: "'l \<Rightarrow> ('l, 'a) cycle_io \<Rightarrow> 'a act_io" where
  "with_vars v m tr = (case m \<lparr>cy_trace = tr, cy_vars = v\<rparr> of (r, s) \<Rightarrow> (r, cy_trace s))"

text \<open>A local variable that may not be bound yet.\<close>

definition bound :: "string \<Rightarrow> ('l \<Rightarrow> 'a option) \<Rightarrow> ('l, 'a) cycle_io" where
  "bound x f = bnd (var f) (\<lambda>v. lift (of_option (NameError x) v))"

text \<open>\<open>if not ok: raise Exception(msg)\<close>.\<close>

definition require :: "bool \<Rightarrow> string \<Rightarrow> ('s, unit) io" where
  "require ok msg = (if ok then ret () else raise (Exc msg))"

text \<open>\<open>try: body except Exception: print(...) finally: clean\<close>.\<close>

definition guarded :: "('s, unit) io \<Rightarrow> ('s, unit) io \<Rightarrow> ('s, unit) io" where
  "guarded body clean = try_finally (try_matching is_exception body (\<lambda>e. ret ())) clean"

section \<open>Experiments of a file\<close>

text \<open>A file that is missing or no TOML is reported and ends the cycle.\<close>

definition load_config :: "env \<Rightarrow> string \<Rightarrow> pyval option res" where
  "load_config E path =
     (case en_toml E path of
        Inr v \<Rightarrow> Inr (Some v)
      | Inl (FileNotFound m) \<Rightarrow> Inr None
      | Inl (TomlDecodeError m) \<Rightarrow> Inr None
      | Inl e \<Rightarrow> Inl e)"

text \<open>\<open>full\_config.pop('experiment', [])\<close>; without experiments the default parameters are the only
  one.\<close>

fun split_experiments :: "pyval \<Rightarrow> (pyval list \<times> (string \<times> pyval) list) res" where
  "split_experiments (PDict d) =
     (let exps = (case dict_get d ''experiment'' of Some x \<Rightarrow> x | None \<Rightarrow> PList []);
          base = filter (\<lambda>kv. fst kv \<noteq> ''experiment'') d;
          default = (case dict_get base ''experiment_parameters'' of Some p \<Rightarrow> p | None \<Rightarrow> PDict [])
      in if truthy exps then ebind (py_iter exps) (\<lambda>xs. Inr (xs, base))
         else if exps = PList [] then Inr ([default], base)
         else Inl (AttributeError ''append''))"
| "split_experiments _ = Inl (AttributeError ''pop'')"

text \<open>The configuration is updated in place: each run sees the overrides of the runs before it.\<close>

definition for_experiments ::
  "(nat \<Rightarrow> (string \<times> pyval) list \<Rightarrow> ('s, unit) io) \<Rightarrow> pyval \<Rightarrow> ('s, unit) io" where
  "for_experiments run full =
     bnd (lift (split_experiments full)) (\<lambda>(exps, base).
     andthen (fold_io (\<lambda>(i, x) config.
         bnd (lift (ebind (py_items x) (merge_experiment config))) (\<lambda>merged.
         andthen (run i merged) (ret merged))) (enumerate 0 exps) base)
       (ret ()))"

definition run_file :: "env \<Rightarrow> string \<Rightarrow> 'l \<Rightarrow> (nat \<Rightarrow> (string \<times> pyval) list \<Rightarrow> ('l, unit) cycle_io) \<Rightarrow> unit act_io" where
  "run_file E path vars run =
     bnd (lift (load_config E path)) (\<lambda>c.
     case c of None \<Rightarrow> ret () | Some full \<Rightarrow> with_vars vars (for_experiments run full))"

section \<open>Parameters of a run\<close>

record run_params =
  rp_ssh_key :: string
  rp_ssh_user :: string
  rp_client_ips :: "string list"
  rp_client_ifs :: pyval
  rp_switch_ip :: string
  rp_switch_if :: pyval
  rp_server_ips :: "string list"
  rp_server_ifs :: pyval
  rp_client :: string
  rp_server :: string
  rp_switch :: string
  rp_name :: string

definition program_path :: "env \<Rightarrow> pyval \<Rightarrow> string \<Rightarrow> string res" where
  "program_path E config k = ebind (ebind (cfg config ''program_paths'' k) as_str) (\<lambda>p. Inr (en_base E @ p))"

definition json_output_name :: "pyval \<Rightarrow> pyval \<Rightarrow> string res" where
  "json_output_name base config =
     ebind (ebind (cfg base ''experiment_parameters'' ''general_json_name'') as_str) (\<lambda>g.
     ebind (ebind (cfg config ''experiment_parameters'' ''json_name'') as_str) (\<lambda>j. Inr (g @ ''-'' @ j)))"

definition run_params_of :: "env \<Rightarrow> pyval \<Rightarrow> pyval \<Rightarrow> run_params res" where
  "run_params_of E base config =
     (let net = cfg config ''network_setup''
      in ebind (ebind (net ''ssh_key'') as_str) (\<lambda>key.
         ebind (ebind (net ''ssh_user'') as_str) (\<lambda>user.
         ebind (ebind (net ''cli_ips'') str_list) (\<lambda>clients.
         ebind (net ''cli_net_ifs'') (\<lambda>client_ifs.
         ebind (ebind (net ''switch_ip'') as_str) (\<lambda>switch_ip.
         ebind (net ''switch_net_if'') (\<lambda>switch_if.
         ebind (ebind (net ''stor_ips'') str_list) (\<lambda>servers.
         ebind (net ''stor_net_ifs'') (\<lambda>server_ifs.
         ebind (program_path E config ''path_client'') (\<lambda>client.
         ebind (program_path E config ''path_server'') (\<lambda>server.
         ebind (program_path E config ''path_switch'') (\<lambda>switch.
         ebind (json_output_name base config) (\<lambda>json_name.
         ebind (cfg base ''experiment_parameters'' ''num_client_threads'') (\<lambda>_.
         Inr \<lparr>rp_ssh_key = en_home E key, rp_ssh_user = user, rp_client_ips = clients,
              rp_client_ifs = client_ifs, rp_switch_ip = switch_ip, rp_switch_if = switch_if,
              rp_server_ips = servers, rp_server_ifs = server_ifs, rp_client = client, rp_server = server,
              rp_switch = switch, rp_name = json_name\<rparr>))))))))))))))"

section \<open>Facts\<close>

text \<open>What \<open>does\<close> does to the trace is what its argument does, and the locals stay.\<close>

lemma does_run: "m (cy_trace s) = (r, t) \<Longrightarrow> does m s = (r, s\<lparr>cy_trace := t\<rparr>)"
  by (simp add: does_def)

lemma var_run: "var f s = (Inr (f (cy_vars s)), s)"
  by (simp add: var_def gets_def)

lemma assign_run: "assign f s = (Inr (), s\<lparr>cy_vars := f (cy_vars s)\<rparr>)"
  by (simp add: assign_def modify_def)

definition lift_rel :: "(trace \<Rightarrow> trace \<Rightarrow> bool) \<Rightarrow> 'l cycle \<Rightarrow> 'l cycle \<Rightarrow> bool" where
  "lift_rel R s t \<longleftrightarrow> R (cy_trace s) (cy_trace t)"

lemma step_relation_lift: "step_relation R \<Longrightarrow> step_relation (lift_rel R)"
  unfolding step_relation_def lift_rel_def by blast

lemma keeps_does: "keeps R m \<Longrightarrow> keeps (lift_rel R) (does m)"
  by (auto simp: keeps_def does_def lift_rel_def split: prod.splits) (metis snd_conv)

text \<open>A relation on traces that every action of a cycle keeps.\<close>

locale cycle_relation = step_relation R for R :: "trace \<Rightarrow> trace \<Rightarrow> bool"

sublocale cycle_relation \<subseteq> cyc: step_relation "lift_rel R"
  by (rule step_relation_lift) (rule step_relation_axioms)

context cycle_relation
begin

lemma keeps_vars: "keeps (lift_rel R) (var f)" "keeps (lift_rel R) (assign g)"
  "keeps (lift_rel R) (bound x h)" "keeps (lift_rel R) (require b msg)"
  by (auto simp: keeps_def var_def assign_def bound_def require_def io_defs lift_rel_def R_refl)

lemma keeps_guarded: "keeps (lift_rel R) m \<Longrightarrow> keeps (lift_rel R) n \<Longrightarrow> keeps (lift_rel R) (guarded m n)"
  unfolding guarded_def by (intro cyc.keeps_rules)

lemmas cycle_rules = cyc.keeps_rules keeps_vars keeps_guarded keeps_does

end

text \<open>Traces only grow.\<close>

interpretation growing: cycle_relation prefix
  by (intro cycle_relation.intro tracing.step_relation_axioms)

text \<open>Cycles whose actions are all of a kind.\<close>

interpretation adding: cycle_relation "adds P" for P
  by (intro cycle_relation.intro step_relation_adds)

text \<open>A command that was run stays in the trace.\<close>

definition did :: "action \<Rightarrow> 'l cycle \<Rightarrow> bool" where
  "did a s \<longleftrightarrow> a \<in> set (cy_trace s)"

lemma did_keeps: "keeps (lift_rel prefix) m \<Longrightarrow> m s = (r, t) \<Longrightarrow> did a s \<Longrightarrow> did a t"
  by (drule (1) keepsD) (auto simp: lift_rel_def did_def prefix_def)

text \<open>Running one command for each element runs all of them.\<close>

lemma for_each_did:
  assumes "\<And>x s. \<exists>t. f x s = (Inr (), t) \<and> did (a x) t"
    and "\<And>x. keeps (lift_rel prefix) (f x)"
  shows "\<exists>t. for_each f xs s = (Inr (), t) \<and> (\<forall>x \<in> set xs. did (a x) t)"
proof (induction xs arbitrary: s)
  case (Cons x xs)
  from assms(1) obtain u where u: "f x s = (Inr (), u)" "did (a x) u" by blast
  from Cons.IH obtain t where t: "for_each f xs u = (Inr (), t)" "\<forall>x \<in> set xs. did (a x) t" by blast
  have "did (a x) t"
    using did_keeps [OF growing.cyc.keeps_for_each [OF assms(2)] t(1) u(2)] .
  with u t show ?case by auto
qed simp

text \<open>After a clean-up that does not raise, only what is no \<open>Exception\<close> leaves the \<open>try\<close>.\<close>

lemma guarded_run:
  assumes "\<And>s. \<exists>t. clean s = (Inr (), t)" and "body s = (r, u)"
  shows "\<exists>q t. guarded body clean s = (q, t) \<and> clean u = (Inr (), t) \<and> (\<forall>e. q = Inl e \<longrightarrow> \<not> is_exception e)"
proof -
  obtain t where "clean u = (Inr (), t)" using assms(1) by blast
  with assms(2) show ?thesis
    by (cases r) (auto simp: guarded_def try_finally_def try_matching_def try_except_def ret_def raise_def)
qed

lemma guarded_cleans:
  assumes "guarded body clean s = (r, t)"
  obtains u q where "clean u = (q, t)"
  using assms by (auto simp: guarded_def try_finally_def split: prod.splits sum.splits)

lemma growing_adds: "adds P s t \<Longrightarrow> prefix s t"
  by (auto simp: adds_def)

lemma keeps_growing: "keeps (adds (\<lambda>a. True)) m \<Longrightarrow> keeps prefix m"
  by (auto simp: keeps_def intro: growing_adds)

lemma checked_runs:
  "does (run_checked E argv) s = (Inr (en_run E (cy_trace s) (Run argv) = Success),
     s\<lparr>cy_trace := cy_trace s @ [Run argv]\<rparr>)"
  by (simp add: does_def run_checked_eq)

text \<open>The processes a trace starts, in order.\<close>

definition spawns :: "trace \<Rightarrow> string list list" where
  "spawns tr = List.map_filter (\<lambda>a. case a of Spawn argv \<Rightarrow> Some argv | _ \<Rightarrow> None) tr"

lemma spawns_append [simp]: "spawns (xs @ ys) = spawns xs @ spawns ys"
  by (simp add: spawns_def List.map_filter_def)

lemma spawns_one [simp]:
  "spawns [] = []" "spawns (Spawn argv # tr) = argv # spawns tr"
  by (simp_all add: spawns_def List.map_filter_def)

fun no_spawn :: "action \<Rightarrow> bool" where
  "no_spawn (Spawn argv) = False"
| "no_spawn _ = True"

lemma spawns_quiet: "adds no_spawn s t \<Longrightarrow> spawns t = spawns s"
proof -
  have "spawns acts = []" if "\<forall>a \<in> set acts. no_spawn a" for acts
    using that by (induction acts) (auto simp: spawns_def List.map_filter_def split: action.splits)
  then show "adds no_spawn s t \<Longrightarrow> spawns t = spawns s"
    by (auto simp: adds_def)
qed

lemma quiet_run:
  "keeps (lift_rel (adds no_spawn)) m \<Longrightarrow> m s = (r, t) \<Longrightarrow> spawns (cy_trace t) = spawns (cy_trace s)"
  by (drule (1) keepsD) (simp add: lift_rel_def spawns_quiet)

text \<open>A loop whose steps start one list of processes each starts them all, in order.\<close>

lemma for_each_spawns:
  assumes "\<And>x s t. f x s = (Inr (), t) \<Longrightarrow> spawns (cy_trace t) = spawns (cy_trace s) @ argvs x"
  shows "for_each f xs s = (Inr (), t) \<Longrightarrow>
    spawns (cy_trace t) = spawns (cy_trace s) @ concat (map argvs xs)"
proof (induction xs arbitrary: s)
  case (Cons x xs)
  from Cons.prems obtain u where "f x s = (Inr (), u)" "for_each f xs u = (Inr (), t)"
    by (auto simp: for_each_Cons_Inr simp del: for_each.simps)
  with Cons.IH assms show ?case by simp
qed simp

section \<open>Worlds in which everything works\<close>

definition obliging :: "env \<Rightarrow> bool" where
  "obliging E \<longleftrightarrow> (\<forall>tr a. en_run E tr a = Success) \<and> (\<forall>tr argv. \<exists>pid. en_spawn E tr argv = Inr pid)
     \<and> (\<forall>tr f. en_write E tr f = Inr ())"

text \<open>A statement that does not raise, and whose value satisfies \<open>P\<close>.\<close>

definition gives :: "('s, 'a) io \<Rightarrow> ('a \<Rightarrow> bool) \<Rightarrow> bool" where
  "gives m P \<longleftrightarrow> (\<forall>s. \<exists>x t. m s = (Inr x, t) \<and> P x)"

named_theorems gives_intros "statements that get through"

lemma gives_bnd [gives_intros]: "gives m P \<Longrightarrow> (\<And>x. P x \<Longrightarrow> gives (f x) Q) \<Longrightarrow> gives (bnd m f) Q"
  unfolding gives_def bnd_def by (metis (no_types, lifting) case_prod_conv sum.case(2))

lemma gives_andthen [gives_intros]: "gives m (\<lambda>_. True) \<Longrightarrow> gives n Q \<Longrightarrow> gives (andthen m n) Q"
  unfolding andthen_def by (rule gives_bnd)

lemma gives_simple [gives_intros]:
  "P x \<Longrightarrow> gives (ret x) P" "P x \<Longrightarrow> gives (lift (Inr x)) P" "P () \<Longrightarrow> gives (assign g) P"
  "b \<Longrightarrow> P () \<Longrightarrow> gives (require b msg) P"
  by (simp_all add: gives_def io_run assign_def require_def)

lemma gives_for_each [gives_intros]: "(\<And>x. gives (f x) (\<lambda>_. True)) \<Longrightarrow> gives (for_each f xs) (\<lambda>_. True)"
proof (induction xs)
  case (Cons x xs)
  then show ?case unfolding gives_def by (simp, metis (no_types, lifting) case_prod_conv sum.case(2))
qed (simp add: gives_def)

lemma gives_does [gives_intros]: "gives m P \<Longrightarrow> gives (does m) P"
  unfolding gives_def does_def by (metis (no_types, lifting) case_prod_conv)

lemma gives_remote [gives_intros]:
  assumes "obliging E"
  shows "gives (transfer_file E p ip user k fn fp) (\<lambda>ok. ok)" "gives (write_file E p c) (\<lambda>_. True)"
    "gives (spawn E argv) (\<lambda>_. True)"
    "gives (execute_remote_command E ip prog cf k user i x) (\<lambda>r. fst r \<noteq> None)"
  using assms by (auto simp: gives_def obliging_def remote_defs run_checked_eq Let_def write_file_def spawn_def
      execute_remote_command_def try_except_def bnd_def ret_def split: sum.splits) (metis Inl_Inr_False)

lemma gives_total: "total m \<Longrightarrow> gives m (\<lambda>_. True)"
  by (auto simp: gives_def total_def)

lemma gives_weaken: "gives m P \<Longrightarrow> gives m (\<lambda>_. True)"
  unfolding gives_def by blast

lemma gives_run: "gives (m :: ('s, unit) io) P \<Longrightarrow> \<exists>t. m s = (Inr (), t)"
  unfolding gives_def by auto

end
