(* ===== verification/Cycle_Baseline.thy ===== *)
theory Cycle_Baseline
  imports Cycle_Base
begin

text \<open>
  experiments/scripts/experiment.py, \<open>run\_experiment\_cycle\_baseline\<close>: one software switch and the
  benchmark clients.
\<close>

section \<open>The run\<close>

text \<open>Of the locals only these two are read where they may be unbound: the switch's process and the
  loop variable over the clients' processes, which the clean-up's message names.\<close>

record baseline_vars =
  bv_switch :: "nat option"
  bv_proc :: "nat option"

definition no_baseline_vars :: baseline_vars where
  "no_baseline_vars = \<lparr>bv_switch = None, bv_proc = None\<rparr>"

definition start_benchmark_switch :: "env \<Rightarrow> run_params \<Rightarrow> (baseline_vars, unit) cycle_io" where
  "start_benchmark_switch E p =
     (let switch_exec = basename (rp_switch p)
      in andthen (does (kill_process E switch_exec (rp_ssh_key p) (rp_ssh_user p) (rp_switch_ip p)))
        (andthen (does (sleep (PInt 3)))
        (bnd (does (transfer_file E (rp_switch p) (rp_switch_ip p) (rp_ssh_user p) (rp_ssh_key p) None None)) (\<lambda>ok.
         andthen (require ok ''Benchmark switch not successfully transfered!'')
        (bnd (does (execute_arbitrary_remote_command E (rp_switch_ip p) (rp_ssh_user p) (rp_ssh_key p)
                     (''~/'' @ switch_exec))) (\<lambda>pid.
         assign (\<lambda>v. v\<lparr>bv_switch := Some pid\<rparr>)))))))"

definition benchmark_command :: "env \<Rightarrow> pyval \<Rightarrow> run_params \<Rightarrow> string \<Rightarrow> string res" where
  "benchmark_command E base p ip =
     ebind (cfg base ''experiment_parameters'' ''num_client_threads'') (\<lambda>threads.
     ebind (cfg base ''experiment_parameters'' ''experiment_duration'') (\<lambda>duration.
     Inr (''~/'' @ basename (rp_client p) @ '' '' @ py_str (en_float E) duration @ '' ''
          @ py_str (en_float E) threads @ '' '' @ ip @ '' '' @ rp_switch_ip p @ '' '' @ rp_name p)))"

definition start_benchmark_client ::
  "env \<Rightarrow> pyval \<Rightarrow> run_params \<Rightarrow> string \<Rightarrow> nat list \<Rightarrow> (baseline_vars, nat list) cycle_io" where
  "start_benchmark_client E base p ip pids =
     andthen (does (kill_process E (basename (rp_client p)) (rp_ssh_key p) (rp_ssh_user p) ip))
    (bnd (does (transfer_file E (rp_client p) ip (rp_ssh_user p) (rp_ssh_key p) None None)) (\<lambda>ok.
     andthen (require ok (''Failed to transfer server binary to server '' @ ip))
    (bnd (lift (benchmark_command E base p ip)) (\<lambda>command.
     bnd (does (execute_arbitrary_remote_command E ip (rp_ssh_user p) (rp_ssh_key p) command)) (\<lambda>pid.
     ret (pids @ [pid]))))))"

definition wait_for_client ::
  "env \<Rightarrow> run_params \<Rightarrow> string \<Rightarrow> nat \<times> nat \<Rightarrow> (baseline_vars, unit) cycle_io" where
  "wait_for_client E p dir ipid =
     andthen (assign (\<lambda>v. v\<lparr>bv_proc := Some (snd ipid)\<rparr>))
    (andthen (does (perform (WaitFor (snd ipid))))
    (bnd (lift (py_nth (rp_client_ips p) (int (fst ipid)))) (\<lambda>ip.
     andthen (does (copy_results_back E ip (rp_ssh_user p) (rp_ssh_key p) (rp_name p) dir)) (ret ()))))"

definition baseline_body :: "env \<Rightarrow> pyval \<Rightarrow> run_params \<Rightarrow> string \<Rightarrow> (baseline_vars, unit) cycle_io" where
  "baseline_body E base p dir =
     andthen (start_benchmark_switch E p)
    (bnd (fold_io (start_benchmark_client E base p) (rp_client_ips p) []) (\<lambda>pids.
     for_each (wait_for_client E p dir) (enumerate 0 pids)))"

section \<open>The clean-up\<close>

text \<open>The message printed before the kill names \<open>proc\<close>: unbound, it raises \<open>NameError\<close>, which the
  handler around it swallows together with the kill.\<close>

definition stop_benchmark_switch :: "env \<Rightarrow> run_params \<Rightarrow> (baseline_vars, unit) cycle_io" where
  "stop_benchmark_switch E p =
     try_matching is_exception
       (bnd (bound ''switch_process'' bv_switch) (\<lambda>pid.
        bnd (does (still_running E pid)) (\<lambda>running.
        if \<not> running then ret ()
        else andthen (bound ''proc'' bv_proc)
            (andthen (does (perform (KillProc pid)))
             (does (kill_process E (basename (rp_switch p)) (rp_ssh_key p) (rp_ssh_user p) (rp_switch_ip p)))))))
       (\<lambda>e. ret ())"

definition baseline_run ::
  "env \<Rightarrow> pyval \<Rightarrow> string \<Rightarrow> string \<Rightarrow> nat \<Rightarrow> (string \<times> pyval) list \<Rightarrow> (baseline_vars, unit) cycle_io" where
  "baseline_run E base dir system_name i config =
     bnd (lift (run_params_of E base (PDict config))) (\<lambda>p.
     guarded (baseline_body E base p dir)
       (andthen (stop_benchmark_switch E p)
         (does (process_and_aggregate_baseline_results E dir (rp_name p) system_name base (PDict config)))))"

definition run_experiment_cycle_baseline ::
  "env \<Rightarrow> pyval \<Rightarrow> string \<Rightarrow> string \<Rightarrow> string \<Rightarrow> unit act_io" where
  "run_experiment_cycle_baseline E base benchmark_config_file dir system_name =
     run_file E benchmark_config_file no_baseline_vars (baseline_run E base dir system_name)"

section \<open>Facts\<close>

text \<open>No process is killed, and \<open>proc\<close> is not bound, before a client was waited for.\<close>

definition waited :: "trace \<Rightarrow> bool" where
  "waited tr \<longleftrightarrow> (\<exists>pid. WaitFor pid \<in> set tr)"

definition killed :: "trace \<Rightarrow> bool" where
  "killed tr \<longleftrightarrow> (\<exists>pid. KillProc pid \<in> set tr)"

definition wait_first :: "baseline_vars cycle \<Rightarrow> bool" where
  "wait_first s \<longleftrightarrow> (killed (cy_trace s) \<or> bv_proc (cy_vars s) \<noteq> None \<longrightarrow> waited (cy_trace s))"

fun no_kill :: "action \<Rightarrow> bool" where
  "no_kill (KillProc pid) = False"
| "no_kill _ = True"

interpretation waiting: step_relation "\<lambda>s t. wait_first s \<longrightarrow> wait_first t"
  by unfold_locales auto

abbreviation keeps_wait_first :: "(baseline_vars, 'a) cycle_io \<Rightarrow> bool" where
  "keeps_wait_first m \<equiv> keeps (\<lambda>s t. wait_first s \<longrightarrow> wait_first t) m"

lemma does_wait_first: "keeps (adds no_kill) m \<Longrightarrow> keeps_wait_first (does m)"
  by (auto simp: keeps_def does_def wait_first_def killed_def waited_def adds_def split: prod.splits)
    (metis Un_iff no_kill.simps(1) set_append snd_conv)+

lemma vars_wait_first:
  "keeps_wait_first (assign (\<lambda>v. v\<lparr>bv_switch := x\<rparr>))" "keeps_wait_first (var g)" "keeps_wait_first (bound y h)"
  "keeps_wait_first (require b msg)" "keeps_wait_first (lift r)" "keeps_wait_first (ret z)"
  by (auto simp: keeps_def assign_def var_def bound_def require_def io_defs wait_first_def)

lemmas wait_first_rules = waiting.keeps_rules vars_wait_first does_wait_first adds_intros

lemma andthen_assoc: "andthen (andthen m n) k = andthen m (andthen n k)"
  by (simp add: fun_eq_iff andthen_def bnd_def split: prod.splits sum.splits)

lemma wait_for_client_first: "keeps_wait_first (wait_for_client E p dir ipid)"
proof -
  have "keeps_wait_first (andthen (assign (\<lambda>v. v\<lparr>bv_proc := Some (snd ipid)\<rparr>)) (does (perform (WaitFor (snd ipid)))))"
    by (auto simp: keeps_def andthen_def bnd_def assign_run does_def perform_def modify_def wait_first_def waited_def)
  then show ?thesis
    unfolding wait_for_client_def andthen_assoc [symmetric]
    by (rule waiting.keeps_andthen) (intro wait_first_rules; simp)
qed

lemma stop_benchmark_switch_first: "keeps_wait_first (stop_benchmark_switch E p)"
proof -
  have "keeps_wait_first (andthen (bound ''proc'' bv_proc) (does (perform (KillProc pid))))" for pid
    by (auto simp: keeps_def andthen_def bnd_def bound_def var_run does_def perform_def modify_def lift_def
        of_option_def wait_first_def waited_def killed_def split: option.splits)
  then have kill: "keeps_wait_first (andthen (andthen (bound ''proc'' bv_proc) (does (perform (KillProc pid))))
      (does (kill_process E n k user ip)))" for pid n k user ip
    by (rule waiting.keeps_andthen) (intro wait_first_rules; simp)
  show ?thesis
    unfolding stop_benchmark_switch_def andthen_assoc [symmetric]
    by (intro waiting.keeps_try_matching waiting.keeps_bnd waiting.keeps_if kill vars_wait_first
        does_wait_first adds_intros) simp
qed

lemma baseline_run_first: "keeps_wait_first (baseline_run E base dir system_name i conf)"
  unfolding baseline_run_def baseline_body_def guarded_def start_benchmark_switch_def start_benchmark_client_def Let_def
  by (intro wait_first_rules wait_for_client_first stop_benchmark_switch_first; simp)

section \<open>Properties\<close>

text \<open>C26. A first run that fails before it waits for a client leaves the software switch running:
  whatever the reason, its process is not killed.\<close>

theorem baseline_leaves_switch:
  assumes "baseline_run E base dir system_name i conf \<lparr>cy_trace = [], cy_vars = no_baseline_vars\<rparr> = (r, t)"
    and "KillProc pid \<in> set (cy_trace t)"
  shows "\<exists>q. WaitFor q \<in> set (cy_trace t)"
proof -
  have "wait_first \<lparr>cy_trace = [], cy_vars = no_baseline_vars\<rparr>"
    by (simp add: wait_first_def killed_def no_baseline_vars_def)
  with keepsD [OF baseline_run_first assms(1)] have "wait_first t" by simp
  with assms(2) show ?thesis by (auto simp: wait_first_def killed_def waited_def)
qed

definition demo_benchmark :: "(string \<times> pyval) list" where
  "demo_benchmark =
     [(''network_setup'', PDict [(''ssh_key'', PStr ''k''), (''ssh_user'', PStr ''u''), (''cli_ips'', PList [PStr ''c'']),
        (''cli_net_ifs'', PNone), (''switch_ip'', PStr ''s''), (''switch_net_if'', PNone), (''stor_ips'', PList []),
        (''stor_net_ifs'', PNone)]),
      (''program_paths'', PDict [(''path_client'', PStr ''c''), (''path_server'', PStr ''v''), (''path_switch'', PStr ''w'')]),
      (''experiment_parameters'', PDict [(''general_json_name'', PStr ''g''), (''json_name'', PStr ''j''),
        (''num_client_threads'', PStr ''2''), (''experiment_duration'', PStr ''9'')])]"

theorem baseline_leaves_switch_witness:
  "\<exists>r t q. baseline_run (demo_world\<lparr>en_running := \<lambda>h p. True\<rparr>) (PDict demo_benchmark) ''r'' ''b'' 0 demo_benchmark
       \<lparr>cy_trace = [], cy_vars = no_baseline_vars\<rparr> = (r, t) \<and> WaitFor q \<in> set (cy_trace t)"
proof -
  let ?run = "baseline_run (demo_world\<lparr>en_running := \<lambda>h p. True\<rparr>) (PDict demo_benchmark) ''r'' ''b'' 0 demo_benchmark
    \<lparr>cy_trace = [], cy_vars = no_baseline_vars\<rparr>"
  have "list_ex (\<lambda>a. \<not> no_kill a) (cy_trace (snd ?run))" by code_simp
  then obtain a where "a \<in> set (cy_trace (snd ?run))" "\<not> no_kill a"
    unfolding list_ex_iff by blast
  moreover from this(2) obtain pid where "a = KillProc pid" by (cases a) auto
  moreover obtain r t where t: "?run = (r, t)" by force
  ultimately have "\<exists>q. WaitFor q \<in> set (cy_trace t)" using baseline_leaves_switch [OF t, of pid] by simp
  with t show ?thesis by blast
qed

end
