(* ===== verification/Cycle_Pringles.thy ===== *)
theory Cycle_Pringles
  imports Cycle_Base
begin

text \<open>
  experiments/scripts/experiment.py, \<open>run\_experiment\_cycle\_pringles\<close> and
  \<open>run\_experiment\_cycle\_hardware\<close>: storage servers in shards, the software switch unless a
  hardware one is used, and the clients, on remote hosts or (\<open>with\_tunnel\<close>) on the switches.
\<close>

section \<open>Locals\<close>

text \<open>The lists and dictionaries are made anew for each run. The last three are bound somewhere
  inside a run, keep their value into the next one, and are read where they may be unbound.\<close>

record pringles_vars =
  pv_servers :: "nat list"
  pv_server_logs :: "(string \<times> string) list"
  pv_switches :: "nat list"
  pv_switch_logs :: "(string \<times> string) list"
  pv_clients :: "nat list"
  pv_client_logs :: "string list"
  pv_ip :: "string option"
  pv_client_exec :: "string option"
  pv_switch_exec :: "string option"

type_synonym 'a pringles_io = "(pringles_vars, 'a) cycle_io"

definition no_pringles_vars :: pringles_vars where
  "no_pringles_vars = \<lparr>pv_servers = [], pv_server_logs = [], pv_switches = [], pv_switch_logs = [],
     pv_clients = [], pv_client_logs = [], pv_ip = None, pv_client_exec = None, pv_switch_exec = None\<rparr>"

definition fresh_lists :: "pringles_vars \<Rightarrow> pringles_vars" where
  "fresh_lists v = no_pringles_vars\<lparr>pv_ip := pv_ip v, pv_client_exec := pv_client_exec v,
     pv_switch_exec := pv_switch_exec v\<rparr>"

section \<open>Shards\<close>

text \<open>\<open>num\_of\_shard == max\_num\_shards\<close>: what is no integral number equals no count.\<close>

definition shard_limit :: "pyval \<Rightarrow> int" where
  "shard_limit v =
     (if is_number v \<and> number_of v = of_int \<lfloor>number_of v\<rfloor> then \<lfloor>number_of v\<rfloor> else -1)"

definition pringles_shards :: "pyval \<Rightarrow> pyval \<Rightarrow> string list \<Rightarrow> (bool \<times> sharding) res" where
  "pringles_shards base config servers =
     ebind (cfg config ''experiment_parameters'' ''use_shard'') (\<lambda>use.
     if truthy use then
       ebind (cfg base ''experiment_parameters'' ''num_servers_per_shard'') (\<lambda>sz.
       ebind (cfg base ''experiment_parameters'' ''num_shards'') (\<lambda>limit.
       ebind (as_int sz) (\<lambda>n.
       ebind (setup_shards servers True n (shard_limit limit)) (\<lambda>sh. Inr (True, sh)))))
     else ebind (setup_shards servers False 0 0) (\<lambda>sh. Inr (False, sh)))"

definition shards_yaml :: "bool \<Rightarrow> sharding \<Rightarrow> pyval" where
  "shards_yaml use sh =
     PList (map (\<lambda>s. PList (map (\<lambda>ip. if use then PQuoted (PStr ip) else PStr ip) s)) (sh_shards sh))"

definition multicast_yaml :: "bool \<Rightarrow> sharding \<Rightarrow> pyval" where
  "multicast_yaml use sh = PList (if use then map (PQuoted \<circ> PStr) (sh_multicast sh) else [])"

section \<open>Storage servers\<close>

definition server_args :: "sharding \<Rightarrow> nat \<Rightarrow> string \<Rightarrow> int \<Rightarrow> pyval \<Rightarrow> yaml_args res" where
  "server_args sh i ip server_id interface =
     ebind (of_option (KeyError ip) (dict_get (sh_ip_to_shard sh) ip)) (\<lambda>k.
     ebind (py_nth (sh_multicast sh) (int k)) (\<lambda>addr.
     Inr \<lparr>ya_type = ''server'', ya_ip = ip, ya_offset = int i * 2, ya_server_ips = sh_server_ips sh,
          ya_id = PInt server_id, ya_idx = PInt (int i), ya_json_name = PNone, ya_num_failures = PNone,
          ya_interface = interface, ya_shard_id = PInt (int k), ya_total_shards = PNone,
          ya_total_multicast = PNone, ya_shard_multicast = PStr addr\<rparr>))"

text \<open>The command is executed twice; only the second process is kept.\<close>

definition launch_server ::
  "env \<Rightarrow> run_params \<Rightarrow> nat \<Rightarrow> string \<Rightarrow> string \<Rightarrow> unit pringles_io" where
  "launch_server E p exp_index config_filename ip =
     bnd (does (transfer_file E config_filename ip (rp_ssh_user p) (rp_ssh_key p) None None)) (\<lambda>ok.
     andthen (require ok (''Failed to transfer config to server '' @ ip))
    (bnd (does (transfer_file E (rp_server p) ip (rp_ssh_user p) (rp_ssh_key p) None None)) (\<lambda>ok.
     andthen (require ok (''Failed to transfer server binary to server '' @ ip))
    (let start = does (execute_remote_command E ip (''~/'' @ basename (rp_server p)) config_filename
                   (rp_ssh_key p) (rp_ssh_user p) exp_index ''server'')
     in andthen start (bnd start (\<lambda>(pid, log_filename).
        case pid of
          None \<Rightarrow> raise (Exc (''Failed to start server process on '' @ ip))
        | Some q \<Rightarrow> assign (\<lambda>v. v\<lparr>pv_servers := pv_servers v @ [q],
                      pv_server_logs := dict_put ip log_filename (pv_server_logs v)\<rparr>)))))))"

definition tunnel_server ::
  "env \<Rightarrow> pyval \<Rightarrow> run_params \<Rightarrow> string \<Rightarrow> unit pringles_io" where
  "tunnel_server E config p config_filename =
     andthen (does (execute_scp_switch_cmd E config (en_abspath E config_filename) config_filename))
    (bnd (lift (cfg config ''program_paths'' ''client_binary'')) (\<lambda>_.
     bnd (lift (ebind (cfg config ''program_paths'' ''server_binary'') as_str)) (\<lambda>server_binary.
     andthen (does (execute_scp_switch_cmd E config (rp_server p) server_binary))
       (does (execute_remote_switch_cmd E config (rp_server p) config_filename)))))"

definition start_server ::
  "env \<Rightarrow> pyval \<Rightarrow> pyval \<Rightarrow> run_params \<Rightarrow> sharding \<Rightarrow> bool \<Rightarrow> nat \<Rightarrow> nat \<times> string \<Rightarrow> unit pringles_io" where
  "start_server E base config p sh tunnel exp_index iip =
     (let i = fst iip; ip = snd iip;
          config_filename = ''server_config_'' @ rp_name p @ ''_'' @ str_nat i @ ''.yaml''
      in andthen (assign (\<lambda>v. v\<lparr>pv_ip := Some ip\<rparr>))
        (bnd (does (random_int E 100000 999999)) (\<lambda>server_id.
         bnd (lift (ebind (py_index (rp_server_ifs p) (int i)) (server_args sh i ip server_id))) (\<lambda>a.
         bnd (does (generate_yaml_config E base config a)) (\<lambda>d.
         andthen (does (kill_process E (basename (rp_server p)) (rp_ssh_key p) (rp_ssh_user p) ip))
        (andthen (does (write_file E config_filename (en_dump_yaml E (PDict d))))
        (if tunnel then tunnel_server E config p config_filename
         else launch_server E p exp_index config_filename ip)))))))"

definition start_servers ::
  "env \<Rightarrow> pyval \<Rightarrow> pyval \<Rightarrow> run_params \<Rightarrow> sharding \<Rightarrow> bool \<Rightarrow> nat \<Rightarrow> unit pringles_io" where
  "start_servers E base config p sh tunnel exp_index =
     andthen (for_each (\<lambda>shard. for_each (start_server E base config p sh tunnel exp_index) (enumerate 0 shard))
               (sh_shards sh))
    (bnd (var pv_servers) (\<lambda>started.
     andthen (require (tunnel \<or> started \<noteq> []) ''No servers were successfully started.'')
       (does (sleep (PInt SERVER_START_DELAY)))))"

section \<open>The software switch\<close>

definition switch_args :: "run_params \<Rightarrow> bool \<Rightarrow> sharding \<Rightarrow> pyval \<Rightarrow> int \<Rightarrow> yaml_args" where
  "switch_args p use sh num_failures switch_id =
     \<lparr>ya_type = ''switch'', ya_ip = rp_switch_ip p, ya_offset = int (length (sh_server_ips sh)) * 2,
      ya_server_ips = sh_server_ips sh, ya_id = PInt switch_id, ya_idx = PNone,
      ya_json_name = PStr (rp_name p), ya_num_failures = num_failures, ya_interface = rp_switch_if p,
      ya_shard_id = PNone, ya_total_shards = shards_yaml use sh, ya_total_multicast = multicast_yaml use sh,
      ya_shard_multicast = PNone\<rparr>"

text \<open>The log is filed under \<open>ip\<close>, which is the last server's.\<close>

definition launch_switch :: "env \<Rightarrow> run_params \<Rightarrow> nat \<Rightarrow> string \<Rightarrow> unit pringles_io" where
  "launch_switch E p exp_index config_filename =
     bnd (does (execute_remote_command E (rp_switch_ip p) (''~/'' @ basename (rp_switch p)) config_filename
            (rp_ssh_key p) (rp_ssh_user p) exp_index ''switch'')) (\<lambda>(pid, log_filename).
     bnd (case pid of
            None \<Rightarrow> bnd (bound ''ip'' pv_ip) (\<lambda>ip. raise (Exc (''Failed to start server process on '' @ ip)))
          | Some q \<Rightarrow> andthen (assign (\<lambda>v. v\<lparr>pv_switches := pv_switches v @ [q]\<rparr>)) (bound ''ip'' pv_ip)) (\<lambda>ip.
     assign (\<lambda>v. v\<lparr>pv_switch_logs := dict_put ip log_filename (pv_switch_logs v)\<rparr>)))"

definition start_soft_switch ::
  "env \<Rightarrow> pyval \<Rightarrow> pyval \<Rightarrow> run_params \<Rightarrow> bool \<Rightarrow> sharding \<Rightarrow> pyval \<Rightarrow> nat \<Rightarrow> unit pringles_io" where
  "start_soft_switch E base config p use sh num_failures exp_index =
     (let switch_exec = basename (rp_switch p);
          config_filename = ''switch_config_'' @ rp_name p @ ''.yaml''
      in bnd (does (random_int E 100000 999999)) (\<lambda>switch_id.
         bnd (does (generate_yaml_config E base config (switch_args p use sh num_failures switch_id))) (\<lambda>d.
         andthen (assign (\<lambda>v. v\<lparr>pv_switch_exec := Some switch_exec\<rparr>))
        (andthen (does (kill_process E switch_exec (rp_ssh_key p) (rp_ssh_user p) (rp_switch_ip p)))
        (andthen (does (write_file E config_filename (en_dump_yaml E (PDict d))))
        (bnd (does (transfer_file E config_filename (rp_switch_ip p) (rp_ssh_user p) (rp_ssh_key p) None None)) (\<lambda>ok.
         andthen (require ok ''Failed to transfer config to server'')
        (bnd (does (transfer_file E (rp_switch p) (rp_switch_ip p) (rp_ssh_user p) (rp_ssh_key p) None None)) (\<lambda>ok.
         andthen (require ok ''Failed to transfer switch binary to switch'')
        (andthen (launch_switch E p exp_index config_filename)
         (does (sleep (PInt SWITCH_START_DELAY)))))))))))))"

section \<open>Clients\<close>

definition client_args :: "run_params \<Rightarrow> sharding \<Rightarrow> pyval \<Rightarrow> nat \<Rightarrow> string \<Rightarrow> int \<Rightarrow> pyval \<Rightarrow> yaml_args" where
  "client_args p sh num_failures i ip client_id interface =
     \<lparr>ya_type = ''client'', ya_ip = ip, ya_offset = int (length (sh_server_ips sh)) * 3,
      ya_server_ips = sh_server_ips sh, ya_id = PInt client_id, ya_idx = PInt (int i),
      ya_json_name = PStr (rp_name p), ya_num_failures = num_failures, ya_interface = interface,
      ya_shard_id = PNone, ya_total_shards = PNone, ya_total_multicast = PNone, ya_shard_multicast = PNone\<rparr>"

definition launch_client :: "env \<Rightarrow> run_params \<Rightarrow> nat \<Rightarrow> string \<Rightarrow> string \<Rightarrow> unit pringles_io" where
  "launch_client E p exp_index config_filename ip =
     bnd (does (transfer_file E config_filename ip (rp_ssh_user p) (rp_ssh_key p) None None)) (\<lambda>ok.
     andthen (require ok (''Failed to transfer config to server '' @ ip))
    (bnd (does (transfer_file E (rp_client p) ip (rp_ssh_user p) (rp_ssh_key p) None None)) (\<lambda>ok.
     andthen (require ok (''Failed to transfer server binary to server '' @ ip))
    (bnd (does (execute_remote_command E ip (''~/'' @ basename (rp_client p)) config_filename
            (rp_ssh_key p) (rp_ssh_user p) exp_index ''client'')) (\<lambda>(pid, log_filename).
     case pid of
       None \<Rightarrow> raise (Exc ''Failed to start client process.'')
     | Some q \<Rightarrow> assign (\<lambda>v. v\<lparr>pv_clients := pv_clients v @ [q],
                   pv_client_logs := pv_client_logs v @ [log_filename]\<rparr>))))))"

definition tunnel_client ::
  "env \<Rightarrow> pyval \<Rightarrow> run_params \<Rightarrow> string \<Rightarrow> unit pringles_io" where
  "tunnel_client E config p config_filename =
     andthen (does (execute_scp_switch_cmd E config (en_abspath E config_filename) config_filename))
    (bnd (lift (ebind (cfg config ''program_paths'' ''client_binary'') as_str)) (\<lambda>cli_binary.
     andthen (does (execute_scp_switch_cmd E config (rp_server p) cli_binary))
       (does (execute_remote_switch_cmd E config (rp_server p) config_filename))))"

definition start_client ::
  "env \<Rightarrow> pyval \<Rightarrow> pyval \<Rightarrow> run_params \<Rightarrow> sharding \<Rightarrow> pyval \<Rightarrow> bool \<Rightarrow> nat \<Rightarrow> nat \<times> string \<Rightarrow> unit pringles_io" where
  "start_client E base config p sh num_failures tunnel exp_index iip =
     (let i = fst iip; ip = snd iip; client_exec = basename (rp_client p);
          config_filename = ''client_config_'' @ rp_name p @ ''_'' @ str_nat i @ ''.yaml''
      in andthen (assign (\<lambda>v. v\<lparr>pv_ip := Some ip\<rparr>))
        (bnd (does (random_int E 100000 999999)) (\<lambda>client_id.
         bnd (lift (py_index (rp_client_ifs p) (int i))) (\<lambda>interface.
         bnd (does (generate_yaml_config E base config (client_args p sh num_failures i ip client_id interface))) (\<lambda>d.
         andthen (assign (\<lambda>v. v\<lparr>pv_client_exec := Some client_exec\<rparr>))
        (andthen (does (kill_process E client_exec (rp_ssh_key p) (rp_ssh_user p) ip))
        (andthen (does (write_file E config_filename (en_dump_yaml E (PDict d))))
        (if tunnel then tunnel_client E config p config_filename
         else launch_client E p exp_index config_filename ip))))))))"

definition profile :: "env \<Rightarrow> run_params \<Rightarrow> unit pringles_io" where
  "profile E p =
     (let client_exec = basename (rp_client p); switch_exec = basename (rp_switch p)
      in andthen (assign (\<lambda>v. v\<lparr>pv_client_exec := Some client_exec, pv_switch_exec := Some switch_exec\<rparr>))
        (andthen (does (run_perf E switch_exec [rp_switch_ip p] 10 (rp_ssh_user p) (rp_ssh_key p)))
         (does (run_perf E client_exec (rp_client_ips p) 10 (rp_ssh_user p) (rp_ssh_key p)))))"

definition collect_client ::
  "env \<Rightarrow> run_params \<Rightarrow> string \<Rightarrow> nat \<times> nat \<Rightarrow> unit pringles_io" where
  "collect_client E p dir ipid =
     andthen (does (perform (WaitFor (snd ipid))))
    (bnd (lift (py_nth (rp_client_ips p) (int (fst ipid)))) (\<lambda>ip.
     andthen (does (copy_results_back E ip (rp_ssh_user p) (rp_ssh_key p) (rp_name p) dir))
    (bnd (var pv_client_logs) (\<lambda>logs.
     bnd (lift (py_nth logs (int (fst ipid)))) (\<lambda>log_filename.
     andthen (does (copy_log_file_back E ip (rp_ssh_user p) (rp_ssh_key p) log_filename dir ''~'')) (ret ()))))))"

definition pringles_body ::
  "env \<Rightarrow> pyval \<Rightarrow> pyval \<Rightarrow> run_params \<Rightarrow> bool \<Rightarrow> sharding \<Rightarrow> pyval \<Rightarrow> bool \<Rightarrow> nat \<Rightarrow> string \<Rightarrow> unit pringles_io" where
  "pringles_body E base config p use sh num_failures tunnel exp_index dir =
     andthen (start_servers E base config p sh tunnel exp_index)
    (bnd (lift (cfg config ''experiment_parameters'' ''use_hardware_switch'')) (\<lambda>hardware.
     andthen (if truthy hardware then ret ()
              else start_soft_switch E base config p use sh num_failures exp_index)
    (andthen (for_each (start_client E base config p sh num_failures tunnel exp_index)
                (enumerate 0 (rp_client_ips p)))
    (andthen (profile E p)
    (bnd (var pv_clients) (\<lambda>pids. for_each (collect_client E p dir) (enumerate 0 pids)))))))"

section \<open>The clean-up\<close>

text \<open>\<open>poll\<close> and \<open>kill\<close> of a local process; a process that still runs is killed.\<close>

definition reap :: "env \<Rightarrow> nat \<Rightarrow> unit pringles_io" where
  "reap E pid =
     try_matching is_exception
       (bnd (does (still_running E pid)) (\<lambda>running.
        if running then does (perform (KillProc pid)) else ret ())) (\<lambda>e. ret ())"

definition fetch_server_log :: "env \<Rightarrow> run_params \<Rightarrow> string \<Rightarrow> string \<times> string \<Rightarrow> unit pringles_io" where
  "fetch_server_log E p dir il =
     andthen (assign (\<lambda>v. v\<lparr>pv_ip := Some (fst il)\<rparr>))
    (andthen (does (copy_log_file_back E (fst il) (rp_ssh_user p) (rp_ssh_key p) (snd il) dir ''~'')) (ret ()))"

definition fetch_switch_log :: "env \<Rightarrow> run_params \<Rightarrow> string \<Rightarrow> string \<times> string \<Rightarrow> unit pringles_io" where
  "fetch_switch_log E p dir il =
     andthen (assign (\<lambda>v. v\<lparr>pv_ip := Some (fst il)\<rparr>))
    (andthen (does (copy_log_file_back E (rp_switch_ip p) (rp_ssh_user p) (rp_ssh_key p) (snd il) dir ''~'')) (ret ()))"

definition fetch_perf :: "env \<Rightarrow> run_params \<Rightarrow> string \<Rightarrow> unit pringles_io" where
  "fetch_perf E p dir =
     bnd (bound ''client_exec'' pv_client_exec) (\<lambda>client_exec.
     andthen (does (get_perf_files E client_exec (rp_client_ips p) (rp_ssh_user p) (rp_ssh_key p) dir))
    (bnd (bound ''switch_exec'' pv_switch_exec) (\<lambda>switch_exec.
     does (get_perf_files E switch_exec [rp_switch_ip p] (rp_ssh_user p) (rp_ssh_key p) dir))))"

definition pringles_cleanup ::
  "env \<Rightarrow> pyval \<Rightarrow> pyval \<Rightarrow> run_params \<Rightarrow> string \<Rightarrow> string \<Rightarrow> unit pringles_io" where
  "pringles_cleanup E base config p dir system_name =
     andthen (bnd (var pv_server_logs) (for_each (fetch_server_log E p dir)))
    (andthen (bnd (var pv_switch_logs) (for_each (fetch_switch_log E p dir)))
    (andthen (bnd (var pv_servers) (for_each (reap E)))
    (andthen (fetch_perf E p dir)
    (andthen (bnd (var pv_switches) (for_each (reap E)))
     (does (process_and_aggregate_results E dir (rp_name p) system_name base config))))))"

definition pringles_run ::
  "env \<Rightarrow> pyval \<Rightarrow> string \<Rightarrow> string \<Rightarrow> bool \<Rightarrow> nat \<Rightarrow> (string \<times> pyval) list \<Rightarrow> unit pringles_io" where
  "pringles_run E base dir system_name tunnel exp_index conf =
     (let config = PDict conf
      in bnd (lift (run_params_of E base config)) (\<lambda>p.
         bnd (lift (cfg config ''experiment_parameters'' ''num_failures'')) (\<lambda>num_failures.
         andthen (assign fresh_lists)
        (bnd (lift (pringles_shards base config (rp_server_ips p))) (\<lambda>(use, sh).
         guarded (pringles_body E base config p use sh num_failures tunnel exp_index dir)
           (pringles_cleanup E base config p dir system_name))))))"

definition run_experiment_cycle_pringles ::
  "env \<Rightarrow> pyval \<Rightarrow> string \<Rightarrow> string \<Rightarrow> string \<Rightarrow> bool \<Rightarrow> unit act_io" where
  "run_experiment_cycle_pringles E base pringles_config_file dir system_name with_tunnel =
     run_file E pringles_config_file no_pringles_vars (pringles_run E base dir system_name with_tunnel)"

text \<open>The hardware cycle hands the file's name to \<open>setup\_switches\<close>, which wants a configuration; what
  follows reads a name that is not defined.\<close>

definition run_experiment_cycle_hardware :: "env \<Rightarrow> string \<Rightarrow> unit act_io" where
  "run_experiment_cycle_hardware E hardware_config =
     andthen (setup_switches E (PStr hardware_config)) (raise (NameError ''base_config''))"

section \<open>Facts\<close>

text \<open>The command line that starts a program with its configuration.\<close>

lemma execute_remote_spawns:
  "execute_remote_command E ip prog cf k user i x tr = (Inr r, t) \<Longrightarrow>
     t = tr @ [Spawn (ssh k user ip (prog @ '' ~/'' @ cf @ '' > ~/'' @ remote_log_name x ip i @ '' &''))]
     \<and> (\<forall>pid. fst r = Some pid \<longrightarrow> en_spawn E tr (ssh k user ip
           (prog @ '' ~/'' @ cf @ '' > ~/'' @ remote_log_name x ip i @ '' &'')) = Inr pid)"
  by (auto simp: execute_remote_command_def Let_def try_except_def bnd_def spawn_def ret_def split: sum.splits)

text \<open>Polling a process, and killing it when it still runs.\<close>

lemma reap_run:
  "reap E pid s = (Inr (), s\<lparr>cy_trace := cy_trace s @ PollProc pid #
     (if en_running E (cy_trace s) pid then [KillProc pid] else [])\<rparr>)"
  by (simp add: reap_def try_matching_def try_except_def bnd_def does_def still_running_def perform_def
      modify_def ret_def)

definition reaped :: "env \<Rightarrow> nat \<Rightarrow> trace \<Rightarrow> bool" where
  "reaped E pid tr \<longleftrightarrow> (\<exists>h rest.
     tr = h @ PollProc pid # (if en_running E h pid then [KillProc pid] else []) @ rest)"

lemma reaped_prefix: "reaped E pid s \<Longrightarrow> prefix s t \<Longrightarrow> reaped E pid t"
  unfolding reaped_def prefix_def by (metis append.assoc append_Cons)

lemma reap_all:
  "\<exists>t. for_each (reap E) pids s = (Inr (), t) \<and> prefix (cy_trace s) (cy_trace t)
     \<and> cy_vars t = cy_vars s \<and> (\<forall>pid \<in> set pids. reaped E pid (cy_trace t))"
proof (induction pids arbitrary: s)
  case (Cons pid pids)
  let ?u = "s\<lparr>cy_trace := cy_trace s @ PollProc pid # (if en_running E (cy_trace s) pid then [KillProc pid] else [])\<rparr>"
  from Cons.IH [of ?u] obtain t where t: "for_each (reap E) pids ?u = (Inr (), t)" "prefix (cy_trace ?u) (cy_trace t)"
    "cy_vars t = cy_vars ?u" "\<forall>pid \<in> set pids. reaped E pid (cy_trace t)" by blast
  have "reaped E pid (cy_trace ?u)" by (auto simp: reaped_def)
  then have "reaped E pid (cy_trace t)" using t(2) by (rule reaped_prefix)
  moreover have "prefix (cy_trace s) (cy_trace t)" using t(2) by (auto simp: prefix_def)
  ultimately show ?case using t reap_run [of E pid s] by (intro exI [of _ t]) simp
qed simp

text \<open>Fetching logs never raises and keeps the lists.\<close>

definition same_run :: "pringles_vars cycle \<Rightarrow> pringles_vars cycle \<Rightarrow> bool" where
  "same_run s t \<longleftrightarrow> prefix (cy_trace s) (cy_trace t) \<and> (\<exists>x. cy_vars t = cy_vars s\<lparr>pv_ip := x\<rparr>)"

lemma same_run_trans: "same_run s t \<Longrightarrow> same_run t u \<Longrightarrow> same_run s u"
  unfolding same_run_def by (auto intro: prefix_order.trans)

lemma same_run_refl: "same_run s s"
  unfolding same_run_def by (auto intro: exI [of _ "pv_ip (cy_vars s)"])

lemma fetch_log_run:
  "\<exists>t. fetch_server_log E p dir il s = (Inr (), t) \<and> same_run s t"
  "\<exists>t. fetch_switch_log E p dir il s = (Inr (), t) \<and> same_run s t"
  by (auto simp: fetch_server_log_def fetch_switch_log_def copy_log_file_back_def checked_runs andthen_def
      bnd_def ret_def assign_run same_run_def)

lemma for_each_same_run:
  assumes "\<And>x s. \<exists>t. f x s = (Inr (), t) \<and> same_run s t"
  shows "\<exists>t. for_each f xs s = (Inr (), t) \<and> same_run s t"
proof (induction xs arbitrary: s)
  case (Cons x xs)
  from assms obtain u where u: "f x s = (Inr (), u)" "same_run s u" by blast
  from Cons.IH obtain t where "for_each f xs u = (Inr (), t)" "same_run u t" by blast
  with u show ?case by (auto intro: same_run_trans)
qed (simp add: same_run_refl)

text \<open>The clean-up up to the profiles, and what follows.\<close>

definition reap_servers :: "env \<Rightarrow> run_params \<Rightarrow> string \<Rightarrow> unit pringles_io" where
  "reap_servers E p dir =
     andthen (bnd (var pv_server_logs) (for_each (fetch_server_log E p dir)))
    (andthen (bnd (var pv_switch_logs) (for_each (fetch_switch_log E p dir)))
     (bnd (var pv_servers) (for_each (reap E))))"

definition after_reaping :: "env \<Rightarrow> pyval \<Rightarrow> pyval \<Rightarrow> run_params \<Rightarrow> string \<Rightarrow> string \<Rightarrow> unit pringles_io" where
  "after_reaping E base config p dir system_name =
     andthen (fetch_perf E p dir)
    (andthen (bnd (var pv_switches) (for_each (reap E)))
     (does (process_and_aggregate_results E dir (rp_name p) system_name base config)))"

lemma pringles_cleanup_split:
  "pringles_cleanup E base config p dir system_name =
     andthen (reap_servers E p dir) (after_reaping E base config p dir system_name)"
  by (simp add: pringles_cleanup_def reap_servers_def after_reaping_def fun_eq_iff andthen_def bnd_def
      split: prod.splits sum.splits)

lemma reap_servers_run:
  "\<exists>t. reap_servers E p dir s = (Inr (), t) \<and> same_run s t
     \<and> (\<forall>pid \<in> set (pv_servers (cy_vars s)). reaped E pid (cy_trace t))"
proof -
  obtain u where u: "for_each (fetch_server_log E p dir) (pv_server_logs (cy_vars s)) s = (Inr (), u)" "same_run s u"
    using for_each_same_run [of "fetch_server_log E p dir", OF fetch_log_run(1)] by blast
  obtain v where v: "for_each (fetch_switch_log E p dir) (pv_switch_logs (cy_vars u)) u = (Inr (), v)" "same_run u v"
    using for_each_same_run [of "fetch_switch_log E p dir", OF fetch_log_run(2)] by blast
  obtain w where w: "for_each (reap E) (pv_servers (cy_vars v)) v = (Inr (), w)" "prefix (cy_trace v) (cy_trace w)"
    "cy_vars w = cy_vars v" "\<forall>pid \<in> set (pv_servers (cy_vars v)). reaped E pid (cy_trace w)"
    using reap_all by blast
  have "same_run s v" using u(2) v(2) by (rule same_run_trans)
  then have "pv_servers (cy_vars v) = pv_servers (cy_vars s)" "same_run s w"
    using w(2,3) by (auto simp: same_run_def intro: prefix_order.trans)
  moreover have "reap_servers E p dir s = (Inr (), w)"
    using u(1) v(1) w(1) by (simp add: reap_servers_def andthen_def bnd_def var_run)
  ultimately show ?thesis using w(4) by auto
qed

lemma get_perf_adds [adds_intros]:
  assumes "\<And>argv. P (Spawn argv)" "\<And>argv. P (Run argv)" "\<And>c. P (RunShell c)" "\<And>v. P (Sleep v)"
  shows "keeps (adds P) (get_perf_files E b hosts user key dir)"
proof -
  note rules = step_relation.keeps_rules [OF step_relation_adds]
  show ?thesis
    unfolding get_perf_files_def case_prod_unfold
    by (intro rules adds_intros assms) (auto split: outcome.split intro!: rules adds_intros assms)
qed

lemma after_reaping_grows: "keeps (lift_rel prefix) (after_reaping E base config p dir system_name)"
  unfolding after_reaping_def fetch_perf_def reap_def
  by (intro growing.cycle_rules keeps_growing adds_intros TrueI)

text \<open>What reaping does to the world: it copies logs, polls and kills.\<close>

fun quiet_end :: "action \<Rightarrow> bool" where
  "quiet_end (Run argv) = True"
| "quiet_end (PollProc pid) = True"
| "quiet_end (KillProc pid) = True"
| "quiet_end _ = False"

lemma reap_servers_quiet: "keeps (lift_rel (adds quiet_end)) (reap_servers E p dir)"
  unfolding reap_servers_def fetch_server_log_def fetch_switch_log_def reap_def
  by (intro adding.cycle_rules adds_intros) simp_all

section \<open>Properties\<close>

text \<open>C27. A storage server is started twice by the same command, and only the second process is
  remembered: no clean-up reaches the first.\<close>

theorem launch_server_twice:
  assumes "launch_server E p i config_filename ip s = (Inr (), t)"
  shows "\<exists>argv q. spawns (cy_trace t) = spawns (cy_trace s) @ [argv, argv]
     \<and> pv_servers (cy_vars t) = pv_servers (cy_vars s) @ [q]
     \<and> (\<exists>h. prefix (h @ [Spawn argv]) (cy_trace t) \<and> Spawn argv \<in> set h \<and> en_spawn E h argv = Inr q)"
proof -
  let ?start = "does (execute_remote_command E ip (''~/'' @ basename (rp_server p)) config_filename
    (rp_ssh_key p) (rp_ssh_user p) i ''server'') :: (nat option \<times> string) pringles_io"
  let ?argv = "ssh (rp_ssh_key p) (rp_ssh_user p) ip (''~/'' @ basename (rp_server p) @ '' ~/'' @ config_filename
    @ '' > ~/'' @ remote_log_name ''server'' ip i @ '' &'')"
  let ?copy = "\<lambda>f :: string. does (transfer_file E f ip (rp_ssh_user p) (rp_ssh_key p) None None) :: bool pringles_io"
  have start: "cy_trace u' = cy_trace u @ [Spawn ?argv]" "cy_vars u' = cy_vars u"
    "fst r = Some pid \<Longrightarrow> en_spawn E (cy_trace u) ?argv = Inr pid" if "?start u = (Inr r, u')" for u u' r pid
    using that by (auto simp: does_def split: prod.splits dest: execute_remote_spawns)
  have copy: "spawns (cy_trace u') = spawns (cy_trace u) \<and> cy_vars u' = cy_vars u"
    if "?copy f u = (Inr ok, u')" for f ok u u'
    using that by (auto simp: transfer_file_def Let_def checked_runs spawns_def List.map_filter_def)
  from assms obtain ok1 s1 ok2 s2 r1 s3 r2 s4 q where
    c1: "?copy config_filename s = (Inr ok1, s1)" and c2: "?copy (rp_server p) s1 = (Inr ok2, s2)"
    and e1: "?start s2 = (Inr r1, s3)" and e2: "?start s3 = (Inr r2, s4)" and q: "fst r2 = Some q"
    and t: "t = s4\<lparr>cy_vars := cy_vars s4\<lparr>pv_servers := pv_servers (cy_vars s4) @ [q],
      pv_server_logs := dict_put ip (snd r2) (pv_server_logs (cy_vars s4))\<rparr>\<rparr>"
    by (auto simp: launch_server_def Let_def bnd_eq_Inr andthen_eq_Inr require_def ret_def raise_def assign_run
        split: if_splits option.splits)
  have 1: "spawns (cy_trace t) = spawns (cy_trace s) @ [?argv, ?argv]"
    using copy [OF c1] copy [OF c2] start(1) [OF e1] start(1) [OF e2] t by simp
  have 2: "pv_servers (cy_vars t) = pv_servers (cy_vars s) @ [q]"
    using copy [OF c1] copy [OF c2] start(2) [OF e1] start(2) [OF e2] t by simp
  have "prefix (cy_trace s3 @ [Spawn ?argv]) (cy_trace t) \<and> Spawn ?argv \<in> set (cy_trace s3)
      \<and> en_spawn E (cy_trace s3) ?argv = Inr q"
    using start(1) [OF e1] start(1) [OF e2] start(3) [OF e2 q] t by simp
  with 1 2 show ?thesis by blast
qed

definition demo_params :: run_params where
  "demo_params = \<lparr>rp_ssh_key = ''k'', rp_ssh_user = ''u'', rp_client_ips = [''10.0.0.1''], rp_client_ifs = PList [PStr ''e0''],
     rp_switch_ip = ''10.0.0.2'', rp_switch_if = PStr ''e0'', rp_server_ips = [''10.0.0.3''],
     rp_server_ifs = PList [PStr ''e0''], rp_client = ''/b/client'', rp_server = ''/b/server'', rp_switch = ''/b/switch'',
     rp_name = ''g-j''\<rparr>"

theorem launch_server_twice_witness:
  "\<exists>t. launch_server demo_world demo_params 0 ''c.yaml'' ''10.0.0.3'' \<lparr>cy_trace = [], cy_vars = no_pringles_vars\<rparr>
       = (Inr (), t)
     \<and> length (spawns (cy_trace t)) = 2"
proof -
  let ?run = "launch_server demo_world demo_params 0 ''c.yaml'' ''10.0.0.3'' \<lparr>cy_trace = [], cy_vars = no_pringles_vars\<rparr>"
  have "fst ?run = Inr ()"
    by (simp add: launch_server_def Let_def bnd_def andthen_def does_def transfer_file_def run_checked_eq
        execute_remote_command_def try_except_def spawn_def require_def ret_def assign_def modify_def demo_world_def)
  then obtain t where t: "?run = (Inr (), t)" by (cases ?run) simp
  from launch_server_twice [OF t] have "length (spawns (cy_trace t)) = 2" by auto
  with t show ?thesis by blast
qed

text \<open>C28. The clean-up of a Pringles run polls every recorded server process and kills the ones still
  running, however it ends.\<close>

theorem pringles_cleanup_reaps:
  assumes "pringles_cleanup E base config p dir system_name s = (r, t)"
    and "pid \<in> set (pv_servers (cy_vars s))"
  shows "\<exists>h rest. cy_trace t = h @ PollProc pid # (if en_running E h pid then [KillProc pid] else []) @ rest"
proof -
  obtain u where u: "reap_servers E p dir s = (Inr (), u)" "reaped E pid (cy_trace u)"
    using reap_servers_run assms(2) by blast
  with assms(1) have "after_reaping E base config p dir system_name u = (r, t)"
    by (simp add: pringles_cleanup_split andthen_def bnd_def)
  from keepsD [OF after_reaping_grows this] have "prefix (cy_trace u) (cy_trace t)"
    by (simp add: lift_rel_def)
  with u(2) show ?thesis using reaped_prefix unfolding reaped_def by blast
qed

theorem pringles_cleanup_reaps_witness:
  "\<exists>r t. pringles_cleanup demo_world demo_base demo_base demo_params ''res'' ''pringles''
       \<lparr>cy_trace = [], cy_vars = no_pringles_vars\<lparr>pv_servers := [7]\<rparr>\<rparr> = (r, t)
     \<and> PollProc 7 \<in> set (cy_trace t)"
proof -
  let ?run = "pringles_cleanup demo_world demo_base demo_base demo_params ''res'' ''pringles''
    \<lparr>cy_trace = [], cy_vars = no_pringles_vars\<lparr>pv_servers := [7]\<rparr>\<rparr>"
  obtain r t where t: "?run = (r, t)" by force
  from pringles_cleanup_reaps [OF t, of 7] have "PollProc 7 \<in> set (cy_trace t)" by auto
  with t show ?thesis by blast
qed

text \<open>When a first run fails before any client is set up, the clean-up itself raises: it names a
  variable only the clients bind. The switches are not polled and nothing is aggregated.\<close>

theorem pringles_cleanup_unbound:
  assumes "pv_client_exec (cy_vars s) = None"
  shows "\<exists>t. pringles_cleanup E base config p dir system_name s = (Inl (NameError ''client_exec''), t)
     \<and> adds quiet_end (cy_trace s) (cy_trace t) \<and> pv_switches (cy_vars t) = pv_switches (cy_vars s)"
proof -
  obtain u where u: "reap_servers E p dir s = (Inr (), u)" "same_run s u"
    using reap_servers_run by blast
  then have "pv_client_exec (cy_vars u) = None" using assms by (auto simp: same_run_def)
  then have "after_reaping E base config p dir system_name u = (Inl (NameError ''client_exec''), u)"
    by (simp add: after_reaping_def fetch_perf_def bound_def var_run andthen_def bnd_def lift_def of_option_def)
  moreover have "adds quiet_end (cy_trace s) (cy_trace u)"
    using keepsD [OF reap_servers_quiet u(1)] by (simp add: lift_rel_def)
  ultimately show ?thesis
    using u by (auto simp: pringles_cleanup_split andthen_def bnd_def same_run_def)
qed

theorem pringles_cleanup_unbound_witness:
  "\<exists>t. pringles_cleanup demo_world demo_base demo_base demo_params ''res'' ''pringles''
       \<lparr>cy_trace = [], cy_vars = no_pringles_vars\<lparr>pv_switches := [3]\<rparr>\<rparr> = (Inl (NameError ''client_exec''), t)
     \<and> adds quiet_end [] (cy_trace t) \<and> pv_switches (cy_vars t) = [3]"
  using pringles_cleanup_unbound [of "\<lparr>cy_trace = [], cy_vars = no_pringles_vars\<lparr>pv_switches := [3]\<rparr>\<rparr>"
      demo_world demo_base demo_base demo_params "''res''" "''pringles''"]
  by (simp add: no_pringles_vars_def)

lemma hardware_cycle_raises: "fst (run_experiment_cycle_hardware E f tr) = Inl (TypeError ''not subscriptable by a string'')"
  by (simp add: run_experiment_cycle_hardware_def setup_switches_def ring_of_def cfg_def andthen_def bnd_def lift_def)

end
