(* ===== verification/Cycle_Kafka.thy ===== *)
theory Cycle_Kafka
  imports Cycle_Base
begin

text \<open>
  experiments/scripts/experiment.py, \<open>run\_experiment\_cycle\_kafka\<close>: brokers, a topic, a consumer and
  a producer. The cycle takes its configuration as an argument. Starting a broker calls
  \<open>execute\_remote\_command\<close> without its last parameter, so nothing behind it is ever reached; it is
  modelled as it is written.
\<close>

section \<open>Parameters\<close>

record kafka_params =
  kp_ssh_key :: string
  kp_ssh_user :: string
  kp_clients :: "string list"
  kp_client :: string
  kp_brokers :: "string list"
  kp_partitions :: pyval
  kp_replication :: pyval
  kp_name :: string
  kp_duration :: pyval
  kp_warm_up :: pyval
  kp_cool_down :: pyval
  kp_message :: string
  kp_dir :: string
  kp_jar :: string

definition kafka_params_of :: "env \<Rightarrow> pyval \<Rightarrow> kafka_params res" where
  "kafka_params_of E config =
     (let net = cfg config ''network_setup''; exp = cfg config ''experiment_parameters''
      in ebind (ebind (net ''ssh_key'') as_str) (\<lambda>key.
         ebind (ebind (net ''ssh_user'') as_str) (\<lambda>user.
         ebind (ebind (net ''cli_ips'') str_list) (\<lambda>clients.
         ebind (ebind (py_item config ''network_setup'') (\<lambda>n.
           ebind (py_get_default n ''seq_ips'' (PList [])) str_list)) (\<lambda>brokers.
         if brokers = [] then Inl (Exc ''No seq_ips defined for Kafka brokers'')
         else ebind (py_get_default config ''comparison_parameters'' (PDict [])) (\<lambda>cmp.
         ebind (py_get_default cmp ''num_partitions'' (PInt 1)) (\<lambda>partitions.
         ebind (py_get_default cmp ''replication_factor'' (PInt 2)) (\<lambda>replication.
         ebind (py_gt replication (int (length brokers))) (\<lambda>too_many.
         if too_many then Inl (Exc ''replication_factor > number of brokers'')
         else ebind (ebind (exp ''json_name'') as_str) (\<lambda>json_name.
         ebind (exp ''experiment_duration'') (\<lambda>duration.
         ebind (exp ''warm_up'') (\<lambda>warm_up.
         ebind (exp ''cool_down'') (\<lambda>cool_down.
         ebind (ebind (exp ''message_size'') as_int) (\<lambda>message_size.
         ebind (ebind (py_item config ''program_paths'') (\<lambda>p.
           ebind (py_get_default p ''kafka_dir'' (PStr ''/opt/kafka'')) as_str)) (\<lambda>dir.
         ebind (ebind (cfg config ''program_paths'' ''kafka_log_jar_remote'') as_str) (\<lambda>jar.
         ebind (py_nth clients 0) (\<lambda>client.
         Inr \<lparr>kp_ssh_key = en_home E key, kp_ssh_user = user, kp_clients = clients, kp_client = client,
              kp_brokers = brokers, kp_partitions = partitions, kp_replication = replication,
              kp_name = json_name, kp_duration = duration, kp_warm_up = warm_up, kp_cool_down = cool_down,
              kp_message = replicate (nat message_size) (CHR ''x''), kp_dir = dir, kp_jar = jar\<rparr>)))))))))))))))))"

section \<open>Brokers\<close>

record kafka_vars =
  kv_broker_logs :: "(string \<times> string) list"

type_synonym 'a kafka_io = "(kafka_vars, 'a) cycle_io"

definition sync :: "env \<Rightarrow> kafka_params \<Rightarrow> string \<Rightarrow> string \<Rightarrow> bool kafka_io" where
  "sync E p ip command = does (run_remote_command_sync E ip command (kp_ssh_key p) (kp_ssh_user p))"

definition stop_all_clients :: "env \<Rightarrow> kafka_params \<Rightarrow> unit kafka_io" where
  "stop_all_clients E p =
     andthen (does (kill_remote_process E (kp_client p) ''main.Consumer'' (kp_ssh_key p) (kp_ssh_user p)))
    (andthen (does (kill_remote_process E (kp_client p) ''main.Producer'' (kp_ssh_key p) (kp_ssh_user p)))
     (ret ()))"

definition broker_log_dir :: string where
  "broker_log_dir = ''/tmp/kafka-logs''"

definition props_filename :: "kafka_params \<Rightarrow> nat \<Rightarrow> string" where
  "props_filename p i = ''kafka_server_'' @ kp_name p @ ''_'' @ str_nat i @ ''.properties''"

definition configure_broker :: "env \<Rightarrow> kafka_params \<Rightarrow> nat \<times> string \<Rightarrow> unit kafka_io" where
  "configure_broker E p iip =
     bnd (lift (generate_kafka_server_properties (en_float E) (fst iip + 1) (snd iip) (kp_brokers p)
            (kp_partitions p) (kp_replication p) broker_log_dir)) (\<lambda>props.
     andthen (does (write_file E (props_filename p (fst iip)) props))
    (bnd (does (transfer_file E (props_filename p (fst iip)) (snd iip) (kp_ssh_user p) (kp_ssh_key p) None None))
       (\<lambda>ok. require ok ''Failed to transfer server.properties'')))"

definition format_broker :: "env \<Rightarrow> kafka_params \<Rightarrow> string \<Rightarrow> nat \<times> string \<Rightarrow> unit kafka_io" where
  "format_broker E p cluster_uuid iip =
     bnd (sync E p (snd iip) (''sudo rm -rf '' @ broker_log_dir)) (\<lambda>ok.
     andthen (require ok ''Failed to clean Kafka log dir'')
    (bnd (sync E p (snd iip) (kp_dir p @ ''/bin/kafka-storage.sh format -t '' @ cluster_uuid @ '' -c ~/''
            @ props_filename p (fst iip))) (\<lambda>ok. require ok ''Failed to format Kafka storage'')))"

definition remote_command_parameters :: "string list" where
  "remote_command_parameters =
     [''ip'', ''program_path'', ''config_filename'', ''ssh_key'', ''ssh_user'', ''exp_index'', ''prefix'']"

definition start_broker :: "env \<Rightarrow> kafka_params \<Rightarrow> nat \<Rightarrow> nat \<times> string \<Rightarrow> unit kafka_io" where
  "start_broker E p exp_index iip =
     andthen (lift (bind_arguments remote_command_parameters (take 6 remote_command_parameters)))
    (bnd (does (execute_remote_command E (snd iip) (kp_dir p @ ''/bin/kafka-server-start.sh'')
            (props_filename p (fst iip)) (kp_ssh_key p) (kp_ssh_user p) exp_index [])) (\<lambda>(pid, log_filename).
     andthen (require (pid \<noteq> None) ''Failed to start Kafka broker'')
       (assign (\<lambda>v. v\<lparr>kv_broker_logs := dict_put (snd iip) log_filename (kv_broker_logs v)\<rparr>))))"

section \<open>Topic, consumer and producer\<close>

definition create_topic :: "env \<Rightarrow> kafka_params \<Rightarrow> unit kafka_io" where
  "create_topic E p =
     bnd (lift (py_nth (kp_brokers p) 0)) (\<lambda>broker.
     bnd (sync E p broker (kp_dir p @ ''/bin/kafka-topics.sh --create --bootstrap-server '' @ broker
            @ '':9092 --topic pringles-bench --partitions '' @ py_str (en_float E) (kp_partitions p)
            @ '' --replication-factor '' @ py_str (en_float E) (kp_replication p))) (\<lambda>ok.
     require ok ''Failed to create Kafka topic.''))"

definition kafka_client_config :: "kafka_params \<Rightarrow> string \<Rightarrow> pyval" where
  "kafka_client_config p output_path = PDict
     [(''topic1'', PStr ''pringles-bench''), (''topic2'', PStr ''pringles-bench''), (''rsm_id'', PInt 1),
      (''node_id'', PInt 0), (''broker_ips'', PStr (join '','' (map (\<lambda>ip. ip @ '':9092'') (kp_brokers p)))),
      (''rsm_size'', PInt 1), (''benchmark_duration'', kp_duration p), (''warmup_duration'', kp_warm_up p),
      (''cooldown_duration'', kp_cool_down p), (''message'', PStr (kp_message p)),
      (''read_from_pipe'', PBool False), (''input_path'', PStr ''/tmp/kafka-input''),
      (''output_path'', PStr output_path), (''write_dr'', PBool False), (''write_ccf'', PBool False)]"

definition run_name :: "string \<Rightarrow> kafka_params \<Rightarrow> nat \<Rightarrow> string \<Rightarrow> string" where
  "run_name prfx p i ext = prfx @ kp_name p @ ''_'' @ str_nat i @ ext"

definition send_client_config :: "env \<Rightarrow> kafka_params \<Rightarrow> nat \<Rightarrow> unit kafka_io" where
  "send_client_config E p i =
     (let config_json = run_name ''kafka_client_config_'' p i ''.json'';
          output = run_name ''kafka_output_'' p i ''.json''
      in andthen (does (write_file E config_json (en_dump_json E (kafka_client_config p (''/tmp/'' @ output)))))
        (bnd (does (transfer_file E config_json (kp_client p) (kp_ssh_user p) (kp_ssh_key p) None None)) (\<lambda>ok.
         andthen (require ok ''Failed to transfer client config.json'')
        (bnd (sync E p (kp_client p) (''mkdir -p /tmp/kafka-config && cp ~/'' @ config_json
                @ '' /tmp/kafka-config/config.json'')) (\<lambda>ok.
         require ok ''Failed to place config.json in /tmp/kafka-config/.'')))))"

definition java_main :: "string \<Rightarrow> string \<Rightarrow> string \<Rightarrow> string" where
  "java_main jar_cp main output =
     ''nohup java -cp /tmp/kafka-config:'' @ jar_cp @ '' '' @ main @ '' > ~/'' @ output @ '' 2>&1 &''"

definition dquote :: "string \<Rightarrow> string" where
  "dquote s = char_of (34 :: nat) # s @ [char_of (34 :: nat)]"

definition run_benchmark :: "env \<Rightarrow> kafka_params \<Rightarrow> nat \<Rightarrow> unit kafka_io" where
  "run_benchmark E p i =
     (let jar_cp = replace_from 1 ''~/'' ''$HOME/'' (kp_jar p) 0; c = kp_client p;
          consumer_log = run_name ''kafka_consumer_'' p i ''.log'';
          producer_log = run_name ''kafka_producer_'' p i ''.log''
      in andthen (sync E p c ''cat /tmp/kafka-config/config.json'')
        (andthen (sync E p c (''unzip -p '' @ jar_cp @ '' config.json 2>/dev/null || echo ''
            @ dquote ''(no bundled config.json found in jar)''))
        (andthen (sync E p c (java_main jar_cp ''main.Consumer'' consumer_log))
        (andthen (does (sleep (PInt 3)))
        (andthen (sync E p c (''pgrep -a -f '' @ dquote ''main.Consumer'' @ '' || echo '' @ dquote ''NOT RUNNING''))
        (andthen (sync E p c (''cat ~/'' @ consumer_log))
        (andthen (does (sleep (PInt 2)))
        (andthen (sync E p c (java_main jar_cp ''main.Producer'' producer_log))
        (bnd (lift (ebind (py_add (kp_warm_up p) (kp_duration p)) (\<lambda>x.
              ebind (py_add x (kp_cool_down p)) (\<lambda>y. py_add y (PInt 15))))) (\<lambda>total_wait.
         andthen (does (sleep total_wait))
        (andthen (stop_all_clients E p)
         (does (sleep (PInt 5))))))))))))))"

section \<open>Results\<close>

text \<open>A log that exists is read to be printed.\<close>

definition show_log :: "env \<Rightarrow> string \<Rightarrow> unit kafka_io" where
  "show_log E path =
     bnd (does (look (\<lambda>tr. en_exists E tr path))) (\<lambda>there.
     if there then andthen (does (read_file E path)) (ret ()) else ret ())"

definition fetch_kafka_results :: "env \<Rightarrow> kafka_params \<Rightarrow> nat \<Rightarrow> string \<Rightarrow> unit kafka_io" where
  "fetch_kafka_results E p i dir =
     (let output = run_name ''kafka_output_'' p i ''.json'';
          consumer_log = run_name ''kafka_consumer_'' p i ''.log'';
          producer_log = run_name ''kafka_producer_'' p i ''.log'';
          fetch = (\<lambda>f remote_dir. copy_log_file_back E (kp_client p) (kp_ssh_user p) (kp_ssh_key p) f dir remote_dir)
      in bnd (does (fetch output ''/tmp'')) (\<lambda>json_ok.
         andthen (does (fetch consumer_log ''~''))
        (andthen (does (fetch producer_log ''~''))
        (bnd (if json_ok then does (look_res (\<lambda>tr. en_size E tr (path_join dir output))) else ret 1) (\<lambda>size.
         andthen (if \<not> json_ok \<or> size = 0
                  then andthen (show_log E (path_join dir consumer_log)) (show_log E (path_join dir producer_log))
                  else ret ())
           (andthen (does (parse_kafka_results E (path_join dir output) (path_join dir consumer_log)
                             (kp_name p) i dir)) (ret ())))))))"

definition kafka_body :: "env \<Rightarrow> kafka_params \<Rightarrow> string \<Rightarrow> nat \<Rightarrow> string \<Rightarrow> unit kafka_io" where
  "kafka_body E p cluster_uuid i dir =
     andthen (stop_all_clients E p)
    (andthen (for_each (configure_broker E p) (enumerate 0 (kp_brokers p)))
    (andthen (for_each (format_broker E p cluster_uuid) (enumerate 0 (kp_brokers p)))
    (andthen (for_each (start_broker E p i) (enumerate 0 (kp_brokers p)))
    (andthen (does (sleep (PInt SERVER_START_DELAY)))
    (andthen (create_topic E p)
    (andthen (send_client_config E p i)
    (andthen (run_benchmark E p i)
     (fetch_kafka_results E p i dir))))))))"

definition stop_broker :: "env \<Rightarrow> kafka_params \<Rightarrow> string \<Rightarrow> unit kafka_io" where
  "stop_broker E p ip =
     andthen (does (kill_remote_process E ip ''kafka.Kafka'' (kp_ssh_key p) (kp_ssh_user p))) (ret ())"

definition kafka_cleanup :: "env \<Rightarrow> kafka_params \<Rightarrow> string \<Rightarrow> unit kafka_io" where
  "kafka_cleanup E p dir =
     andthen (for_each (stop_broker E p) (kp_brokers p))
    (bnd (var kv_broker_logs) (for_each (\<lambda>(ip, log_filename).
       andthen (does (copy_log_file_back E ip (kp_ssh_user p) (kp_ssh_key p) log_filename dir ''~'')) (ret ()))))"

definition run_experiment_cycle_kafka :: "env \<Rightarrow> pyval \<Rightarrow> nat \<Rightarrow> string \<Rightarrow> unit act_io" where
  "run_experiment_cycle_kafka E config exp_index dir =
     bnd (lift (kafka_params_of E config)) (\<lambda>p.
     bnd (look (en_uuid E)) (\<lambda>cluster_uuid.
     with_vars \<lparr>kv_broker_logs = []\<rparr>
       (guarded (kafka_body E p cluster_uuid exp_index dir) (kafka_cleanup E p dir))))"

section \<open>Facts\<close>

text \<open>The commands that prepare the brokers and stop leftovers; none starts a process or reads a result.\<close>

definition broker_commands :: "kafka_params \<Rightarrow> string \<Rightarrow> nat \<times> string \<Rightarrow> string list list" where
  "broker_commands p uuid iip =
     [scp (kp_ssh_key p) (props_filename p (fst iip))
        (kp_ssh_user p @ ''@'' @ snd iip @ '':~/'' @ basename (props_filename p (fst iip))),
      ssh (kp_ssh_key p) (kp_ssh_user p) (snd iip) (''sudo rm -rf '' @ broker_log_dir),
      ssh (kp_ssh_key p) (kp_ssh_user p) (snd iip)
        (kp_dir p @ ''/bin/kafka-storage.sh format -t '' @ uuid @ '' -c ~/'' @ props_filename p (fst iip)),
      ssh (kp_ssh_key p) (kp_ssh_user p) (snd iip) ''sudo pkill kafka.Kafka'']"

definition preparations :: "kafka_params \<Rightarrow> string \<Rightarrow> string list list" where
  "preparations p uuid =
     map (\<lambda>m. ssh (kp_ssh_key p) (kp_ssh_user p) (kp_client p) (''sudo pkill '' @ m)) [''main.Consumer'', ''main.Producer'']
     @ concat (map (broker_commands p uuid) (enumerate 0 (kp_brokers p)))"

fun preparing :: "kafka_params \<Rightarrow> string \<Rightarrow> action \<Rightarrow> bool" where
  "preparing p uuid (Run argv) = (argv \<in> set (preparations p uuid))"
| "preparing p uuid (WriteFile f c) = (f \<in> set (map (\<lambda>iip. props_filename p (fst iip)) (enumerate 0 (kp_brokers p))))"
| "preparing p uuid _ = False"

lemma preparing_broker:
  "iip \<in> set (enumerate 0 (kp_brokers p)) \<Longrightarrow> argv \<in> set (broker_commands p uuid iip) \<Longrightarrow> preparing p uuid (Run argv)"
  by (simp add: preparations_def del: in_set_enumerate_eq) blast

lemma adds_run_checked: "P (Run argv) \<Longrightarrow> keeps (lift_rel (adds P)) (does (run_checked E argv))"
  by (intro keeps_does adds_primitive)

lemma keeps_for_each_in:
  assumes "step_relation R" and "\<And>x. x \<in> set xs \<Longrightarrow> keeps R (f x)"
  shows "keeps R (for_each f xs)"
  using assms(2)
proof (induction xs)
  case Nil
  show ?case using step_relation.R_refl [OF assms(1)] by (simp add: keeps_def)
next
  case (Cons x xs)
  have "for_each f (x # xs) = andthen (f x) (for_each f xs)"
    by (simp add: fun_eq_iff andthen_def bnd_def split: prod.splits sum.splits)
  then show ?case by (simp only:) (intro step_relation.keeps_andthen [OF assms(1)] Cons.IH Cons.prems; simp)
qed

lemma preparing_steps:
  "keeps (lift_rel (adds (preparing p uuid))) (stop_all_clients E p)"
  "x \<in> set (enumerate 0 (kp_brokers p)) \<Longrightarrow> keeps (lift_rel (adds (preparing p uuid))) (configure_broker E p x)"
  "x \<in> set (enumerate 0 (kp_brokers p)) \<Longrightarrow> keeps (lift_rel (adds (preparing p uuid))) (format_broker E p uuid x)"
  "ip \<in> set (kp_brokers p) \<Longrightarrow> keeps (lift_rel (adds (preparing p uuid))) (stop_broker E p ip)"
proof -
  have client: "preparing p uuid (Run (ssh (kp_ssh_key p) (kp_ssh_user p) (kp_client p) (''sudo pkill '' @ m)))"
    if "m \<in> {''main.Consumer'', ''main.Producer''}" for m
    using that by (auto simp: preparations_def)
  show "keeps (lift_rel (adds (preparing p uuid))) (stop_all_clients E p)"
    unfolding stop_all_clients_def kill_remote_process_def run_remote_command_sync_def
    by (intro adding.cycle_rules adds_primitive client) simp_all
  show "keeps (lift_rel (adds (preparing p uuid))) (configure_broker E p x)" if "x \<in> set (enumerate 0 (kp_brokers p))"
    unfolding configure_broker_def transfer_file_def Let_def
    using that by (intro adding.cycle_rules adds_primitive preparing_broker [OF that])
      (auto simp: broker_commands_def simp del: in_set_enumerate_eq)
  show "keeps (lift_rel (adds (preparing p uuid))) (format_broker E p uuid x)" if "x \<in> set (enumerate 0 (kp_brokers p))"
    unfolding format_broker_def sync_def run_remote_command_sync_def
    by (intro adding.cycle_rules adds_primitive preparing_broker [OF that]) (simp_all add: broker_commands_def)
  show "keeps (lift_rel (adds (preparing p uuid))) (stop_broker E p ip)" if "ip \<in> set (kp_brokers p)"
  proof -
    from that obtain i where "i < length (kp_brokers p)" "kp_brokers p ! i = ip" by (auto simp: in_set_conv_nth)
    then have "(i, ip) \<in> set (enumerate 0 (kp_brokers p))" by (simp add: in_set_enumerate_eq)
    then show ?thesis
      unfolding stop_broker_def kill_remote_process_def run_remote_command_sync_def
      by (intro adding.cycle_rules adds_primitive preparing_broker [where iip = "(i, ip)"])
        (simp_all add: broker_commands_def)
  qed
qed

lemma start_broker_raises:
  "start_broker E p i x s = (Inl (TypeError ''missing required argument''), s)"
  by (simp add: start_broker_def bind_arguments_def remote_command_parameters_def andthen_def bnd_def lift_def)

lemma start_brokers_raise:
  "xs \<noteq> [] \<Longrightarrow> for_each (start_broker E p i) xs s = (Inl (TypeError ''missing required argument''), s)"
  by (cases xs) (simp_all add: start_broker_raises)

lemma kafka_body_stops:
  assumes "kp_brokers p \<noteq> []"
  shows "kafka_body E p uuid i dir =
    andthen (stop_all_clients E p)
   (andthen (for_each (configure_broker E p) (enumerate 0 (kp_brokers p)))
   (andthen (for_each (format_broker E p uuid) (enumerate 0 (kp_brokers p)))
    (raise (TypeError ''missing required argument''))))"
proof -
  have "andthen (for_each (start_broker E p i) (enumerate 0 (kp_brokers p))) m
      = raise (TypeError ''missing required argument'')" for m :: "unit kafka_io"
    using assms start_brokers_raise [of "enumerate 0 (kp_brokers p)"]
    by (simp add: fun_eq_iff andthen_def bnd_def raise_def enumerate_eq_zip)
  then show ?thesis by (simp add: kafka_body_def)
qed

lemma kafka_body_prepares:
  assumes "kp_brokers p \<noteq> []"
  shows "keeps (lift_rel (adds (preparing p uuid))) (kafka_body E p uuid i dir)"
  unfolding kafka_body_stops [OF assms]
  by (intro adding.cyc.keeps_rules(1-4) adding.cyc.keeps_andthen keeps_for_each_in preparing_steps
      adding.cyc.step_relation_axioms) simp_all

text \<open>No broker is recorded, so the clean-up has no log to copy.\<close>

interpretation same_vars: step_relation "\<lambda>s t :: 'l cycle. cy_vars s = cy_vars t"
  by (rule step_relation_eq)

lemma does_vars: "keeps (\<lambda>s t :: 'l cycle. cy_vars s = cy_vars t) (does m)"
  by (auto simp: keeps_def does_def split: prod.splits)

lemma kafka_body_vars:
  assumes "kp_brokers p \<noteq> []"
  shows "keeps (\<lambda>s t. cy_vars s = cy_vars t) (kafka_body E p uuid i dir)"
  unfolding kafka_body_stops [OF assms] stop_all_clients_def configure_broker_def format_broker_def sync_def require_def
  by (intro same_vars.keeps_rules does_vars)

lemma kafka_cleanup_prepares:
  assumes "kafka_cleanup E p dir s = (r, t)" and "kv_broker_logs (cy_vars s) = []"
  shows "adds (preparing p uuid) (cy_trace s) (cy_trace t)"
proof -
  let ?stop = "for_each (stop_broker E p) (kp_brokers p)"
  obtain q u where stop: "?stop s = (q, u)" by force
  have "keeps (\<lambda>s t. cy_vars s = cy_vars t) ?stop"
    unfolding stop_broker_def by (intro same_vars.keeps_rules does_vars)
  from keepsD [OF this stop] assms(2) have "kv_broker_logs (cy_vars u) = []" by simp
  with assms(1) stop have "t = u"
    by (cases q) (auto simp: kafka_cleanup_def andthen_def bnd_def var_run)
  moreover have "keeps (lift_rel (adds (preparing p uuid))) ?stop"
    by (intro keeps_for_each_in preparing_steps adding.cyc.step_relation_axioms)
  from keepsD [OF this stop] have "adds (preparing p uuid) (cy_trace s) (cy_trace u)" by (simp add: lift_rel_def)
  ultimately show ?thesis by simp
qed

lemma kafka_params_brokers: "kafka_params_of E config = Inr p \<Longrightarrow> kp_brokers p \<noteq> []"
  by (auto simp: kafka_params_of_def Let_def split: if_splits)

text \<open>The clean-up never raises and stops every broker.\<close>

definition stop_command :: "kafka_params \<Rightarrow> string \<Rightarrow> action" where
  "stop_command p ip = Run (ssh (kp_ssh_key p) (kp_ssh_user p) ip ''sudo pkill kafka.Kafka'')"

lemma stop_broker_run: "\<exists>t. stop_broker E p ip s = (Inr (), t) \<and> did (stop_command p ip) t"
  by (simp add: stop_broker_def stop_command_def did_def kill_remote_process_def run_remote_command_sync_def
      checked_runs andthen_def bnd_def ret_def)

lemma kafka_cleanup_grows:
  "keeps (lift_rel prefix) (stop_broker E p ip)"
  unfolding stop_broker_def
  by (intro growing.cycle_rules keeps_growing adds_intros; simp)

lemma fetch_logs_total:
  "\<exists>t. for_each (\<lambda>(ip, f). andthen (does (copy_log_file_back E ip u k f dir ''~'')) (ret ())) xs s = (Inr (), t)"
  by (induction xs arbitrary: s)
    (auto simp: copy_log_file_back_def checked_runs andthen_def bnd_def ret_def)

lemma kafka_cleanup_run:
  "\<exists>t. kafka_cleanup E p dir s = (Inr (), t) \<and> (\<forall>ip \<in> set (kp_brokers p). did (stop_command p ip) t)"
proof -
  from for_each_did [of "stop_broker E p" "stop_command p", OF stop_broker_run kafka_cleanup_grows]
  obtain u where u: "for_each (stop_broker E p) (kp_brokers p) s = (Inr (), u)"
    "\<forall>ip \<in> set (kp_brokers p). did (stop_command p ip) u" by blast
  let ?logs = "bnd (var kv_broker_logs) (for_each (\<lambda>(ip, log_filename). andthen (does (copy_log_file_back E ip
    (kp_ssh_user p) (kp_ssh_key p) log_filename dir ''~'')) (ret ())))"
  from fetch_logs_total obtain t where t: "?logs u = (Inr (), t)"
    by (fastforce simp: bnd_def var_run)
  have "keeps (lift_rel prefix) ?logs"
    unfolding case_prod_unfold by (intro growing.cycle_rules keeps_growing adds_intros; simp)
  from did_keeps [OF this t] u t show ?thesis
    by (auto simp: kafka_cleanup_def andthen_def bnd_def)
qed

section \<open>Properties\<close>

text \<open>C31. The Kafka cycle never gets a broker up. With valid parameters it lets no exception out and stops
  every broker at the end, and all it does is to write and copy the brokers' property files, to clean and
  format their storage and to stop leftovers: no broker, topic, consumer or producer is ever started and no
  result is read.\<close>

theorem kafka_cycle_idle:
  assumes "kafka_params_of E config = Inr p"
  shows "\<exists>r tr'. run_experiment_cycle_kafka E config i dir tr = (r, tr') \<and> adds (preparing p (en_uuid E tr)) tr tr'
     \<and> (\<forall>e. r = Inl e \<longrightarrow> \<not> is_exception e)
     \<and> (\<forall>ip \<in> set (kp_brokers p).
          Run (ssh (kp_ssh_key p) (kp_ssh_user p) ip ''sudo pkill kafka.Kafka'') \<in> set tr')"
proof -
  let ?s = "\<lparr>cy_trace = tr, cy_vars = \<lparr>kv_broker_logs = []\<rparr>\<rparr>" and ?P = "preparing p (en_uuid E tr)"
  let ?b = "kafka_body E p (en_uuid E tr) i dir"
  note brokers = kafka_params_brokers [OF assms]
  have run: "run_experiment_cycle_kafka E config i dir tr
      = with_vars \<lparr>kv_broker_logs = []\<rparr> (guarded ?b (kafka_cleanup E p dir)) tr"
    using assms by (simp add: run_experiment_cycle_kafka_def bnd_def lift_def look_def)
  obtain q u where body: "?b ?s = (q, u)" by force
  have "\<exists>t. kafka_cleanup E p dir s = (Inr (), t)" for s using kafka_cleanup_run by blast
  from guarded_run [of "kafka_cleanup E p dir" ?b ?s q u, OF this body] obtain r t where
    t: "guarded ?b (kafka_cleanup E p dir) ?s = (r, t)" "kafka_cleanup E p dir u = (Inr (), t)"
      "\<forall>e. r = Inl e \<longrightarrow> \<not> is_exception e"
    by blast
  from keepsD [OF kafka_body_vars [OF brokers] body] have "cy_vars u = \<lparr>kv_broker_logs = []\<rparr>" by simp
  then have "kv_broker_logs (cy_vars u) = []" by simp
  from kafka_cleanup_prepares [OF t(2) this] keepsD [OF kafka_body_prepares [OF brokers] body]
  have "adds ?P tr (cy_trace t)"
    using step_relation.R_trans [OF step_relation_adds, of ?P tr "cy_trace u" "cy_trace t"] by (simp add: lift_rel_def)
  moreover from kafka_cleanup_run [of E p dir u] t(2)
  have "\<forall>ip \<in> set (kp_brokers p). did (stop_command p ip) t" by auto
  ultimately show ?thesis
    using run t(1,3) by (auto simp: with_vars_def did_def stop_command_def)
qed

definition demo_kafka :: pyval where
  "demo_kafka = PDict
     [(''network_setup'', PDict [(''ssh_key'', PStr ''k''), (''ssh_user'', PStr ''u''), (''cli_ips'', PList [PStr ''c'']),
        (''seq_ips'', PList [PStr ''b1'', PStr ''b2''])]),
      (''experiment_parameters'', PDict [(''json_name'', PStr ''j''), (''experiment_duration'', PInt 10),
        (''warm_up'', PInt 1), (''cool_down'', PInt 1), (''message_size'', PInt 3)]),
      (''program_paths'', PDict [(''kafka_log_jar_remote'', PStr ''~/a.jar'')])]"

theorem kafka_cycle_idle_witness:
  "\<exists>r tr'. run_experiment_cycle_kafka demo_world demo_kafka 0 ''res'' [] = (r, tr') \<and> list_all (\<lambda>a. \<forall>argv. a \<noteq> Spawn argv) tr'
     \<and> Run (ssh ''k'' ''u'' ''b2'' ''sudo pkill kafka.Kafka'') \<in> set tr'"
proof -
  have "case kafka_params_of demo_world demo_kafka of Inl _ \<Rightarrow> False
      | Inr p \<Rightarrow> kp_brokers p = [''b1'', ''b2''] \<and> kp_ssh_key p = ''k'' \<and> kp_ssh_user p = ''u''" by code_simp
  then obtain p where "kafka_params_of demo_world demo_kafka = Inr p" "kp_brokers p = [''b1'', ''b2'']"
    "kp_ssh_key p = ''k''" "kp_ssh_user p = ''u''" by (auto split: sum.splits)
  with kafka_cycle_idle [of demo_world demo_kafka p 0 "''res''" "[]"] obtain r tr' where
    run: "run_experiment_cycle_kafka demo_world demo_kafka 0 ''res'' [] = (r, tr')"
      "adds (preparing p (en_uuid demo_world [])) [] tr'" "Run (ssh ''k'' ''u'' ''b2'' ''sudo pkill kafka.Kafka'') \<in> set tr'"
    by auto
  then have "list_all (\<lambda>a. \<forall>argv. a \<noteq> Spawn argv) tr'" by (auto simp: adds_def list_all_iff)
  with run show ?thesis by blast
qed

end
