(* ===== verification/Cycle_Scalog.thy ===== *)
theory Cycle_Scalog
  imports Cycle_Base
begin

text \<open>
  experiments/scripts/experiment.py, \<open>run\_experiment\_cycle\_scalog\<close>: order nodes, a discovery node,
  data nodes and one client.
\<close>

section \<open>Parameters\<close>

record scalog_params =
  sp_ssh_key :: string
  sp_ssh_user :: string
  sp_discovery :: string
  sp_client :: string
  sp_order :: "string list"
  sp_data :: "string list"
  sp_ports :: "pyval \<times> pyval \<times> pyval \<times> pyval"
  sp_data_yaml :: string
  sp_name :: string
  sp_order_rf :: pyval
  sp_data_rf :: pyval
  sp_interval :: pyval
  sp_exec :: string
  sp_config :: string
  sp_message_size :: pyval
  sp_threads :: pyval
  sp_duration :: pyval
  sp_warm_up :: pyval
  sp_cool_down :: pyval
  sp_shards :: int

text \<open>The checks before the \<open>try\<close>: their exceptions leave the cycle.\<close>

definition active_nodes :: "string \<Rightarrow> pyval \<Rightarrow> string list \<Rightarrow> (int \<times> string list) res" where
  "active_nodes what num ips =
     ebind (py_gt num (int (length ips))) (\<lambda>too_many.
     if too_many then Inl (Exc what)
     else ebind (as_int num) (\<lambda>n. Inr (n, py_take n ips)))"

definition scalog_params_of :: "env \<Rightarrow> pyval \<Rightarrow> pyval \<Rightarrow> scalog_params res" where
  "scalog_params_of E base config =
     (let net = cfg config ''network_setup''; exp = cfg config ''experiment_parameters'';
          gen = cfg base ''experiment_parameters''
      in ebind (ebind (net ''ssh_key'') as_str) (\<lambda>key.
         ebind (ebind (net ''ssh_user'') as_str) (\<lambda>user.
         ebind (ebind (net ''cli_ips'') str_list) (\<lambda>clients.
         ebind (ebind (py_item config ''network_setup'') (\<lambda>n.
           ebind (py_get_default n ''seq_ips'' (PList [])) str_list)) (\<lambda>seq_ips.
         ebind (ebind (net ''stor_ips'') str_list) (\<lambda>stor_ips.
         ebind (ebind (net ''discovery_ip'') as_str) (\<lambda>discovery.
         ebind (py_nth clients 0) (\<lambda>client.
         ebind (net ''order_port'') (\<lambda>order_port. ebind (net ''raft_port'') (\<lambda>raft_port.
         ebind (net ''data_port'') (\<lambda>data_port. ebind (net ''disc_port'') (\<lambda>disc_port.
         ebind (program_path E config ''data_yaml_path'') (\<lambda>data_yaml.
         if seq_ips = [] then Inl (Exc ''No seq_ips defined for Scalog order nodes'')
         else if stor_ips = [] then Inl (Exc ''No stor_ips defined for Scalog data nodes'')
         else ebind (json_output_name base config) (\<lambda>json_name.
         ebind (exp ''num_sequencer_nodes'') (\<lambda>sequencers.
         ebind (exp ''order_replication_factor'') (\<lambda>order_rf.
         ebind (exp ''batching_interval'') (\<lambda>interval.
         ebind (program_path E config ''scalog_bin'') (\<lambda>exec.
         ebind (program_path E config ''config_path'') (\<lambda>config_path.
         ebind (gen ''message_size'') (\<lambda>message_size. ebind (gen ''num_client_threads'') (\<lambda>threads.
         ebind (gen ''experiment_duration'') (\<lambda>duration. ebind (gen ''warm_up'') (\<lambda>warm_up.
         ebind (gen ''cool_down'') (\<lambda>cool_down. ebind (gen ''num_shards'') (\<lambda>shards.
         ebind (gen ''num_servers_per_shard'') (\<lambda>data_rf.
         ebind (active_nodes ''num_sequencer_nodes > len(seq_ips)'' sequencers seq_ips) (\<lambda>order.
         ebind (active_nodes ''num_shards > len(stor_ips)'' shards stor_ips) (\<lambda>data.
         Inr \<lparr>sp_ssh_key = en_home E key, sp_ssh_user = user, sp_discovery = discovery, sp_client = client,
              sp_order = snd order, sp_data = snd data, sp_ports = (disc_port, order_port, data_port, raft_port),
              sp_data_yaml = data_yaml, sp_name = json_name, sp_order_rf = order_rf, sp_data_rf = data_rf,
              sp_interval = interval, sp_exec = exec, sp_config = config_path, sp_message_size = message_size,
              sp_threads = threads, sp_duration = duration, sp_warm_up = warm_up, sp_cool_down = cool_down,
              sp_shards = fst data\<rparr>))))))))))))))))))))))))))))"

section \<open>The cluster\<close>

text \<open>\<open>component\_log\_files\<close>: a data node has one entry, whatever number of shards it serves.\<close>

record scalog_vars =
  cv_logs :: "(string \<times> string \<times> string) list"

type_synonym 'a scalog_io = "(scalog_vars, 'a) cycle_io"

definition scalog_yaml :: "scalog_params \<Rightarrow> nat \<Rightarrow> string" where
  "scalog_yaml p i = ''scalog_'' @ sp_name p @ ''_'' @ str_nat i @ ''.yaml''"

definition send_yaml :: "env \<Rightarrow> scalog_params \<Rightarrow> nat \<Rightarrow> string \<Rightarrow> unit scalog_io" where
  "send_yaml E p i ip =
     bnd (does (transfer_file E (scalog_yaml p i) ip (sp_ssh_user p) (sp_ssh_key p) None None)) (\<lambda>ok.
     require ok (''Failed to transfer scalog config to '' @ ip))"

definition distribute_config :: "env \<Rightarrow> scalog_params \<Rightarrow> nat \<Rightarrow> unit scalog_io" where
  "distribute_config E p i =
     (case sp_ports p of (disc_port, order_port, data_port, raft_port) \<Rightarrow>
      andthen (does (write_file E (scalog_yaml p i)
        (snd (generate_scalog_config (en_dump_yaml E) (sp_discovery p) (sp_order p) (sp_data p) (sp_order_rf p)
           (sp_data_rf p) (sp_interval p) disc_port order_port data_port raft_port))))
     (andthen (does (write_file E ''data.yaml''
        (generate_scalog_stats_config (en_dump_yaml E) (PStr (sp_name p)) (sp_client p))))
     (andthen (for_each (send_yaml E p i) (dedup (sp_order p @ sp_data p @ [sp_discovery p] @ [sp_client p])))
     (andthen (does (transfer_file E ''data.yaml'' (sp_client p) (sp_ssh_user p) (sp_ssh_key p) None
                (Some (sp_data_yaml p))))
      (ret ())))))"

definition start_component ::
  "env \<Rightarrow> scalog_params \<Rightarrow> nat \<Rightarrow> string \<Rightarrow> string \<Rightarrow> string \<Rightarrow> unit scalog_io" where
  "start_component E p i kind arguments ip =
     bnd (does (execute_remote_command E ip (''sudo '' @ sp_exec p @ '' '' @ arguments @ '' --config'')
            (scalog_yaml p i) (sp_ssh_key p) (sp_ssh_user p) i (sp_name p))) (\<lambda>(pid, log_filename).
     andthen (require (pid \<noteq> None) (''Failed to start '' @ kind))
       (assign (\<lambda>v. v\<lparr>cv_logs := dict_put (kind @ ''_'' @ ip) (ip, log_filename) (cv_logs v)\<rparr>)))"

definition start_order :: "env \<Rightarrow> scalog_params \<Rightarrow> nat \<Rightarrow> nat \<times> string \<Rightarrow> unit scalog_io" where
  "start_order E p i kip = start_component E p i ''order'' (''order -i '' @ str_nat (fst kip)) (snd kip)"

definition start_data :: "env \<Rightarrow> scalog_params \<Rightarrow> nat \<Rightarrow> nat \<Rightarrow> nat \<times> string \<Rightarrow> unit scalog_io" where
  "start_data E p i shard kip =
     start_component E p i ''data'' (''data --rid '' @ str_nat (fst kip) @ '' --sid '' @ str_nat shard) (snd kip)"

definition start_cluster :: "env \<Rightarrow> scalog_params \<Rightarrow> nat \<Rightarrow> unit scalog_io" where
  "start_cluster E p i =
     andthen (for_each (start_order E p i) (enumerate 0 (sp_order p)))
    (andthen (does (sleep (PInt 2)))
    (andthen (start_component E p i ''discovery'' ''discovery'' (sp_discovery p))
    (andthen (does (sleep (PInt 2)))
    (andthen (for_each (\<lambda>shard. for_each (start_data E p i shard) (enumerate 0 (sp_data p)))
               [0..<nat (sp_shards p)])
     (does (sleep (PInt SERVER_START_DELAY)))))))"

section \<open>The benchmark\<close>

definition client_log :: "scalog_params \<Rightarrow> nat \<Rightarrow> string" where
  "client_log p i = ''scalog_client_'' @ sp_name p @ ''_'' @ str_nat i @ ''.log''"

definition benchmark_argv :: "env \<Rightarrow> scalog_params \<Rightarrow> nat \<Rightarrow> string list" where
  "benchmark_argv E p i =
     (let q = [char_of (34 :: nat)]; s = py_str (en_float E)
      in ssh (sp_ssh_key p) (sp_ssh_user p) (sp_client p)
           (''/bin/bash -c '' @ q @ ''sudo '' @ sp_exec p @ '' perf -t '' @ s (sp_threads p) @ '' -s ''
            @ s (sp_message_size p) @ '' -d '' @ s (sp_duration p) @ ''s --config '' @ sp_config p
            @ '' > ~/'' @ client_log p i @ '' 2>&1 &'' @ q))"

definition run_scalog_client :: "env \<Rightarrow> scalog_params \<Rightarrow> nat \<Rightarrow> string \<Rightarrow> unit scalog_io" where
  "run_scalog_client E p i dir =
     bnd (lift (ebind (py_add (sp_warm_up p) (sp_duration p)) (\<lambda>x. py_add x (sp_cool_down p)))) (\<lambda>total_bench.
     andthen (does (spawn E (benchmark_argv E p i)))
    (bnd (lift (py_add total_bench (PInt 15))) (\<lambda>total_wait.
     andthen (does (sleep total_wait))
    (let fetch = does (copy_log_file_back E (sp_client p) (sp_ssh_user p) (sp_ssh_key p) (client_log p i) dir ''~'')
     in andthen fetch (andthen fetch
       (andthen (does (copy_results_back E (sp_client p) (sp_ssh_user p) (sp_ssh_key p) (sp_name p) dir)) (ret ())))))))"

definition scalog_body :: "env \<Rightarrow> scalog_params \<Rightarrow> nat \<Rightarrow> string \<Rightarrow> unit scalog_io" where
  "scalog_body E p i dir =
     andthen (distribute_config E p i) (andthen (start_cluster E p i) (run_scalog_client E p i dir))"

section \<open>The clean-up\<close>

definition fetch_component_log :: "env \<Rightarrow> scalog_params \<Rightarrow> string \<Rightarrow> string \<times> string \<times> string \<Rightarrow> unit scalog_io" where
  "fetch_component_log E p dir c =
     andthen (does (copy_log_file_back E (fst (snd c)) (sp_ssh_user p) (sp_ssh_key p) (snd (snd c)) dir ''~''))
       (ret ())"

definition stop_node :: "env \<Rightarrow> scalog_params \<Rightarrow> string \<Rightarrow> unit scalog_io" where
  "stop_node E p ip = andthen (does (kill_remote_process E ip ''scalog'' (sp_ssh_key p) (sp_ssh_user p))) (ret ())"

definition scalog_cleanup ::
  "env \<Rightarrow> pyval \<Rightarrow> pyval \<Rightarrow> scalog_params \<Rightarrow> string \<Rightarrow> string \<Rightarrow> unit scalog_io" where
  "scalog_cleanup E base config p dir system_name =
     andthen (bnd (var cv_logs) (for_each (fetch_component_log E p dir)))
    (andthen (for_each (stop_node E p) (sp_data p))
    (andthen (for_each (stop_node E p) (sp_order p))
    (andthen (stop_node E p (sp_discovery p))
    (andthen (stop_node E p (sp_client p))
     (does (process_and_aggregate_results E dir (sp_name p) system_name base config))))))"

definition scalog_run ::
  "env \<Rightarrow> pyval \<Rightarrow> string \<Rightarrow> string \<Rightarrow> nat \<Rightarrow> (string \<times> pyval) list \<Rightarrow> unit scalog_io" where
  "scalog_run E base dir system_name i conf =
     bnd (lift (scalog_params_of E base (PDict conf))) (\<lambda>p.
     andthen (assign (\<lambda>v. v\<lparr>cv_logs := []\<rparr>))
       (guarded (scalog_body E p i dir) (scalog_cleanup E base (PDict conf) p dir system_name)))"

text \<open>A missing or malformed file: the handler's own message fails for the first (it names an undefined
  variable), and is printed for the second.\<close>

definition run_experiment_cycle_scalog ::
  "env \<Rightarrow> pyval \<Rightarrow> string \<Rightarrow> string \<Rightarrow> string \<Rightarrow> unit act_io" where
  "run_experiment_cycle_scalog E base scalog_config_file dir system_name =
     (case en_toml E scalog_config_file of
        Inl (FileNotFound m) \<Rightarrow> raise (NameError ''config_file'')
      | _ \<Rightarrow> run_file E scalog_config_file \<lparr>cv_logs = []\<rparr> (scalog_run E base dir system_name))"

section \<open>Facts\<close>






text \<open>Stopping a node is a command that stays in the trace.\<close>

definition stop_action :: "scalog_params \<Rightarrow> string \<Rightarrow> action" where
  "stop_action p ip = Run (ssh (sp_ssh_key p) (sp_ssh_user p) ip ''sudo pkill scalog'')"

lemma stop_node_run: "\<exists>t. stop_node E p ip s = (Inr (), t) \<and> did (stop_action p ip) t"
  by (simp add: stop_node_def stop_action_def did_def kill_remote_process_def run_remote_command_sync_def
      checked_runs andthen_def bnd_def ret_def)

lemma stop_node_grows: "keeps (lift_rel prefix) (stop_node E p ip)"
  unfolding stop_node_def by (intro growing.cycle_rules keeps_growing adds_intros) simp

lemma stop_nodes_run:
  "\<exists>t. for_each (stop_node E p) ips s = (Inr (), t) \<and> (\<forall>ip \<in> set ips. did (stop_action p ip) t)"
  by (rule for_each_did [OF stop_node_run stop_node_grows])

lemma fetch_component_logs_total: "\<exists>t. for_each (fetch_component_log E p dir) xs s = (Inr (), t)"
  by (induction xs arbitrary: s)
    (auto simp: fetch_component_log_def copy_log_file_back_def checked_runs andthen_def bnd_def ret_def)

lemma scalog_cleanup_split:
  "scalog_cleanup E base config p dir system_name =
     andthen (bnd (var cv_logs) (for_each (fetch_component_log E p dir)))
    (andthen (for_each (stop_node E p) (sp_data p @ sp_order p @ [sp_discovery p, sp_client p]))
     (does (process_and_aggregate_results E dir (sp_name p) system_name base config)))"
  by (simp add: scalog_cleanup_def fun_eq_iff andthen_def bnd_def for_each_append
      split: prod.splits sum.splits)

lemma scalog_cleanup_stops:
  assumes "scalog_cleanup E base config p dir system_name s = (r, t)"
  shows "\<forall>ip \<in> set (sp_data p @ sp_order p @ [sp_discovery p, sp_client p]). did (stop_action p ip) t"
proof -
  let ?nodes = "sp_data p @ sp_order p @ [sp_discovery p, sp_client p]"
  let ?aggregate = "does (process_and_aggregate_results E dir (sp_name p) system_name base config)"
  obtain u where u: "bnd (var cv_logs) (for_each (fetch_component_log E p dir)) s = (Inr (), u)"
    using fetch_component_logs_total by (fastforce simp: bnd_def var_run)
  from stop_nodes_run obtain w where w: "for_each (stop_node E p) ?nodes u = (Inr (), w)"
    "\<forall>ip \<in> set ?nodes. did (stop_action p ip) w" by blast
  have "?aggregate w = (r, t)"
    using assms by (simp only: scalog_cleanup_split) (simp only: andthen_def bnd_def [of "bnd _ _"] u bnd_def [of "for_each _ _"] w(1) prod.case sum.case)
  moreover have "keeps (lift_rel prefix) ?aggregate"
    by (intro growing.cycle_rules keeps_growing adds_intros) simp_all
  ultimately show ?thesis using did_keeps w(2) by blast
qed





section \<open>Properties\<close>












text \<open>C33. However a Scalog run ends, once its parameters were accepted every node of the cluster is
  told to stop.\<close>

theorem scalog_stops_all:
  assumes "scalog_run E base dir system_name i conf s = (r, t)"
    and "scalog_params_of E base (PDict conf) = Inr p"
  shows "\<forall>ip \<in> set (sp_data p @ sp_order p @ [sp_discovery p, sp_client p]).
     Run (ssh (sp_ssh_key p) (sp_ssh_user p) ip ''sudo pkill scalog'') \<in> set (cy_trace t)"
proof -
  let ?clean = "scalog_cleanup E base (PDict conf) p dir system_name"
  from assms obtain u where "guarded (scalog_body E p i dir) ?clean u = (r, t)"
    by (auto simp: scalog_run_def bnd_def lift_def andthen_def assign_def modify_def)
  then obtain v q where "?clean v = (q, t)" by (rule guarded_cleans)
  from scalog_cleanup_stops [OF this] show ?thesis by (simp add: did_def stop_action_def)
qed

definition demo_scalog_file :: "(string \<times> pyval) list" where
  "demo_scalog_file =
     [(''network_setup'', PDict [(''ssh_key'', PStr ''k''), (''ssh_user'', PStr ''u''), (''cli_ips'', PList [PStr ''c'']),
        (''seq_ips'', PList [PStr ''o1'', PStr ''o2'']), (''stor_ips'', PList [PStr ''s1'', PStr ''s2'']),
        (''discovery_ip'', PStr ''d''), (''order_port'', PInt 1), (''raft_port'', PInt 2), (''data_port'', PInt 3),
        (''disc_port'', PInt 4)]),
      (''program_paths'', PDict [(''data_yaml_path'', PStr ''y''), (''scalog_bin'', PStr ''b''), (''config_path'', PStr ''f'')]),
      (''experiment_parameters'', PDict [(''general_json_name'', PStr ''g''), (''json_name'', PStr ''j''),
        (''num_sequencer_nodes'', PInt 1), (''order_replication_factor'', PInt 1), (''batching_interval'', PStr ''1ms''),
        (''message_size'', PInt 8), (''num_client_threads'', PInt 2), (''experiment_duration'', PInt 10),
        (''warm_up'', PInt 1), (''cool_down'', PInt 1), (''num_shards'', PInt 2), (''num_servers_per_shard'', PInt 1)])]"

theorem scalog_stops_all_witness:
  "\<exists>r t. scalog_run demo_world (PDict demo_scalog_file) ''res'' ''scalog'' 0 demo_scalog_file
       \<lparr>cy_trace = [], cy_vars = \<lparr>cv_logs = []\<rparr>\<rparr> = (r, t)
     \<and> Run (ssh ''k'' ''u'' ''s2'' ''sudo pkill scalog'') \<in> set (cy_trace t)"
proof -
  let ?run = "scalog_run demo_world (PDict demo_scalog_file) ''res'' ''scalog'' 0 demo_scalog_file
    \<lparr>cy_trace = [], cy_vars = \<lparr>cv_logs = []\<rparr>\<rparr>"
  have "case scalog_params_of demo_world (PDict demo_scalog_file) (PDict demo_scalog_file) of Inl _ \<Rightarrow> False
      | Inr p \<Rightarrow> sp_data p = [''s1'', ''s2''] \<and> sp_ssh_key p = ''k'' \<and> sp_ssh_user p = ''u''" by code_simp
  then obtain p where p: "scalog_params_of demo_world (PDict demo_scalog_file) (PDict demo_scalog_file) = Inr p"
    "sp_data p = [''s1'', ''s2'']" "sp_ssh_key p = ''k''" "sp_ssh_user p = ''u''" by (auto split: sum.splits)
  obtain r t where t: "?run = (r, t)" by force
  from scalog_stops_all [OF t p(1)] p t show ?thesis by auto
qed

end
