(* ===== verification/Experiment_Main.thy ===== *)
theory Experiment_Main
  imports Cycle_Baseline Cycle_Pringles Cycle_Kafka Cycle_Scalog
begin

text \<open>
  experiments/scripts/experiment.py, \<open>main\<close>: the experiments of the general configuration, each with
  its own copy of it, dispatched to the cycle of the system it names.
\<close>

section \<open>Dispatch\<close>

definition protocol_config :: "string \<Rightarrow> string" where
  "protocol_config system_name =
     (if system_name = ''pringles'' then ''pringles_software.toml''
      else if system_name = ''pringles_hardware'' \<or> system_name = ''pktgen'' then ''pringles_hardware.toml''
      else if system_name = ''scalog'' then ''scalog.toml''
      else if system_name = ''speclog'' then ''speclog.toml''
      else if system_name = ''kakfa'' then ''kafka.toml''
      else if system_name = ''baseline'' then ''benchmark.toml''
      else [])"

text \<open>\<open>run\_experiment\_cycle\_speclog\<close> takes four arguments and is called with five.\<close>

definition run_experiment_cycle_speclog :: "string list \<Rightarrow> unit act_io" where
  "run_experiment_cycle_speclog given =
     (if length given = 4 then raise NotImplementedError
      else raise (TypeError ''takes 4 positional arguments''))"

text \<open>\<open>EXPERIMENT\_CYCLE\_FNS.get(system\_name)\<close>, applied to the five arguments.\<close>

definition cycle_fn :: "env \<Rightarrow> pyval \<Rightarrow> nat \<Rightarrow> string \<Rightarrow> string \<Rightarrow> unit act_io option" where
  "cycle_fn E current exp_index dir system_name =
     (let protocol = protocol_config system_name
      in if system_name = ''pringles'' then
           Some (run_experiment_cycle_pringles E current protocol dir system_name False)
         else if system_name = ''baseline'' then
           Some (run_experiment_cycle_baseline E current protocol dir system_name)
         else if system_name = ''pringles_hardware'' then Some (run_experiment_cycle_hardware E protocol)
         else if system_name = ''scalog'' then
           Some (run_experiment_cycle_scalog E current protocol dir system_name)
         else if system_name = ''speclog'' then
           Some (run_experiment_cycle_speclog
             [''current_config'', ''protocol_config'', ''exp_index'', ''local_results_dir'', ''system_name''])
         else if system_name = ''kafka'' then Some (run_experiment_cycle_kafka E current exp_index dir)
         else None)"

text \<open>A name that is no string is no key of the table; a list or dictionary cannot be looked up.\<close>

fun system_name_of :: "pyval \<Rightarrow> string option res" where
  "system_name_of (PStr s) = Inr (Some s)"
| "system_name_of (PList _) = Inl (TypeError ''unhashable type'')"
| "system_name_of (PDict _) = Inl (TypeError ''unhashable type'')"
| "system_name_of _ = Inr None"

definition current_config :: "(string \<times> pyval) list \<Rightarrow> pyval \<Rightarrow> (pyval \<times> string option) res" where
  "current_config base x =
     ebind (ebind (py_items x) (merge_experiment base)) (\<lambda>d.
     ebind (ebind (cfg (PDict d) ''experiment_parameters'' ''protocol_name'') system_name_of) (\<lambda>n.
     Inr (PDict d, n)))"

section \<open>The loop\<close>

text \<open>An unknown system returns from \<open>main\<close>.\<close>

fun run_all :: "env \<Rightarrow> string \<Rightarrow> (string \<times> pyval) list \<Rightarrow> nat \<Rightarrow> pyval list \<Rightarrow> unit act_io" where
  "run_all E dir base i [] = ret ()"
| "run_all E dir base i (x # xs) =
     bnd (lift (current_config base x)) (\<lambda>(current, n).
     case Option.bind n (cycle_fn E current i dir) of
       None \<Rightarrow> ret ()
     | Some cycle \<Rightarrow> andthen cycle (andthen (sleep (PInt EXPERIMENT_DELAY)) (run_all E dir base (Suc i) xs)))"

definition results_base_dir :: "env \<Rightarrow> string" where
  "results_base_dir E = en_base E @ ''/pringles/experiments/results''"

definition results_dir :: "env \<Rightarrow> pyval \<Rightarrow> string res" where
  "results_dir E base =
     ebind (ebind (cfg base ''experiment_parameters'' ''experiment_name'') as_str) (\<lambda>n.
     Inr (path_join (results_base_dir E) (n @ ''_run-'' @ en_timestamp E)))"

text \<open>\<open>base['setup'].get('run\_setup\_script', 'False').lower() == 'true'\<close>\<close>

definition wants_setup :: "pyval \<Rightarrow> bool res" where
  "wants_setup base =
     ebind (py_item base ''setup'') (\<lambda>s.
     ebind (py_get_default s ''run_setup_script'' (PStr ''False'')) (\<lambda>v.
     case v of PStr t \<Rightarrow> Inr (lower t = ''true'') | _ \<Rightarrow> Inl (AttributeError ''lower'')))"

definition experiment_main :: "env \<Rightarrow> string \<Rightarrow> unit act_io" where
  "experiment_main E config_file =
     bnd (lift (load_config E config_file)) (\<lambda>c.
     case c of
       None \<Rightarrow> ret ()
     | Some full \<Rightarrow>
         bnd (lift (split_experiments full)) (\<lambda>(exps, base).
         bnd (lift (results_dir E (PDict base))) (\<lambda>dir.
         bnd (try_matching is_os_error (andthen (make_dir E dir) (ret True)) (\<lambda>e. ret False)) (\<lambda>made.
         if \<not> made then ret ()
         else bnd (lift (wants_setup (PDict base))) (\<lambda>run_setup.
              if run_setup then raise (NameError ''all_ips'')
              else run_all E dir base 0 exps)))))"

section \<open>Facts\<close>

definition known_systems :: "string list" where
  "known_systems = [''pringles'', ''baseline'', ''pringles_hardware'', ''scalog'', ''speclog'', ''kafka'']"

lemma cycle_fn_None: "cycle_fn E current i dir n = None \<longleftrightarrow> n \<notin> set known_systems"
  by (simp add: cycle_fn_def known_systems_def Let_def)

text \<open>An experiment whose parameters can be read and name no known system.\<close>

definition unknown :: "(string \<times> pyval) list \<Rightarrow> pyval \<Rightarrow> bool" where
  "unknown base x =
     (case current_config base x of
        Inl e \<Rightarrow> False
      | Inr (c, n) \<Rightarrow> (case n of None \<Rightarrow> True | Some name \<Rightarrow> name \<notin> set known_systems))"

lemma unknown_dispatch:
  "current_config base x = Inr (c, n) \<Longrightarrow> unknown base x \<longleftrightarrow> Option.bind n (cycle_fn E c i dir) = None"
  by (cases n) (simp_all add: unknown_def cycle_fn_None)

lemma run_all_unknown:
  assumes "unknown base x"
  shows "run_all E dir base i (x # xs) = ret ()"
proof -
  from assms obtain c n where "current_config base x = Inr (c, n)"
    unfolding unknown_def by (cases "current_config base x") auto
  with unknown_dispatch [OF this, of E i dir] assms show ?thesis by (simp add: fun_eq_iff bnd_def lift_def)
qed

lemma run_all_known:
  assumes "\<not> unknown base x"
  shows "run_all E dir base i (x # xs) =
    bnd (lift (current_config base x)) (\<lambda>(current, n).
      andthen (the (Option.bind n (cycle_fn E current i dir)))
     (andthen (sleep (PInt EXPERIMENT_DELAY)) (run_all E dir base (Suc i) xs)))"
proof (cases "current_config base x")
  case (Inr r)
  obtain c n where r: "r = (c, n)" by (cases r)
  with Inr unknown_dispatch [of base x c n E i dir] assms
  obtain cycle where "Option.bind n (cycle_fn E c i dir) = Some cycle" by auto
  with Inr r show ?thesis by (simp add: fun_eq_iff bnd_def lift_def)
qed (simp add: fun_eq_iff bnd_def lift_def)

section \<open>Properties\<close>

text \<open>A batch is the experiments before the first one that names an unknown system, each run with
  its own number and parameters; the rest of the file is silently dropped.\<close>

theorem batch_stops_at_unknown:
  "run_all E dir base i xs = run_all E dir base i (takeWhile (\<lambda>x. \<not> unknown base x) xs)"
proof (induction xs arbitrary: i)
  case (Cons x xs)
  show ?case
  proof (cases "unknown base x")
    case True
    then show ?thesis by (simp add: run_all_unknown del: run_all.simps(2))
  next
    case False
    with Cons.IH [of "Suc i"] show ?thesis by (simp add: run_all_known del: run_all.simps)
  qed
qed simp














end
