(* ===== verification/Tofino.thy ===== *)
theory Tofino
  imports Py_IO "HOL-Library.Multiset"
begin

text \<open>
  code/p4/failure_tests/failure.py, the multicast objects of the switch's control plane: ports and
  pipes, \<open>L1Node\<close> and \<open>MCTree\<close>. The objects live in a store (a list indexed by creation), since a
  node is reached from its tree and from the dictionary of streams alike. The client library of the
  switch is not part of the repository: every call on it is an action, which the world \<open>dev_env\<close> may
  answer or refuse, and the trace records which.
\<close>

unbundle bit_operations_syntax

section \<open>Calls on the switch\<close>

datatype key_field =
    KExact string pyval
  | KPrefix string pyval int
  | KRange string int int

text \<open>A packet is its layers, outermost first, each with its fields.\<close>

type_synonym packet = "(string \<times> (string \<times> pyval) list) list"

datatype dev_action =
    TableGet string
  | KeyAnnotation string string string
  | DataAnnotation string string string string
  | EntryAdd string "key_field list" "string option" "(string \<times> pyval) list"
  | EntryAddData string string "(string \<times> pyval) list"
  | EntryMod string "key_field list" "string option" "(string \<times> pyval) list"
  | EntryModInc string "key_field list" "(string \<times> pyval) list" bool
  | EntryDel string "key_field list"
  | EntryGet string "key_field list"
  | SendPacket string packet
  | StartThread
  | Pause int

type_synonym event = "dev_action \<times> bool"

record dev_env =
  d_do :: "event list \<Rightarrow> dev_action \<Rightarrow> (string \<times> pyval) list res"
  d_time :: "event list \<Rightarrow> rat"
  d_wire :: "packet \<Rightarrow> byte list"

record l1_node =
  n_rid :: int
  n_xid :: "int option"
  n_mgid :: "int option"
  n_ports :: "int list"
  n_lags :: "int list"
  n_id :: int

record mc_tree =
  m_mgid :: int
  m_nodes :: "nat list"

text \<open>The class variable \<open>l1_node_id\<close>, the attributes of the test object and the objects it made.\<close>

record control =
  c_trace :: "event list"
  c_next_node :: int
  c_nodes :: "l1_node list"
  c_trees :: "mc_tree list"
  c_group_id :: int
  c_sid :: int
  c_general_group :: "int option"
  c_streams :: "(int \<times> nat) list"

type_synonym 'a ctl = "(control, 'a) io"

definition ask :: "dev_env \<Rightarrow> dev_action \<Rightarrow> (string \<times> pyval) list ctl" where
  "ask E a s =
     (let r = d_do E (c_trace s) a
      in (r, s\<lparr>c_trace := c_trace s @ [(a, case r of Inl e \<Rightarrow> False | Inr v \<Rightarrow> True)]\<rparr>))"

definition tell :: "dev_env \<Rightarrow> dev_action \<Rightarrow> unit ctl" where
  "tell E a = andthen (ask E a) (ret ())"

text \<open>What the host itself does cannot be refused.\<close>

definition note_done :: "dev_action \<Rightarrow> unit ctl" where
  "note_done a = modify (\<lambda>s. s\<lparr>c_trace := c_trace s @ [(a, True)]\<rparr>)"

section \<open>Ports and pipes\<close>

definition port_to_pipe :: "int \<Rightarrow> int" where
  "port_to_pipe port = drop_bit 7 port"

definition make_port :: "int \<Rightarrow> int \<Rightarrow> int" where
  "make_port pipe local_port = (push_bit 7 pipe OR local_port)"

definition pgen_port :: "int \<Rightarrow> int" where
  "pgen_port pipe_id = make_port pipe_id 68"

text \<open>The module's loop over the interfaces sorts after every port it keeps.\<close>

definition add_swport :: "int \<Rightarrow> int \<Rightarrow> int list \<Rightarrow> int list" where
  "add_swport num_pipes port acc = (if port_to_pipe port < num_pipes then sort (acc @ [port]) else acc)"

definition pipe_ports :: "int \<Rightarrow> int list \<Rightarrow> int list" where
  "pipe_ports num_pipes interfaces = fold (add_swport num_pipes) interfaces []"

definition swports_of_pipe :: "int \<Rightarrow> int \<Rightarrow> int list \<Rightarrow> int list" where
  "swports_of_pipe pipe num_pipes interfaces =
     filter (\<lambda>port. port_to_pipe port = pipe) (pipe_ports num_pipes interfaces)"

definition swports :: "int list \<Rightarrow> int list" where
  "swports interfaces = fold (\<lambda>port acc. sort (acc @ [port])) interfaces []"

section \<open>Multicast nodes\<close>

definition ints :: "int list \<Rightarrow> pyval" where
  "ints xs = PList (map PInt xs)"

definition node_key :: "int \<Rightarrow> key_field list" where
  "node_key i = [KExact ''$MULTICAST_NODE_ID'' (PInt i)]"

definition mgid_key :: "int \<Rightarrow> key_field list" where
  "mgid_key g = [KExact ''$MGID'' (PInt g)]"

definition node_data :: "l1_node \<Rightarrow> (string \<times> pyval) list" where
  "node_data n = [(''$MULTICAST_RID'', PInt (n_rid n)), (''$MULTICAST_LAG_ID'', ints (n_lags n)),
     (''$DEV_PORT'', ints (n_ports n))]"

definition node_at :: "nat \<Rightarrow> l1_node ctl" where
  "node_at a = gets (\<lambda>s. c_nodes s ! a)"

definition upd_node :: "nat \<Rightarrow> (l1_node \<Rightarrow> l1_node) \<Rightarrow> unit ctl" where
  "upd_node a f = modify (\<lambda>s. s\<lparr>c_nodes := (c_nodes s)[a := f (c_nodes s ! a)]\<rparr>)"

definition L1Node :: "dev_env \<Rightarrow> int \<Rightarrow> nat ctl" where
  "L1Node E rid =
     bnd (gets c_next_node) (\<lambda>i.
     let n = \<lparr>n_rid = rid, n_xid = None, n_mgid = None, n_ports = [], n_lags = [], n_id = i\<rparr>
     in andthen (modify (\<lambda>s. s\<lparr>c_next_node := i + 1\<rparr>))
       (andthen (tell E (EntryAdd ''$pre.node'' (node_key i) None (node_data n)))
       (bnd (gets (\<lambda>s. length (c_nodes s))) (\<lambda>a.
        andthen (modify (\<lambda>s. s\<lparr>c_nodes := c_nodes s @ [n]\<rparr>)) (ret a)))))"

definition member_data :: "int \<Rightarrow> bool \<Rightarrow> int \<Rightarrow> (string \<times> pyval) list" where
  "member_data node_id use_xid xid =
     [(''$MULTICAST_NODE_ID'', ints [node_id]),
      (''$MULTICAST_NODE_L1_XID_VALID'', PList [PBool use_xid]),
      (''$MULTICAST_NODE_L1_XID'', ints [xid])]"

definition associate :: "dev_env \<Rightarrow> nat \<Rightarrow> int \<Rightarrow> int option \<Rightarrow> unit ctl" where
  "associate E a mgid xid =
     andthen (upd_node a (\<lambda>n. n\<lparr>n_mgid := Some mgid, n_xid := xid\<rparr>))
    (bnd (node_at a) (\<lambda>n.
     tell E (EntryModInc ''$pre.mgid'' (mgid_key mgid)
       (case xid of None \<Rightarrow> member_data (n_id n) False 0 | Some x \<Rightarrow> member_data (n_id n) True x) True)))"

definition addMbrs :: "dev_env \<Rightarrow> nat \<Rightarrow> int list option \<Rightarrow> int list option \<Rightarrow> unit ctl" where
  "addMbrs E a port_list lag_list =
     (if port_list = None \<and> lag_list = None then ret ()
      else andthen (case port_list of
              None \<Rightarrow> ret ()
            | Some ps \<Rightarrow> upd_node a (\<lambda>n. n\<lparr>n_ports := sort (n_ports n @ ps)\<rparr>))
          (andthen (case lag_list of
              None \<Rightarrow> ret ()
            | Some ls \<Rightarrow> andthen (lift (assert_that (\<forall>i \<in> set ls. 0 \<le> i \<and> i \<le> 255) ''lag''))
                 (upd_node a (\<lambda>n. n\<lparr>n_lags := sort (n_lags n @ ls)\<rparr>)))
          (bnd (node_at a) (\<lambda>n.
           tell E (EntryMod ''$pre.node'' (node_key (n_id n)) None (node_data n))))))"

text \<open>\<open>getPorts\<close> asks a name \<open>t\<close> that the module does not define, whatever its arguments.\<close>

definition getPorts :: "nat \<Rightarrow> int \<Rightarrow> (int \<times> int list) ctl" where
  "getPorts a rid = raise (NameError ''t'')"

text \<open>\<open>cleanUp\<close> takes the node out of its group and then names \<open>client\<close>, which is not defined.\<close>

definition L1Node_cleanUp :: "dev_env \<Rightarrow> nat \<Rightarrow> unit ctl" where
  "L1Node_cleanUp E a =
     bnd (node_at a) (\<lambda>n.
     andthen (case n_mgid n of
         None \<Rightarrow> ret ()
       | Some g \<Rightarrow> andthen (tell E (EntryModInc ''$pre.mgid'' (mgid_key g) (member_data (n_id n) False 0) False))
                    (upd_node a (\<lambda>n. n\<lparr>n_mgid := None\<rparr>)))
       (raise (NameError ''client'')))"

section \<open>Multicast trees\<close>

text \<open>ECMP groups are left out: no class of the repository provides them and nothing adds one.\<close>

definition tree_at :: "nat \<Rightarrow> mc_tree ctl" where
  "tree_at t = gets (\<lambda>s. c_trees s ! t)"

definition upd_tree :: "nat \<Rightarrow> (mc_tree \<Rightarrow> mc_tree) \<Rightarrow> unit ctl" where
  "upd_tree t f = modify (\<lambda>s. s\<lparr>c_trees := (c_trees s)[t := f (c_trees s ! t)]\<rparr>)"

definition MCTree :: "dev_env \<Rightarrow> int \<Rightarrow> nat ctl" where
  "MCTree E mgid =
     andthen (tell E (EntryAdd ''$pre.mgid'' (mgid_key mgid) None []))
    (bnd (gets (\<lambda>s. length (c_trees s))) (\<lambda>t.
     andthen (modify (\<lambda>s. s\<lparr>c_trees := c_trees s @ [\<lparr>m_mgid = mgid, m_nodes = []\<rparr>]\<rparr>)) (ret t)))"

definition get_first_node :: "nat \<Rightarrow> nat ctl" where
  "get_first_node t = bnd (tree_at t) (\<lambda>m. lift (py_nth (m_nodes m) 0))"

definition add_node ::
  "dev_env \<Rightarrow> nat \<Rightarrow> int \<Rightarrow> int option \<Rightarrow> int list option \<Rightarrow> int list option \<Rightarrow> unit ctl" where
  "add_node E t rid xid mbr_ports mbr_lags =
     bnd (L1Node E rid) (\<lambda>a.
     andthen (addMbrs E a mbr_ports mbr_lags)
    (bnd (tree_at t) (\<lambda>m.
     andthen (associate E a (m_mgid m) xid)
       (upd_tree t (\<lambda>m. m\<lparr>m_nodes := m_nodes m @ [a]\<rparr>)))))"

definition rmv_last_node :: "dev_env \<Rightarrow> nat \<Rightarrow> unit ctl" where
  "rmv_last_node E t =
     bnd (tree_at t) (\<lambda>m.
     bnd (lift (py_nth (m_nodes m) (-1))) (\<lambda>a.
     andthen (upd_tree t (\<lambda>m. m\<lparr>m_nodes := butlast (m_nodes m)\<rparr>)) (L1Node_cleanUp E a)))"

text \<open>The second loop of \<open>reprogram\<close> reads an attribute that no tree has.\<close>

definition reprogram :: "nat \<Rightarrow> unit ctl" where
  "reprogram t = bnd (tree_at t) (\<lambda>m. if m_nodes m = [] then ret () else raise (AttributeError ''test''))"

definition MCTree_cleanUp :: "dev_env \<Rightarrow> nat \<Rightarrow> unit ctl" where
  "MCTree_cleanUp E t =
     bnd (tree_at t) (\<lambda>m.
     andthen (for_each (L1Node_cleanUp E) (m_nodes m))
    (andthen (tell E (EntryDel ''$pre.mgid'' (mgid_key (m_mgid m))))
     (upd_tree t (\<lambda>m. m\<lparr>m_nodes := []\<rparr>))))"

fun node_ports :: "int \<Rightarrow> int \<Rightarrow> nat list \<Rightarrow> (int \<times> int list) list ctl" where
  "node_ports pkt_rid pkt_xid [] = ret []"
| "node_ports pkt_rid pkt_xid (a # as) =
     bnd (node_at a) (\<lambda>n.
     if n_xid n = Some pkt_xid then node_ports pkt_rid pkt_xid as
     else bnd (getPorts a pkt_rid) (\<lambda>p. bnd (node_ports pkt_rid pkt_xid as) (\<lambda>ps. ret (p # ps))))"

definition get_ports :: "nat \<Rightarrow> int \<Rightarrow> int \<Rightarrow> (int \<times> int list) list ctl" where
  "get_ports t pkt_rid pkt_xid = bnd (tree_at t) (\<lambda>m. node_ports pkt_rid pkt_xid (m_nodes m))"

section \<open>What the switch was asked for\<close>

text \<open>The tables of the multicast engine, of the mirror sessions and of the subscribers, replayed from the
  calls that were answered.\<close>

record device =
  dv_nodes :: "int \<rightharpoonup> int list"
  dv_groups :: "int \<rightharpoonup> int list"
  dv_mirror :: "int \<rightharpoonup> int \<times> int option"
  dv_acks :: "int \<rightharpoonup> int"

definition no_device :: device where
  "no_device = \<lparr>dv_nodes = Map.empty, dv_groups = Map.empty, dv_mirror = Map.empty, dv_acks = Map.empty\<rparr>"

fun int_of :: "pyval option \<Rightarrow> int option" where
  "int_of (Some (PInt i)) = Some i"
| "int_of _ = None"

fun ints_of :: "pyval option \<Rightarrow> int list" where
  "ints_of (Some (PList xs)) = List.map_filter (\<lambda>v. int_of (Some v)) xs"
| "ints_of _ = []"

definition the_int :: "int option \<Rightarrow> int" where
  "the_int x = (case x of Some i \<Rightarrow> i | None \<Rightarrow> 0)"

text \<open>The two groups of a mirror session; a field that the data does not have stays.\<close>

definition session_of :: "(string \<times> pyval) list \<Rightarrow> int \<times> int option \<Rightarrow> int \<times> int option" where
  "session_of data old =
     (case int_of (dict_get data ''$mcast_grp_a'') of Some g \<Rightarrow> g | None \<Rightarrow> fst old,
      case int_of (dict_get data ''$mcast_grp_b'') of Some g \<Rightarrow> Some g | None \<Rightarrow> snd old)"

definition some_list :: "'a list option \<Rightarrow> 'a list" where
  "some_list x = (case x of None \<Rightarrow> [] | Some xs \<Rightarrow> xs)"

text \<open>Adding, modifying and deleting an entry of the four tables; without a key all entries go.\<close>

fun replay1 :: "dev_action \<Rightarrow> device \<Rightarrow> device" where
  "replay1 (EntryAdd t [KExact k (PInt i)] act data) d =
     (if t = ''$pre.node'' then d\<lparr>dv_nodes := (dv_nodes d)(i \<mapsto> ints_of (dict_get data ''$DEV_PORT''))\<rparr>
      else if t = ''$pre.mgid'' then d\<lparr>dv_groups := (dv_groups d)(i \<mapsto> ints_of (dict_get data ''$MULTICAST_NODE_ID''))\<rparr>
      else if t = ''$mirror.cfg'' then d\<lparr>dv_mirror := (dv_mirror d)(i \<mapsto> session_of data (0, None))\<rparr>
      else if t = ''MyIngress.route_subscriber_acks'' then
        d\<lparr>dv_acks := (dv_acks d)(i \<mapsto> the_int (int_of (dict_get data ''mirror_session_id'')))\<rparr>
      else d)"
| "replay1 (EntryMod t [KExact k (PInt i)] act data) d =
     (if t = ''$pre.node'' then
        (case dict_get data ''$DEV_PORT'' of None \<Rightarrow> d
         | Some ports \<Rightarrow> d\<lparr>dv_nodes := (dv_nodes d)(i \<mapsto> ints_of (Some ports))\<rparr>)
      else if t = ''$pre.mgid'' then
        (case dict_get data ''$MULTICAST_NODE_ID'' of None \<Rightarrow> d
         | Some nodes \<Rightarrow> d\<lparr>dv_groups := (dv_groups d)(i \<mapsto> ints_of (Some nodes))\<rparr>)
      else if t = ''$mirror.cfg'' then d\<lparr>dv_mirror := (dv_mirror d)(i \<mapsto>
        session_of data (case dv_mirror d i of None \<Rightarrow> (0, None) | Some old \<Rightarrow> old))\<rparr>
      else if t = ''MyIngress.route_subscriber_acks'' then
        (case int_of (dict_get data ''mirror_session_id'') of None \<Rightarrow> d
         | Some sid \<Rightarrow> d\<lparr>dv_acks := (dv_acks d)(i \<mapsto> sid)\<rparr>)
      else d)"
| "replay1 (EntryModInc t [KExact k (PInt i)] data add) d =
     (if t = ''$pre.mgid'' then d\<lparr>dv_groups := (dv_groups d)(i \<mapsto>
        (let old = some_list (dv_groups d i); ns = ints_of (dict_get data ''$MULTICAST_NODE_ID'')
         in if add then old @ ns else filter (\<lambda>n. n \<notin> set ns) old))\<rparr> else d)"
| "replay1 (EntryDel t [KExact k (PInt i)]) d =
     (if t = ''$pre.node'' then d\<lparr>dv_nodes := (dv_nodes d)(i := None)\<rparr>
      else if t = ''$pre.mgid'' then d\<lparr>dv_groups := (dv_groups d)(i := None)\<rparr>
      else if t = ''$mirror.cfg'' then d\<lparr>dv_mirror := (dv_mirror d)(i := None)\<rparr>
      else if t = ''MyIngress.route_subscriber_acks'' then d\<lparr>dv_acks := (dv_acks d)(i := None)\<rparr>
      else d)"
| "replay1 (EntryDel t []) d =
     (if t = ''$pre.node'' then d\<lparr>dv_nodes := Map.empty\<rparr>
      else if t = ''$pre.mgid'' then d\<lparr>dv_groups := Map.empty\<rparr>
      else if t = ''$mirror.cfg'' then d\<lparr>dv_mirror := Map.empty\<rparr>
      else if t = ''MyIngress.route_subscriber_acks'' then d\<lparr>dv_acks := Map.empty\<rparr>
      else d)"
| "replay1 _ d = d"

definition replay :: "event list \<Rightarrow> device" where
  "replay tr = fold (\<lambda>(a, ok) d. if ok then replay1 a d else d) tr no_device"

text \<open>Entries already there.\<close>

fun present :: "device \<Rightarrow> dev_action \<Rightarrow> bool" where
  "present d (EntryAdd t [KExact k (PInt i)] act data) =
     (if t = ''$pre.node'' then dv_nodes d i \<noteq> None
      else if t = ''$pre.mgid'' then dv_groups d i \<noteq> None
      else if t = ''$mirror.cfg'' then dv_mirror d i \<noteq> None
      else if t = ''MyIngress.route_subscriber_acks'' then dv_acks d i \<noteq> None
      else False)"
| "present d _ = False"

text \<open>A switch that refuses to add an entry twice, as its runtime documents.\<close>

definition refuses_duplicates :: "dev_env \<Rightarrow> bool" where
  "refuses_duplicates E \<longleftrightarrow> (\<forall>tr a v. d_do E tr a = Inr v \<longrightarrow> \<not> present (replay tr) a)"

section \<open>Facts\<close>

lemma replay_Nil [simp]: "replay [] = no_device"
  by (simp add: replay_def)

lemma replay_snoc [simp]: "replay (tr @ [(a, ok)]) = (if ok then replay1 a (replay tr) else replay tr)"
  by (simp add: replay_def)

lemma tell_Inr:
  "tell E a s = (Inr u, t) \<longleftrightarrow> (\<exists>v. d_do E (c_trace s) a = Inr v) \<and> t = s\<lparr>c_trace := c_trace s @ [(a, True)]\<rparr>"
  by (auto simp: tell_def ask_def andthen_def bnd_def ret_def Let_def split: sum.splits)

lemma sort_snoc_sorted: "sort (sort xs @ [x]) = sort (xs @ [x])" for xs :: "int list"
  by (rule properties_for_sort) simp_all

lemma add_swport_fold:
  "fold (add_swport n) ports (sort acc) = sort (acc @ filter (\<lambda>p. port_to_pipe p < n) ports)"
proof (induction ports arbitrary: acc)
  case (Cons p ports)
  from Cons.IH [of "acc @ [p]"] Cons.IH [of acc] show ?case
    by (simp add: add_swport_def sort_snoc_sorted)
qed simp

text \<open>The ports of a pipe are the interfaces of that pipe, sorted.\<close>

lemma pipe_ports_sorted: "pipe_ports n interfaces = sort (filter (\<lambda>p. port_to_pipe p < n) interfaces)"
  using add_swport_fold [of n interfaces "[]"] by (simp add: pipe_ports_def)

lemma swports_sorted: "swports interfaces = sort interfaces"
proof -
  have "fold (\<lambda>port acc. sort (acc @ [port])) ports (sort acc) = sort (acc @ ports)" for ports acc :: "int list"
  proof (induction ports arbitrary: acc)
    case (Cons p ports)
    from Cons.IH [of "acc @ [p]"] show ?case by (simp add: sort_snoc_sorted)
  qed simp
  from this [of interfaces "[]"] show ?thesis by (simp add: swports_def)
qed

section \<open>Properties\<close>

text \<open>The port numbering: the pipe of the port made from a pipe and a local port is that pipe, and
  the low seven bits are the local port, so ports of different pipes or positions never coincide.\<close>

theorem make_port_pipe:
  assumes "0 \<le> local_port" and "local_port < 128"
  shows "port_to_pipe (make_port pipe local_port) = pipe \<and> make_port pipe local_port AND 0x7F = local_port"
proof -
  have mask: "(0x7F :: int) = mask 7" by (simp add: mask_eq_exp_minus_1)
  have low: "take_bit 7 local_port = local_port" using assms by (simp add: take_bit_eq_mod)
  have "drop_bit 7 local_port = 0" "drop_bit 7 (push_bit 7 pipe) = pipe"
    using assms by (simp_all add: drop_bit_eq_div push_bit_eq_mult)
  then show ?thesis
    by (simp add: port_to_pipe_def make_port_def drop_bit_or mask take_bit_eq_mask [symmetric] low take_bit_or
        take_bit_push_bit)
qed

theorem make_port_pipe_witness: "port_to_pipe (pgen_port 1) = 1 \<and> pgen_port 1 AND 0x7F = 68"
  using make_port_pipe [of 68 1] by (simp add: pgen_port_def)

end
