(* ===== verification/Ring_Packets.thy ===== *)
theory Ring_Packets
  imports Tofino Convert Topology
begin

text \<open>
  code/p4/failure_tests/failure.py, the packets: the header layouts, the packets the control plane
  builds and sends, and the check of received packets against expected ones. The fields of Ethernet,
  IP and UDP are the packet library's; a packet keeps of them what the code sets.
\<close>

section \<open>Types of ring packets\<close>

definition TYPE_IP :: int where "TYPE_IP = 0x800"
definition TYPE_APPEND :: int where "TYPE_APPEND = 0x0860"
definition TYPE_APPEND_RESP :: int where "TYPE_APPEND_RESP = 0x0861"
definition TYPE_READ :: int where "TYPE_READ = 0x0870"
definition TYPE_READ_RESP :: int where "TYPE_READ_RESP = 0x0871"
definition TYPE_TAIL :: int where "TYPE_TAIL = 0x0840"
definition TYPE_SUB :: int where "TYPE_SUB = 0x0850"
definition TYPE_SUB_RESP :: int where "TYPE_SUB_RESP = 0x0851"
definition TYPE_CONTROL :: int where "TYPE_CONTROL = 0x0820"
definition TYPE_MULTICAST :: int where "TYPE_MULTICAST = 0x0890"

lemmas type_defs = TYPE_IP_def TYPE_APPEND_def TYPE_APPEND_RESP_def TYPE_READ_def TYPE_READ_RESP_def
  TYPE_TAIL_def TYPE_SUB_def TYPE_SUB_RESP_def TYPE_CONTROL_def TYPE_MULTICAST_def

section \<open>Header layouts\<close>

text \<open>Name, default and width in bits of each field.\<close>

type_synonym layout = "(string \<times> int \<times> nat) list"

definition Cntrl_desc :: layout where
  "Cntrl_desc = [(''global_seq_no'', 0, 32), (''ring_view'', 0, 16), (''pkt_id'', 0, 16)]"

definition RingType_desc :: layout where
  "RingType_desc = [(''type'', 0, 16), (''num_entries'', 1, 16), (''shard_id'', 0, 32), (''switch_to_process'', 1, 32)]"

definition Append_desc :: layout where
  "Append_desc = [(''nonce'', 0, 32), (''payload_size'', 0, 16), (''stream_id'', 0, 32), (''g_idx'', 0, 32),
     (''cntrl_pkt_it'', 0, 16), (''client_ip'', 0, 32), (''recv_port'', 0, 16), (''start_ts'', 0, 48)]"

definition Read_desc :: layout where
  "Read_desc = [(''nonce'', 0, 32), (''payload_size'', 0, 32), (''stream_id'', 0, 32), (''g_idx'', 0, 32),
     (''ring_view'', 0, 16), (''recv_port'', 0, 16), (''client_ip'', 0, 32), (''start_ts'', 0, 48)]"

definition Subscribe_desc :: layout where
  "Subscribe_desc = [(''g_idx'', 0, 32), (''stream_id'', 0, 32), (''subscribe'', 0, 32), (''client_ip'', 0, 32),
     (''recv_port'', 0, 16), (''subscribe_port'', 0, 16)]"

definition Tail_desc :: layout where
  "Tail_desc = [(''nonce'', 0, 32), (''hops'', 0, 16), (''tail_seq_no'', 0, 32), (''client_ip'', 0, 32),
     (''recv_port'', 0, 16)]"

definition PktgenTimer_desc :: layout where
  "PktgenTimer_desc = [(''_pad0'', 0, 3), (''pipe_id'', 0, 2), (''app_id'', 0, 3), (''_pad1'', 0, 8),
     (''batch_id'', 0, 16), (''packet_id'', 0, 16)]"

text \<open>\<open>bind_layers\<close>: the header that follows a \<open>RingType\<close> of a type.\<close>

definition ring_payload :: "int \<Rightarrow> string option" where
  "ring_payload ty =
     (if ty = TYPE_APPEND \<or> ty = TYPE_APPEND_RESP \<or> ty = TYPE_SUB_RESP then Some ''Append''
      else if ty = TYPE_READ \<or> ty = TYPE_READ_RESP then Some ''Read''
      else if ty = TYPE_SUB then Some ''Subscribe''
      else if ty = TYPE_TAIL then Some ''Tail''
      else None)"

text \<open>A header made with keyword arguments: fields not given have their default, an argument that is
  no field raises \<open>AttributeError\<close>.\<close>

definition header :: "string \<Rightarrow> layout \<Rightarrow> (string \<times> int) list \<Rightarrow> (string \<times> (string \<times> pyval) list) res" where
  "header name layout given =
     (case find (\<lambda>f. fst f \<notin> set (map fst layout)) given of
        Some f \<Rightarrow> Inl (AttributeError (fst f))
      | None \<Rightarrow> Inr (name, map (\<lambda>(k, d, w). (k, PInt (case dict_get given k of Some v \<Rightarrow> v | None \<Rightarrow> d))) layout))"

definition header_bits :: "layout \<Rightarrow> nat" where
  "header_bits layout = (\<Sum>(k, d, w)\<leftarrow>layout. w)"

section \<open>Packets the control plane sends\<close>

definition ip_int_of :: "string \<Rightarrow> int res" where
  "ip_int_of ip_addr =
     ebind (encodeIPv4 ip_addr) (\<lambda>bs. Inr (foldl (\<lambda>acc b. acc * 256 + uint b) 0 bs))"

definition ether :: "string \<Rightarrow> string \<Rightarrow> int \<Rightarrow> string \<times> (string \<times> pyval) list" where
  "ether dst src ty = (''Ether'', [(''dst'', PStr dst), (''src'', PStr src), (''type'', PInt ty)])"

definition udp_stack :: "string \<Rightarrow> string \<Rightarrow> int \<Rightarrow> string \<Rightarrow> packet" where
  "udp_stack dst src ty ip_addr =
     [ether dst src ty, (''IP'', [(''dst'', PStr ip_addr)]), (''UDP'', [(''dport'', PInt 1234), (''sport'', PInt 5678)])]"

definition raw :: "string \<Rightarrow> string \<times> (string \<times> pyval) list" where
  "raw payload = (''Raw'', [(''load'', PStr payload)])"

definition ring_packet ::
  "packet \<Rightarrow> (string \<times> int) list \<Rightarrow> (string \<times> layout \<times> (string \<times> int) list) list \<Rightarrow> packet \<Rightarrow> packet res" where
  "ring_packet base ring uppers payload =
     ebind (header ''RingType'' RingType_desc ring) (\<lambda>r.
     ebind (emap (\<lambda>(name, layout, given). header name layout given) uppers) (\<lambda>hs.
     Inr (base @ [r] @ hs @ payload)))"

definition send :: "dev_env \<Rightarrow> string \<Rightarrow> packet res \<Rightarrow> unit ctl" where
  "send E interface p = bnd (lift p) (\<lambda>pkt. tell E (SendPacket interface pkt))"

definition test_connection :: "dev_env \<Rightarrow> string \<Rightarrow> string \<Rightarrow> string \<Rightarrow> string \<Rightarrow> unit ctl" where
  "test_connection E dst src ip_addr interface =
     send E interface (ring_packet (udp_stack dst src TYPE_IP ip_addr)
       [(''type'', TYPE_IP), (''num_entries'', 1), (''shard_id'', 1)] [] [])"

definition send_test_multicast_packet :: "dev_env \<Rightarrow> string \<Rightarrow> string \<Rightarrow> string \<Rightarrow> string \<Rightarrow> unit ctl" where
  "send_test_multicast_packet E interface dst src ip_addr =
     send E interface (ring_packet (udp_stack dst src TYPE_IP ip_addr)
       [(''type'', TYPE_MULTICAST), (''num_entries'', 1), (''shard_id'', 1)] [] [raw ''Hello world!''])"

definition ack_packet :: "string \<Rightarrow> string \<Rightarrow> string \<Rightarrow> int \<Rightarrow> packet res" where
  "ack_packet dst src ip_addr seq_no =
     ebind (ip_int_of ip_addr) (\<lambda>ip_int.
     ring_packet (udp_stack dst src TYPE_IP ip_addr)
       [(''type'', TYPE_APPEND_RESP), (''num_entries'', 1), (''shard_id'', 1), (''switch_to_process'', 1)]
       [(''Append'', Append_desc, [(''nonce'', 0), (''payload_size'', 100), (''stream_id'', 0), (''g_idx'', seq_no),
          (''cntrl_pkt_it'', 1), (''client_ip'', ip_int), (''recv_port'', 192), (''start_ts'', 3333)])]
       [raw ''Hello world!''])"

definition send_test_ack_packet :: "dev_env \<Rightarrow> string \<Rightarrow> string \<Rightarrow> string \<Rightarrow> string \<Rightarrow> int \<Rightarrow> unit ctl" where
  "send_test_ack_packet E interface dst src ip_addr seq_no = send E interface (ack_packet dst src ip_addr seq_no)"

definition subscribe_packet :: "string \<Rightarrow> string \<Rightarrow> string \<Rightarrow> packet res" where
  "subscribe_packet dst src ip_addr =
     ebind (ip_int_of ip_addr) (\<lambda>ip_int.
     ring_packet (udp_stack dst src TYPE_IP ip_addr)
       [(''type'', TYPE_SUB), (''num_entries'', 1), (''shard_id'', 1), (''switch_to_process'', 0)]
       [(''Subscribe'', Subscribe_desc, [(''g_idx'', 0), (''stream_id'', 0), (''subscribe'', 0),
          (''client_ip'', ip_int), (''recv_port'', 192), (''subscribe_port'', 192)])]
       [raw ''Hello world!''])"

definition test_subscribe_one_switch :: "dev_env \<Rightarrow> string \<Rightarrow> string \<Rightarrow> string \<Rightarrow> string \<Rightarrow> unit ctl" where
  "test_subscribe_one_switch E interface dst src ip_addr =
     andthen (send E interface (subscribe_packet dst src ip_addr))
    (andthen (send_test_ack_packet E interface dst src ip_addr 0)
     (send_test_ack_packet E interface dst src ip_addr 0))"

definition tail_packet :: "string \<Rightarrow> string \<Rightarrow> string \<Rightarrow> packet res" where
  "tail_packet dst src ip_addr =
     ebind (ip_int_of ip_addr) (\<lambda>ip_int.
     ring_packet (udp_stack dst src TYPE_IP ip_addr)
       [(''type'', TYPE_TAIL), (''num_entries'', 1), (''shard_id'', 1), (''switch_to_process'', 0)]
       [(''Tail'', Tail_desc, [(''nonce'', 1), (''hops'', 0), (''tail_seq_no'', 0), (''client_ip'', ip_int),
          (''recv_port'', 192)])]
       [raw ''Hello world!''])"

definition send_test_tail_packet :: "dev_env \<Rightarrow> string \<Rightarrow> string \<Rightarrow> string \<Rightarrow> string \<Rightarrow> unit ctl" where
  "send_test_tail_packet E interface dst src ip_addr = send E interface (tail_packet dst src ip_addr)"

definition append_packet :: "string \<Rightarrow> string \<Rightarrow> string \<Rightarrow> packet res" where
  "append_packet dst src ip_addr =
     ebind (ip_int_of ip_addr) (\<lambda>ip_int.
     ring_packet (udp_stack dst src TYPE_IP ip_addr)
       [(''type'', TYPE_APPEND), (''num_entries'', 1), (''shard_id'', 1), (''switch_to_process'', 1)]
       [(''Append'', Append_desc, [(''nonce'', 1), (''payload_size'', 12), (''stream_id'', 0), (''g_idx'', 0),
          (''cntrl_pkt_it'', 0), (''client_ip'', ip_int), (''recv_port'', 192), (''start_ts'', 0)])]
       [raw ''Hello world!''])"

definition send_test_append_packet :: "dev_env \<Rightarrow> string \<Rightarrow> string \<Rightarrow> string \<Rightarrow> string \<Rightarrow> unit ctl" where
  "send_test_append_packet E interface dst src ip_addr = send E interface (append_packet dst src ip_addr)"

definition send_test_cntrl_packet :: "dev_env \<Rightarrow> string \<Rightarrow> string \<Rightarrow> string \<Rightarrow> string \<Rightarrow> int \<Rightarrow> int \<Rightarrow> unit ctl" where
  "send_test_cntrl_packet E interface dst src ip_addr in_cntrl seq_no =
     bnd (lift (ip_int_of ip_addr)) (\<lambda>_.
     bnd (lift (header ''Cntrl'' Cntrl_desc [(''global_seq_no'', seq_no), (''ring_view'', 1), (''pkt_id'', in_cntrl)])) (\<lambda>c.
     tell E (SendPacket interface [ether dst src TYPE_CONTROL, c])))"

definition test_tail :: "dev_env \<Rightarrow> string \<Rightarrow> string \<Rightarrow> string \<Rightarrow> string \<Rightarrow> int \<Rightarrow> unit ctl" where
  "test_tail E interface dst src ip_addr in_cntrl =
     andthen (send_test_cntrl_packet E interface dst src ip_addr in_cntrl 0)
    (andthen (send_test_append_packet E interface dst src ip_addr)
    (andthen (send_test_append_packet E interface dst src ip_addr)
    (andthen (send_test_append_packet E interface dst src ip_addr)
    (andthen (note_done (Pause 3))
     (send_test_tail_packet E interface dst src ip_addr)))))"

text \<open>This one passes fields of an older header.\<close>

definition run_client_no_sniff :: "dev_env \<Rightarrow> string \<Rightarrow> string \<Rightarrow> string \<Rightarrow> string \<Rightarrow> int \<Rightarrow> unit ctl" where
  "run_client_no_sniff E interface dst src ip_addr nonce =
     send E interface (ring_packet (udp_stack dst src TYPE_APPEND ip_addr)
       [(''type'', TYPE_APPEND), (''num_entries'', 1)]
       [(''Append'', Append_desc, [(''cid'', 0), (''nonce'', nonce), (''g_idx'', 0), (''batch_size'', 0),
          (''shard_id'', 0), (''cntrl_pkt_it'', 0)])]
       [raw ''Hello world!''])"

text \<open>The fields of a 6-byte packet generator header as a MAC address.\<close>

definition pgen_timer_hdr_to_dmac :: "int \<Rightarrow> int \<Rightarrow> int \<Rightarrow> int \<Rightarrow> string" where
  "pgen_timer_hdr_to_dmac pipe_id app_id batch_id packet_id =
     fmt_02x (push_bit 3 pipe_id OR app_id) @ '':00:'' @ fmt_02x (drop_bit 8 batch_id) @ '':''
     @ fmt_02x (batch_id AND 0xFF) @ '':'' @ fmt_02x (drop_bit 8 packet_id) @ '':'' @ fmt_02x (packet_id AND 0xFF)"

section \<open>Checking received packets\<close>

text \<open>The position of the first expected packet not yet seen that the received one starts with.\<close>

fun match_packet :: "string list \<Rightarrow> int list \<Rightarrow> bool list \<Rightarrow> string \<Rightarrow> nat \<Rightarrow> nat option res" where
  "match_packet [] lens seen r i = Inr None"
| "match_packet (p # ps) lens seen r i =
     ebind (py_nth lens (int i)) (\<lambda>n.
     if p = py_take n r \<and> \<not> seen ! i then Inr (Some i) else match_packet ps lens seen r (Suc i))"

text \<open>\<open>poll k\<close> is what the \<open>k\<close>-th poll of the data plane gives; an empty packet counts as none.\<close>

function verify_loop ::
  "(nat \<Rightarrow> string option) \<Rightarrow> string list \<Rightarrow> int list \<Rightarrow> int \<Rightarrow> nat \<Rightarrow> bool list \<Rightarrow> bool list res" where
  "verify_loop poll pkts lens slack rx seen =
     (if length pkts \<le> rx then Inr seen
      else if poll rx = None \<or> poll rx = Some [] then
        (if slack \<noteq> 0 then ebind (assert_that (int (length pkts) - int rx < slack) ''Timeout'') (\<lambda>_. Inr seen)
         else Inl (AssertionError ''Timeout''))
      else ebind (match_packet pkts lens seen (the (poll rx)) 0) (\<lambda>m.
           case m of
             None \<Rightarrow> Inl (AssertionError ''Unmatched'')
           | Some i \<Rightarrow> verify_loop poll pkts lens slack (Suc rx) (seen[i := True])))"
  by pat_completeness auto
termination by (relation "measure (\<lambda>(_, pkts, _, _, rx, _). length pkts - rx)") auto

declare verify_loop.simps [simp del]

definition verify_multiple_packets ::
  "(nat \<Rightarrow> string option) \<Rightarrow> string list \<Rightarrow> int list \<Rightarrow> int \<Rightarrow> unit res" where
  "verify_multiple_packets poll pkts lens slack =
     ebind (verify_loop poll pkts lens slack 0 (replicate (length pkts) False)) (\<lambda>_. Inr ())"

section \<open>Facts\<close>

lemma match_packet_Some:
  "match_packet ps lens seen r i = Inr (Some j) \<Longrightarrow>
     i \<le> j \<and> j < i + length ps \<and> \<not> seen ! j \<and> j < length lens \<and> ps ! (j - i) = py_take (lens ! j) r"
proof (induction ps lens seen r i rule: match_packet.induct)
  case (2 p ps lens seen r i)
  show ?case
  proof (cases "py_nth lens (int i)")
    case (Inr n)
    then have n: "i < length lens" "n = lens ! i" by (auto simp: py_nth_of_nat split: if_splits)
    show ?thesis
    proof (cases "p = py_take n r \<and> \<not> seen ! i")
      case True
      with 2(2) Inr n show ?thesis by auto
    next
      case False
      with 2(2) Inr have "match_packet ps lens seen r (Suc i) = Inr (Some j)" by auto
      with 2(1) Inr False have "Suc i \<le> j \<and> j < Suc i + length ps \<and> \<not> seen ! j \<and> j < length lens
          \<and> ps ! (j - Suc i) = py_take (lens ! j) r" by blast
      then show ?thesis by (auto simp: nth_Cons' Suc_diff_le)
    qed
  qed (use 2(2) in simp)
qed simp

text \<open>Which expected packet each poll so far was matched with.\<close>

definition matched :: "(nat \<Rightarrow> string option) \<Rightarrow> string list \<Rightarrow> int list \<Rightarrow> nat \<Rightarrow> bool list \<Rightarrow> (nat \<Rightarrow> nat) \<Rightarrow> bool" where
  "matched poll pkts lens rx seen f \<longleftrightarrow>
     length seen = length pkts \<and> inj_on f {..<rx} \<and> f ` {..<rx} = {i. i < length pkts \<and> seen ! i}
     \<and> (\<forall>k < rx. \<exists>r. poll k = Some r \<and> py_take (lens ! f k) r = pkts ! f k)"

lemma matched_step:
  assumes "matched poll pkts lens rx seen f" and "poll rx = Some r"
    and "match_packet pkts lens seen r 0 = Inr (Some j)"
  shows "matched poll pkts lens (Suc rx) (seen[j := True]) (f(rx := j))"
proof -
  from match_packet_Some [OF assms(3)] have j: "j < length pkts" "\<not> seen ! j" "pkts ! j = py_take (lens ! j) r"
    by auto
  from assms(1) have len: "length seen = length pkts" and inj: "inj_on f {..<rx}"
    and img: "f ` {..<rx} = {i. i < length pkts \<and> seen ! i}"
    and ok: "\<forall>k < rx. \<exists>r. poll k = Some r \<and> py_take (lens ! f k) r = pkts ! f k"
    by (auto simp: matched_def)
  have same: "(f(rx := j)) ` {..<rx} = f ` {..<rx}" by (rule image_cong) auto
  have "inj_on (f(rx := j)) {..<Suc rx}"
    using inj img j(2) by (auto simp: lessThan_Suc inj_on_fun_updI inj_on_def)
  moreover have "(f(rx := j)) ` {..<Suc rx} = {i. i < length pkts \<and> seen[j := True] ! i}"
    using same img j(1) len by (auto simp: lessThan_Suc nth_list_update)
  ultimately show ?thesis
    using ok assms(2) j(3) len by (auto simp: matched_def less_Suc_eq)
qed

lemma verify_loop_matched:
  assumes "verify_loop poll pkts lens 0 rx seen = Inr seen'" and "matched poll pkts lens rx seen f" and "rx \<le> length pkts"
  shows "\<exists>g. matched poll pkts lens (length pkts) seen' g"
  using assms
proof (induction "length pkts - rx" arbitrary: rx seen f)
  case 0
  then show ?case by (auto simp: verify_loop.simps)
next
  case (Suc d)
  then have rx: "rx < length pkts" by simp
  with Suc.prems(1) obtain r j where r: "poll rx = Some r" and j: "match_packet pkts lens seen r 0 = Inr (Some j)"
    and rest: "verify_loop poll pkts lens 0 (Suc rx) (seen[j := True]) = Inr seen'"
    by (auto simp: verify_loop.simps [of _ _ _ _ rx] split: if_splits option.splits)
  show ?case
    by (rule Suc.hyps(1) [OF _ rest matched_step [OF Suc.prems(2) r j]]) (use Suc.hyps(2) rx in auto)
qed

lemma run_client_no_sniff_raises: "run_client_no_sniff E i dst src ip n s = (Inl (AttributeError ''cid''), s)"
  by (simp add: run_client_no_sniff_def send_def ring_packet_def header_def RingType_desc_def Append_desc_def
      bnd_def lift_def)

text \<open>The sizes of the headers in bytes.\<close>

lemma header_sizes:
  "header_bits RingType_desc = 8 * 12" "header_bits Append_desc = 8 * 28" "header_bits Read_desc = 8 * 30"
  "header_bits Subscribe_desc = 8 * 20" "header_bits Tail_desc = 8 * 16" "header_bits Cntrl_desc = 8 * 8"
  "header_bits PktgenTimer_desc = 8 * 6"
  by (simp_all add: header_bits_def RingType_desc_def Append_desc_def Read_desc_def Subscribe_desc_def
      Tail_desc_def Cntrl_desc_def PktgenTimer_desc_def)

section \<open>Properties\<close>

text \<open>C37. When the check of received packets passes without slack, every poll gave a packet and the
  packets received are the expected ones, each exactly once, in some order.\<close>

theorem verify_packets_all:
  assumes "verify_multiple_packets poll pkts lens 0 = Inr ()"
  shows "\<exists>f. bij_betw f {..<length pkts} {..<length pkts}
     \<and> (\<forall>k < length pkts. \<exists>r. poll k = Some r \<and> py_take (lens ! f k) r = pkts ! f k)"
proof -
  from assms obtain seen' where
    run: "verify_loop poll pkts lens 0 0 (replicate (length pkts) False) = Inr seen'"
    by (auto simp: verify_multiple_packets_def)
  have "matched poll pkts lens 0 (replicate (length pkts) False) id" by (simp add: matched_def)
  from verify_loop_matched [OF run this] obtain g where g: "matched poll pkts lens (length pkts) seen' g" by auto
  then have "g ` {..<length pkts} \<subseteq> {..<length pkts}" "inj_on g {..<length pkts}" by (auto simp: matched_def)
  then have "bij_betw g {..<length pkts} {..<length pkts}"
    by (simp add: bij_betw_def endo_inj_surj)
  with g show ?thesis by (auto simp: matched_def)
qed

theorem verify_packets_all_witness:
  "\<exists>f. bij_betw f {..<2 :: nat} {..<2} \<and> py_take ([2, 1] ! f 0) ''cx'' = [''ab'', ''c''] ! f 0"
proof -
  have "verify_multiple_packets (\<lambda>k. Some ([''cx'', ''aby''] ! k)) [''ab'', ''c''] [2, 1] 0 = Inr ()" by code_simp
  from verify_packets_all [OF this] obtain f where "bij_betw f {..<2 :: nat} {..<2}"
    "\<forall>k < 2. \<exists>r. Some ([''cx'', ''aby''] ! k) = Some r \<and> py_take ([2, 1] ! f k) r = [''ab'', ''c''] ! f k"
    by (auto simp: numeral_2_eq_2)
  from this(1) this(2) [rule_format, of 0] show ?thesis by auto
qed

end
