(* ===== verification/Ring_Control.thy ===== *)
theory Ring_Control
  imports Ring_Packets
begin

text \<open>
  code/p4/failure_tests/failure.py, the control plane of a switch of the ring: ports, match-action
  tables, multicast groups and the subscriptions that the listener serves at run time. The three
  set-up functions for constants that no run calls (acknowledgement threshold, number and size of
  shards) are left out.
\<close>

section \<open>Ports\<close>

definition port_setup :: "dev_env \<Rightarrow> pyval \<Rightarrow> bool \<Rightarrow> pyval \<Rightarrow> pyval \<Rightarrow> unit ctl" where
  "port_setup E port use_loopback port_speed port_fec =
     tell E (EntryAdd ''$PORT'' [KExact ''$DEV_PORT'' port] None
       (if use_loopback
        then [(''$SPEED'', port_speed), (''$FEC'', port_fec), (''$PORT_ENABLE'', PBool True),
              (''$LOOPBACK_MODE'', PStr ''BF_LPBK_MAC_NEAR'')]
        else [(''$PORT_ENABLE'', PBool True), (''$SPEED'', port_speed), (''$FEC'', port_fec)]))"

definition setup_switch_ports ::
  "dev_env \<Rightarrow> pyval list \<Rightarrow> pyval \<Rightarrow> pyval \<Rightarrow> pyval \<Rightarrow> pyval \<Rightarrow> int \<Rightarrow> unit ctl" where
  "setup_switch_ports E switch_ports loopback_port control_port port_speed port_fec size_of_ring =
     andthen (for_each (\<lambda>i. port_setup E i False port_speed port_fec) switch_ports)
    (andthen (port_setup E loopback_port True port_speed port_fec)
     (port_setup E control_port (size_of_ring = 1) port_speed port_fec))"

section \<open>Match-action tables\<close>

text \<open>\<open>int(v)\<close>.\<close>

fun to_int :: "pyval \<Rightarrow> int res" where
  "to_int (PStr s) = py_int s"
| "to_int (PFloat q) = Inr (if q < 0 then \<lceil>q\<rceil> else \<lfloor>q\<rfloor>)"
| "to_int v = as_int v"

definition client_entry :: "dev_env \<Rightarrow> pyval \<Rightarrow> unit ctl" where
  "client_entry E client =
     bnd (lift (py_index client 0)) (\<lambda>ip. bnd (lift (py_index client 1)) (\<lambda>mac.
     bnd (lift (ebind (py_index client 2) to_int)) (\<lambda>port.
     tell E (EntryAdd ''MyIngress.ipv4_lpm'' [KPrefix ''hdr.ipv4.dstAddr'' ip 32] (Some ''MyIngress.ipv4_forward'')
       [(''dstAddr'', mac), (''port'', PInt port)]))))"

definition setup_client_response_table :: "dev_env \<Rightarrow> pyval list \<Rightarrow> unit ctl" where
  "setup_client_response_table E client_ips =
     andthen (tell E (TableGet ''MyIngress.ipv4_lpm''))
    (andthen (tell E (KeyAnnotation ''MyIngress.ipv4_lpm'' ''hdr.ipv4.dstAddr'' ''ipv4''))
    (andthen (tell E (DataAnnotation ''MyIngress.ipv4_lpm'' ''dstAddr'' ''MyIngress.ipv4_forward'' ''mac''))
     (for_each (client_entry E) client_ips)))"

definition setup_circulate_table :: "dev_env \<Rightarrow> pyval \<Rightarrow> unit ctl" where
  "setup_circulate_table E loopback_port =
     andthen (tell E (TableGet ''MyIngress.circulate_table''))
    (andthen (tell E (KeyAnnotation ''MyIngress.circulate_table'' ''meta.circulate'' ''bit<32>''))
     (tell E (EntryAdd ''MyIngress.circulate_table'' [KExact ''meta.circulate'' (PInt 1)]
       (Some ''MyIngress.circulate_port'') [(''port'', loopback_port)])))"

text \<open>Three constants as entries of tables without keys. The data object is passed first, where every
  other call of \<open>entry_add\<close> passes the keys. No run calls these.\<close>

definition setup_ack_const :: "dev_env \<Rightarrow> pyval \<Rightarrow> unit ctl" where
  "setup_ack_const E ack_threshold =
     andthen (tell E (TableGet ''MyIngress.get_ack_threshold''))
     (tell E (EntryAddData ''MyIngress.get_ack_threshold'' ''MyIngress.ack_threshold'' [(''threshold'', ack_threshold)]))"

definition setup_num_shard_const :: "dev_env \<Rightarrow> pyval \<Rightarrow> unit ctl" where
  "setup_num_shard_const E num_shards =
     andthen (tell E (TableGet ''MyIngress.get_num_shards''))
     (tell E (EntryAddData ''MyIngress.get_num_shards'' ''MyIngress.num_shards'' [(''shards'', num_shards)]))"

definition setup_shard_size_const :: "dev_env \<Rightarrow> pyval \<Rightarrow> unit ctl" where
  "setup_shard_size_const E shard_size =
     andthen (tell E (TableGet ''MyIngress.get_shard_size''))
     (tell E (EntryAddData ''MyIngress.get_shard_size'' ''MyIngress.shard_size'' [(''size'', shard_size)]))"

text \<open>The identifiers of the node of a group, and the second group entry, under the node's id.\<close>

definition group_rid :: "int \<Rightarrow> int" where
  "group_rid g = 0x321 + g"

definition group_xid :: "int \<Rightarrow> int" where
  "group_xid g = 0x432 + g"

definition new_group :: "dev_env \<Rightarrow> int \<Rightarrow> int list \<Rightarrow> nat ctl" where
  "new_group E g dev_ports =
     bnd (MCTree E g) (\<lambda>mc.
     andthen (add_node E mc (group_rid g) (Some (group_xid g)) (Some dev_ports) (Some [])) (ret mc))"

definition rid_entry :: "dev_env \<Rightarrow> int \<Rightarrow> unit ctl" where
  "rid_entry E g = tell E (EntryAdd ''$pre.mgid'' (mgid_key (group_rid g AND 0xFFFF)) None [])"

definition next_group :: "unit ctl" where
  "next_group = modify (\<lambda>s. s\<lparr>c_group_id := c_group_id s + 1\<rparr>)"

definition shard_group :: "dev_env \<Rightarrow> pyval \<times> int list \<Rightarrow> unit ctl" where
  "shard_group E shard =
     bnd (gets c_group_id) (\<lambda>g.
     andthen (new_group E g (snd shard))
    (andthen (rid_entry E g)
    (andthen (tell E (EntryAdd ''MyIngress.get_shard_port'' [KExact ''hdr.ring_type.shard_id'' (fst shard)]
                (Some ''MyIngress.shard_port'') [(''group_id'', PInt g)]))
     next_group)))"

definition setup_shard_multicast_groups :: "dev_env \<Rightarrow> (pyval \<times> int list) list \<Rightarrow> unit ctl" where
  "setup_shard_multicast_groups E shard_to_port_gp =
     andthen (tell E (TableGet ''MyIngress.get_shard_port''))
    (andthen (tell E (KeyAnnotation ''MyIngress.get_shard_port'' ''hdr.ring_type.shard_id'' ''bit<32>''))
     (for_each (shard_group E) shard_to_port_gp))"

text \<open>The entry 0 of the ring members marks the switch itself.\<close>

definition setup_switch_check :: "dev_env \<Rightarrow> int \<Rightarrow> int list \<Rightarrow> unit ctl" where
  "setup_switch_check E size_of_ring ports_to_ring_members =
     andthen (tell E (TableGet ''MyIngress.check_switch_routing''))
    (andthen (tell E (KeyAnnotation ''MyIngress.check_switch_routing'' ''hdr.ring_type.switch_to_process'' ''bit<32>''))
     (for_each (\<lambda>i. bnd (lift (py_nth ports_to_ring_members (int i))) (\<lambda>port.
        if port = 0 then ret ()
        else tell E (EntryAdd ''MyIngress.check_switch_routing''
               [KExact ''hdr.ring_type.switch_to_process'' (PInt (int i))]
               (Some ''MyIngress.route_next_switch'') [(''port'', PInt port)]))) [0..<nat size_of_ring]))"

definition setup_cntrl_table :: "dev_env \<Rightarrow> pyval \<Rightarrow> pyval \<Rightarrow> pyval \<Rightarrow> unit ctl" where
  "setup_cntrl_table E in_cntrl out_cntrl cntrl_port =
     andthen (tell E (TableGet ''MyIngress.cntrl_id_to_ip''))
    (andthen (tell E (KeyAnnotation ''MyIngress.cntrl_id_to_ip'' ''hdr.cntrl.pkt_id'' ''bit<32>''))
     (tell E (EntryAdd ''MyIngress.cntrl_id_to_ip'' [KExact ''hdr.cntrl.pkt_id'' in_cntrl]
       (Some ''MyIngress.cntrl_forward'') [(''port'', cntrl_port), (''pkt_id'', out_cntrl)])))"

definition setup_view_check :: "dev_env \<Rightarrow> int \<Rightarrow> unit ctl" where
  "setup_view_check E view =
     andthen (tell E (TableGet ''MyIngress.check_cntrl_view''))
    (andthen (tell E (KeyAnnotation ''MyIngress.check_cntrl_view'' ''hdr.cntrl.ring_view'' ''bit<16>''))
    (andthen (tell E (DataAnnotation ''MyIngress.check_cntrl_view'' ''view'' ''MyIngress.update_cntrl_view'' ''bit<16>''))
     (tell E (EntryAdd ''MyIngress.check_cntrl_view'' [KRange ''hdr.cntrl.ring_view'' 1 (view - 1)]
       (Some ''MyIngress.update_cntrl_view'') [(''view'', PInt view)]))))"

definition setup_tail_table :: "dev_env \<Rightarrow> int \<Rightarrow> pyval \<Rightarrow> unit ctl" where
  "setup_tail_table E size_of_ring cntrl_port =
     andthen (tell E (TableGet ''MyIngress.process_tail''))
    (andthen (tell E (KeyAnnotation ''MyIngress.process_tail'' ''hdr.tail.hops'' ''bit<32>''))
     (tell E (EntryAdd ''MyIngress.process_tail'' [KRange ''hdr.tail.hops'' 0 (size_of_ring - 1)]
       (Some ''MyIngress.forward_tail'') [(''port'', cntrl_port)])))"

section \<open>Subscriptions\<close>

text \<open>The general group: every ring member, and the own processor in the place of the switch itself.\<close>

definition setup_subscribe_routing_table :: "dev_env \<Rightarrow> int list \<Rightarrow> int \<Rightarrow> unit ctl" where
  "setup_subscribe_routing_table E ports_to_ring_members cpu_port =
     andthen (tell E (TableGet ''MyIngress.submit_subscription''))
    (andthen (tell E (KeyAnnotation ''MyIngress.submit_subscription'' ''hdr.sub.subscribe'' ''bit<32>''))
    (andthen (tell E (TableGet ''$pre.mgid''))
    (bnd (gets c_group_id) (\<lambda>g.
     bnd (MCTree E g) (\<lambda>mc.
     andthen (modify (\<lambda>s. s\<lparr>c_general_group := Some g\<rparr>))
    (andthen (add_node E mc (group_rid g) (Some (group_xid g))
        (Some (map (\<lambda>p. if p = 0 then cpu_port else p) ports_to_ring_members)) (Some []))
    (andthen (rid_entry E g)
    (andthen (tell E (EntryAdd ''MyIngress.submit_subscription'' [KExact ''hdr.sub.subscribe'' (PInt 1)]
        (Some ''MyIngress.send_subscription_to_all'') [(''group_id'', PInt g)]))
    (andthen next_group
     (tell E (EntryAdd ''MyIngress.submit_subscription'' [KExact ''hdr.sub.subscribe'' (PInt 0)]
        (Some ''MyIngress.send_subscription_to_self'') [(''port'', PInt cpu_port)])))))))))))"

definition setup_subscriber_acks_table :: "dev_env \<Rightarrow> unit ctl" where
  "setup_subscriber_acks_table E =
     andthen (tell E (TableGet ''MyIngress.route_subscriber_acks''))
       (tell E (KeyAnnotation ''MyIngress.route_subscriber_acks'' ''hdr.append.stream_id'' ''bit<32>''))"

text \<open>The mirror session of a stream: stream 0 alone, every other stream together with what is the
  general group at that moment.\<close>

definition session_data :: "int \<Rightarrow> int \<Rightarrow> int \<Rightarrow> (string \<times> pyval) list" where
  "session_data stream_id general g =
     [(''$direction'', PStr ''INGRESS''), (''$session_enable'', PBool True),
      (''$mcast_grp_a'', PInt general), (''$mcast_grp_a_valid'', PBool True)]
     @ (if stream_id = 0 then [] else [(''$mcast_grp_b'', PInt g), (''$mcast_grp_b_valid'', PBool True)])
     @ [(''$ucast_egress_port_valid'', PBool False)]"

definition open_session :: "dev_env \<Rightarrow> int \<Rightarrow> int \<Rightarrow> unit ctl" where
  "open_session E stream_id g =
     bnd (gets c_sid) (\<lambda>sid.
     bnd (gets c_general_group) (\<lambda>x.
     bnd (lift (of_option (AttributeError ''general_sub_group'') x)) (\<lambda>general.
     andthen (tell E (EntryAdd ''$mirror.cfg'' [KExact ''$sid'' (PInt sid)] (Some ''$normal'')
                (session_data stream_id general g)))
    (andthen (tell E (EntryAdd ''MyIngress.route_subscriber_acks'' [KExact ''hdr.append.stream_id'' (PInt stream_id)]
                (Some ''MyIngress.forward_to_subscribers'') [(''mirror_session_id'', PInt sid)]))
    (andthen next_group
     (modify (\<lambda>s. s\<lparr>c_sid := sid + 1\<rparr>)))))))"

definition new_stream :: "dev_env \<Rightarrow> int \<Rightarrow> int \<Rightarrow> unit ctl" where
  "new_stream E stream_id subscriber_port =
     andthen (setup_subscriber_acks_table E)
    (bnd (gets c_group_id) (\<lambda>g.
     bnd (MCTree E g) (\<lambda>mc.
     andthen (if stream_id = 0 then modify (\<lambda>s. s\<lparr>c_general_group := Some g\<rparr>) else ret ())
    (andthen (add_node E mc (group_rid g) (Some (group_xid g)) (Some [subscriber_port]) (Some []))
    (andthen (modify (\<lambda>s. s\<lparr>c_streams := dict_put stream_id mc (c_streams s)\<rparr>))
    (andthen (rid_entry E g)
     (open_session E stream_id g)))))))"

definition update_stream_subscriber_table :: "dev_env \<Rightarrow> int \<Rightarrow> int \<Rightarrow> unit ctl" where
  "update_stream_subscriber_table E stream_id subscriber_port =
     bnd (gets c_streams) (\<lambda>d.
     case dict_get d stream_id of
       None \<Rightarrow> new_stream E stream_id subscriber_port
     | Some mc \<Rightarrow> bnd (get_first_node mc) (\<lambda>a. addMbrs E a (Some [subscriber_port]) (Some [])))"

section \<open>The listener\<close>

text \<open>What the listening socket gives: a frame with the packet type of its address, dissected, or a
  time-out, which the loop survives.\<close>

datatype received = TimedOut | Frame int packet

definition has_layer :: "packet \<Rightarrow> string \<Rightarrow> bool" where
  "has_layer p name = (dict_get p name \<noteq> None)"

definition layer_int :: "packet \<Rightarrow> string \<Rightarrow> string \<Rightarrow> int res" where
  "layer_int p name field =
     ebind (of_option IndexError (dict_get p name)) (\<lambda>fs.
     ebind (of_option (AttributeError field) (dict_get fs field)) as_int)"

text \<open>A ring packet of a type that no branch before it names gets to the comparison with
  \<open>TYPE_TRIGGER_VIEW_CHANGE\<close>, which is not defined. (That branch has no body, so that the file does not
  load as it is; the file of the sequencing test ends the chain there instead.)\<close>

definition handle_frame :: "dev_env \<Rightarrow> received \<Rightarrow> unit ctl" where
  "handle_frame E r =
     (case r of
        TimedOut \<Rightarrow> ret ()
      | Frame pkttype p \<Rightarrow>
          if pkttype = 4 \<or> \<not> has_layer p ''RingType'' then ret ()
          else bnd (lift (layer_int p ''RingType'' ''type'')) (\<lambda>ty.
            if ty = TYPE_SUB then
              (if has_layer p ''Subscribe'' then
                 bnd (lift (layer_int p ''Subscribe'' ''stream_id'')) (\<lambda>stream_id.
                 bnd (lift (layer_int p ''Subscribe'' ''subscribe_port'')) (\<lambda>port.
                 update_stream_subscriber_table E stream_id port))
               else ret ())
            else if ty = TYPE_APPEND \<or> ty = TYPE_APPEND_RESP \<or> ty = TYPE_SUB_RESP \<or> ty = TYPE_TAIL
              \<or> has_layer p ''Cntrl'' then ret ()
            else raise (NameError ''TYPE_TRIGGER_VIEW_CHANGE'')))"

text \<open>The listener, on the frames that arrived so far.\<close>

definition receive_pkt_from_tofino :: "dev_env \<Rightarrow> received list \<Rightarrow> unit ctl" where
  "receive_pkt_from_tofino E frames = for_each (handle_frame E) frames"

end
