(* ===== verification/Ring_Run.thy ===== *)
theory Ring_Run
  imports Ring_Control Exp_Config
begin

text \<open>
  code/p4/failure_tests/failure.py, a run of the switch's control plane: the configuration it reads,
  the packet generator with its counters, and \<open>runTest\<close>. The listener runs in a thread of its own,
  which the run starts and in the end joins.
\<close>

section \<open>Counters\<close>

definition read_index0 :: "dev_env \<Rightarrow> string \<Rightarrow> string \<Rightarrow> (string \<times> pyval) list ctl" where
  "read_index0 E table key =
     andthen (tell E (TableGet table)) (ask E (EntryGet table [KExact key (PInt 0)]))"

definition report_counter :: "dev_env \<Rightarrow> string \<times> string \<Rightarrow> unit ctl" where
  "report_counter E names =
     bnd (read_index0 E (''pipe.MyIngress.'' @ fst names) ''$COUNTER_INDEX'') (\<lambda>d.
     bnd (lift (of_option (KeyError ''$COUNTER_SPEC_PKTS'') (dict_get d ''$COUNTER_SPEC_PKTS''))) (\<lambda>_.
     andthen (read_index0 E (''pipe.MyIngress.'' @ snd names) ''$REGISTER_INDEX'') (ret ())))"

definition report_counters :: "dev_env \<Rightarrow> unit ctl" where
  "report_counters E = for_each (report_counter E)
     [(''tot_packet_counter'', ''latency''), (''cntrl_packet_counter'', ''ring_trip_time''),
      (''recirc_packet_counter'', ''recirc_time'')]"

definition process_pktgen :: "dev_env \<Rightarrow> unit ctl" where
  "process_pktgen E =
     andthen (tell E (TableGet ''digest_append'')) (andthen (note_done (Pause 10)) (report_counters E))"

section \<open>The packet generator\<close>

definition p_count :: int where "p_count = 20"
definition b_count :: int where "b_count = 1"
definition buff_offset :: int where "buff_offset = 144"

definition generated_packet :: "string \<Rightarrow> string \<Rightarrow> string \<Rightarrow> int \<Rightarrow> packet res" where
  "generated_packet dst src ip_addr payload_size =
     ebind (ip_int_of ip_addr) (\<lambda>ip_int.
     ring_packet (udp_stack dst src TYPE_IP ip_addr)
       [(''type'', TYPE_APPEND), (''num_entries'', 1), (''shard_id'', 0), (''switch_to_process'', 1)]
       [(''Append'', Append_desc, [(''nonce'', 33), (''payload_size'', payload_size), (''stream_id'', 0), (''g_idx'', 0),
          (''cntrl_pkt_it'', 0), (''client_ip'', ip_int), (''recv_port'', 192), (''start_ts'', 0)])]
       [raw (replicate (nat payload_size) (CHR ''P''))])"

definition app_key :: "key_field list" where
  "app_key = [KExact ''app_id'' (PInt 1)]"

definition application_data :: "int \<Rightarrow> int \<Rightarrow> (string \<times> pyval) list" where
  "application_data src_port pktlen =
     [(''timer_nanosec'', PInt 10000), (''app_enable'', PBool False), (''pkt_len'', PInt pktlen),
      (''pkt_buffer_offset'', PInt buff_offset), (''pipe_local_source_port'', PInt (src_port AND 0x7F)),
      (''increment_source_port'', PBool False), (''batch_count_cfg'', PInt (b_count - 1)),
      (''packets_per_batch_cfg'', PInt (p_count - 1)), (''ibg'', PInt 0), (''ibg_jitter'', PInt 0), (''ipg'', PInt 0),
      (''ipg_jitter'', PInt 0), (''batch_counter'', PInt 0), (''pkt_counter'', PInt 0), (''trigger_counter'', PInt 0)]"

text \<open>The wait for the generated packets: every look at the counters that does not find them all is
  followed by a pause, until five seconds are over. The first argument bounds the looks; \<open>None\<close> means
  that they did not suffice.\<close>

definition all_generated :: "(string \<times> pyval) list \<Rightarrow> bool res" where
  "all_generated d =
     (let counter = (\<lambda>k. of_option (KeyError k) (dict_get d k))
      in ebind (counter ''trigger_counter'') (\<lambda>tri. if tri \<noteq> PInt 1 then Inr False else
         ebind (counter ''batch_counter'') (\<lambda>batch. if batch \<noteq> PInt b_count then Inr False else
         ebind (counter ''pkt_counter'') (\<lambda>pkt. Inr (pkt = PInt (b_count * p_count))))))"

fun wait_generated :: "nat \<Rightarrow> dev_env \<Rightarrow> rat \<Rightarrow> unit option ctl" where
  "wait_generated 0 E start_time = ret None"
| "wait_generated (Suc n) E start_time =
     bnd (gets (\<lambda>s. d_time E (c_trace s))) (\<lambda>now.
     if \<not> now - start_time < 5 then ret (Some ())
     else bnd (ask E (EntryGet ''$PKTGEN_APPLICATION_CFG'' app_key)) (\<lambda>d.
          bnd (lift (all_generated d)) (\<lambda>done.
          if done then ret (Some ())
          else andthen (note_done (Pause 2)) (wait_generated n E start_time))))"

definition setup_timer_pkt_gen :: "nat \<Rightarrow> dev_env \<Rightarrow> string \<Rightarrow> string \<Rightarrow> string \<Rightarrow> int \<Rightarrow> unit option ctl" where
  "setup_timer_pkt_gen n E dst src ip_addr payload_size =
     andthen (for_each (\<lambda>t. tell E (TableGet t))
       [''$PKTGEN_APPLICATION_CFG'', ''$PKTGEN_PKT_BUFFER'', ''$PKTGEN_PORT_CFG''])
    (bnd (lift (generated_packet dst src ip_addr payload_size)) (\<lambda>p.
     let src_port = pgen_port 1; raw_p = d_wire E p; pktlen = int (length raw_p)
     in andthen (tell E (EntryAdd ''$PKTGEN_PORT_CFG'' [KExact ''dev_port'' (PInt src_port)] None
          [(''pktgen_enable'', PBool True)]))
       (andthen (tell E (EntryAdd ''$PKTGEN_APPLICATION_CFG'' app_key (Some ''$PKTGEN_TRIGGER_TIMER_PERIODIC'')
          (application_data src_port pktlen)))
       (andthen (tell E (EntryAdd ''$PKTGEN_PKT_BUFFER''
          [KExact ''pkt_buffer_offset'' (PInt buff_offset), KExact ''pkt_buffer_size'' (PInt pktlen)] None
          [(''buffer'', PBytes raw_p)]))
       (andthen (tell E (EntryMod ''$PKTGEN_APPLICATION_CFG'' app_key (Some ''$PKTGEN_TRIGGER_TIMER_PERIODIC'')
          [(''app_enable'', PBool True)]))
       (bnd (gets (\<lambda>s. d_time E (c_trace s))) (\<lambda>start_time.
        bnd (wait_generated n E start_time) (\<lambda>r.
        case r of None \<Rightarrow> ret None | Some _ \<Rightarrow> andthen (report_counters E) (ret (Some ()))))))))))"

section \<open>The configuration of a switch\<close>

text \<open>Every key is read, in this order, whether it is used or not. Where the code needs a number or a
  text the model demands one.\<close>

definition ring_keys :: "string list" where
  "ring_keys = [''mac_dst_addr'', ''mac_src_addr'', ''dummy_ip_addr'', ''port_speed'', ''port_fec'',
     ''loopback_port'', ''cpu_interface'', ''external_interface'', ''switch_ports'', ''cntrl_port'', ''cpu_port'',
     ''in_cntrl'', ''out_cntrl'', ''meta_circulate'', ''send_cntrl_pkt'', ''size_of_ring'', ''client_mac'', ''client_ip'',
     ''client_recv_port'', ''num_client_threads'', ''all_client_ips_and_ports'', ''switch_mac'', ''use_stor'',
     ''cli_d_port'', ''num_client_threads'', ''serv_d_port'', ''ipv4_table_entries'', ''num_shards'', ''shard_size'',
     ''start_view'', ''ports_to_ring_members'', ''cntrl_timeout'', ''ack_threshold'', ''payload_size'', ''all_shards'']"

record ring_config =
  rg_dst :: string
  rg_src :: string
  rg_ip :: string
  rg_speed :: pyval
  rg_fec :: pyval
  rg_loopback :: pyval
  rg_interface :: string
  rg_switch_ports :: "pyval list"
  rg_cntrl_port :: pyval
  rg_cpu_port :: int
  rg_in_cntrl :: int
  rg_out_cntrl :: pyval
  rg_size :: int
  rg_clients :: "pyval list"
  rg_members :: "int list"
  rg_payload_size :: int
  rg_shards :: "(pyval \<times> int list) list"

definition int_list :: "pyval \<Rightarrow> int list res" where
  "int_list v = ebind (py_iter v) (emap as_int)"

text \<open>An entry is a shard's number and its ports.\<close>

definition shard_entry :: "pyval \<Rightarrow> (pyval \<times> int list) res" where
  "shard_entry e =
     ebind (py_index e 0) (\<lambda>k. ebind (py_iter e) (\<lambda>xs.
     ebind (emap as_int (tl xs)) (\<lambda>ports. Inr (k, ports))))"

definition ring_config_of :: "pyval \<Rightarrow> ring_config res" where
  "ring_config_of data =
     ebind (emap (py_item data) ring_keys) (\<lambda>_.
     let str = (\<lambda>k. ebind (py_item data k) as_str); num = (\<lambda>k. ebind (py_item data k) as_int);
         items = (\<lambda>k. ebind (py_item data k) py_iter)
     in ebind (str ''mac_dst_addr'') (\<lambda>dst. ebind (str ''mac_src_addr'') (\<lambda>src.
        ebind (str ''dummy_ip_addr'') (\<lambda>ip. ebind (py_item data ''port_speed'') (\<lambda>speed.
        ebind (py_item data ''port_fec'') (\<lambda>fec. ebind (py_item data ''loopback_port'') (\<lambda>loopback.
        ebind (str ''cpu_interface'') (\<lambda>interface. ebind (items ''switch_ports'') (\<lambda>switch_ports.
        ebind (py_item data ''cntrl_port'') (\<lambda>cntrl_port. ebind (num ''cpu_port'') (\<lambda>cpu_port.
        ebind (num ''in_cntrl'') (\<lambda>in_cntrl. ebind (py_item data ''out_cntrl'') (\<lambda>out_cntrl.
        ebind (num ''size_of_ring'') (\<lambda>ring_size. ebind (items ''all_client_ips_and_ports'') (\<lambda>clients.
        ebind (ebind (py_item data ''ports_to_ring_members'') int_list) (\<lambda>members.
        ebind (num ''payload_size'') (\<lambda>payload_size.
        ebind (ebind (items ''all_shards'') (emap shard_entry)) (\<lambda>shards.
        Inr \<lparr>rg_dst = dst, rg_src = src, rg_ip = ip, rg_speed = speed, rg_fec = fec, rg_loopback = loopback,
             rg_interface = interface, rg_switch_ports = switch_ports, rg_cntrl_port = cntrl_port,
             rg_cpu_port = cpu_port, rg_in_cntrl = in_cntrl, rg_out_cntrl = out_cntrl, rg_size = ring_size,
             rg_clients = clients, rg_members = members, rg_payload_size = payload_size,
             rg_shards = dict_update [] shards\<rparr>))))))))))))))))))"

section \<open>A run\<close>

definition run_tables :: "string list" where
  "run_tables = [''$PORT'', ''$PORT_HDL_INFO'', ''$PORT_FP_IDX_INFO'', ''$PORT_STR_INFO'', ''$pre.mgid'', ''$pre.node'',
     ''$pre.ecmp'', ''$pre.lag'', ''$pre.prune'', ''$mirror.cfg'']"

text \<open>The attributes at the start of a run.\<close>

definition start_run :: "control \<Rightarrow> control" where
  "start_run s = s\<lparr>c_group_id := 1, c_sid := 1, c_streams := []\<rparr>"

definition setup_tables :: "dev_env \<Rightarrow> ring_config \<Rightarrow> unit ctl" where
  "setup_tables E c =
     andthen (setup_switch_ports E (rg_switch_ports c) (rg_loopback c) (rg_cntrl_port c) (rg_speed c) (rg_fec c) (rg_size c))
    (andthen (setup_circulate_table E (rg_loopback c))
    (andthen (setup_client_response_table E (rg_clients c))
    (andthen (setup_shard_multicast_groups E (rg_shards c))
    (andthen (setup_cntrl_table E (PInt (rg_in_cntrl c)) (rg_out_cntrl c) (rg_cntrl_port c))
    (andthen (setup_tail_table E (rg_size c) (rg_cntrl_port c))
    (andthen (setup_subscribe_routing_table E (rg_members c) (rg_cpu_port c))
     (setup_subscriber_acks_table E)))))))"

text \<open>The join at the end waits for the listener, whose loop ends only by an exception: a run whose listener
  failed comes back, and otherwise it keeps waiting. The frames are served at the join, because nothing
  between the start of the thread and the join touches what the listener uses.\<close>

datatype run_end = Looking | Waiting | Returned

definition join_listener :: "dev_env \<Rightarrow> received list \<Rightarrow> run_end ctl" where
  "join_listener E frames s =
     (case receive_pkt_from_tofino E frames s of (Inl e, t) \<Rightarrow> (Inr Returned, t) | (Inr u, t) \<Rightarrow> (Inr Waiting, t))"

definition runTest :: "nat \<Rightarrow> dev_env \<Rightarrow> received list \<Rightarrow> pyval \<Rightarrow> run_end ctl" where
  "runTest n E frames data =
     bnd (lift (py_item data ''device_number'')) (\<lambda>_.
     andthen (for_each (\<lambda>t. tell E (TableGet t)) run_tables)
    (andthen (modify start_run)
    (bnd (lift (ring_config_of data)) (\<lambda>c.
     andthen (setup_tables E c)
    (andthen (note_done StartThread)
    (andthen (note_done (Pause 2))
    (andthen (send_test_cntrl_packet E (rg_interface c) (rg_dst c) (rg_src c) (rg_ip c) (rg_in_cntrl c) 0)
    (bnd (setup_timer_pkt_gen n E (rg_dst c) (rg_src c) (rg_ip c) (rg_payload_size c)) (\<lambda>r.
     case r of None \<Rightarrow> ret Looking | Some _ \<Rightarrow> join_listener E frames)))))))))"

end
