(* ===== verification/Subscriptions.thy ===== *)
theory Subscriptions
  imports Ring_Control
begin

text \<open>
  The subscriptions of a switch (code/p4/failure_tests/failure.py, Ring_Control) against their
  abstract specification, the sorted list of the subscribers of each stream: what the calls on the
  switch amount to, the invariant that ties the objects of the control plane to the tables of the
  switch, and the refinement.
\<close>

section \<open>Runs of the operations\<close>

lemma some_list_simps [simp]: "some_list None = []" "some_list (Some xs) = xs"
  by (simp_all add: some_list_def)

text \<open>What an operation that got through did, on a switch that refuses to add an entry twice.\<close>

lemma tell_accepted:
  assumes "refuses_duplicates E" and "tell E a s = (Inr u, t)"
  shows "\<not> present (replay (c_trace s)) a" "t = s\<lparr>c_trace := c_trace s @ [(a, True)]\<rparr>"
  using assms unfolding refuses_duplicates_def tell_Inr by blast+

text \<open>The key a group's second entry has.\<close>

definition second_key :: "int \<Rightarrow> int" where
  "second_key g = (group_rid g AND 0xFFFF)"

lemma MCTree_run:
  assumes "refuses_duplicates E" and "MCTree E g s = (Inr mc, t)"
  shows "mc = length (c_trees s)" "dv_groups (replay (c_trace s)) g = None"
    "t = s\<lparr>c_trace := c_trace s @ [(EntryAdd ''$pre.mgid'' (mgid_key g) None [], True)],
           c_trees := c_trees s @ [\<lparr>m_mgid = g, m_nodes = []\<rparr>]\<rparr>"
  using assms tell_accepted [OF assms(1), of "EntryAdd ''$pre.mgid'' (mgid_key g) None []" s]
  by (auto simp: MCTree_def andthen_unit bnd_eq_Inr andthen_eq_Inr io_run mgid_key_def)

definition group_node :: "int \<Rightarrow> int \<Rightarrow> int \<Rightarrow> int list \<Rightarrow> l1_node" where
  "group_node g mgid i ports =
     \<lparr>n_rid = group_rid g, n_xid = Some (group_xid g), n_mgid = Some mgid, n_ports = sort ports, n_lags = [], n_id = i\<rparr>"

text \<open>The calls that make a node with its ports and put it into a group.\<close>

definition node_events :: "int \<Rightarrow> int \<Rightarrow> int \<Rightarrow> int list \<Rightarrow> event list" where
  "node_events g mgid i ports =
     (let n = group_node g mgid i ports
      in [(EntryAdd ''$pre.node'' (node_key i) None (node_data (n\<lparr>n_ports := []\<rparr>)), True),
          (EntryMod ''$pre.node'' (node_key i) None (node_data n), True),
          (EntryModInc ''$pre.mgid'' (mgid_key mgid) (member_data i True (group_xid g)) True, True)])"

lemma add_node_run:
  assumes "refuses_duplicates E" and "mc < length (c_trees s)"
    and "add_node E mc (group_rid g) (Some (group_xid g)) (Some ports) (Some []) s = (Inr (), t)"
  defines "i \<equiv> c_next_node s" and "mgid \<equiv> m_mgid (c_trees s ! mc)"
  shows "dv_nodes (replay (c_trace s)) i = None"
    "t = s\<lparr>c_trace := c_trace s @ node_events g mgid i ports, c_next_node := i + 1,
           c_nodes := c_nodes s @ [group_node g mgid i ports],
           c_trees := (c_trees s)[mc := (c_trees s ! mc)\<lparr>m_nodes := m_nodes (c_trees s ! mc) @ [length (c_nodes s)]\<rparr>]\<rparr>"
proof -
  let ?n = "\<lparr>n_rid = group_rid g, n_xid = None, n_mgid = None, n_ports = [], n_lags = [], n_id = i\<rparr>"
  let ?add = "EntryAdd ''$pre.node'' (node_key i) None (node_data ?n)"
  from assms(3) obtain s1 s2 a where
    new: "L1Node E (group_rid g) s = (Inr a, s1)" and add: "addMbrs E a (Some ports) (Some []) s1 = (Inr (), s2)"
    and rest: "andthen (associate E a (m_mgid (c_trees s2 ! mc)) (Some (group_xid g)))
      (upd_tree mc (\<lambda>m. m\<lparr>m_nodes := m_nodes m @ [a]\<rparr>)) s2 = (Inr (), t)"
    by (auto simp: add_node_def bnd_eq_Inr andthen_unit tree_at_def io_run)
  from new have told: "\<exists>u. tell E ?add (s\<lparr>c_next_node := i + 1\<rparr>) = (Inr (), u)"
    and s1: "a = length (c_nodes s)"
      "s1 = s\<lparr>c_next_node := i + 1, c_trace := c_trace s @ [(?add, True)], c_nodes := c_nodes s @ [?n]\<rparr>"
    by (auto simp: L1Node_def Let_def bnd_eq_Inr andthen_unit andthen_eq_Inr io_run tell_Inr i_def)
  from told tell_accepted(1) [OF assms(1)] have "\<not> present (replay (c_trace s)) ?add" by fastforce
  then show "dv_nodes (replay (c_trace s)) i = None" by (simp add: node_key_def)
  have s2: "s2 = s1\<lparr>c_nodes := c_nodes s @ [?n\<lparr>n_ports := sort ports\<rparr>],
      c_trace := c_trace s1 @ [(EntryMod ''$pre.node'' (node_key i) None (node_data (?n\<lparr>n_ports := sort ports\<rparr>)), True)]\<rparr>"
    using add s1
    by (auto simp: addMbrs_def andthen_unit upd_node_def node_at_def bnd_eq_Inr io_run tell_Inr nth_append assert_that_def)
  show "t = s\<lparr>c_trace := c_trace s @ node_events g mgid i ports, c_next_node := i + 1,
           c_nodes := c_nodes s @ [group_node g mgid i ports],
           c_trees := (c_trees s)[mc := (c_trees s ! mc)\<lparr>m_nodes := m_nodes (c_trees s ! mc) @ [length (c_nodes s)]\<rparr>]\<rparr>"
    using rest s1 s2
    by (auto simp: associate_def andthen_unit upd_node_def upd_tree_def node_at_def bnd_eq_Inr io_run tell_Inr
        nth_append node_events_def group_node_def mgid_def node_data_def member_data_def Let_def)
qed


lemma replay_append: "replay (xs @ ys) = fold (\<lambda>(a, ok) d. if ok then replay1 a d else d) ys (replay xs)"
  by (simp add: replay_def)

lemma ints_of_ints [simp]: "ints_of (Some (ints xs)) = xs"
  by (induction xs) (simp_all add: ints_def List.map_filter_def)

lemma replay_node_events:
  "replay (tr @ node_events g m i ports) = (let d = replay tr in
     d\<lparr>dv_nodes := (dv_nodes d)(i \<mapsto> sort ports),
       dv_groups := (dv_groups d)(m \<mapsto> some_list (dv_groups d m) @ [i])\<rparr>)"
  by (simp add: replay_append node_events_def Let_def group_node_def node_key_def node_data_def mgid_key_def
      member_data_def)

lemma replay_mgid:
  "replay (tr @ [(EntryAdd ''$pre.mgid'' (mgid_key g) act [], True)])
     = (replay tr)\<lparr>dv_groups := (dv_groups (replay tr))(g \<mapsto> [])\<rparr>"
  by (simp add: mgid_key_def)

lemma acks_table_run:
  assumes "setup_subscriber_acks_table E s = (Inr (), t)"
  obtains tr where "t = s\<lparr>c_trace := tr\<rparr>" "replay tr = replay (c_trace s)"
  using assms by (auto simp: setup_subscriber_acks_table_def andthen_unit tell_Inr replay_append)

definition session_events :: "int \<Rightarrow> int \<Rightarrow> int \<Rightarrow> int \<Rightarrow> event list" where
  "session_events sid st general g =
     [(EntryAdd ''$mirror.cfg'' [KExact ''$sid'' (PInt sid)] (Some ''$normal'') (session_data st general g), True),
      (EntryAdd ''MyIngress.route_subscriber_acks'' [KExact ''hdr.append.stream_id'' (PInt st)]
        (Some ''MyIngress.forward_to_subscribers'') [(''mirror_session_id'', PInt sid)], True)]"

lemma replay_session_events:
  "replay (tr @ session_events sid st general g) = (let d = replay tr in
     d\<lparr>dv_mirror := (dv_mirror d)(sid \<mapsto> (general, if st = 0 then None else Some g)),
       dv_acks := (dv_acks d)(st \<mapsto> sid)\<rparr>)"
  by (simp add: replay_append session_events_def Let_def session_data_def session_of_def the_int_def)

lemma open_session_run:
  assumes "refuses_duplicates E" and "open_session E st g s = (Inr (), t)"
  shows "\<exists>general. c_general_group s = Some general \<and> dv_mirror (replay (c_trace s)) (c_sid s) = None
     \<and> dv_acks (replay (c_trace s)) st = None
     \<and> t = s\<lparr>c_trace := c_trace s @ session_events (c_sid s) st general g, c_group_id := c_group_id s + 1,
           c_sid := c_sid s + 1\<rparr>"
proof -
  let ?mirror = "EntryAdd ''$mirror.cfg'' [KExact ''$sid'' (PInt (c_sid s))] (Some ''$normal'')"
  let ?acks = "EntryAdd ''MyIngress.route_subscriber_acks'' [KExact ''hdr.append.stream_id'' (PInt st)]
    (Some ''MyIngress.forward_to_subscribers'') [(''mirror_session_id'', PInt (c_sid s))]"
  from assms(2) obtain general s1 s2 where general: "c_general_group s = Some general"
    and 1: "tell E (?mirror (session_data st general g)) s = (Inr (), s1)" and 2: "tell E ?acks s1 = (Inr (), s2)"
    and t: "t = s2\<lparr>c_group_id := c_group_id s2 + 1, c_sid := c_sid s + 1\<rparr>"
    by (cases "c_general_group s") (auto simp: open_session_def andthen_unit bnd_eq_Inr io_run next_group_def)
  note tell_accepted [OF assms(1) 1] tell_accepted [OF assms(1) 2]
  with general t show ?thesis by (cases "dv_mirror (replay (c_trace s)) (c_sid s)") (auto simp: session_events_def)
qed


text \<open>The attributes and the tables after a new stream was served.\<close>

lemma new_stream_steps:
  assumes "new_stream E st p s = (Inr (), t)"
  obtains s1 s2 mc s3 s4 s5 where
    "setup_subscriber_acks_table E s = (Inr (), s1)" "MCTree E (c_group_id s1) s1 = (Inr mc, s2)"
    "s3 = s2\<lparr>c_general_group := if st = 0 then Some (c_group_id s1) else c_general_group s2\<rparr>"
    "add_node E mc (group_rid (c_group_id s1)) (Some (group_xid (c_group_id s1))) (Some [p]) (Some []) s3 = (Inr (), s4)"
    "rid_entry E (c_group_id s1) (s4\<lparr>c_streams := dict_put st mc (c_streams s4)\<rparr>) = (Inr (), s5)"
    "open_session E st (c_group_id s1) s5 = (Inr (), t)"
proof -
  from assms obtain s1 where 1: "setup_subscriber_acks_table E s = (Inr (), s1)"
    and r1: "bnd (gets c_group_id) (\<lambda>g.
     bnd (MCTree E g) (\<lambda>mc.
     andthen (if st = 0 then modify (\<lambda>s. s\<lparr>c_general_group := Some g\<rparr>) else ret ())
    (andthen (add_node E mc (group_rid g) (Some (group_xid g)) (Some [p]) (Some []))
    (andthen (modify (\<lambda>s. s\<lparr>c_streams := dict_put st mc (c_streams s)\<rparr>))
    (andthen (rid_entry E g)
     (open_session E st g)))))) s1 = (Inr (), t)"
    unfolding new_stream_def andthen_unit by blast
  define g where "g = c_group_id s1"
  from r1 obtain mc s2 where 2: "MCTree E g s1 = (Inr mc, s2)"
    and r2: "andthen (if st = 0 then modify (\<lambda>s. s\<lparr>c_general_group := Some g\<rparr>) else ret ())
    (andthen (add_node E mc (group_rid g) (Some (group_xid g)) (Some [p]) (Some []))
    (andthen (modify (\<lambda>s. s\<lparr>c_streams := dict_put st mc (c_streams s)\<rparr>))
    (andthen (rid_entry E g)
     (open_session E st g)))) s2 = (Inr (), t)"
    by (auto simp: bnd_eq_Inr io_run g_def [symmetric])
  define s3 where "s3 = s2\<lparr>c_general_group := if st = 0 then Some g else c_general_group s2\<rparr>"
  from r2 obtain s4 s5 where
    "add_node E mc (group_rid g) (Some (group_xid g)) (Some [p]) (Some []) s3 = (Inr (), s4)"
    "rid_entry E g (s4\<lparr>c_streams := dict_put st mc (c_streams s4)\<rparr>) = (Inr (), s5)"
    "open_session E st g s5 = (Inr (), t)"
    by (auto simp: andthen_unit io_run s3_def split: if_splits)
  with 1 2 s3_def that show ?thesis unfolding g_def by blast
qed


definition general_after :: "control \<Rightarrow> int \<Rightarrow> int \<Rightarrow> int option" where
  "general_after s st g = (if st = 0 then Some g else c_general_group s)"

lemma new_stream_run:
  assumes E: "refuses_duplicates E" and "new_stream E st p s = (Inr (), t)"
  defines "g \<equiv> c_group_id s" and "i \<equiv> c_next_node s" and "sid \<equiv> c_sid s" and "d \<equiv> replay (c_trace s)"
  shows "dv_nodes d i = None" "dv_groups d g = None" "second_key g \<noteq> g" "dv_groups d (second_key g) = None"
    "dv_mirror d sid = None" "dv_acks d st = None"
    "\<exists>general. general_after s st g = Some general \<and> replay (c_trace t) = d\<lparr>dv_nodes := (dv_nodes d)(i \<mapsto> [p]),
         dv_groups := (dv_groups d)(g \<mapsto> [i], second_key g \<mapsto> []),
         dv_mirror := (dv_mirror d)(sid \<mapsto> (general, if st = 0 then None else Some g)),
         dv_acks := (dv_acks d)(st \<mapsto> sid)\<rparr>"
    "t = s\<lparr>c_trace := c_trace t, c_next_node := i + 1, c_nodes := c_nodes s @ [group_node g g i [p]],
       c_trees := c_trees s @ [\<lparr>m_mgid = g, m_nodes = [length (c_nodes s)]\<rparr>],
       c_group_id := g + 1, c_sid := sid + 1, c_general_group := general_after s st g,
       c_streams := dict_put st (length (c_trees s)) (c_streams s)\<rparr>"
proof -
  from new_stream_steps [OF assms(2)] obtain s1 s2 mc s3 s4 s5 where
    acks: "setup_subscriber_acks_table E s = (Inr (), s1)" and tree: "MCTree E (c_group_id s1) s1 = (Inr mc, s2)"
    and s3: "s3 = s2\<lparr>c_general_group := if st = 0 then Some (c_group_id s1) else c_general_group s2\<rparr>"
    and node: "add_node E mc (group_rid (c_group_id s1)) (Some (group_xid (c_group_id s1))) (Some [p]) (Some []) s3
      = (Inr (), s4)"
    and rid: "rid_entry E (c_group_id s1) (s4\<lparr>c_streams := dict_put st mc (c_streams s4)\<rparr>) = (Inr (), s5)"
    and session: "open_session E st (c_group_id s1) s5 = (Inr (), t)" .
  obtain tr where s1: "s1 = s\<lparr>c_trace := tr\<rparr>" and tr: "replay tr = d"
    using acks_table_run [OF acks] unfolding d_def by blast
  define m where "m = EntryAdd ''$pre.mgid'' (mgid_key g) None []"
  from MCTree_run [OF E tree] tr have mc: "mc = length (c_trees s)" and "dv_groups d g = None"
    and s2: "s2 = s\<lparr>c_trace := tr @ [(m, True)], c_trees := c_trees s @ [\<lparr>m_mgid = g, m_nodes = []\<rparr>]\<rparr>"
    by (simp_all add: s1 g_def m_def)
  from s3 have s3': "s3 = s\<lparr>c_trace := tr @ [(m, True)], c_trees := c_trees s @ [\<lparr>m_mgid = g, m_nodes = []\<rparr>],
      c_general_group := general_after s st g\<rparr>"
    by (simp add: s2 s1 general_after_def g_def)
  have d2: "replay (tr @ [(m, True)]) = d\<lparr>dv_groups := (dv_groups d)(g \<mapsto> [])\<rparr>"
    unfolding m_def replay_mgid tr ..
  have "mc < length (c_trees s3)" by (simp add: s3' mc)
  note run4 = add_node_run [OF E this, of "c_group_id s1" "[p]" s4, OF node]
  from run4(1) show node_new: "dv_nodes d i = None" by (simp add: s3' i_def m_def mgid_key_def tr)
  from run4(2) have s4: "s4 = s\<lparr>c_trace := (tr @ [(m, True)]) @ node_events g g i [p], c_next_node := i + 1,
      c_nodes := c_nodes s @ [group_node g g i [p]],
      c_trees := c_trees s @ [\<lparr>m_mgid = g, m_nodes = [length (c_nodes s)]\<rparr>],
      c_general_group := general_after s st g\<rparr>"
    by (simp add: s3' s1 g_def [symmetric] i_def [symmetric] mc)
  have d4: "replay ((tr @ [(m, True)]) @ node_events g g i [p])
      = d\<lparr>dv_nodes := (dv_nodes d)(i \<mapsto> [p]), dv_groups := (dv_groups d)(g \<mapsto> [i])\<rparr>"
    unfolding replay_node_events d2 by (simp add: Let_def)
  define r where "r = EntryAdd ''$pre.mgid'' (mgid_key (second_key g)) None []"
  let ?tr4 = "(tr @ [(m, True)]) @ node_events g g i [p]"
  have "tell E r (s4\<lparr>c_streams := dict_put st mc (c_streams s4)\<rparr>) = (Inr (), s5)"
    using rid by (simp add: rid_entry_def r_def second_key_def s1 g_def)
  note run5 = tell_accepted [OF E this]
  from run5(1) have "dv_groups (replay ?tr4) (second_key g) = None"
    by (simp add: r_def mgid_key_def s4 del: append_assoc)
  then show "second_key g \<noteq> g" "dv_groups d (second_key g) = None"
    unfolding d4 by (auto split: if_splits)
  have s5: "s5 = s\<lparr>c_trace := ?tr4 @ [(r, True)], c_next_node := i + 1,
      c_nodes := c_nodes s @ [group_node g g i [p]],
      c_trees := c_trees s @ [\<lparr>m_mgid = g, m_nodes = [length (c_nodes s)]\<rparr>],
      c_general_group := general_after s st g, c_streams := dict_put st (length (c_trees s)) (c_streams s)\<rparr>"
    using run5(2) by (simp add: s4 mc)
  have d5: "replay (?tr4 @ [(r, True)])
      = d\<lparr>dv_nodes := (dv_nodes d)(i \<mapsto> [p]), dv_groups := (dv_groups d)(g \<mapsto> [i], second_key g \<mapsto> [])\<rparr>"
    unfolding r_def replay_mgid d4 by simp
  have trace5: "c_trace s5 = ?tr4 @ [(r, True)]" by (simp add: s5)
  from open_session_run [OF E session] obtain general where
    general: "general_after s st g = Some general" and fresh: "dv_mirror d sid = None" "dv_acks d st = None"
    and t: "t = s5\<lparr>c_trace := c_trace s5 @ session_events sid st general g, c_group_id := g + 1, c_sid := sid + 1\<rparr>"
    unfolding trace5 d5 by (auto simp: s5 sid_def g_def s1)
  show "dv_mirror d sid = None" "dv_acks d st = None" "dv_groups d g = None" by fact+
  show "t = s\<lparr>c_trace := c_trace t, c_next_node := i + 1, c_nodes := c_nodes s @ [group_node g g i [p]],
       c_trees := c_trees s @ [\<lparr>m_mgid = g, m_nodes = [length (c_nodes s)]\<rparr>],
       c_group_id := g + 1, c_sid := sid + 1, c_general_group := general_after s st g,
       c_streams := dict_put st (length (c_trees s)) (c_streams s)\<rparr>"
    by (simp add: t s5)
  have "replay (c_trace t) = d\<lparr>dv_nodes := (dv_nodes d)(i \<mapsto> [p]),
         dv_groups := (dv_groups d)(g \<mapsto> [i], second_key g \<mapsto> []),
         dv_mirror := (dv_mirror d)(sid \<mapsto> (general, if st = 0 then None else Some g)),
         dv_acks := (dv_acks d)(st \<mapsto> sid)\<rparr>"
    by (simp add: t trace5 replay_session_events d5 Let_def del: append_assoc replay_snoc)
  with general show "\<exists>general. general_after s st g = Some general \<and> replay (c_trace t) = d\<lparr>dv_nodes := (dv_nodes d)(i \<mapsto> [p]),
         dv_groups := (dv_groups d)(g \<mapsto> [i], second_key g \<mapsto> []),
         dv_mirror := (dv_mirror d)(sid \<mapsto> (general, if st = 0 then None else Some g)),
         dv_acks := (dv_acks d)(st \<mapsto> sid)\<rparr>"
    by blast
qed


text \<open>Serving a stream that has its group.\<close>

lemma addMbrs_run:
  assumes "a < length (c_nodes s)" and "addMbrs E a (Some [p]) (Some []) s = (Inr (), t)"
  defines "n \<equiv> c_nodes s ! a" and "d \<equiv> replay (c_trace s)"
  shows "replay (c_trace t) = d\<lparr>dv_nodes := (dv_nodes d)(n_id n \<mapsto> sort (n_ports n @ [p]))\<rparr>"
    "t = s\<lparr>c_trace := c_trace t,
       c_nodes := (c_nodes s)[a := n\<lparr>n_ports := sort (n_ports n @ [p]), n_lags := sort (n_lags n)\<rparr>]\<rparr>"
proof -
  let ?n = "n\<lparr>n_ports := sort (n_ports n @ [p]), n_lags := sort (n_lags n)\<rparr>"
  have t: "t = s\<lparr>c_trace := c_trace s @ [(EntryMod ''$pre.node'' (node_key (n_id n)) None (node_data ?n), True)],
      c_nodes := (c_nodes s)[a := ?n]\<rparr>"
    using assms(1,2) by (auto simp: addMbrs_def andthen_unit upd_node_def node_at_def bnd_eq_Inr io_run tell_Inr
        assert_that_def n_def)
  from t show "t = s\<lparr>c_trace := c_trace t, c_nodes := (c_nodes s)[a := ?n]\<rparr>" by simp
  from t show "replay (c_trace t) = d\<lparr>dv_nodes := (dv_nodes d)(n_id n \<mapsto> sort (n_ports n @ [p]))\<rparr>"
    by (simp add: d_def node_key_def node_data_def)
qed

section \<open>The streams\<close>

text \<open>The specification keeps the ports that subscribed to each stream. The switch sends the packets of
  a stream to both groups of the stream's mirror session: the general group and, for a stream other than 0,
  the group of its own subscribers.\<close>

type_synonym subscriptions = "int \<rightharpoonup> int list"

definition subscribe :: "int \<Rightarrow> int \<Rightarrow> subscriptions \<Rightarrow> subscriptions" where
  "subscribe st p A = A(st \<mapsto> some_list (A st) @ [p])"

definition group_ports :: "device \<Rightarrow> int \<Rightarrow> int list" where
  "group_ports d g = concat (map (\<lambda>i. some_list (dv_nodes d i)) (some_list (dv_groups d g)))"

definition session_at :: "device \<Rightarrow> int \<Rightarrow> (int \<times> int option) option" where
  "session_at d st = Option.bind (dv_acks d st) (dv_mirror d)"

definition leaving :: "device \<Rightarrow> int \<Rightarrow> (int list \<times> int list) option" where
  "leaving d st = map_option (\<lambda>(general, own).
     (group_ports d general, case own of None \<Rightarrow> [] | Some g \<Rightarrow> group_ports d g)) (session_at d st)"

lemma session_nodes [simp]: "session_at (d\<lparr>dv_nodes := m\<rparr>) st = session_at d st"
  by (simp add: session_at_def)

text \<open>The session of a stream whose own group is \<open>g\<close>.\<close>

definition own_session :: "device \<Rightarrow> int \<Rightarrow> int \<Rightarrow> bool" where
  "own_session d st g \<longleftrightarrow>
     (\<exists>general. session_at d st = Some (general, if st = 0 then None else Some g) \<and> (st = 0 \<longrightarrow> general = g))"

lemma own_session_nodes [simp]: "own_session (d\<lparr>dv_nodes := m\<rparr>) st g = own_session d st g"
  by (simp add: own_session_def)

text \<open>The objects of a stream that was served, and the tables they stand for.\<close>

definition the_tree :: "control \<Rightarrow> int \<Rightarrow> mc_tree" where
  "the_tree s st = c_trees s ! the (dict_get (c_streams s) st)"

definition the_node :: "control \<Rightarrow> int \<Rightarrow> nat" where
  "the_node s st = hd (m_nodes (the_tree s st))"

definition serves :: "control \<Rightarrow> int \<Rightarrow> int list \<Rightarrow> bool" where
  "serves s st ps \<longleftrightarrow>
     (\<exists>mc. dict_get (c_streams s) st = Some mc \<and> mc < length (c_trees s)) \<and>
     m_nodes (the_tree s st) = [the_node s st] \<and> the_node s st < length (c_nodes s) \<and>
     (let n = c_nodes s ! the_node s st; d = replay (c_trace s)
      in n_ports n = sort ps \<and> dv_nodes d (n_id n) = Some (sort ps) \<and>
         dv_groups d (m_mgid (the_tree s st)) = Some [n_id n] \<and> own_session d st (m_mgid (the_tree s st)))"

definition simulates :: "control \<Rightarrow> subscriptions \<Rightarrow> bool" where
  "simulates s A \<longleftrightarrow>
     (\<forall>st. case A st of
       None \<Rightarrow> dict_get (c_streams s) st = None \<and> dv_acks (replay (c_trace s)) st = None
     | Some ps \<Rightarrow> serves s st ps) \<and>
     inj_on (\<lambda>st. n_id (c_nodes s ! the_node s st)) (dom A)"

lemma simulatesD:
  assumes "simulates s A"
  shows "A st = Some ps \<Longrightarrow> serves s st ps" "A st = None \<Longrightarrow> dict_get (c_streams s) st = None"
    "A st = None \<Longrightarrow> dv_acks (replay (c_trace s)) st = None"
    "inj_on (\<lambda>st. n_id (c_nodes s ! the_node s st)) (dom A)"
  using assms unfolding simulates_def by (metis option.simps(4,5))+

lemma serves_group_ports:
  assumes "serves s st ps"
  shows "group_ports (replay (c_trace s)) (m_mgid (the_tree s st)) = sort ps"
  using assms by (auto simp: serves_def group_ports_def some_list_def Let_def)


text \<open>What a request leaves alone: a stream served before keeps its tree and its node, and its entries
  are as they were when the request made only entries of its own.\<close>

lemma serves_new:
  assumes E: "refuses_duplicates E" and run: "new_stream E st p s = (Inr (), t)" and old: "serves s st' ps"
    and other: "st' \<noteq> st"
  shows "serves t st' ps" "the_tree t st' = the_tree s st'" "the_node t st' = the_node s st'"
    "c_nodes t ! the_node t st' = c_nodes s ! the_node s st'"
    "session_at (replay (c_trace t)) st' = session_at (replay (c_trace s)) st'"
proof -
  let ?d = "replay (c_trace s)"
  note new = new_stream_run [OF E run]
  from new(7) obtain general where d: "replay (c_trace t) = ?d\<lparr>dv_nodes := (dv_nodes ?d)(c_next_node s \<mapsto> [p]),
         dv_groups := (dv_groups ?d)(c_group_id s \<mapsto> [c_next_node s], second_key (c_group_id s) \<mapsto> []),
         dv_mirror := (dv_mirror ?d)(c_sid s \<mapsto> (general, if st = 0 then None else Some (c_group_id s))),
         dv_acks := (dv_acks ?d)(st \<mapsto> c_sid s)\<rparr>" by blast
  have t: "c_nodes t = c_nodes s @ [group_node (c_group_id s) (c_group_id s) (c_next_node s) [p]]"
    "c_trees t = c_trees s @ [\<lparr>m_mgid = c_group_id s, m_nodes = [length (c_nodes s)]\<rparr>]"
    "c_streams t = dict_put st (length (c_trees s)) (c_streams s)"
    by (subst new(8), simp)+
  have streams: "dict_get (c_streams t) st' = dict_get (c_streams s) st'" using other by (simp add: t dict_simps)
  show tree: "the_tree t st' = the_tree s st'"
    using old other by (auto simp: the_tree_def serves_def t nth_append dict_simps)
  then show node: "the_node t st' = the_node s st'" by (simp add: the_node_def)
  show same: "c_nodes t ! the_node t st' = c_nodes s ! the_node s st'"
    using old by (simp add: node t nth_append serves_def)
  from old obtain sid where sid: "dv_acks ?d st' = Some sid" "dv_mirror ?d sid \<noteq> None"
    by (auto simp: serves_def own_session_def session_at_def Let_def bind_eq_Some_conv)
  with new(5) have "sid \<noteq> c_sid s" by auto
  with sid other show session: "session_at (replay (c_trace t)) st' = session_at ?d st'"
    by (simp add: session_at_def d)
  then have "own_session (replay (c_trace t)) st' g = own_session ?d st' g" for g
    by (simp add: own_session_def)
  with old new(1,2,4) other show "serves t st' ps"
    unfolding serves_def tree node same by (auto simp: t(1,2) t(3) [symmetric] d Let_def streams nth_append)
qed


lemma serves_self:
  assumes E: "refuses_duplicates E" and run: "new_stream E st p s = (Inr (), t)"
  shows "serves t st [p]" "n_id (c_nodes t ! the_node t st) = c_next_node s"
proof -
  let ?d = "replay (c_trace s)"
  note new = new_stream_run [OF E run]
  from new(7) obtain general where d: "replay (c_trace t) = ?d\<lparr>dv_nodes := (dv_nodes ?d)(c_next_node s \<mapsto> [p]),
         dv_groups := (dv_groups ?d)(c_group_id s \<mapsto> [c_next_node s], second_key (c_group_id s) \<mapsto> []),
         dv_mirror := (dv_mirror ?d)(c_sid s \<mapsto> (general, if st = 0 then None else Some (c_group_id s))),
         dv_acks := (dv_acks ?d)(st \<mapsto> c_sid s)\<rparr>" and g: "general_after s st (c_group_id s) = Some general" by blast
  have t: "c_nodes t = c_nodes s @ [group_node (c_group_id s) (c_group_id s) (c_next_node s) [p]]"
    "c_trees t = c_trees s @ [\<lparr>m_mgid = c_group_id s, m_nodes = [length (c_nodes s)]\<rparr>]"
    "c_streams t = dict_put st (length (c_trees s)) (c_streams s)"
    by (subst new(8), simp)+
  have tree: "the_tree t st = \<lparr>m_mgid = c_group_id s, m_nodes = [length (c_nodes s)]\<rparr>"
    by (simp add: the_tree_def t dict_simps)
  then have node: "the_node t st = length (c_nodes s)" by (simp add: the_node_def)
  show "n_id (c_nodes t ! the_node t st) = c_next_node s" by (simp add: node t group_node_def)
  show "serves t st [p]"
    using new(3) g by (auto simp: serves_def node tree own_session_def session_at_def t d Let_def dict_simps group_node_def general_after_def)
qed

lemma serves_member:
  assumes run: "addMbrs E (the_node s st) (Some [p]) (Some []) s = (Inr (), t)" and self: "serves s st qs"
    and old: "serves s st' ps"
    and other: "st' \<noteq> st \<longrightarrow> n_id (c_nodes s ! the_node s st') \<noteq> n_id (c_nodes s ! the_node s st)"
  shows "serves t st' (if st' = st then ps @ [p] else ps)"
    "n_id (c_nodes t ! the_node t st') = n_id (c_nodes s ! the_node s st')" "c_streams t = c_streams s"
proof -
  let ?d = "replay (c_trace s)" and ?a = "the_node s st"
  let ?n = "c_nodes s ! ?a"
  from self have a: "?a < length (c_nodes s)" by (simp add: serves_def)
  note add = addMbrs_run [OF a run]
  have t: "c_nodes t = (c_nodes s)[?a := ?n\<lparr>n_ports := sort (n_ports ?n @ [p]), n_lags := sort (n_lags ?n)\<rparr>]"
    "c_trees t = c_trees s" "c_streams t = c_streams s"
    by (subst add(2), simp)+
  have tree: "the_tree t = the_tree s" "the_node t = the_node s" by (simp_all add: fun_eq_iff the_node_def the_tree_def t)
  show "c_streams t = c_streams s" by (rule t(3))
  show "n_id (c_nodes t ! the_node t st') = n_id (c_nodes s ! the_node s st')"
    using a by (cases "the_node s st' = ?a") (simp_all add: t tree)
  show "serves t st' (if st' = st then ps @ [p] else ps)"
  proof (cases "st' = st")
    case True
    with old a show ?thesis
      by (auto simp: serves_def tree t add(1) Let_def sort_snoc_sorted)
  next
    case False
    with other have "the_node s st' \<noteq> ?a" by auto
    with False old other show ?thesis
      by (auto simp: serves_def tree t add(1) Let_def)
  qed
qed


lemma simulates_new:
  assumes E: "refuses_duplicates E" and sim: "simulates s A" and fresh: "A st = None"
    and run: "new_stream E st p s = (Inr (), t)"
  shows "simulates t (subscribe st p A)"
proof -
  have served: "serves s st' ps" if "A st' = Some ps" for st' ps
    using simulatesD(1) [OF sim that] .
  have old: "serves t st' ps" "c_nodes t ! the_node t st' = c_nodes s ! the_node s st'" if "A st' = Some ps" for st' ps
    using serves_new(1,4) [OF E run served [OF that]] that fresh by (metis option.distinct(1))+
  note self = serves_self [OF E run]
  have "c_streams t = dict_put st (length (c_trees s)) (c_streams s)"
    by (subst new_stream_run(8) [OF E run], simp)
  then have none: "dict_get (c_streams t) st' = None" if "A st' = None" "st' \<noteq> st" for st'
    using simulatesD(2) [OF sim] that by (simp add: dict_simps)
  have acks: "dv_acks (replay (c_trace t)) st' = None" if "A st' = None" "st' \<noteq> st" for st'
    using simulatesD(3) [OF sim that(1)] new_stream_run(7) [OF E run] that(2) by auto
  have "n_id (c_nodes s ! the_node s st') \<noteq> c_next_node s" if "A st' = Some ps" for st' ps
    using served [OF that] new_stream_run(1) [OF E run] by (auto simp: serves_def Let_def)
  then have "inj_on (\<lambda>st. n_id (c_nodes t ! the_node t st)) (insert st (dom A))"
    using sim old(2) self(2) unfolding simulates_def inj_on_def by (metis domD domIff fresh insertE)
  then show ?thesis
    using old(1) self(1) none acks fresh unfolding simulates_def subscribe_def
    by (auto split: option.splits)
qed

lemma simulates_member:
  assumes sim: "simulates s A" and old: "A st = Some qs"
    and run: "addMbrs E (the_node s st) (Some [p]) (Some []) s = (Inr (), t)"
  shows "simulates t (subscribe st p A)"
proof -
  have served: "serves s st' ps" if "A st' = Some ps" for st' ps
    using simulatesD(1) [OF sim that] .
  have inj: "inj_on (\<lambda>st. n_id (c_nodes s ! the_node s st)) (dom A)" using simulatesD(4) [OF sim] .
  have apart: "st' \<noteq> st \<longrightarrow> n_id (c_nodes s ! the_node s st') \<noteq> n_id (c_nodes s ! the_node s st)"
    if "A st' = Some ps" for st' ps
    using inj that old unfolding inj_on_def by blast
  note member = serves_member [OF run served [OF old]]
  have new: "serves t st' (if st' = st then ps @ [p] else ps)"
    "n_id (c_nodes t ! the_node t st') = n_id (c_nodes s ! the_node s st')" if "A st' = Some ps" for st' ps
    using member(1,2) [OF served apart, OF that that] by blast+
  have "c_streams t = c_streams s" using member(3) [OF served apart, OF old old] .
  then have none: "dict_get (c_streams t) st' = None" if "A st' = None" for st'
    using simulatesD(2) [OF sim that] by simp
  have "the_node s st < length (c_nodes s)" using served [OF old] by (simp add: serves_def)
  from addMbrs_run(1) [OF this run] have acks: "dv_acks (replay (c_trace t)) st' = None" if "A st' = None" for st'
    using simulatesD(3) [OF sim that] by simp
  have "inj_on (\<lambda>st. n_id (c_nodes t ! the_node t st)) (dom A)"
    using inj new(2) unfolding inj_on_def by (metis domD)
  moreover have "dom (subscribe st p A) = dom A" using old by (auto simp: subscribe_def)
  moreover have "serves t st (qs @ [p])" using new(1) [OF old] by simp
  moreover have "serves t st' ps" if "A st' = Some ps" "st' \<noteq> st" for st' ps using new(1) [OF that(1)] that(2) by simp
  ultimately show ?thesis
    using none acks old unfolding simulates_def by (auto simp: subscribe_def split: option.splits)
qed

text \<open>A request for a stream that has its group is served by its node.\<close>

lemma update_member:
  assumes sim: "simulates s A" and old: "A st = Some qs"
    and run: "update_stream_subscriber_table E st p s = (Inr (), t)"
  shows "addMbrs E (the_node s st) (Some [p]) (Some []) s = (Inr (), t)"
proof -
  from simulatesD(1) [OF sim old] obtain mc where mc: "dict_get (c_streams s) st = Some mc" "mc < length (c_trees s)"
    and nodes: "m_nodes (c_trees s ! mc) = [the_node s st]"
    by (auto simp: serves_def the_tree_def)
  have "get_first_node mc s = (Inr (the_node s st), s)"
    by (simp add: get_first_node_def tree_at_def io_run nodes py_nth_def from_end_def)
  with run mc show ?thesis
    by (simp add: update_stream_subscriber_table_def bnd_eq_Inr io_run)
qed

lemma simulates_update:
  assumes E: "refuses_duplicates E" and sim: "simulates s A"
    and run: "update_stream_subscriber_table E st p s = (Inr (), t)"
  shows "simulates t (subscribe st p A)"
proof (cases "A st")
  case None
  with simulatesD(2) [OF sim] have "dict_get (c_streams s) st = None" .
  with run have "new_stream E st p s = (Inr (), t)"
    by (simp add: update_stream_subscriber_table_def bnd_eq_Inr io_run)
  from simulates_new [OF E sim None this] show ?thesis .
next
  case (Some qs)
  from simulates_member [OF sim Some update_member [OF sim Some run]] show ?thesis .
qed

section \<open>The general group\<close>

text \<open>The general group is the group of all members until stream 0 has one of its own; a session names
  the general group of its time. \<open>late\<close> holds of the streams that were new after stream 0.\<close>

definition streams_routed :: "int \<Rightarrow> int list \<Rightarrow> (int \<Rightarrow> bool) \<Rightarrow> control \<Rightarrow> subscriptions \<Rightarrow> bool" where
  "streams_routed g0 members late s A \<longleftrightarrow> (let d = replay (c_trace s) in
     (\<exists>i. dv_groups d g0 = Some [i] \<and> dv_nodes d i = Some (sort members)
        \<and> (\<forall>st ps. A st = Some ps \<longrightarrow> n_id (c_nodes s ! the_node s st) \<noteq> i))
     \<and> c_general_group s = Some (if A 0 = None then g0 else m_mgid (the_tree s 0))
     \<and> (\<forall>st ps. A st = Some ps \<longrightarrow> (late st \<longrightarrow> A 0 \<noteq> None)
        \<and> map_option fst (session_at d st) = Some (if st = 0 \<or> late st then m_mgid (the_tree s 0) else g0)))"

lemma routedE:
  assumes "streams_routed g0 members late s A"
  obtains i where "dv_groups (replay (c_trace s)) g0 = Some [i]" "dv_nodes (replay (c_trace s)) i = Some (sort members)"
    "\<forall>st ps. A st = Some ps \<longrightarrow> n_id (c_nodes s ! the_node s st) \<noteq> i"
    "c_general_group s = Some (if A 0 = None then g0 else m_mgid (the_tree s 0))"
    "\<forall>st ps. A st = Some ps \<longrightarrow> late st \<longrightarrow> A 0 \<noteq> None"
    "\<forall>st ps. A st = Some ps \<longrightarrow> map_option fst (session_at (replay (c_trace s)) st)
       = Some (if st = 0 \<or> late st then m_mgid (the_tree s 0) else g0)"
  using assms unfolding streams_routed_def Let_def by blast

lemma routedI:
  assumes "dv_groups (replay (c_trace s)) g0 = Some [i]" "dv_nodes (replay (c_trace s)) i = Some (sort members)"
    "\<And>st ps. A st = Some ps \<Longrightarrow> n_id (c_nodes s ! the_node s st) \<noteq> i"
    "c_general_group s = Some (if A 0 = None then g0 else m_mgid (the_tree s 0))"
    "\<And>st ps. A st = Some ps \<Longrightarrow> late st \<Longrightarrow> A 0 \<noteq> None"
    "\<And>st ps. A st = Some ps \<Longrightarrow> map_option fst (session_at (replay (c_trace s)) st)
       = Some (if st = 0 \<or> late st then m_mgid (the_tree s 0) else g0)"
  shows "streams_routed g0 members late s A"
  using assms unfolding streams_routed_def Let_def by blast

lemma routed_cong: "streams_routed g0 members late s A \<Longrightarrow> (\<And>st ps. A st = Some ps \<Longrightarrow> late st = late' st) \<Longrightarrow> streams_routed g0 members late' s A"
proof -
  assume late: "\<And>st ps. A st = Some ps \<Longrightarrow> late st = late' st"
  assume "streams_routed g0 members late s A"
  then obtain i where i: "dv_groups (replay (c_trace s)) g0 = Some [i]" "dv_nodes (replay (c_trace s)) i = Some (sort members)"
    "\<forall>st ps. A st = Some ps \<longrightarrow> n_id (c_nodes s ! the_node s st) \<noteq> i"
    "c_general_group s = Some (if A 0 = None then g0 else m_mgid (the_tree s 0))"
    and rest: "\<forall>st ps. A st = Some ps \<longrightarrow> late st \<longrightarrow> A 0 \<noteq> None"
      "\<forall>st ps. A st = Some ps \<longrightarrow> map_option fst (session_at (replay (c_trace s)) st)
       = Some (if st = 0 \<or> late st then m_mgid (the_tree s 0) else g0)" by (rule routedE)
  show ?thesis
  proof (rule routedI)
    show "dv_groups (replay (c_trace s)) g0 = Some [i]" "dv_nodes (replay (c_trace s)) i = Some (sort members)"
      "c_general_group s = Some (if A 0 = None then g0 else m_mgid (the_tree s 0))" by (fact i)+
    fix st ps assume A: "A st = Some ps"
    from i(3) A show "n_id (c_nodes s ! the_node s st) \<noteq> i" by blast
    from rest(1) A late [OF A] show "A 0 \<noteq> None" if "late' st" using that by metis
    from rest(2) A have "map_option fst (session_at (replay (c_trace s)) st)
       = Some (if st = 0 \<or> late st then m_mgid (the_tree s 0) else g0)" by blast
    then show "map_option fst (session_at (replay (c_trace s)) st)
       = Some (if st = 0 \<or> late' st then m_mgid (the_tree s 0) else g0)" unfolding late [OF A] .
  qed
qed

lemma routed_new:
  assumes E: "refuses_duplicates E" and sim: "simulates s A" and routed: "streams_routed g0 members late s A"
    and fresh: "A st = None" and run: "new_stream E st p s = (Inr (), t)"
  shows "streams_routed g0 members (late(st := A 0 \<noteq> None)) t (subscribe st p A)"
proof -
  let ?d = "replay (c_trace s)"
  note new = new_stream_run [OF E run] and self = serves_self [OF E run]
  from new(7) obtain general where d: "replay (c_trace t) = ?d\<lparr>dv_nodes := (dv_nodes ?d)(c_next_node s \<mapsto> [p]),
         dv_groups := (dv_groups ?d)(c_group_id s \<mapsto> [c_next_node s], second_key (c_group_id s) \<mapsto> []),
         dv_mirror := (dv_mirror ?d)(c_sid s \<mapsto> (general, if st = 0 then None else Some (c_group_id s))),
         dv_acks := (dv_acks ?d)(st \<mapsto> c_sid s)\<rparr>" and g: "general_after s st (c_group_id s) = Some general" by blast
  have t: "c_trees t = c_trees s @ [\<lparr>m_mgid = c_group_id s, m_nodes = [length (c_nodes s)]\<rparr>]"
    "c_streams t = dict_put st (length (c_trees s)) (c_streams s)" "c_general_group t = general_after s st (c_group_id s)"
    by (subst new(8), simp)+
  have tree: "m_mgid (the_tree t st) = c_group_id s" by (simp add: the_tree_def t(1,2) dict_simps)
  have old: "the_tree t st' = the_tree s st'" "c_nodes t ! the_node t st' = c_nodes s ! the_node s st'"
    "session_at (replay (c_trace t)) st' = session_at ?d st'" if "A st' = Some ps" for st' ps
    using serves_new(2,4,5) [OF E run simulatesD(1) [OF sim that]] that fresh by (metis option.distinct(1))+
  from routed obtain i where i: "dv_groups ?d g0 = Some [i]" "dv_nodes ?d i = Some (sort members)"
    "\<forall>st ps. A st = Some ps \<longrightarrow> n_id (c_nodes s ! the_node s st) \<noteq> i"
    and gen: "c_general_group s = Some (if A 0 = None then g0 else m_mgid (the_tree s 0))"
    and late: "\<forall>st ps. A st = Some ps \<longrightarrow> late st \<longrightarrow> A 0 \<noteq> None"
    and sessions: "\<forall>st ps. A st = Some ps \<longrightarrow> map_option fst (session_at ?d st)
       = Some (if st = 0 \<or> late st then m_mgid (the_tree s 0) else g0)" by (rule routedE)
  have zero: "the_tree t 0 = the_tree s 0" if "A 0 \<noteq> None" using old(1) that by blast
  have "i \<noteq> c_next_node s" "g0 \<noteq> c_group_id s" "g0 \<noteq> second_key (c_group_id s)" using new(1,2,4) i(1,2) by auto
  note apart = this
  show ?thesis
  proof (rule routedI)
    show "dv_groups (replay (c_trace t)) g0 = Some [i]" "dv_nodes (replay (c_trace t)) i = Some (sort members)"
      using apart i by (simp_all add: d)
    show "n_id (c_nodes t ! the_node t st') \<noteq> i" if "subscribe st p A st' = Some ps" for st' ps
      using that self(2) apart(1) i(3) old(2) by (cases "st' = st") (auto simp: subscribe_def)
    show "c_general_group t = Some (if subscribe st p A 0 = None then g0 else m_mgid (the_tree t 0))"
      using gen zero tree by (cases "st = 0") (auto simp: t(3) general_after_def subscribe_def)
    show "subscribe st p A 0 \<noteq> None" if "subscribe st p A st' = Some ps" "(late(st := A 0 \<noteq> None)) st'" for st' ps
      using that late by (auto simp: subscribe_def split: if_splits)
    show "map_option fst (session_at (replay (c_trace t)) st') =
        Some (if st' = 0 \<or> (late(st := A 0 \<noteq> None)) st' then m_mgid (the_tree t 0) else g0)"
      if "subscribe st p A st' = Some ps" for st' ps
    proof (cases "st' = st")
      case True
      have "map_option fst (session_at (replay (c_trace t)) st) = Some general" by (simp add: session_at_def d)
      then show ?thesis
        using True g gen tree zero by (auto simp: general_after_def split: if_splits)
    next
      case False
      with that have A: "A st' = Some ps" by (simp add: subscribe_def)
      with late have "m_mgid (the_tree t 0) = m_mgid (the_tree s 0)" if "st' = 0 \<or> late st'" using zero that by auto
      with False A sessions old(3) [OF A] show ?thesis by auto
    qed
  qed
qed

lemma routed_member:
  assumes sim: "simulates s A" and routed: "streams_routed g0 members late s A" and old: "A st = Some qs"
    and run: "addMbrs E (the_node s st) (Some [p]) (Some []) s = (Inr (), t)"
  shows "streams_routed g0 members late t (subscribe st p A)"
proof -
  let ?a = "the_node s st" and ?n = "c_nodes s ! the_node s st"
  have a: "?a < length (c_nodes s)" using simulatesD(1) [OF sim old] by (simp add: serves_def)
  note add = addMbrs_run [OF a run]
  have t: "c_nodes t = (c_nodes s)[?a := ?n\<lparr>n_ports := sort (n_ports ?n @ [p]), n_lags := sort (n_lags ?n)\<rparr>]"
    "c_trees t = c_trees s" "c_streams t = c_streams s" "c_general_group t = c_general_group s"
    by (subst add(2), simp)+
  have tree: "the_tree t = the_tree s" "the_node t = the_node s" by (simp_all add: fun_eq_iff the_node_def the_tree_def t)
  have ids: "n_id (c_nodes t ! the_node t st') = n_id (c_nodes s ! the_node s st')" for st'
    using a by (cases "the_node s st' = ?a") (simp_all add: t tree)
  have dom: "(subscribe st p A st' = None) = (A st' = None)" for st' using old by (auto simp: subscribe_def)
  have some: "\<exists>qs. A st' = Some qs" if "subscribe st p A st' = Some ps" for st' ps
    using dom [of st'] that by auto
  from routed obtain i where i: "dv_groups (replay (c_trace s)) g0 = Some [i]" "dv_nodes (replay (c_trace s)) i = Some (sort members)"
    "\<forall>st ps. A st = Some ps \<longrightarrow> n_id (c_nodes s ! the_node s st) \<noteq> i"
    and rest: "c_general_group s = Some (if A 0 = None then g0 else m_mgid (the_tree s 0))"
      "\<forall>st ps. A st = Some ps \<longrightarrow> late st \<longrightarrow> A 0 \<noteq> None"
      "\<forall>st ps. A st = Some ps \<longrightarrow> map_option fst (session_at (replay (c_trace s)) st)
       = Some (if st = 0 \<or> late st then m_mgid (the_tree s 0) else g0)" by (rule routedE)
  from i old have n: "n_id ?n \<noteq> i" by blast
  have session: "session_at (replay (c_trace t)) = session_at (replay (c_trace s))" by (simp add: fun_eq_iff session_at_def add(1))
  show ?thesis
  proof (rule routedI)
    show "dv_groups (replay (c_trace t)) g0 = Some [i]" "dv_nodes (replay (c_trace t)) i = Some (sort members)"
      using i(1,2) n by (simp_all add: add(1))
    show "c_general_group t = Some (if subscribe st p A 0 = None then g0 else m_mgid (the_tree t 0))"
      unfolding t(4) dom tree by (rule rest(1))
    fix st' ps assume "subscribe st p A st' = Some ps"
    then obtain rs where A: "A st' = Some rs" using some by blast
    from i(3) A show "n_id (c_nodes t ! the_node t st') \<noteq> i" unfolding ids by blast
    from rest(2) A show "subscribe st p A 0 \<noteq> None" if "late st'" using that unfolding dom by blast
    from rest(3) A show "map_option fst (session_at (replay (c_trace t)) st')
       = Some (if st' = 0 \<or> late st' then m_mgid (the_tree t 0) else g0)" unfolding session tree by blast
  qed
qed

section \<open>Refinement\<close>

text \<open>The streams and ports of a list of requests, and where the packets of a stream have to leave: at the
  ports of the general group and at those of the stream's own subscribers. The general group of a stream that
  was asked for after stream 0 (and of stream 0) is the subscribers of stream 0, that of any other stream all
  members of the ring.\<close>

definition asks :: "(int \<times> int) list \<Rightarrow> subscriptions" where
  "asks reqs = fold (\<lambda>(st, p). subscribe st p) reqs Map.empty"

definition subscribers :: "(int \<times> int) list \<Rightarrow> int \<Rightarrow> int list" where
  "subscribers reqs st = map snd (filter (\<lambda>r. fst r = st) reqs)"

definition after_general :: "(int \<times> int) list \<Rightarrow> int \<Rightarrow> bool" where
  "after_general reqs st \<longleftrightarrow> 0 \<in> set (takeWhile (\<lambda>x. x \<noteq> st) (map fst reqs))"

definition routing :: "int list \<Rightarrow> (int \<times> int) list \<Rightarrow> int \<Rightarrow> (int list \<times> int list) option" where
  "routing members reqs st =
     (if st \<notin> set (map fst reqs) then None
      else Some (sort (if st = 0 \<or> after_general reqs st then subscribers reqs 0 else members),
                 if st = 0 then [] else sort (subscribers reqs st)))"

lemma asks_snoc: "asks (reqs @ [(st, p)]) = subscribe st p (asks reqs)"
  by (simp add: asks_def)

lemma asks_eq: "asks reqs st = (if st \<in> set (map fst reqs) then Some (subscribers reqs st) else None)"
proof (induction reqs rule: rev_induct)
  case (snoc r reqs)
  obtain q p where r: "r = (q, p)" by (cases r)
  have "subscribers reqs q = []" if "q \<notin> fst ` set reqs" using that by (force simp: subscribers_def filter_empty_conv)
  with snoc show ?case by (auto simp: r asks_snoc subscribe_def subscribers_def)
qed (simp add: asks_def)

lemma after_general_snoc:
  "st \<in> set (map fst reqs) \<Longrightarrow> after_general (reqs @ rs) st = after_general reqs st"
  "st \<notin> set (map fst reqs) \<Longrightarrow> after_general (reqs @ (st, p) # rs) st \<longleftrightarrow> asks reqs 0 \<noteq> None"
proof -
  show "st \<in> set (map fst reqs) \<Longrightarrow> after_general (reqs @ rs) st = after_general reqs st"
    by (auto simp: after_general_def takeWhile_append1)
  assume new: "st \<notin> set (map fst reqs)"
  then have "takeWhile (\<lambda>x. x \<noteq> st) (map fst reqs @ st # map fst rs) = map fst reqs"
    by (subst takeWhile_append2) auto
  then show "after_general (reqs @ (st, p) # rs) st \<longleftrightarrow> asks reqs 0 \<noteq> None"
    by (simp add: after_general_def asks_eq)
qed

lemma simulates_start:
  assumes "c_streams s = []" and "dv_acks (replay (c_trace s)) = Map.empty"
  shows "simulates s Map.empty"
  using assms by (simp add: simulates_def)

text \<open>One request, and all of them.\<close>

lemma update_refines:
  assumes E: "refuses_duplicates E" and sim: "simulates s (asks done)"
    and routed: "streams_routed g0 members (after_general done) s (asks done)"
    and run: "update_stream_subscriber_table E st p s = (Inr (), t)"
  shows "simulates t (asks (done @ [(st, p)]))" "streams_routed g0 members (after_general (done @ [(st, p)])) t (asks (done @ [(st, p)]))"
proof -
  show "simulates t (asks (done @ [(st, p)]))" unfolding asks_snoc by (rule simulates_update [OF E sim run])
  show "streams_routed g0 members (after_general (done @ [(st, p)])) t (asks (done @ [(st, p)]))"
  proof (cases "asks done st")
    case None
    with simulatesD(2) [OF sim] run have "new_stream E st p s = (Inr (), t)"
      by (simp add: update_stream_subscriber_table_def bnd_eq_Inr io_run)
    from routed_new [OF E sim routed None this] show ?thesis
      unfolding asks_snoc
    proof (rule routed_cong)
      fix st' ps assume "subscribe st p (asks done) st' = Some ps"
      with None show "((after_general done)(st := asks done 0 \<noteq> None)) st' = after_general (done @ [(st, p)]) st'"
        by (cases "st' = st") (auto simp: subscribe_def asks_eq after_general_snoc split: if_splits)
    qed
  next
    case (Some qs)
    from routed_member [OF sim routed Some update_member [OF sim Some run]] show ?thesis
      unfolding asks_snoc
      by (rule routed_cong) (use Some in \<open>auto simp: subscribe_def asks_eq after_general_snoc(1) split: if_splits\<close>)
  qed
qed

lemma requests_refine:
  assumes "refuses_duplicates E" and "simulates s (asks done)" and "streams_routed g0 members (after_general done) s (asks done)"
    and "for_each (\<lambda>(st, p). update_stream_subscriber_table E st p) reqs s = (Inr (), t)"
  shows "simulates t (asks (done @ reqs)) \<and> streams_routed g0 members (after_general (done @ reqs)) t (asks (done @ reqs))"
  using assms(2-)
proof (induction reqs arbitrary: s \<open>done\<close>)
  case (Cons r reqs)
  obtain st p where r: "r = (st, p)" by (cases r)
  from Cons.prems(3) obtain u where "update_stream_subscriber_table E st p s = (Inr (), u)"
    and rest: "for_each (\<lambda>(st, p). update_stream_subscriber_table E st p) reqs u = (Inr (), t)"
    unfolding for_each_Cons_Inr r by auto
  from Cons.IH [OF update_refines [OF assms(1) Cons.prems(1,2) this(1)] rest] show ?case by (simp add: r)
qed simp

text \<open>What a refined state sends where.\<close>

lemma refined_leaving:
  assumes sim: "simulates s (asks reqs)" and routed: "streams_routed g0 members (after_general reqs) s (asks reqs)"
  shows "leaving (replay (c_trace s)) = routing members reqs"
proof
  fix st
  let ?d = "replay (c_trace s)"
  have ports: "group_ports ?d (m_mgid (the_tree s q)) = sort (subscribers reqs q)" if "q \<in> set (map fst reqs)" for q
    using serves_group_ports [OF simulatesD(1) [OF sim]] that by (simp add: asks_eq)
  have all: "group_ports ?d g0 = sort members"
    using routed by (elim routedE) (simp add: group_ports_def)
  show "leaving ?d st = routing members reqs st"
  proof (cases "st \<in> set (map fst reqs)")
    case True
    then have A: "asks reqs st = Some (subscribers reqs st)" by (simp add: asks_eq)
    from simulatesD(1) [OF sim A] obtain general where
      session: "session_at ?d st = Some (general, if st = 0 then None else Some (m_mgid (the_tree s st)))"
      by (auto simp: serves_def own_session_def Let_def)
    from routed A have "map_option fst (session_at ?d st) = Some (if st = 0 \<or> after_general reqs st then m_mgid (the_tree s 0) else g0)"
      and zero: "after_general reqs st \<longrightarrow> asks reqs 0 \<noteq> None"
      by (blast elim: routedE)+
    with session have general: "general = (if st = 0 \<or> after_general reqs st then m_mgid (the_tree s 0) else g0)" by simp
    have "group_ports ?d general = sort (if st = 0 \<or> after_general reqs st then subscribers reqs 0 else members)"
      using general zero ports [of 0] True all by (auto simp: asks_eq split: if_splits)
    with True session ports show ?thesis by (auto simp: leaving_def routing_def)
  next
    case False
    with simulatesD(3) [OF sim, of st] show ?thesis by (auto simp: leaving_def routing_def session_at_def asks_eq)
  qed
qed

text \<open>The requests in the frames that arrive.\<close>

definition request_of :: "received \<Rightarrow> (int \<times> int) list" where
  "request_of r =
     (case r of TimedOut \<Rightarrow> []
      | Frame pkttype p \<Rightarrow>
          if pkttype = 4 \<or> \<not> has_layer p ''Subscribe'' \<or> layer_int p ''RingType'' ''type'' \<noteq> Inr TYPE_SUB then []
          else (case layer_int p ''Subscribe'' ''stream_id'' of
              Inl e \<Rightarrow> []
            | Inr st \<Rightarrow> (case layer_int p ''Subscribe'' ''subscribe_port'' of Inl e \<Rightarrow> [] | Inr port \<Rightarrow> [(st, port)])))"

definition requests_of :: "received list \<Rightarrow> (int \<times> int) list" where
  "requests_of frames = concat (map request_of frames)"

lemma handle_frame_requests:
  assumes "handle_frame E r s = (Inr (), t)"
  shows "for_each (\<lambda>(st, p). update_stream_subscriber_table E st p) (request_of r) s = (Inr (), t)"
proof (cases r)
  case TimedOut
  with assms show ?thesis by (simp add: handle_frame_def request_of_def io_run)
next
  case (Frame pkttype p)
  show ?thesis
  proof (cases "pkttype = 4 \<or> \<not> has_layer p ''RingType''")
    case True
    then have "request_of r = []"
      by (auto simp: Frame request_of_def layer_int_def has_layer_def)
    with True assms show ?thesis by (simp add: Frame handle_frame_def io_run)
  next
    case False
    with assms Frame obtain ty where ty: "layer_int p ''RingType'' ''type'' = Inr ty"
      by (auto simp: handle_frame_def bnd_eq_Inr io_run)
    with False assms Frame show ?thesis
      by (auto simp: handle_frame_def bnd_eq_Inr io_run request_of_def for_each_Cons_Inr split: if_splits sum.splits)
  qed
qed

lemma listener_requests:
  assumes "receive_pkt_from_tofino E frames s = (Inr (), t)"
  shows "for_each (\<lambda>(st, p). update_stream_subscriber_table E st p) (concat (map request_of frames)) s = (Inr (), t)"
  using assms
proof (induction frames arbitrary: s)
  case (Cons r frames)
  from Cons.prems obtain u where "handle_frame E r s = (Inr (), u)" "receive_pkt_from_tofino E frames u = (Inr (), t)"
    unfolding receive_pkt_from_tofino_def for_each_Cons_Inr by blast
  with Cons.IH handle_frame_requests show ?case by (simp add: for_each_append)
qed (simp add: receive_pkt_from_tofino_def)

end
