(* ===== verification/Ring_Groups.thy ===== *)
theory Ring_Groups
  imports Subscriptions Ring_Run
begin

text \<open>
  The groups of a switch over a whole run (code/p4/failure_tests/failure.py, Ring_Control and
  Ring_Run): what the set-up leaves of the tables that the subscriptions use, and how many groups
  there can be.
\<close>

section \<open>Steps that make no group\<close>

text \<open>Entries for subscribers and the counter stay; groups only come.\<close>

definition quiet :: "control \<Rightarrow> control \<Rightarrow> bool" where
  "quiet s t \<longleftrightarrow> c_streams t = c_streams s \<and> c_group_id t = c_group_id s
     \<and> dv_acks (replay (c_trace t)) = dv_acks (replay (c_trace s))
     \<and> dom (dv_groups (replay (c_trace s))) \<subseteq> dom (dv_groups (replay (c_trace t)))"

interpretation quiet: step_relation quiet
  by unfold_locales (auto simp: quiet_def)

definition harmless :: "dev_action \<Rightarrow> bool" where
  "harmless a \<longleftrightarrow> (\<forall>d. dv_acks (replay1 a d) = dv_acks d \<and> dom (dv_groups d) \<subseteq> dom (dv_groups (replay1 a d)))"

lemma harmless_actions:
  "harmless (TableGet t)" "harmless (KeyAnnotation t k ty)" "harmless (DataAnnotation t f x ty)"
  "t \<noteq> ''MyIngress.route_subscriber_acks'' \<Longrightarrow> harmless (EntryAdd t key act data)"
  "t \<noteq> ''MyIngress.route_subscriber_acks'' \<Longrightarrow> harmless (EntryMod t key act data)"
  "harmless (EntryModInc t key data add)" "harmless (EntryGet t key)"
proof -
  have "dv_acks (replay1 (EntryAdd t key act data) d) = dv_acks d
      \<and> dom (dv_groups d) \<subseteq> dom (dv_groups (replay1 (EntryAdd t key act data) d))"
    if "t \<noteq> ''MyIngress.route_subscriber_acks''" for d
    using that by (cases "(EntryAdd t key act data, d)" rule: replay1.cases) auto
  then show "t \<noteq> ''MyIngress.route_subscriber_acks'' \<Longrightarrow> harmless (EntryAdd t key act data)"
    by (simp add: harmless_def)
  have "dv_acks (replay1 (EntryMod t key act data) d) = dv_acks d
      \<and> dom (dv_groups d) \<subseteq> dom (dv_groups (replay1 (EntryMod t key act data) d))"
    if "t \<noteq> ''MyIngress.route_subscriber_acks''" for d
    using that by (cases "(EntryMod t key act data, d)" rule: replay1.cases) (auto split: option.splits)
  then show "t \<noteq> ''MyIngress.route_subscriber_acks'' \<Longrightarrow> harmless (EntryMod t key act data)"
    by (simp add: harmless_def)
  have "dv_acks (replay1 (EntryModInc t key data add) d) = dv_acks d
      \<and> dom (dv_groups d) \<subseteq> dom (dv_groups (replay1 (EntryModInc t key data add) d))" for d
    by (cases "(EntryModInc t key data add, d)" rule: replay1.cases) auto
  then show "harmless (EntryModInc t key data add)" by (simp add: harmless_def)
qed (simp_all add: harmless_def)

lemma quiet_tell: "harmless a \<Longrightarrow> keeps quiet (tell E a)"
  unfolding keeps_def
proof
  fix s
  assume "harmless a"
  then show "quiet s (snd (tell E a s))"
    by (cases "d_do E (c_trace s) a") (auto simp: quiet_def tell_def ask_def io_defs harmless_def Let_def)
qed

lemma quiet_state:
  "keeps quiet (upd_node a f)" "keeps quiet (upd_tree mc g)" "keeps quiet (node_at a)" "keeps quiet (tree_at mc)"
  "keeps quiet (modify (\<lambda>s. s\<lparr>c_next_node := i\<rparr>))" "keeps quiet (modify (\<lambda>s. s\<lparr>c_nodes := h s\<rparr>))"
  "keeps quiet (modify (\<lambda>s. s\<lparr>c_trees := k s\<rparr>))" "keeps quiet (modify (\<lambda>s. s\<lparr>c_general_group := x\<rparr>))"
  by (simp_all add: keeps_def quiet_def upd_node_def upd_tree_def node_at_def tree_at_def io_defs)

lemmas quiet_rules = quiet.keeps_rules quiet_state quiet_tell harmless_actions

lemma quiet_group_steps:
  "keeps quiet (MCTree E g)" "keeps quiet (rid_entry E g)" "keeps quiet (setup_subscriber_acks_table E)"
  unfolding MCTree_def rid_entry_def setup_subscriber_acks_table_def by (intro quiet_rules; simp)+

lemma quiet_add_node: "keeps quiet (add_node E mc rid xid ports lags)"
proof -
  have "keeps quiet (L1Node E rid)" unfolding L1Node_def Let_def by (intro quiet_rules; simp)
  moreover have "keeps quiet (addMbrs E a ports lags)" for a
    unfolding addMbrs_def by (cases ports; cases lags; simp; (intro quiet_rules; simp)?)
  moreover have "keeps quiet (associate E a g xid)" for a g
    unfolding associate_def by (intro quiet_rules; simp)
  ultimately show ?thesis unfolding add_node_def by (intro quiet_rules; simp)
qed


lemmas quiet_ops = quiet_rules quiet_group_steps quiet_add_node

lemma quiet_setup:
  "keeps quiet (setup_switch_ports E ports loopback control speed fec ring_size)"
  "keeps quiet (setup_circulate_table E loopback)"
  "keeps quiet (setup_client_response_table E clients)"
  "keeps quiet (setup_cntrl_table E cin cout control)"
  "keeps quiet (setup_tail_table E ring_size control)"
  unfolding setup_switch_ports_def port_setup_def setup_circulate_table_def setup_client_response_table_def
    client_entry_def setup_cntrl_table_def setup_tail_table_def
  by (intro quiet_ops; simp)+

section \<open>Steps that make a group\<close>

text \<open>One more group: its number and its node's second entry were free and are taken.\<close>

definition made_group :: "control \<Rightarrow> control \<Rightarrow> bool" where
  "made_group s t \<longleftrightarrow> c_streams t = c_streams s \<and> c_group_id t = c_group_id s + 1
     \<and> dv_acks (replay (c_trace t)) = dv_acks (replay (c_trace s))
     \<and> dv_groups (replay (c_trace s)) (c_group_id s) = None
     \<and> insert (second_key (c_group_id s)) (dom (dv_groups (replay (c_trace s)))) \<subseteq> dom (dv_groups (replay (c_trace t)))"

lemma quiet_after: "keeps quiet m \<Longrightarrow> m s = (r, t) \<Longrightarrow> quiet s t"
  by (rule keepsD)

lemma quiet_told: "tell E a s = (r, t) \<Longrightarrow> harmless a \<Longrightarrow> quiet s t"
  using quiet_after [of "tell E a"] quiet_tell by blast

lemma rid_entry_run:
  "rid_entry E g s = (Inr (), t) \<Longrightarrow> second_key g \<in> dom (dv_groups (replay (c_trace t)))"
  by (auto simp: rid_entry_def tell_Inr mgid_key_def second_key_def)

lemma made_groupI:
  assumes "quiet s s1" and "dv_groups (replay (c_trace s)) (c_group_id s) = None"
    and "second_key (c_group_id s) \<in> dom (dv_groups (replay (c_trace s1)))"
    and "quiet s1 s2" and "quiet (s2\<lparr>c_group_id := c_group_id s2 + 1\<rparr>) t"
  shows "made_group s t"
proof -
  from assms(5) have "dom (dv_groups (replay (c_trace s2))) \<subseteq> dom (dv_groups (replay (c_trace t)))"
    by (simp add: quiet_def)
  moreover from assms(1,4) have "dom (dv_groups (replay (c_trace s))) \<subseteq> dom (dv_groups (replay (c_trace s1)))"
    "dom (dv_groups (replay (c_trace s1))) \<subseteq> dom (dv_groups (replay (c_trace s2)))"
    by (simp_all add: quiet_def)
  ultimately have "insert (second_key (c_group_id s)) (dom (dv_groups (replay (c_trace s))))
      \<subseteq> dom (dv_groups (replay (c_trace t)))"
    using assms(3) by blast
  with assms(1,2,4,5) show ?thesis by (simp add: quiet_def made_group_def)
qed

lemma shard_group_run:
  assumes E: "refuses_duplicates E" and run: "shard_group E shard s = (Inr (), t)"
  shows "made_group s t"
proof -
  let ?g = "c_group_id s"
  from run obtain mc s1 s2 s3 where group: "new_group E ?g (snd shard) s = (Inr mc, s1)"
    and rid: "rid_entry E ?g s1 = (Inr (), s2)"
    and entry: "tell E (EntryAdd ''MyIngress.get_shard_port'' [KExact ''hdr.ring_type.shard_id'' (fst shard)]
                (Some ''MyIngress.shard_port'') [(''group_id'', PInt ?g)]) s2 = (Inr (), s3)"
    and t: "t = s3\<lparr>c_group_id := c_group_id s3 + 1\<rparr>"
    by (auto simp: shard_group_def andthen_unit andthen_eq_Inr bnd_eq_Inr io_run next_group_def)
  from group obtain u where "MCTree E ?g s = (Inr mc, u)"
    by (auto simp: new_group_def bnd_eq_Inr andthen_eq_Inr io_run)
  from MCTree_run(2) [OF E this] have free: "dv_groups (replay (c_trace s)) ?g = None" .
  have "keeps quiet (new_group E ?g (snd shard))" unfolding new_group_def by (intro quiet_ops; simp)
  from quiet_after [OF this group] quiet_after [OF quiet_group_steps(2) rid] have "quiet s s2" by (rule quiet.R_trans)
  moreover from entry have "quiet s2 s3" by (rule quiet_after [rotated]) (intro quiet_ops; simp)
  ultimately show ?thesis
    using free rid_entry_run [OF rid] quiet.R_refl by (metis made_groupI t)
qed


lemma subscribe_routing_steps:
  fixes members :: "int list"
  assumes E: "refuses_duplicates E" and run: "setup_subscribe_routing_table E members cpu s = (Inr (), t)"
  defines "g \<equiv> c_group_id s" and "ports \<equiv> map (\<lambda>p. if p = 0 then cpu else p) members"
  obtains s1 mc s2 s4 s5 s6 where "quiet s s1" "MCTree E g s1 = (Inr mc, s2)"
    "add_node E mc (group_rid g) (Some (group_xid g)) (Some ports) (Some []) (s2\<lparr>c_general_group := Some g\<rparr>) = (Inr (), s4)"
    "rid_entry E g s4 = (Inr (), s5)"
    "tell E (EntryAdd ''MyIngress.submit_subscription'' [KExact ''hdr.sub.subscribe'' (PInt 1)]
      (Some ''MyIngress.send_subscription_to_all'') [(''group_id'', PInt g)]) s5 = (Inr (), s6)"
    "tell E (EntryAdd ''MyIngress.submit_subscription'' [KExact ''hdr.sub.subscribe'' (PInt 0)]
      (Some ''MyIngress.send_subscription_to_self'') [(''port'', PInt cpu)]) (s6\<lparr>c_group_id := c_group_id s6 + 1\<rparr>) = (Inr (), t)"
proof -
  let ?key = "''hdr.sub.subscribe''" and ?table = "''MyIngress.submit_subscription''"
  define pre where "pre = andthen (tell E (TableGet ?table)) (andthen (tell E (KeyAnnotation ?table ?key ''bit<32>''))
     (tell E (TableGet ''$pre.mgid'')))"
  have quiet: "keeps quiet pre" unfolding pre_def by (intro quiet_ops; simp)
  from run obtain s1 where pre: "pre s = (Inr (), s1)"
    and r1: "bnd (gets c_group_id) (\<lambda>g. bnd (MCTree E g) (\<lambda>mc. andthen (modify (\<lambda>s. s\<lparr>c_general_group := Some g\<rparr>))
    (andthen (add_node E mc (group_rid g) (Some (group_xid g)) (Some ports) (Some []))
    (andthen (rid_entry E g)
    (andthen (tell E (EntryAdd ?table [KExact ?key (PInt 1)] (Some ''MyIngress.send_subscription_to_all'')
        [(''group_id'', PInt g)]))
    (andthen next_group (tell E (EntryAdd ?table [KExact ?key (PInt 0)]
        (Some ''MyIngress.send_subscription_to_self'') [(''port'', PInt cpu)])))))))) s1 = (Inr (), t)"
    unfolding setup_subscribe_routing_table_def pre_def ports_def andthen_unit by blast
  from quiet_after [OF quiet pre] have q1: "quiet s s1" .
  then have "c_group_id s1 = g" by (simp add: quiet_def g_def)
  with r1 q1 that show thesis by (auto simp: bnd_eq_Inr andthen_unit io_run next_group_def)
qed

lemma subscribe_routing_run:
  assumes E: "refuses_duplicates E" and run: "setup_subscribe_routing_table E members cpu s = (Inr (), t)"
  shows "made_group s t"
proof -
  let ?g = "c_group_id s"
  from subscribe_routing_steps [OF E run] obtain s1 mc s2 s4 s5 s6 where
    q1: "quiet s s1" and tree: "MCTree E ?g s1 = (Inr mc, s2)"
    and node: "add_node E mc (group_rid ?g) (Some (group_xid ?g)) (Some (map (\<lambda>p. if p = 0 then cpu else p) members)) (Some [])
      (s2\<lparr>c_general_group := Some ?g\<rparr>) = (Inr (), s4)"
    and rid: "rid_entry E ?g s4 = (Inr (), s5)"
    and entries: "tell E (EntryAdd ''MyIngress.submit_subscription'' [KExact ''hdr.sub.subscribe'' (PInt 1)]
      (Some ''MyIngress.send_subscription_to_all'') [(''group_id'', PInt ?g)]) s5 = (Inr (), s6)"
    "tell E (EntryAdd ''MyIngress.submit_subscription'' [KExact ''hdr.sub.subscribe'' (PInt 0)]
      (Some ''MyIngress.send_subscription_to_self'') [(''port'', PInt cpu)]) (s6\<lparr>c_group_id := c_group_id s6 + 1\<rparr>) = (Inr (), t)"
    .
  from MCTree_run(2) [OF E tree] q1 have free: "dv_groups (replay (c_trace s)) ?g = None"
    by (auto simp: quiet_def domIff)
  have "quiet s2 (s2\<lparr>c_general_group := Some ?g\<rparr>)" by (simp add: quiet_def)
  with q1 quiet_after [OF quiet_group_steps(1) tree] quiet_after [OF quiet_add_node node]
    quiet_after [OF quiet_group_steps(2) rid] have "quiet s s5" by (metis quiet.R_trans)
  moreover have "quiet s5 s6" by (rule quiet_told [OF entries(1)]) (rule harmless_actions; simp)
  moreover have "quiet (s6\<lparr>c_group_id := c_group_id s6 + 1\<rparr>) t"
    by (rule quiet_told [OF entries(2)]) (rule harmless_actions; simp)
  ultimately show ?thesis using free rid_entry_run [OF rid] by (metis made_groupI)
qed

text \<open>The group of all members is the general group, with one node that has all their ports.\<close>

definition all_members :: "int list \<Rightarrow> control \<Rightarrow> bool" where
  "all_members ports s \<longleftrightarrow> (\<exists>g i. c_general_group s = Some g \<and> dv_groups (replay (c_trace s)) g = Some [i]
     \<and> dv_nodes (replay (c_trace s)) i = Some (sort ports))"

lemma subscribe_routing_members:
  assumes E: "refuses_duplicates E" and run: "setup_subscribe_routing_table E members cpu s = (Inr (), t)"
  shows "all_members (map (\<lambda>p. if p = 0 then cpu else p) members) t"
proof -
  let ?g = "c_group_id s" and ?ports = "map (\<lambda>p. if p = 0 then cpu else p) members"
  from subscribe_routing_steps [OF E run] obtain s1 mc s2 s4 s5 s6 where
    "quiet s s1" and tree: "MCTree E ?g s1 = (Inr mc, s2)"
    and node: "add_node E mc (group_rid ?g) (Some (group_xid ?g)) (Some ?ports) (Some []) (s2\<lparr>c_general_group := Some ?g\<rparr>) = (Inr (), s4)"
    and rid: "rid_entry E ?g s4 = (Inr (), s5)"
    and entries: "tell E (EntryAdd ''MyIngress.submit_subscription'' [KExact ''hdr.sub.subscribe'' (PInt 1)]
      (Some ''MyIngress.send_subscription_to_all'') [(''group_id'', PInt ?g)]) s5 = (Inr (), s6)"
    "tell E (EntryAdd ''MyIngress.submit_subscription'' [KExact ''hdr.sub.subscribe'' (PInt 0)]
      (Some ''MyIngress.send_subscription_to_self'') [(''port'', PInt cpu)]) (s6\<lparr>c_group_id := c_group_id s6 + 1\<rparr>) = (Inr (), t)"
    .
  note s2 = MCTree_run [OF E tree]
  let ?d = "replay (c_trace s1)" and ?i = "c_next_node s1" and ?m = "(EntryAdd ''$pre.mgid'' (mgid_key ?g) None [], True)"
  have mc: "mc < length (c_trees (s2\<lparr>c_general_group := Some ?g\<rparr>))" by (simp add: s2)
  have s4: "c_trace s4 = (c_trace s1 @ [?m]) @ node_events ?g ?g ?i ?ports" "c_general_group s4 = Some ?g"
    by (subst add_node_run(2) [OF E mc node], simp add: s2)+
  have d4: "replay (c_trace s4) = ?d\<lparr>dv_nodes := (dv_nodes ?d)(?i \<mapsto> sort ?ports), dv_groups := (dv_groups ?d)(?g \<mapsto> [?i])\<rparr>"
    unfolding s4 replay_node_events replay_mgid by (simp add: Let_def)
  from rid have "tell E (EntryAdd ''$pre.mgid'' (mgid_key (second_key ?g)) None []) s4 = (Inr (), s5)"
    by (simp add: rid_entry_def second_key_def)
  note s5 = tell_accepted [OF E this]
  from s5(2) s4(2) have general: "c_general_group s5 = Some ?g" by simp
  have "second_key ?g \<noteq> ?g" using s5(1) unfolding d4 by (auto simp: mgid_key_def)
  moreover have "replay (c_trace t) = replay (c_trace s5)" "c_general_group t = Some ?g"
    using entries general by (auto simp: tell_Inr replay_append)
  moreover have "replay (c_trace s5) = (replay (c_trace s4))\<lparr>dv_groups := (dv_groups (replay (c_trace s4)))(second_key ?g \<mapsto> [])\<rparr>"
    unfolding s5(2) by (simp add: replay_mgid del: replay_snoc)
  ultimately show ?thesis by (simp add: all_members_def d4)
qed

lemma new_stream_step:
  assumes E: "refuses_duplicates E" and run: "new_stream E st p s = (Inr (), t)"
    and fresh: "dict_get (c_streams s) st = None"
  shows "c_group_id t = c_group_id s + 1" "length (c_streams t) = Suc (length (c_streams s))"
    "dv_groups (replay (c_trace s)) (c_group_id s) = None"
    "insert (second_key (c_group_id s)) (dom (dv_groups (replay (c_trace s)))) \<subseteq> dom (dv_groups (replay (c_trace t)))"
proof -
  note new = new_stream_run [OF E run]
  show "c_group_id t = c_group_id s + 1" by (subst new(8), simp)
  show "length (c_streams t) = Suc (length (c_streams s))" by (subst new(8), simp add: dict_put_fresh [OF fresh])
  show "dv_groups (replay (c_trace s)) (c_group_id s) = None" by (rule new(2))
  show "insert (second_key (c_group_id s)) (dom (dv_groups (replay (c_trace s)))) \<subseteq> dom (dv_groups (replay (c_trace t)))"
    using new(7) by auto
qed


section \<open>A whole run\<close>

text \<open>After \<open>n\<close> groups the counter is at \<open>n + 1\<close>, and 802, the second entry of group 1, is taken.\<close>

definition numbered :: "nat \<Rightarrow> control \<Rightarrow> bool" where
  "numbered n s \<longleftrightarrow> c_group_id s = int n + 1 \<and> n \<le> 801 \<and> (0 < n \<longrightarrow> 802 \<in> dom (dv_groups (replay (c_trace s))))"

lemma numbered_quiet: "numbered n s \<Longrightarrow> quiet s t \<Longrightarrow> numbered n t"
  by (auto simp: numbered_def quiet_def)

lemma second_key_1: "second_key 1 = 802"
  by (simp add: second_key_def group_rid_def)

lemma numbered_Suc:
  assumes "numbered n s" and "c_group_id t = c_group_id s + 1" and "dv_groups (replay (c_trace s)) (c_group_id s) = None"
    and "insert (second_key (c_group_id s)) (dom (dv_groups (replay (c_trace s)))) \<subseteq> dom (dv_groups (replay (c_trace t)))"
  shows "numbered (Suc n) t"
proof (cases "n = 0")
  case True
  with assms show ?thesis by (auto simp: numbered_def second_key_1)
next
  case False
  with assms(1,3) have "c_group_id s \<noteq> 802" by (auto simp: numbered_def)
  with False assms show ?thesis by (auto simp: numbered_def)
qed

lemma numbered_group: "numbered n s \<Longrightarrow> made_group s t \<Longrightarrow> numbered (Suc n) t"
  unfolding made_group_def by (rule numbered_Suc) auto

lemma shard_groups_run:
  assumes "refuses_duplicates E" and "numbered n s" and "for_each (shard_group E) shards s = (Inr (), t)"
  shows "numbered (n + length shards) t \<and> c_streams t = c_streams s \<and> dv_acks (replay (c_trace t)) = dv_acks (replay (c_trace s))"
  using assms(2,3)
proof (induction shards arbitrary: n s)
  case (Cons shard shards)
  from Cons.prems(2) obtain u where "shard_group E shard s = (Inr (), u)"
    and rest: "for_each (shard_group E) shards u = (Inr (), t)" unfolding for_each_Cons_Inr by blast
  from shard_group_run [OF assms(1) this(1)] have step: "made_group s u" .
  from Cons.IH [OF numbered_group [OF Cons.prems(1) step] rest] step show ?case by (simp add: made_group_def)
qed simp

text \<open>The set-up leaves no subscriber, and one group for each shard and one for all members.\<close>

lemma setup_tables_run:
  assumes E: "refuses_duplicates E" and run: "setup_tables E c (start_run s) = (Inr (), t)"
  shows "numbered (length (rg_shards c) + 1) t" "c_streams t = []"
    "dv_acks (replay (c_trace t)) = dv_acks (replay (c_trace s))"
    "all_members (map (\<lambda>p. if p = 0 then rg_cpu_port c else p) (rg_members c)) t"
proof -
  define before where "before = andthen (setup_switch_ports E (rg_switch_ports c) (rg_loopback c) (rg_cntrl_port c) (rg_speed c) (rg_fec c) (rg_size c))
    (andthen (setup_circulate_table E (rg_loopback c)) (setup_client_response_table E (rg_clients c)))"
  define shard_pre where "shard_pre = andthen (tell E (TableGet ''MyIngress.get_shard_port''))
      (tell E (KeyAnnotation ''MyIngress.get_shard_port'' ''hdr.ring_type.shard_id'' ''bit<32>''))"
  define between where "between = andthen (setup_cntrl_table E (PInt (rg_in_cntrl c)) (rg_out_cntrl c) (rg_cntrl_port c))
      (setup_tail_table E (rg_size c) (rg_cntrl_port c))"
  have quiets: "keeps quiet before" "keeps quiet shard_pre" "keeps quiet between"
    unfolding before_def shard_pre_def between_def by (intro quiet_ops quiet_setup; simp)+
  from run obtain s1 s2 s3 s4 s5 where steps: "before (start_run s) = (Inr (), s1)" "shard_pre s1 = (Inr (), s2)"
    "for_each (shard_group E) (rg_shards c) s2 = (Inr (), s3)" "between s3 = (Inr (), s4)"
    "setup_subscribe_routing_table E (rg_members c) (rg_cpu_port c) s4 = (Inr (), s5)"
    "setup_subscriber_acks_table E s5 = (Inr (), t)"
    unfolding setup_tables_def setup_shard_multicast_groups_def before_def shard_pre_def between_def andthen_unit
    by blast
  have "quiet (start_run s) s2"
    using quiet_after [OF quiets(1) steps(1)] quiet_after [OF quiets(2) steps(2)] by (rule quiet.R_trans)
  moreover have "numbered 0 (start_run s)" by (simp add: numbered_def start_run_def)
  ultimately have "numbered 0 s2" and s2: "c_streams s2 = []" "dv_acks (replay (c_trace s2)) = dv_acks (replay (c_trace s))"
    using numbered_quiet by (auto simp: quiet_def start_run_def)
  from shard_groups_run [OF E this(1) steps(3)] s2 have s3: "numbered (length (rg_shards c)) s3" "c_streams s3 = []"
    "dv_acks (replay (c_trace s3)) = dv_acks (replay (c_trace s))" by simp_all
  note q4 = quiet_after [OF quiets(3) steps(4)] and g5 = subscribe_routing_run [OF E steps(5)]
    and q6 = quiet_after [OF quiet_group_steps(3) steps(6)]
  from numbered_quiet [OF numbered_group [OF numbered_quiet [OF s3(1) q4] g5] q6]
  show "numbered (length (rg_shards c) + 1) t" by simp
  from s3 q4 g5 q6 show "c_streams t = []" "dv_acks (replay (c_trace t)) = dv_acks (replay (c_trace s))"
    by (simp_all add: quiet_def made_group_def)
  from acks_table_run [OF steps(6)] obtain tr where "t = s5\<lparr>c_trace := tr\<rparr>" "replay tr = replay (c_trace s5)" .
  with subscribe_routing_members [OF E steps(5)] show "all_members (map (\<lambda>p. if p = 0 then rg_cpu_port c else p) (rg_members c)) t"
    by (auto simp: all_members_def)
qed

text \<open>Before any request every stream would go to all members.\<close>

lemma setup_routed:
  assumes "refuses_duplicates E" and "setup_tables E c (start_run s) = (Inr (), t)"
  obtains g0 where "streams_routed g0 (map (\<lambda>p. if p = 0 then rg_cpu_port c else p) (rg_members c)) (after_general []) t (asks [])"
proof -
  from setup_tables_run(4) [OF assms] obtain g i where "c_general_group t = Some g"
    "dv_groups (replay (c_trace t)) g = Some [i]"
    "dv_nodes (replay (c_trace t)) i = Some (sort (map (\<lambda>p. if p = 0 then rg_cpu_port c else p) (rg_members c)))"
    by (auto simp: all_members_def)
  then show thesis by (intro that [of g] routedI [of _ _ i]) (simp_all add: asks_def)
qed

text \<open>A request makes a group exactly when the stream is new.\<close>

lemma update_counts:
  assumes E: "refuses_duplicates E" and n: "numbered (k + length (c_streams s)) s"
    and run: "update_stream_subscriber_table E st p s = (Inr (), t)"
  shows "numbered (k + length (c_streams t)) t"
proof (cases "dict_get (c_streams s) st")
  case None
  with run have "new_stream E st p s = (Inr (), t)"
    by (simp add: update_stream_subscriber_table_def bnd_eq_Inr io_run)
  note step = new_stream_step [OF E this None]
  from numbered_Suc [OF n step(1,3,4)] step(2) show ?thesis by simp
next
  case (Some mc)
  with run obtain a where "addMbrs E a (Some [p]) (Some []) s = (Inr (), t)"
    by (auto simp: update_stream_subscriber_table_def get_first_node_def tree_at_def bnd_eq_Inr io_run)
  moreover have "keeps quiet (addMbrs E a (Some [p]) (Some []))"
    unfolding addMbrs_def by (simp; intro quiet_ops; simp)
  ultimately have "quiet s t" by (rule quiet_after [rotated])
  with n numbered_quiet show ?thesis by (simp add: quiet_def)
qed

lemma requests_count:
  assumes "refuses_duplicates E" and "numbered (k + length (c_streams s)) s"
    and "for_each (\<lambda>(st, p). update_stream_subscriber_table E st p) reqs s = (Inr (), t)"
  shows "numbered (k + length (c_streams t)) t"
  using assms(2,3)
proof (induction reqs arbitrary: s)
  case (Cons r reqs)
  obtain st p where r: "r = (st, p)" by (cases r)
  from Cons.prems(2) obtain u where "update_stream_subscriber_table E st p s = (Inr (), u)"
    and rest: "for_each (\<lambda>(st, p). update_stream_subscriber_table E st p) reqs u = (Inr (), t)"
    unfolding for_each_Cons_Inr r by auto
  from update_counts [OF assms(1) Cons.prems(1) this(1)] Cons.IH rest show ?case by blast
qed simp


text \<open>What later requests leave alone.\<close>

lemma update_sessions:
  assumes E: "refuses_duplicates E" and run: "update_stream_subscriber_table E st p s = (Inr (), t)"
  shows "dv_acks (replay (c_trace s)) \<subseteq>\<^sub>m dv_acks (replay (c_trace t))
    \<and> dv_mirror (replay (c_trace s)) \<subseteq>\<^sub>m dv_mirror (replay (c_trace t))"
proof (cases "dict_get (c_streams s) st")
  case None
  with run have new: "new_stream E st p s = (Inr (), t)"
    by (simp add: update_stream_subscriber_table_def bnd_eq_Inr io_run)
  from new_stream_run(5-7) [OF E new] show ?thesis by (auto simp: map_le_def)
next
  case (Some mc)
  with run obtain a where "addMbrs E a (Some [p]) (Some []) s = (Inr (), t)"
    by (auto simp: update_stream_subscriber_table_def get_first_node_def tree_at_def bnd_eq_Inr io_run)
  then obtain n where "c_trace t = c_trace s @ [(EntryMod ''$pre.node'' (node_key (n_id n)) None (node_data n), True)]"
    by (auto simp: addMbrs_def andthen_unit upd_node_def node_at_def bnd_eq_Inr io_run tell_Inr assert_that_def)
  then show ?thesis by (simp add: node_key_def node_data_def)
qed

lemma requests_sessions:
  assumes "refuses_duplicates E"
    and "for_each (\<lambda>(st, p). update_stream_subscriber_table E st p) reqs s = (Inr (), t)"
  shows "dv_acks (replay (c_trace s)) \<subseteq>\<^sub>m dv_acks (replay (c_trace t))
    \<and> dv_mirror (replay (c_trace s)) \<subseteq>\<^sub>m dv_mirror (replay (c_trace t))"
  using assms(2)
proof (induction reqs arbitrary: s)
  case (Cons r reqs)
  obtain st p where r: "r = (st, p)" by (cases r)
  from Cons.prems obtain u where "update_stream_subscriber_table E st p s = (Inr (), u)"
    and rest: "for_each (\<lambda>(st, p). update_stream_subscriber_table E st p) reqs u = (Inr (), t)"
    unfolding for_each_Cons_Inr r by auto
  from update_sessions [OF assms(1) this(1)] Cons.IH [OF rest] show ?case by (blast intro: map_le_trans)
qed (simp add: map_le_refl)

section \<open>Properties\<close>

text \<open>C1. A run of the control plane refines the specification: on a switch that refuses to add an
  entry twice, after a set-up that got through and any frames that the listener served, the packets of a
  stream that was asked for leave at the ports of the two groups of its mirror session, sorted. The general
  group is the ports that subscribed to stream 0, once for each request, for stream 0 itself and for a stream
  that was new after stream 0, and all members of the ring, the CPU port standing for a member 0, for any
  other stream. The own group is the ports that subscribed to the stream, once for each request; stream 0 has
  the general group alone. A stream nobody asked for has no session.\<close>

theorem subscriptions_refined:
  assumes "refuses_duplicates E" and "dv_acks (replay (c_trace s)) = Map.empty"
    and "setup_tables E c (start_run s) = (Inr (), u)" and "receive_pkt_from_tofino E frames u = (Inr (), t)"
  shows "leaving (replay (c_trace t)) =
    routing (map (\<lambda>p. if p = 0 then rg_cpu_port c else p) (rg_members c)) (requests_of frames)"
proof -
  from setup_tables_run(2,3) [OF assms(1,3)] assms(2) have "simulates u (asks [])"
    unfolding asks_def by (simp add: simulates_start)
  moreover obtain g0 where
    "streams_routed g0 (map (\<lambda>p. if p = 0 then rg_cpu_port c else p) (rg_members c)) (after_general []) u (asks [])"
    using setup_routed [OF assms(1,3)] .
  ultimately have "simulates t (asks ([] @ requests_of frames)) \<and>
    streams_routed g0 (map (\<lambda>p. if p = 0 then rg_cpu_port c else p) (rg_members c)) (after_general ([] @ requests_of frames)) t
      (asks ([] @ requests_of frames))"
    unfolding requests_of_def by (rule requests_refine [OF assms(1) _ _ listener_requests [OF assms(4)]])
  with refined_leaving show ?thesis by auto
qed

text \<open>C2. Every group takes its own number and, for its node, the number 802 and above: there is room
  for 801 groups, so a run serves at most 800 shards and streams together, whatever the switch holds.\<close>

theorem groups_bounded:
  assumes "refuses_duplicates E"
    and "setup_tables E c (start_run s) = (Inr (), u)" and "receive_pkt_from_tofino E frames u = (Inr (), t)"
  shows "c_group_id t = int (length (rg_shards c) + length (c_streams t)) + 2 \<and>
    length (rg_shards c) + length (c_streams t) \<le> 800"
proof -
  note ready = setup_tables_run [OF assms(1,2)]
  from ready(1,2) have "numbered ((length (rg_shards c) + 1) + length (c_streams u)) u" by simp
  from requests_count [OF assms(1) this listener_requests [OF assms(3)]]
  show ?thesis by (simp add: numbered_def)
qed

text \<open>C34. A session is made once and never changed: the stream of a subscriber keeps the mirror session
  and the groups it was given when the stream was new, whatever is requested afterwards. So a stream that
  was new before stream 0 keeps mirroring to the group of all members, although stream 0 replaces it as
  the general group.\<close>

theorem sessions_kept:
  assumes "refuses_duplicates E" and "receive_pkt_from_tofino E frames s = (Inr (), t)"
    and "dv_acks (replay (c_trace s)) st = Some sid" and "dv_mirror (replay (c_trace s)) sid = Some groups"
  shows "dv_acks (replay (c_trace t)) st = Some sid \<and> dv_mirror (replay (c_trace t)) sid = Some groups"
  using requests_sessions [OF assms(1) listener_requests [OF assms(2)]] assms(3,4)
  by (auto simp: map_le_def dom_def)

definition sample_switch :: "dev_env" where
  "sample_switch = \<lparr>d_do = (\<lambda>tr a. if present (replay tr) a then Inl (Exc ''ALREADY_EXISTS'') else Inr []),
     d_time = (\<lambda>tr. 0), d_wire = (\<lambda>p. [])\<rparr>"

definition sample_ring :: ring_config where
  "sample_ring = \<lparr>rg_dst = ''02:00:00:00:00:02'', rg_src = ''02:00:00:00:00:01'', rg_ip = ''10.0.0.1'', rg_speed = PStr ''10G'',
     rg_fec = PStr ''NONE'', rg_loopback = PInt 6, rg_interface = ''enp6s0'', rg_switch_ports = [PInt 1],
     rg_cntrl_port = PInt 5, rg_cpu_port = 64, rg_in_cntrl = 0, rg_out_cntrl = PInt 1, rg_size = 1, rg_clients = [],
     rg_members = [0], rg_payload_size = 64, rg_shards = [(PInt 0, [7])]\<rparr>"

definition no_run :: control where
  "no_run = \<lparr>c_trace = [], c_next_node = 1, c_nodes = [], c_trees = [], c_group_id = 0, c_sid = 0,
     c_general_group = None, c_streams = []\<rparr>"

definition sub_frame :: "int \<Rightarrow> int \<Rightarrow> received" where
  "sub_frame st port = Frame 0 [(''RingType'', [(''type'', PInt TYPE_SUB)]),
     (''Subscribe'', [(''stream_id'', PInt st), (''subscribe_port'', PInt port)])]"

definition sample_frames :: "received list" where
  "sample_frames = [sub_frame 5 9, TimedOut, sub_frame 0 3, sub_frame 5 2]"

lemma sample_refuses: "refuses_duplicates sample_switch"
  by (simp add: refuses_duplicates_def sample_switch_def)

lemma sample_tell: "\<not> present (replay (c_trace s)) a \<Longrightarrow> tell sample_switch a s = (Inr (), s\<lparr>c_trace := c_trace s @ [(a, True)]\<rparr>)"
  by (simp add: tell_def ask_def io_defs sample_switch_def)

lemma sample_MCTree:
  "dv_groups (replay (c_trace s)) g = None \<Longrightarrow> MCTree sample_switch g s = (Inr (length (c_trees s)),
     s\<lparr>c_trace := c_trace s @ [(EntryAdd ''$pre.mgid'' (mgid_key g) None [], True)],
       c_trees := c_trees s @ [\<lparr>m_mgid = g, m_nodes = []\<rparr>]\<rparr>)"
  by (simp add: MCTree_def io_run sample_tell mgid_key_def)

lemma sample_add_node:
  assumes "dv_nodes (replay (c_trace s)) (c_next_node s) = None" and "mc < length (c_trees s)"
  shows "add_node sample_switch mc (group_rid g) (Some (group_xid g)) (Some ports) (Some []) s = (Inr (),
     s\<lparr>c_trace := c_trace s @ node_events g (m_mgid (c_trees s ! mc)) (c_next_node s) ports, c_next_node := c_next_node s + 1,
       c_nodes := c_nodes s @ [group_node g (m_mgid (c_trees s ! mc)) (c_next_node s) ports],
       c_trees := (c_trees s)[mc := (c_trees s ! mc)\<lparr>m_nodes := m_nodes (c_trees s ! mc) @ [length (c_nodes s)]\<rparr>]\<rparr>)"
  using assms
  by (simp add: add_node_def L1Node_def addMbrs_def associate_def upd_node_def upd_tree_def node_at_def tree_at_def
      io_run sample_tell node_key_def mgid_key_def assert_that_def node_events_def group_node_def Let_def nth_append
      node_data_def)

lemma sample_rid_entry:
  "dv_groups (replay (c_trace s)) (second_key g) = None \<Longrightarrow> rid_entry sample_switch g s =
     (Inr (), s\<lparr>c_trace := c_trace s @ [(EntryAdd ''$pre.mgid'' (mgid_key (second_key g)) None [], True)]\<rparr>)"
  by (simp add: rid_entry_def sample_tell mgid_key_def second_key_def)


lemma second_keys: "second_key 1 = 802" "second_key 2 = 803" "second_key 3 = 804" "second_key 4 = 805"
  by (simp_all add: second_key_def group_rid_def)

lemmas sample_run = sample_tell sample_MCTree sample_add_node sample_rid_entry io_run replay_def second_keys
  node_events_def group_node_def node_key_def mgid_key_def node_data_def member_data_def no_device_def
  shard_group_def new_group_def next_group_def

definition sample_ready :: "control \<Rightarrow> bool" where
  "sample_ready u \<longleftrightarrow> replay (c_trace u) = no_device\<lparr>
       dv_nodes := [1 \<mapsto> [7], 2 \<mapsto> [64]], dv_groups := [1 \<mapsto> [1], 802 \<mapsto> [], 2 \<mapsto> [2], 803 \<mapsto> []]\<rparr> \<and>
     c_next_node u = 3 \<and> c_group_id u = 3 \<and> c_sid u = 1 \<and> c_general_group u = Some 2 \<and> c_streams u = [] \<and>
     c_nodes u = [group_node 1 1 1 [7], group_node 2 2 2 [64]] \<and>
     c_trees u = [\<lparr>m_mgid = 1, m_nodes = [0]\<rparr>, \<lparr>m_mgid = 2, m_nodes = [1]\<rparr>]"

lemma sample_setup: "\<exists>u. setup_tables sample_switch sample_ring (start_run no_run) = (Inr (), u) \<and> sample_ready u"
  by (rule run_ok_unit)
    (simp add: sample_run start_run_def no_run_def sample_ring_def setup_tables_def setup_switch_ports_def port_setup_def
     setup_circulate_table_def setup_client_response_table_def setup_shard_multicast_groups_def sample_ready_def
     setup_cntrl_table_def setup_tail_table_def setup_subscribe_routing_table_def setup_subscriber_acks_table_def)

lemmas sample_frame_defs = receive_pkt_from_tofino_def sub_frame_def handle_frame_def has_layer_def layer_int_def
    update_stream_subscriber_table_def new_stream_def open_session_def session_data_def get_first_node_def tree_at_def
    addMbrs_def assert_that_def upd_node_def node_at_def setup_subscriber_acks_table_def
    TYPE_SUB_def sample_tell sample_MCTree sample_add_node sample_rid_entry io_run replay_append second_keys
    node_events_def group_node_def node_key_def mgid_key_def node_data_def member_data_def no_device_def next_group_def
    py_nth_def from_end_def

lemma sample_served:
  assumes "sample_ready u"
  shows "\<exists>t. receive_pkt_from_tofino sample_switch sample_frames u = (Inr (), t)"
  using assms unfolding sample_ready_def
  by (simp add: sample_frames_def sample_frame_defs)


theorem subscriptions_refined_witness:
  "\<exists>u t. setup_tables sample_switch sample_ring (start_run no_run) = (Inr (), u) \<and>
     receive_pkt_from_tofino sample_switch sample_frames u = (Inr (), t) \<and> leaving (replay (c_trace t)) 5 = Some ([64], [2, 9])
     \<and> leaving (replay (c_trace t)) 0 = Some ([3], []) \<and> leaving (replay (c_trace t)) 1 = None"
proof -
  obtain u t where run: "setup_tables sample_switch sample_ring (start_run no_run) = (Inr (), u)"
    "receive_pkt_from_tofino sample_switch sample_frames u = (Inr (), t)"
    using sample_setup sample_served by blast
  have "dv_acks (replay (c_trace no_run)) = Map.empty" by (simp add: no_run_def no_device_def)
  from subscriptions_refined [OF sample_refuses this run]
  have "leaving (replay (c_trace t)) = routing [64] [(5, 9), (0, 3), (5, 2)]"
    by (simp add: requests_of_def sample_frames_def request_of_def sub_frame_def has_layer_def layer_int_def
        TYPE_SUB_def sample_ring_def)
  with run show ?thesis by (simp add: routing_def subscribers_def after_general_def)
qed

theorem groups_bounded_witness: "\<exists>u t. setup_tables sample_switch sample_ring (start_run no_run) = (Inr (), u) \<and>
   receive_pkt_from_tofino sample_switch sample_frames u = (Inr (), t) \<and> c_group_id t = int (length (c_streams t)) + 3"
proof -
  obtain u t where run: "setup_tables sample_switch sample_ring (start_run no_run) = (Inr (), u)"
    "receive_pkt_from_tofino sample_switch sample_frames u = (Inr (), t)"
    using sample_setup sample_served by blast
  from groups_bounded [OF sample_refuses run] have "c_group_id t = int (length (c_streams t)) + 3"
    by (simp add: sample_ring_def)
  with run show ?thesis by blast
qed


lemma sample_session:
  assumes "sample_ready u"
  shows "\<exists>t v. receive_pkt_from_tofino sample_switch [sub_frame 5 9] u = (Inr (), t)
    \<and> receive_pkt_from_tofino sample_switch [sub_frame 0 3] t = (Inr (), v)
    \<and> dv_acks (replay (c_trace t)) 5 = Some 1 \<and> dv_mirror (replay (c_trace t)) 1 = Some (2, Some 3)
    \<and> c_general_group v = Some 4"
  using assms unfolding sample_ready_def
  by (simp add: sample_frame_defs the_int_def session_of_def)

theorem sessions_kept_witness:
  "\<exists>v :: control. c_general_group v = Some 4 \<and> dv_acks (replay (c_trace v)) 5 = Some 1 \<and> dv_mirror (replay (c_trace v)) 1 = Some (2, Some 3)"
proof -
  obtain u where "sample_ready u" using sample_setup by blast
  then obtain t v where run: "receive_pkt_from_tofino sample_switch [sub_frame 0 3] t = (Inr (), v)"
    and session: "dv_acks (replay (c_trace t)) 5 = Some 1" "dv_mirror (replay (c_trace t)) 1 = Some (2, Some 3)"
    and general: "c_general_group v = Some 4"
    using sample_session by blast
  from sessions_kept [OF sample_refuses run session] general show ?thesis by blast
qed

end
