(* ===== verification/Ring_Ends.thy ===== *)
theory Ring_Ends
  imports Ring_Groups
begin

text \<open>
  How a run of the control plane ends (code/p4/failure_tests/failure.py, Ring_Run): the wait for the
  generated packets, look by look, and the join of the listener; and the
  configuration that experiment.py writes for a switch is not one that the run accepts.
\<close>

section \<open>The wait for the packet generator\<close>

text \<open>A clock that never goes back, on which a pause takes at least its length.\<close>

definition clock_runs :: "dev_env \<Rightarrow> bool" where
  "clock_runs E \<longleftrightarrow> (\<forall>tr a ok. d_time E tr + (case a of Pause i \<Rightarrow> of_int (max 0 i) | _ \<Rightarrow> 0) \<le> d_time E (tr @ [(a, ok)]))"

lemma clock_ask:
  assumes "clock_runs E" and "ask E a s = (r, t)"
  shows "d_time E (c_trace s) \<le> d_time E (c_trace t)"
proof -
  let ?ok = "case d_do E (c_trace s) a of Inl e \<Rightarrow> False | Inr v \<Rightarrow> True"
  have "d_time E (c_trace s) \<le> d_time E (c_trace s) + (case a of Pause i \<Rightarrow> of_int (max 0 i) | _ \<Rightarrow> 0)"
    by (simp split: dev_action.split)
  also from assms(1) have "\<dots> \<le> d_time E (c_trace s @ [(a, ?ok)])"
    unfolding clock_runs_def by blast
  finally show ?thesis using assms(2) by (auto simp: ask_def Let_def)
qed

lemma clock_pause:
  assumes "clock_runs E"
  shows "d_time E tr + 2 \<le> d_time E (tr @ [(Pause 2, ok)])"
  using assms [unfolded clock_runs_def, rule_format, of tr "Pause 2" ok] by simp

lemma wait_generated_enough:
  assumes "clock_runs E" and "start_time + 5 - 2 * of_nat n \<le> d_time E (c_trace s)"
  shows "wait_generated (Suc n + k) E start_time s = wait_generated (Suc n) E start_time s
    \<and> fst (wait_generated (Suc n) E start_time s) \<noteq> Inr None"
  using assms(2)
proof (induction n arbitrary: s)
  case 0
  then have "\<not> d_time E (c_trace s) - start_time < 5" by simp
  then show ?case by (simp add: io_run bnd_def)
next
  case (Suc n)
  let ?ask = "ask E (EntryGet ''$PKTGEN_APPLICATION_CFG'' app_key)"
  obtain r t where ask: "?ask s = (r, t)" by fastforce
  have later: "start_time + 5 - 2 * of_nat n \<le> d_time E (c_trace t @ [(Pause 2, True)])"
    using Suc.prems clock_ask [OF assms(1) ask] clock_pause [OF assms(1), of "c_trace t" True] by simp
  from Suc.IH [of "t\<lparr>c_trace := c_trace t @ [(Pause 2, True)]\<rparr>"] later
  have IH: "wait_generated (Suc n + k) E start_time (t\<lparr>c_trace := c_trace t @ [(Pause 2, True)]\<rparr>)
      = wait_generated (Suc n) E start_time (t\<lparr>c_trace := c_trace t @ [(Pause 2, True)]\<rparr>)"
    "fst (wait_generated (Suc n) E start_time (t\<lparr>c_trace := c_trace t @ [(Pause 2, True)]\<rparr>)) \<noteq> Inr None" by simp_all
  have unfold: "wait_generated (Suc m) E start_time s =
      (if \<not> d_time E (c_trace s) - start_time < 5 then (Inr (Some ()), s)
       else case r of Inl e \<Rightarrow> (Inl e, t)
            | Inr d \<Rightarrow> (case all_generated d of Inl e \<Rightarrow> (Inl e, t)
                | Inr done \<Rightarrow> if done then (Inr (Some ()), t)
                    else wait_generated m E start_time (t\<lparr>c_trace := c_trace t @ [(Pause 2, True)]\<rparr>)))" for m
    using ask by (auto simp: bnd_def andthen_def io_run note_done_def split: sum.split)
  show ?case
    using IH unfolding add_Suc [of "Suc n"] unfold [of "Suc n + k"] unfold [of "Suc n"]
    by (auto split: sum.split)
qed


lemma wait_from_now:
  assumes "clock_runs E"
  shows "wait_generated (4 + k) E (d_time E (c_trace s)) s = wait_generated 4 E (d_time E (c_trace s)) s"
    "fst (wait_generated 4 E (d_time E (c_trace s)) s) \<noteq> Inr None"
  using wait_generated_enough [OF assms, of "d_time E (c_trace s)" 3 s k] by (simp_all add: eval_nat_numeral)

definition finishes :: "'a option ctl \<Rightarrow> bool" where
  "finishes m \<longleftrightarrow> (\<forall>s. fst (m s) \<noteq> Inr None)"

lemma finishes_bnd: "(\<And>x. finishes (f x)) \<Longrightarrow> finishes (bnd m f)"
  by (auto simp: finishes_def bnd_def split: prod.split sum.split)

lemma finishes_andthen: "finishes n \<Longrightarrow> finishes (andthen m n)"
  unfolding andthen_def by (rule finishes_bnd)

lemma timed_wait:
  assumes "clock_runs E" and some: "\<And>x. finishes (f (Some x))"
  shows "finishes (bnd (gets (\<lambda>s. d_time E (c_trace s))) (\<lambda>now. bnd (wait_generated (4 + k) E now) f))"
  unfolding finishes_def
proof
  fix s
  obtain r t where run: "wait_generated (4 + k) E (d_time E (c_trace s)) s = (r, t)" by fastforce
  with wait_from_now(1) [OF assms(1)] wait_from_now(2) [OF assms(1)] have "r \<noteq> Inr None" by (metis fst_conv)
  with run some show "fst (bnd (gets (\<lambda>s. d_time E (c_trace s))) (\<lambda>now. bnd (wait_generated (4 + k) E now) f) s) \<noteq> Inr None"
    by (cases r) (auto simp: bnd_def io_run finishes_def split: option.splits)
qed










text \<open>On a clock that is not set back and on which a pause takes its time, four looks are enough.\<close>

definition slow_switch :: "dev_env" where
  "slow_switch = \<lparr>d_do = (\<lambda>tr a. Inr [(''trigger_counter'', PInt 0)]),
     d_time = (\<lambda>tr. sum_list (map (\<lambda>e. case fst e of Pause i \<Rightarrow> of_int (max 0 i) | _ \<Rightarrow> 0) tr)), d_wire = (\<lambda>p. [])\<rparr>"

lemma four_looks:
  assumes "clock_runs E"
  shows "fst (setup_timer_pkt_gen (4 + k) E dst src ip payload s) \<noteq> Inr None"
proof -
  have "finishes (setup_timer_pkt_gen (4 + k) E dst src ip payload)"
    unfolding setup_timer_pkt_gen_def Let_def
    by (intro finishes_bnd finishes_andthen timed_wait [OF assms]) (simp add: finishes_def andthen_def bnd_def io_run split: prod.split sum.split)
  then show ?thesis by (simp add: finishes_def)
qed

lemma slow_clock: "fst (wait_generated 3 slow_switch 0 no_run) = Inr None \<and> clock_runs slow_switch"
proof -
  have "clock_runs slow_switch" by (auto simp: clock_runs_def slow_switch_def split: dev_action.split)
  then show ?thesis
    by (simp add: eval_nat_numeral bnd_def andthen_def io_run slow_switch_def ask_def note_done_def all_generated_def no_run_def)
qed

section \<open>The configuration of the experiments\<close>

lemma generated_keys:
  assumes "generate_switch_config base i cp n crp srp lp th = Inr d"
  shows "fst ` set d = insert ''send_cntrl_pkt'' (fst ` set (switch_fields base i cp n crp srp lp th))"
proof -
  from assms obtain e l where e: "display (switch_fields base i cp n crp srp lp th) = Inr e"
    and d: "d = dict_put ''send_cntrl_pkt'' (PInt (if l = PInt i then 1 else 0)) e"
    by (auto simp: generate_switch_config_def)
  from e obtain f where f: "list_all2 (\<lambda>kr kv. field kr = Inr kv) (switch_fields base i cp n crp srp lp th) f"
    and ef: "e = dict_update [] f" by (auto simp: display_def emap_Inr_iff)
  from f have "map fst f = map fst (switch_fields base i cp n crp srp lp th)"
    by (induction rule: list_all2_induct) (auto simp: field_def)
  then have keys: "fst ` set f = fst ` set (switch_fields base i cp n crp srp lp th)" by (metis set_map)
  have "dict_get e k \<noteq> None \<longleftrightarrow> k \<in> fst ` set f" for k
    unfolding ef dict_get_update using map_of_eq_None_iff [of "rev f" k] by (auto split: option.split)
  then have "fst ` set e = fst ` set f" unfolding dict_get_None_iff by blast
  moreover have "fst ` set (dict_put k v e) = insert k (fst ` set e)" for k and v :: pyval
    using arg_cong [OF keys_dict_put [of k v e], of set] by (auto split: if_splits)
  ultimately show ?thesis using keys unfolding d by simp
qed

lemma emap_first_error:
  "(\<And>x. x \<in> set xs \<Longrightarrow> \<exists>v. f x = Inr v) \<Longrightarrow> f y = Inl e \<Longrightarrow> emap f (xs @ y # ys) = Inl e"
proof (induction xs)
  case (Cons x xs)
  from Cons.prems(1) [of x] obtain v where "f x = Inr v" by auto
  with Cons.IH [OF Cons.prems(1) Cons.prems(2)] show ?case by simp
qed simp

lemma table_lookups:
  assumes "\<And>tr t. \<exists>v. d_do E tr (TableGet t) = Inr v"
  shows "for_each (\<lambda>t. tell E (TableGet t)) ts s
    = (Inr (), s\<lparr>c_trace := c_trace s @ map (\<lambda>t. (TableGet t, True)) ts\<rparr>)"
proof (induction ts arbitrary: s)
  case (Cons t ts)
  have "tell E (TableGet t) s = (Inr (), s\<lparr>c_trace := c_trace s @ [(TableGet t, True)]\<rparr>)"
    using assms by (simp add: tell_Inr)
  with Cons show ?case by simp
qed simp

text \<open>C36. The configuration that experiment.py generates for a switch does not drive the control plane
  test: whatever values the file gives its keys, the run looks up its tables and then raises
  \<open>KeyError\<close> for the list of clients, before it adds a single entry to the switch.\<close>

theorem generated_config_rejected:
  assumes "generate_switch_config base i cp n crp srp lp th = Inr d" and "map fst data = map fst d"
    and "\<And>tr t. \<exists>v. d_do E tr (TableGet t) = Inr v"
  shows "runTest fuel E frames (PDict data) s = (Inl (KeyError ''all_client_ips_and_ports''),
    start_run (s\<lparr>c_trace := c_trace s @ map (\<lambda>t. (TableGet t, True)) run_tables\<rparr>))"
proof -
  have "fst ` set data = fst ` set d" using assms(2) by (metis set_map)
  with generated_keys [OF assms(1)] have keys: "dict_get data k = None \<longleftrightarrow>
      k \<notin> insert ''send_cntrl_pkt'' (fst ` set (switch_fields base i cp n crp srp lp th))" for k
    by (simp add: dict_get_None_iff)
  let ?before = "takeWhile (\<lambda>k. k \<noteq> ''all_client_ips_and_ports'') ring_keys"
  have split: "ring_keys = ?before @ ''all_client_ips_and_ports'' # tl (dropWhile (\<lambda>k. k \<noteq> ''all_client_ips_and_ports'') ring_keys)"
    by (simp add: ring_keys_def)
  have "\<exists>v. py_item (PDict data) k = Inr v" if "k \<in> set ?before" for k
  proof -
    from that have "dict_get data k \<noteq> None" unfolding keys by (auto simp: ring_keys_def switch_fields_def Let_def)
    then show ?thesis by auto
  qed
  moreover have "dict_get data ''all_client_ips_and_ports'' = None" unfolding keys by (simp add: switch_fields_def Let_def)
  ultimately have "emap (py_item (PDict data)) ring_keys = Inl (KeyError ''all_client_ips_and_ports'')"
    by (subst split) (rule emap_first_error; simp)
  then have config: "ring_config_of (PDict data) = Inl (KeyError ''all_client_ips_and_ports'')"
    by (simp add: ring_config_of_def)
  have "dict_get data ''device_number'' \<noteq> None" unfolding keys by (simp add: switch_fields_def Let_def)
  then show ?thesis
    using table_lookups [OF assms(3)] by (auto simp: runTest_def config io_run)
qed

theorem generated_config_rejected_witness:
  "fst (runTest 4 sample_switch [] (PDict (demo_switch 0)) no_run) = Inl (KeyError ''all_client_ips_and_ports'')"
proof -
  have "case generate_switch_config demo_base 0 PNone 2 (PInt 1) 2 PNone PNone of Inr d \<Rightarrow> True | Inl _ \<Rightarrow> False"
    by code_simp
  then have "generate_switch_config demo_base 0 PNone 2 (PInt 1) 2 PNone PNone = Inr (demo_switch 0)"
    by (simp add: demo_switch_def split: sum.splits)
  from generated_config_rejected [OF this refl, of sample_switch] show ?thesis by (simp add: sample_switch_def)
qed

end
