(* ===== verification/Ring_Jump.thy ===== *)
theory Ring_Jump
  imports Ring_Packets "HOL-Library.Sublist"
begin

text \<open>
  code/p4/failure_tests/failure.py, the jump host: \<open>run_jump_sniff\<close> reads the frames of the external
  interface and hands those addressed to the log service on to the switch, until an error stops it.
  The two sockets are a parameter; the loop runs on the frames that arrived so far.
\<close>

section \<open>The forwarder\<close>

text \<open>\<open>j_open\<close> is the outcome of binding a raw socket to an interface, \<open>j_send\<close> that of sending a frame
  after the frames already sent. A time-out of a socket is \<open>socket_timeout\<close>. The dissected
  copy that the code makes of a wanted frame is not used.\<close>

record jump_env =
  j_open :: "string \<Rightarrow> unit res"
  j_send :: "byte list list \<Rightarrow> byte list \<Rightarrow> unit res"

definition socket_timeout :: py_error where
  "socket_timeout = Exc ''socket.timeout''"

text \<open>\<open>struct.unpack\<close> of a fixed layout wants exactly its number of bytes.\<close>

definition unpack_bytes :: "nat \<Rightarrow> byte list \<Rightarrow> byte list res" where
  "unpack_bytes n bs = (if length bs = n then Inr bs else Inl (Exc ''struct.error''))"

definition inet_ntoa :: "byte list \<Rightarrow> string" where
  "inet_ntoa bs = join ''.'' (map (\<lambda>b. str_nat (unat b)) bs)"

definition wants_jump :: "byte list \<Rightarrow> bool res" where
  "wants_jump raw_data =
     ebind (unpack_bytes 20 (drop 14 (take 34 raw_data))) (\<lambda>iph.
     if inet_ntoa (drop 16 iph) = ''10.229.49.9'' \<and> iph ! 9 = 17
     then ebind (unpack_bytes 8 (drop 34 (take 42 raw_data))) (\<lambda>udph.
            Inr (256 * unat (udph ! 2) + unat (udph ! 3) = 5005))
     else Inr False)"

text \<open>One round: a frame or an error of the receiving socket. The result is the frames sent so far.\<close>

definition jump_frame :: "jump_env \<Rightarrow> byte list list \<Rightarrow> byte list res \<Rightarrow> byte list list res" where
  "jump_frame J sent arrival =
     (case ebind arrival (\<lambda>raw_data. ebind (wants_jump raw_data) (\<lambda>w.
             if w then ebind (j_send J sent raw_data) (\<lambda>_. Inr (sent @ [raw_data])) else Inr sent)) of
        Inl e \<Rightarrow> if e = socket_timeout then Inr sent else Inl e
      | Inr sent' \<Rightarrow> Inr sent')"

fun jump_loop :: "jump_env \<Rightarrow> byte list res list \<Rightarrow> byte list list \<Rightarrow> py_error option \<times> byte list list" where
  "jump_loop J [] sent = (None, sent)"
| "jump_loop J (a # as) sent =
     (case jump_frame J sent a of Inl e \<Rightarrow> (Some e, sent) | Inr sent' \<Rightarrow> jump_loop J as sent')"

definition run_jump_sniff ::
  "jump_env \<Rightarrow> string \<Rightarrow> string \<Rightarrow> byte list res list \<Rightarrow> py_error option \<times> byte list list" where
  "run_jump_sniff J external_interface tofino_interface arrivals =
     (case ebind (j_open J external_interface) (\<lambda>_. j_open J tofino_interface) of
        Inl e \<Rightarrow> (Some e, [])
      | Inr _ \<Rightarrow> jump_loop J arrivals [])"

section \<open>What it forwards\<close>

text \<open>The frames for the service by their bytes: protocol 17, destination 10.229.49.9, port 5005.\<close>

definition for_service :: "byte list \<Rightarrow> bool" where
  "for_service f \<longleftrightarrow> f ! 23 = 17 \<and> take 4 (drop 30 f) = [10, 229, 49, 9] \<and> f ! 36 = 19 \<and> f ! 37 = 141"

lemma inet_ntoa_inject:
  assumes "length as = 4" "length bs = 4"
  shows "inet_ntoa as = inet_ntoa bs \<longleftrightarrow> as = bs"
proof
  assume "inet_ntoa as = inet_ntoa bs"
  then have same: "map (\<lambda>b. str_nat (unat b)) as = map (\<lambda>b. str_nat (unat b)) bs"
    using dotted_text_split assms by (metis inet_ntoa_def)
  have "inj (\<lambda>b :: byte. str_nat (unat b))" by (rule injI) (simp add: word_unat_eq_iff)
  with same show "as = bs" by (rule map_injective)
qed simp

lemma service_address: "inet_ntoa [10, 229, 49, 9] = ''10.229.49.9''"
  by code_simp

lemma byte_pair:
  fixes a b :: byte
  shows "256 * unat a + unat b = 5005 \<longleftrightarrow> a = 19 \<and> b = 141"
proof -
  have "256 * unat a + unat b = 256 * 19 + 141 \<longleftrightarrow> unat a = 19 \<and> unat b = 141"
    using unat_byte_less [of b] by presburger
  then show ?thesis by (simp add: word_unat_eq_iff)
qed

lemma wants_jump_long:
  assumes "42 \<le> length f"
  shows "wants_jump f = Inr (for_service f)"
proof -
  have header: "unpack_bytes 20 (drop 14 (take 34 f)) = Inr (drop 14 (take 34 f))"
    "unpack_bytes 8 (drop 34 (take 42 f)) = Inr (drop 34 (take 42 f))"
    using assms by (simp_all add: unpack_bytes_def)
  have "drop 16 (drop 14 (take 34 f)) = take 4 (drop 30 f)" by (simp add: drop_take)
  then have "inet_ntoa (drop 16 (drop 14 (take 34 f))) = ''10.229.49.9'' \<longleftrightarrow> take 4 (drop 30 f) = [10, 229, 49, 9]"
    using assms inet_ntoa_inject [of "take 4 (drop 30 f)" "[10, 229, 49, 9]"] by (simp add: service_address)
  then show ?thesis
    using assms by (simp add: wants_jump_def header for_service_def byte_pair nth_drop conj_ac)
qed

text \<open>A frame that ends before the IP header does is an error, which the loop does not survive.\<close>

lemma wants_jump_short: "length f < 34 \<Longrightarrow> wants_jump f = Inl (Exc ''struct.error'')"
proof -
  assume "length f < 34"
  then have "length (drop 14 (take 34 f)) \<noteq> 20" by simp
  then show ?thesis by (simp only: wants_jump_def unpack_bytes_def if_False) simp
qed

lemma jump_stops_at_short_frame:
  "length f < 34 \<Longrightarrow> jump_loop J (Inr f # as) sent = (Some (Exc ''struct.error''), sent)"
  by (simp add: jump_frame_def wants_jump_short socket_timeout_def)

fun frames_in :: "byte list res list \<Rightarrow> byte list list" where
  "frames_in [] = []"
| "frames_in (Inr f # as) = f # frames_in as"
| "frames_in (Inl e # as) = frames_in as"

text \<open>With sockets that work, whole frames and time-outs only, the frames for the service go out
  unchanged and in their order, and nothing else does.\<close>

lemma jump_loop_forwards:
  assumes "\<forall>sent f. j_send J sent f = Inr ()"
    and "\<forall>a \<in> set as. a = Inl socket_timeout \<or> (\<exists>f. a = Inr f \<and> 42 \<le> length f)"
  shows "jump_loop J as sent = (None, sent @ filter for_service (frames_in as))"
  using assms(2)
proof (induction as arbitrary: sent)
  case (Cons a as)
  then consider "a = Inl socket_timeout" | f where "a = Inr f" "42 \<le> length f" by auto
  then show ?case
    by cases (use Cons assms(1) in \<open>auto simp: jump_frame_def wants_jump_long\<close>)
qed simp

lemma jump_forwards:
  assumes "\<forall>i. j_open J i = Inr ()" "\<forall>sent f. j_send J sent f = Inr ()"
    and "\<forall>a \<in> set as. a = Inl socket_timeout \<or> (\<exists>f. a = Inr f \<and> 42 \<le> length f)"
  shows "run_jump_sniff J ext tofino as = (None, filter for_service (frames_in as))"
  using assms jump_loop_forwards by (simp add: run_jump_sniff_def)

text \<open>Whatever fails, what went out arrived and was wanted, in the order of arrival.\<close>

lemma jump_loop_subseq:
  "jump_loop J as sent = (e, out) \<Longrightarrow>
     \<exists>more. out = sent @ more \<and> subseq more (frames_in as) \<and> (\<forall>f \<in> set more. wants_jump f = Inr True)"
proof (induction as arbitrary: sent)
  case (Cons a as)
  show ?case
  proof (cases "jump_frame J sent a")
    case (Inr sent')
    with Cons.prems Cons.IH obtain more where more: "out = sent' @ more" "subseq more (frames_in as)"
      "\<forall>f \<in> set more. wants_jump f = Inr True" by auto
    from Inr have "sent' = sent \<or> (\<exists>f. a = Inr f \<and> wants_jump f = Inr True \<and> sent' = sent @ [f])"
      by (auto simp: jump_frame_def ebind_eq_Inl split: sum.splits if_splits)
    with more show ?thesis by (cases a) auto
  qed (use Cons.prems in auto)
qed simp

end
