(* ===== verification/Topology_Links.thy ===== *)
theory Topology_Links
  imports Topology
begin

text \<open>
  What a finished \<open>AppTopo\<close> (code/tutorials/utils/mininet/apptopo.py) knows of its links: every link of a
  host leads to a switch and is recorded, and so is every link between switches, at both ends. The
  controller relies on it.
\<close>

section \<open>The links a topology records\<close>

definition host_linked :: "app_topo \<Rightarrow> string \<Rightarrow> string \<Rightarrow> bool" where
  "host_linked t h sw \<longleftrightarrow> (\<exists>m l. dict_get (at_host_links t) h = Some m \<and> dict_get m sw = Some l)"

definition sw_linked :: "app_topo \<Rightarrow> string \<Rightarrow> string \<Rightarrow> bool" where
  "sw_linked t a b \<longleftrightarrow> (\<exists>m x. dict_get (at_sw_links t) a = Some m \<and> dict_get m b = Some x)"

text \<open>Links are only added, and the hosts stay the same while links are.\<close>

definition links_grow :: "app_topo \<Rightarrow> app_topo \<Rightarrow> bool" where
  "links_grow s t \<longleftrightarrow> (\<forall>h sw. host_linked s h sw \<longrightarrow> host_linked t h sw)
     \<and> (\<forall>a b. sw_linked s a b \<longrightarrow> sw_linked t a b)
     \<and> map fst (at_sw_links t) = map fst (at_sw_links s)"

definition same_hosts :: "app_topo \<Rightarrow> app_topo \<Rightarrow> bool" where
  "same_hosts s t \<longleftrightarrow> links_grow s t \<and> map fst (at_host_links t) = map fst (at_host_links s)"

interpretation links: step_relation links_grow
  by unfold_locales (auto simp: links_grow_def)

interpretation hosts: step_relation same_hosts
  by unfold_locales (auto simp: same_hosts_def links_grow_def)

lemma dict_put_known: "dict_get d k = Some x \<Longrightarrow> map fst (dict_put k v d) = map fst d"
  using dict_get_None_iff [of d k] by (simp add: keys_dict_put)

lemma topo_grows:
  "keeps same_hosts (emit e)" "keeps same_hosts (append_port sw n)"
  "keeps same_hosts (put_host_link h sw l)" "keeps same_hosts (put_sw_link a b ps)"
proof -
  show "keeps same_hosts (emit e)"
    by (simp add: keeps_def emit_def io_defs same_hosts_def links_grow_def host_linked_def sw_linked_def)
  show "keeps same_hosts (append_port sw n)"
    by (simp add: keeps_def append_port_def io_defs same_hosts_def links_grow_def host_linked_def sw_linked_def
        split: option.split)
  show "keeps same_hosts (put_host_link h sw l)"
    by (auto simp: keeps_def put_host_link_def io_defs same_hosts_def links_grow_def host_linked_def sw_linked_def
        dict_simps dict_put_known split: option.split)
  show "keeps same_hosts (put_sw_link a b ps)"
    by (auto simp: keeps_def put_sw_link_def io_defs same_hosts_def links_grow_def host_linked_def sw_linked_def
        dict_simps dict_put_known split: option.split)
qed

lemma connect_grows:
  "keeps same_hosts (connect_host lat bws h n il)" "keeps same_hosts (connect_switches lat bws l)"
  unfolding connect_host_def connect_switches_def record_host_link_def record_sw_links_def Let_def
  by (intro hosts.keeps_rules topo_grows)+

definition other_end :: "string \<Rightarrow> string \<times> string \<Rightarrow> string" where
  "other_end h l = (if fst l \<noteq> h then fst l else snd l)"

lemma record_host_linked: "record_host_link h sw mk s = (Inr (), t) \<Longrightarrow> host_linked t h sw"
  by (auto simp: record_host_link_def put_host_link_def bnd_eq_Inr io_run host_linked_def dict_simps
      split: option.splits)

lemma emit_run: "emit e s = (Inr (), t) \<Longrightarrow> host_linked t = host_linked s \<and> sw_linked t = sw_linked s"
  by (auto simp: emit_def io_run host_linked_def sw_linked_def fun_eq_iff)

lemma connect_host_linked:
  assumes "connect_host lat bws h n (i, l) s = (Inr (), t)"
  shows "host_linked t h (other_end h l)" "starts (CHR ''s'') (other_end h l) = Inr True"
proof -
  have *: "connect_host lat bws h n (i, l) = (let sw = other_end h l in
      bnd (lift (py_int (tl sw))) (\<lambda>sw_num.
      bnd (lift (starts (CHR ''s'') sw)) (\<lambda>ok.
      andthen (lift (assert_that ok (''Hosts should be connected to switches, not '' @ sw)))
      (let mac = host_mac_of sw_num n; key = h @ sw
       in andthen (append_port sw h)
         (andthen (record_host_link h sw (\<lambda>p.
            \<lparr>hl_idx = i, hl_host_mac = mac, hl_host_ip = ip_of sw_num n, hl_sw = sw,
             hl_sw_mac = mac, hl_sw_ip = ip_of sw_num 254, hl_sw_port = p\<rparr>))
         (emit (AddLink h sw (delay_for lat key) (bw_for bws key) (Some mac) (Some mac))))))))"
    by (simp add: connect_host_def other_end_def Let_def)
  from assms obtain ok mk s1 s2 e where run: "starts (CHR ''s'') (other_end h l) = Inr ok" "ok"
    "record_host_link h (other_end h l) mk s1 = (Inr (), s2)" "emit e s2 = (Inr (), t)"
    unfolding * Let_def by (auto simp: bnd_eq_Inr andthen_unit io_run assert_that_def split: if_splits)
  from run(1,2) show "starts (CHR ''s'') (other_end h l) = Inr True" by simp
  from record_host_linked [OF run(3)] emit_run [OF run(4)] show "host_linked t h (other_end h l)" by simp
qed

lemma connect_hosts_linked:
  assumes "for_each (connect_host lat bws h n) ils s = (Inr (), t)" and "(i, l) \<in> set ils"
  shows "host_linked t h (other_end h l) \<and> starts (CHR ''s'') (other_end h l) = Inr True"
  using assms
proof (induction ils arbitrary: s)
  case (Cons il ils)
  from Cons.prems(1) obtain u where 1: "connect_host lat bws h n il s = (Inr (), u)"
    and rest: "for_each (connect_host lat bws h n) ils u = (Inr (), t)" unfolding for_each_Cons_Inr by blast
  have "links_grow u t"
    using keepsD [OF hosts.keeps_for_each [OF connect_grows(1)] rest] by (simp add: same_hosts_def)
  with 1 connect_host_linked [of lat bws h n i l s u] Cons rest show ?case
    by (cases "il = (i, l)") (auto simp: links_grow_def)
qed simp

lemma add_app_host_run:
  assumes run: "add_app_host links lat bws h s = (Inr (), t)" and new: "dict_get (at_host_links s) h = None"
  shows "links_grow s t" "map fst (at_host_links t) = map fst (at_host_links s) @ [h]"
    "\<And>l. l \<in> set links \<Longrightarrow> fst l = h \<or> snd l = h \<Longrightarrow>
       host_linked t h (other_end h l) \<and> starts (CHR ''s'') (other_end h l) = Inr True"
proof -
  let ?s1 = "s\<lparr>at_events := at_events s @ [AddHost h], at_host_links := dict_put h [] (at_host_links s)\<rparr>"
  let ?ils = "enumerate 0 (filter (\<lambda>l. fst l = h \<or> snd l = h) links)"
  from run obtain n where links: "for_each (connect_host lat bws h n) ?ils ?s1 = (Inr (), t)"
    by (auto simp: add_app_host_def bnd_eq_Inr andthen_unit io_run emit_def)
  have grow: "same_hosts ?s1 t" using keepsD [OF hosts.keeps_for_each [OF connect_grows(1)] links] .
  have "links_grow s ?s1" using new
    by (auto simp: links_grow_def host_linked_def sw_linked_def dict_simps)
  with grow show "links_grow s t" by (auto simp: same_hosts_def intro: links.R_trans)
  from grow show "map fst (at_host_links t) = map fst (at_host_links s) @ [h]"
    by (simp add: same_hosts_def dict_put_fresh [OF new])
  fix l assume "l \<in> set links" "fst l = h \<or> snd l = h"
  then have "l \<in> snd ` set ?ils" by (simp flip: set_map)
  then obtain i where "(i, l) \<in> set ?ils" by auto
  from connect_hosts_linked [OF links this]
  show "host_linked t h (other_end h l) \<and> starts (CHR ''s'') (other_end h l) = Inr True" .
qed

lemma add_app_hosts_run:
  assumes "for_each (add_app_host links lat bws) hs s = (Inr (), t)" and "distinct (map fst (at_host_links s) @ hs)"
  shows "links_grow s t \<and> map fst (at_host_links t) = map fst (at_host_links s) @ hs \<and>
    (\<forall>h \<in> set hs. \<forall>l \<in> set links. fst l = h \<or> snd l = h \<longrightarrow>
       host_linked t h (other_end h l) \<and> starts (CHR ''s'') (other_end h l) = Inr True)"
  using assms
proof (induction hs arbitrary: s)
  case (Cons h hs)
  from Cons.prems(1) obtain u where 1: "add_app_host links lat bws h s = (Inr (), u)"
    and rest: "for_each (add_app_host links lat bws) hs u = (Inr (), t)" unfolding for_each_Cons_Inr by blast
  from Cons.prems(2) have new: "dict_get (at_host_links s) h = None" by (simp add: dict_get_None_iff)
  note first = add_app_host_run [OF 1 new]
  from Cons.prems(2) have "distinct (map fst (at_host_links u) @ hs)" by (simp add: first(2))
  note IH = Cons.IH [OF rest this]
  then have "links_grow u t" by blast
  with first IH show ?case by (auto simp: links_grow_def)
qed (simp add: links.R_refl)


lemma connect_switches_linked:
  assumes "connect_switches lat bws (a, b) s = (Inr (), t)"
    and "starts (CHR ''s'') a = Inr True" "starts (CHR ''s'') b = Inr True"
  shows "sw_linked t a b \<and> sw_linked t b a"
proof -
  from assms obtain n1 n2 s1 where "record_sw_links a b n1 n2 s1 = (Inr (), t)"
    by (auto simp: connect_switches_def Let_def bnd_eq_Inr andthen_unit io_run)
  then obtain i1 i2 s2 where 1: "put_sw_link a b (i1, i2) s1 = (Inr (), s2)" and 2: "put_sw_link b a (i2, i1) s2 = (Inr (), t)"
    by (auto simp: record_sw_links_def Let_def bnd_eq_Inr andthen_unit io_run)
  have put: "sw_linked v x y" if "put_sw_link x y ps u = (Inr (), v)" for x y ps u v
    using that by (auto simp: put_sw_link_def bnd_eq_Inr io_run sw_linked_def dict_simps split: option.splits)
  from keepsD [OF topo_grows(4) 2] put [OF 1] have "sw_linked t a b" by (auto simp: same_hosts_def links_grow_def)
  with put [OF 2] show ?thesis by blast
qed

lemma connect_all_linked:
  assumes "for_each (connect_switches lat bws) ls s = (Inr (), t)" and "(a, b) \<in> set ls"
    and "starts (CHR ''s'') a = Inr True" "starts (CHR ''s'') b = Inr True"
  shows "sw_linked t a b \<and> sw_linked t b a"
  using assms(1,2)
proof (induction ls arbitrary: s)
  case (Cons l ls)
  from Cons.prems(1) obtain u where 1: "connect_switches lat bws l s = (Inr (), u)"
    and rest: "for_each (connect_switches lat bws) ls u = (Inr (), t)" unfolding for_each_Cons_Inr by blast
  have "links_grow u t"
    using keepsD [OF hosts.keeps_for_each [OF connect_grows(2)] rest] by (simp add: same_hosts_def)
  with 1 connect_switches_linked [of lat bws a b s u] assms(3,4) Cons rest show ?case
    by (cases "l = (a, b)") (auto simp: links_grow_def)
qed simp

lemma names_of_set:
  assumes "names_of c nodes = Inr ns"
  shows "set ns = {n \<in> set nodes. starts c n = Inr True}" "distinct ns"
    "\<forall>n \<in> set nodes. \<exists>b. starts c n = Inr b"
proof -
  from assms obtain bs where bs: "list_all2 (\<lambda>n b. starts c n = Inr b) nodes bs"
    and ns: "ns = sort (remdups (map fst (filter snd (zip nodes bs))))"
    by (auto simp: names_of_def emap_Inr_iff)
  from bs show "set ns = {n \<in> set nodes. starts c n = Inr True}" unfolding ns
    by (induction rule: list_all2_induct) auto
  show "distinct ns" by (simp add: ns)
  from bs show "\<forall>n \<in> set nodes. \<exists>b. starts c n = Inr b" by (induction rule: list_all2_induct) auto
qed

text \<open>What a finished topology knows of its links.\<close>

lemma AppTopo_links:
  assumes "AppTopo links lat bws dir initial_topo = (Inr (), t)"
  defines "nodes \<equiv> fst ` set links \<union> snd ` set links"
  shows "set (map fst (at_host_links t)) = {n \<in> nodes. starts (CHR ''h'') n = Inr True}"
    "distinct (map fst (at_host_links t))"
    "set (map fst (at_sw_links t)) = {n \<in> nodes. starts (CHR ''s'') n = Inr True}"
    "\<And>h l. l \<in> set links \<Longrightarrow> fst l = h \<or> snd l = h \<Longrightarrow> starts (CHR ''h'') h = Inr True \<Longrightarrow>
       host_linked t h (other_end h l) \<and> starts (CHR ''s'') (other_end h l) = Inr True"
    "\<And>a b. (a, b) \<in> set links \<Longrightarrow> starts (CHR ''s'') a = Inr True \<Longrightarrow> starts (CHR ''s'') b = Inr True \<Longrightarrow>
       sw_linked t a b \<and> sw_linked t b a"
    "\<forall>n \<in> nodes. n \<noteq> []"
proof -
  from assms(1) obtain hs sws s1 s2 s3 where
    hs: "names_of (CHR ''h'') (map fst links @ map snd links) = Inr hs"
    and sws: "names_of (CHR ''s'') (map fst links @ map snd links) = Inr sws"
    and s1: "s1 = initial_topo\<lparr>at_sw_ports := map (\<lambda>s. (s, [])) sws, at_host_links := [], at_sw_links := map (\<lambda>s. (s, [])) sws\<rparr>"
    and add_sws: "for_each (\<lambda>s. emit (AddSwitch s (dir @ ''/'' @ s @ ''.log''))) sws s1 = (Inr (), s2)"
    and add_hosts: "for_each (add_app_host links lat bws) hs s2 = (Inr (), s3)"
    and connect: "for_each (connect_switches lat bws) links s3 = (Inr (), t)"
    unfolding AppTopo_def Let_def by (auto simp: bnd_eq_Inr andthen_unit io_run)
  have nodes: "set (map fst links @ map snd links) = nodes" by (simp add: nodes_def)
  note host_names = names_of_set [OF hs, unfolded nodes] and switch_names = names_of_set [OF sws, unfolded nodes]
  have "same_hosts s1 s2" using keepsD [OF hosts.keeps_for_each [OF topo_grows(1)] add_sws] .
  then have s2: "map fst (at_host_links s2) = []" "map fst (at_sw_links s2) = sws"
    by (simp_all add: same_hosts_def links_grow_def s1 comp_def)
  with host_names(2) have "distinct (map fst (at_host_links s2) @ hs)" by simp
  note hosts = add_app_hosts_run [OF add_hosts this, unfolded s2]
  have last: "same_hosts s3 t" using keepsD [OF hosts.keeps_for_each [OF connect_grows(2)] connect] .
  with hosts s2(2) have keys: "map fst (at_host_links t) = hs" "map fst (at_sw_links t) = sws"
    by (simp_all add: same_hosts_def links_grow_def)
  show "set (map fst (at_host_links t)) = {n \<in> nodes. starts (CHR ''h'') n = Inr True}"
    "distinct (map fst (at_host_links t))"
    "set (map fst (at_sw_links t)) = {n \<in> nodes. starts (CHR ''s'') n = Inr True}"
    unfolding keys by (fact host_names(1,2) switch_names(1))+
  show "host_linked t h (other_end h l) \<and> starts (CHR ''s'') (other_end h l) = Inr True"
    if "l \<in> set links" "fst l = h \<or> snd l = h" "starts (CHR ''h'') h = Inr True" for h l
  proof -
    from that have "h \<in> set hs" by (auto simp: host_names(1) nodes_def)
    with hosts that(1,2) have "host_linked s3 h (other_end h l)" "starts (CHR ''s'') (other_end h l) = Inr True" by auto
    with last show ?thesis by (auto simp: same_hosts_def links_grow_def)
  qed
  show "sw_linked t a b \<and> sw_linked t b a"
    if "(a, b) \<in> set links" "starts (CHR ''s'') a = Inr True" "starts (CHR ''s'') b = Inr True" for a b
    using connect_all_linked [OF connect that] .
  show "\<forall>n \<in> nodes. n \<noteq> []" using host_names(3) by (auto simp: starts_def)
qed

end
