(* ===== verification/App_Controller.thy ===== *)
theory App_Controller
  imports Shortest_Path Topology_Links
begin

text \<open>
  code/tutorials/utils/mininet/appcontroller.py: the controller of a multi-switch application. It
  gives every host its addresses on the links that the topology recorded, installs a route to every
  other host over a shortest path, and feeds the entries of each switch to its command line. Mininet
  is the parameter \<open>app_net\<close>; what the controller does to hosts and switches is a list of calls.
\<close>

section \<open>The network\<close>

record app_net =
  an_hosts :: "string list"
  an_switches :: "string list"
  an_topo_switches :: "string list"
  an_intfs :: "string \<Rightarrow> string list"
  an_thrift_port :: "string \<Rightarrow> int"
  an_file :: "string \<Rightarrow> string list res"

datatype app_call =
    SetIP string string int
  | SetMAC string string
  | Cmd string string
  | DefaultRoute string string
  | StartCLI int

type_synonym 'a app_io = "(app_call list, 'a) io"

definition ask_net :: "app_call \<Rightarrow> unit app_io" where
  "ask_net c = modify (\<lambda>cs. cs @ [c])"

text \<open>\<open>net.get(name)\<close>.\<close>

definition net_node :: "app_net \<Rightarrow> string \<Rightarrow> unit app_io" where
  "net_node N n = (if n \<in> set (an_hosts N) \<or> n \<in> set (an_switches N) then ret () else raise (KeyError n))"

section \<open>Entries\<close>

definition read_entries :: "app_net \<Rightarrow> string \<Rightarrow> string list res" where
  "read_entries N filename = ebind (an_file N filename) (\<lambda>ls. Inr (filter (\<lambda>l. l \<noteq> []) (map strip ls)))"

definition switch_entries :: "app_net \<Rightarrow> pyval \<Rightarrow> string \<Rightarrow> pyval list res" where
  "switch_entries N conf sw =
     ebind (py_in ''switches'' conf) (\<lambda>a. if \<not> a then Inr [] else
     ebind (py_item conf ''switches'') (\<lambda>switches.
     ebind (py_in sw switches) (\<lambda>b. if \<not> b then Inr [] else
     ebind (py_item switches sw) (\<lambda>c.
     ebind (py_in ''entries'' c) (\<lambda>d. if \<not> d then Inr [] else
     ebind (py_item c ''entries'') (\<lambda>extra_entries.
     case extra_entries of
       PList xs \<Rightarrow> Inr xs
     | v \<Rightarrow> ebind (as_str v) (\<lambda>path. ebind (read_entries N path) (\<lambda>es. Inr (map PStr es)))))))))"

text \<open>The command line is started with a pipe for bytes and is then given a text, which raises
  \<open>TypeError\<close> unless the text is empty.\<close>

definition entry_lines :: "string list \<Rightarrow> string" where
  "entry_lines ls = join [char_of (10 :: nat)] ls"

definition add_entries :: "int \<Rightarrow> pyval list \<Rightarrow> unit app_io" where
  "add_entries thrift_port entries =
     andthen (lift (assert_that (entries \<noteq> []) ''entries''))
    (bnd (lift (emap as_str entries)) (\<lambda>lines.
     andthen (ask_net (StartCLI thrift_port))
       (if entry_lines lines = [] then ret () else raise (TypeError ''a bytes-like object is required''))))"

definition read_register :: "string \<Rightarrow> int \<Rightarrow> int \<Rightarrow> int app_io" where
  "read_register register idx thrift_port =
     andthen (ask_net (StartCLI thrift_port)) (raise (TypeError ''a bytes-like object is required''))"

section \<open>Hosts\<close>

definition configure_link :: "app_net \<Rightarrow> string \<Rightarrow> host_link \<Rightarrow> unit app_io" where
  "configure_link N h link =
     bnd (lift (py_nth (an_intfs N h) (int (hl_idx link)))) (\<lambda>iface.
     andthen (ask_net (SetIP h (hl_host_ip link) 24))
    (andthen (ask_net (SetMAC h (hl_host_mac link)))
    (andthen (ask_net (Cmd h (''arp -i '' @ iface @ '' -s '' @ hl_sw_ip link @ '' '' @ hl_sw_mac link)))
    (andthen (ask_net (Cmd h (''ethtool --offload '' @ iface @ '' rx off tx off'')))
     (ask_net (Cmd h (''ip route add '' @ hl_sw_ip link @ '' dev '' @ iface)))))))"

text \<open>The default route goes over the link the inner loop saw last, which is the one of an earlier host
  when this one has no link, and unbound when there was none at all.\<close>

definition configure_host ::
  "app_net \<Rightarrow> string \<times> (string \<times> host_link) list \<Rightarrow> host_link option \<Rightarrow> host_link option app_io" where
  "configure_host N host link =
     andthen (net_node N (fst host))
    (bnd (fold_io (\<lambda>l _. andthen (configure_link N (fst host) (snd l)) (ret (Some (snd l)))) (snd host) link) (\<lambda>link'.
     case link' of
       None \<Rightarrow> raise (NameError ''link'')
     | Some l \<Rightarrow> andthen (ask_net (DefaultRoute (fst host) (''via '' @ hl_sw_ip l))) (ret link')))"

section \<open>Routes\<close>

definition is_host :: "string \<Rightarrow> bool" where
  "is_host n = (case n of [] \<Rightarrow> False | c # _ \<Rightarrow> c = CHR ''h'')"

definition first_link :: "app_topo \<Rightarrow> string \<Rightarrow> host_link res" where
  "first_link t h =
     ebind (of_option (KeyError h) (dict_get (at_host_links t) h)) (\<lambda>ls.
     case ls of [] \<Rightarrow> Inl IndexError | l # _ \<Rightarrow> Inr (snd l))"

text \<open>What is looked up for the path from a switch to a host (the entry made of it is commented out).\<close>

definition switch_hop :: "graph \<Rightarrow> app_topo \<Rightarrow> string \<Rightarrow> string \<Rightarrow> unit res" where
  "switch_hop g t h sw =
     ebind (get_path g sw h is_host) (\<lambda>path.
     if path = None \<or> path = Some [] then Inr ()
     else ebind (py_nth (the path) 1) (\<lambda>n.
          ebind (starts (CHR ''s'') n) (\<lambda>s. if \<not> s then Inr () else
          ebind (of_option (KeyError sw) (dict_get (at_sw_links t) sw)) (\<lambda>m.
          ebind (of_option (KeyError n) (dict_get m n)) (\<lambda>_. Inr ())))))"

definition route_cmd :: "host_link \<Rightarrow> host_link \<Rightarrow> string" where
  "route_cmd h_link h2_link = ''ip route add '' @ hl_host_ip h2_link @ '' via '' @ hl_sw_ip h_link"

definition add_route :: "graph \<Rightarrow> app_topo \<Rightarrow> string \<Rightarrow> string \<Rightarrow> unit app_io" where
  "add_route g t h h2 =
     (if h = h2 then ret ()
      else bnd (lift (get_path g h h2 is_host)) (\<lambda>path.
           if path = None \<or> path = Some [] then ret ()
           else bnd (lift (of_option (KeyError h) (dict_get (at_host_links t) h))) (\<lambda>m.
                bnd (lift (py_nth (the path) 1)) (\<lambda>n.
                bnd (lift (of_option (KeyError n) (dict_get m n))) (\<lambda>h_link.
                bnd (lift (first_link t h2)) (\<lambda>h2_link.
                ask_net (Cmd h (route_cmd h_link h2_link))))))))"

definition host_routes :: "app_net \<Rightarrow> graph \<Rightarrow> app_topo \<Rightarrow> string \<Rightarrow> unit app_io" where
  "host_routes N g t h =
     bnd (lift (first_link t h)) (\<lambda>_.
     andthen (for_each (\<lambda>sw. lift (switch_hop g t h sw)) (an_switches N))
       (for_each (add_route g t h) (an_hosts N)))"

section \<open>The controller\<close>

definition configure_switch :: "app_net \<Rightarrow> string \<times> pyval list \<Rightarrow> unit app_io" where
  "configure_switch N se =
     andthen (net_node N (fst se))
       (if snd se = [] then ret () else add_entries (an_thrift_port N (fst se)) (snd se))"

definition AppController :: "pyval \<Rightarrow> string \<Rightarrow> pyval res" where
  "AppController manifest target = ebind (py_item manifest ''targets'') (\<lambda>ts. py_item ts target)"

definition controller_start :: "app_net \<Rightarrow> pyval \<Rightarrow> (string \<times> string) list \<Rightarrow> app_topo \<Rightarrow> unit app_io" where
  "controller_start N conf links t =
     bnd (lift (emap (\<lambda>sw. ebind (switch_entries N conf sw) (\<lambda>es. Inr (sw, es))) (an_topo_switches N))) (\<lambda>entries.
     andthen (bnd (fold_io (configure_host N) (at_host_links t) None) (\<lambda>_. ret ()))
    (andthen (for_each (host_routes N (ShortestPath links) t) (an_hosts N))
     (for_each (configure_switch N) (dict_update [] entries))))"


section \<open>Runs of the controller\<close>

interpretation calls: step_relation "\<lambda>s t :: app_call list. prefix s t"
  by unfold_locales (auto intro: prefix_order.trans)

abbreviation only_adds :: "'a app_io \<Rightarrow> bool" where
  "only_adds m \<equiv> keeps prefix m"

lemma ask_net_adds: "only_adds (ask_net c)"
  by (simp add: keeps_def ask_net_def io_defs)

lemma net_node_adds: "only_adds (net_node N n)"
  unfolding net_node_def by (intro calls.keeps_rules)

lemma add_route_adds: "only_adds (add_route g t h h2)"
  unfolding add_route_def by (intro calls.keeps_rules ask_net_adds)

lemma host_routes_adds: "only_adds (host_routes N g t h)"
  unfolding host_routes_def by (intro calls.keeps_rules add_route_adds)

lemma add_entries_adds: "only_adds (add_entries port es)"
  unfolding add_entries_def by (intro calls.keeps_rules ask_net_adds)

lemma configure_switch_adds: "only_adds (configure_switch N se)"
  unfolding configure_switch_def by (intro calls.keeps_rules net_node_adds add_entries_adds)

text \<open>A loop whose steps get through and achieve something that later calls do not undo.\<close>

lemma for_each_achieves:
  assumes "\<And>x s. x \<in> set xs \<Longrightarrow> \<exists>t. f x s = (Inr (), t) \<and> Q x t"
    and "\<And>x. only_adds (f x)" and "\<And>x s t. Q x s \<Longrightarrow> prefix s t \<Longrightarrow> Q x t"
  shows "\<exists>t. for_each f xs s = (Inr (), t) \<and> (\<forall>x \<in> set xs. Q x t)"
  using assms(1)
proof (induction xs arbitrary: s)
  case (Cons x xs)
  from Cons.prems [of x s] obtain u where u: "f x s = (Inr (), u)" "Q x u" by auto
  from Cons.IH [of u] Cons.prems obtain t where t: "for_each f xs u = (Inr (), t)" "\<forall>x \<in> set xs. Q x t" by auto
  have "prefix u t" using keepsD [OF calls.keeps_for_each [OF assms(2)] t(1)] .
  with assms(3) u(2) have "Q x t" by blast
  with u(1) t show ?case by auto
qed simp

text \<open>Mininet built the network from the topology: its hosts and switches, and an interface for each link.\<close>

definition built_from :: "app_net \<Rightarrow> app_topo \<Rightarrow> bool" where
  "built_from N t \<longleftrightarrow> an_hosts N = map fst (at_host_links t) \<and> an_switches N = map fst (at_sw_links t)
     \<and> set (an_topo_switches N) = set (an_switches N)
     \<and> (\<forall>h m l. (h, m) \<in> set (at_host_links t) \<longrightarrow> l \<in> set m \<longrightarrow> hl_idx (snd l) < length (an_intfs N h))"

lemma configure_link_runs:
  assumes "hl_idx l < length (an_intfs N h)"
  shows "\<exists>t. configure_link N h l s = (Inr (), t)"
  using assms by (simp add: configure_link_def ask_net_def andthen_def bnd_def io_run py_nth_of_nat)

lemma configure_links_run:
  assumes "\<forall>l \<in> set m. hl_idx (snd l) < length (an_intfs N h)" and "m \<noteq> [] \<or> link \<noteq> None"
  shows "\<exists>l t. fold_io (\<lambda>l _. andthen (configure_link N h (snd l)) (ret (Some (snd l)))) m link s = (Inr (Some l), t)"
  using assms
proof (induction m arbitrary: link s)
  case (Cons x m)
  from Cons.prems configure_link_runs [of "snd x" N h s] obtain t where "configure_link N h (snd x) s = (Inr (), t)" by auto
  with Cons.IH [of "Some (snd x)" t] Cons.prems show ?case by (auto simp: io_run)
qed (auto simp: io_run)

lemma configure_host_runs:
  assumes "h \<in> set (an_hosts N)" and "\<forall>l \<in> set m. hl_idx (snd l) < length (an_intfs N h)" and "m \<noteq> []"
  shows "\<exists>l t. configure_host N (h, m) link s = (Inr (Some l), t)"
proof -
  from assms(2,3) configure_links_run [of m N h link s] obtain l t where
    "fold_io (\<lambda>l _. andthen (configure_link N h (snd l)) (ret (Some (snd l)))) m link s = (Inr (Some l), t)" by auto
  with assms(1) show ?thesis by (auto simp: configure_host_def net_node_def io_run ask_net_def)
qed

lemma configure_hosts_run:
  assumes "\<forall>hm \<in> set hms. fst hm \<in> set (an_hosts N) \<and> snd hm \<noteq> []
      \<and> (\<forall>l \<in> set (snd hm). hl_idx (snd l) < length (an_intfs N (fst hm)))"
  shows "\<exists>l t. fold_io (configure_host N) hms link s = (Inr l, t)"
  using assms
proof (induction hms arbitrary: link s)
  case (Cons hm hms)
  obtain h m where hm: "hm = (h, m)" by (cases hm)
  from Cons.prems configure_host_runs [of h N m link s] obtain l t where "configure_host N hm link s = (Inr (Some l), t)"
    by (auto simp: hm)
  with Cons.IH [of "Some l" t] Cons.prems show ?case by (auto simp: io_run)
qed (auto simp: io_run)


lemma path_hop:
  assumes "get_path g a b ex = Inr (Some p)" and "a \<noteq> b"
  obtains n q where "p = a # n # q" "n \<in> set (neighbors g a)"
proof -
  from assms(1) recPath_sound [of g ex b a "[]" p] have "walk g ex b a p" by (simp add: get_path_def simple_walk_def)
  with assms(2) that show ?thesis by (cases "(g, ex, b, a, p)" rule: walk.cases) auto
qed

lemma get_path_defined:
  "a \<in> fst ` set links \<union> snd ` set links \<Longrightarrow> \<exists>r. get_path (ShortestPath links) a b ex = Inr r"
  unfolding get_path_def using recPath_total [OF closed_ShortestPath] known_ShortestPath by metis

lemma switch_hop_ok:
  assumes topo: "AppTopo links lat bws dir initial_topo = (Inr (), t)"
    and known: "sw \<in> set (map fst (at_sw_links t))" and other: "sw \<noteq> h"
  shows "switch_hop (ShortestPath links) t h sw = Inr ()"
proof -
  note T = AppTopo_links [OF topo]
  from known have sw: "sw \<in> fst ` set links \<union> snd ` set links" "starts (CHR ''s'') sw = Inr True"
    unfolding T(3) by auto
  from get_path_defined [OF sw(1)] obtain r where r: "get_path (ShortestPath links) sw h is_host = Inr r" by blast
  show ?thesis
  proof (cases r)
    case None
    with r show ?thesis by (simp add: switch_hop_def)
  next
    case (Some p)
    from path_hop [OF r [unfolded Some] other] obtain n q where p: "p = sw # n # q"
      and n: "n \<in> set (neighbors (ShortestPath links) sw)" .
    from n have edge: "(sw, n) \<in> set links \<or> (n, sw) \<in> set links" by (simp add: neighbors_ShortestPath)
    then have "n \<in> fst ` set links \<union> snd ` set links" by (metis UnI1 UnI2 fst_conv image_eqI snd_conv)
    with T(6) have "n \<noteq> []" by blast
    then obtain b where b: "starts (CHR ''s'') n = Inr b" by (cases n) (simp_all add: starts_def)
    have "b \<Longrightarrow> sw_linked t sw n" using T(5) [of sw n] T(5) [of n sw] edge sw(2) b by auto
    with r Some p b show ?thesis by (auto simp: switch_hop_def py_nth_def from_end_def sw_linked_def)
  qed
qed

lemma add_route_ok:
  assumes topo: "AppTopo links lat bws dir initial_topo = (Inr (), t)"
    and known: "h \<in> set (map fst (at_host_links t))" "h2 \<in> set (map fst (at_host_links t))"
    and links: "\<forall>m. dict_get (at_host_links t) h2 = Some m \<longrightarrow> m \<noteq> []"
  shows "\<exists>u. add_route (ShortestPath links) t h h2 s = (Inr (), u) \<and>
    (\<forall>p. h \<noteq> h2 \<longrightarrow> get_path (ShortestPath links) h h2 is_host = Inr (Some p) \<longrightarrow>
      (\<exists>m l l2. dict_get (at_host_links t) h = Some m \<and> dict_get m (p ! 1) = Some l \<and>
         first_link t h2 = Inr l2 \<and> Cmd h (route_cmd l l2) \<in> set u))"
proof (cases "h = h2")
  case True
  then show ?thesis by (simp add: add_route_def io_run)
next
  case False
  note T = AppTopo_links [OF topo]
  from known(1) have h: "h \<in> fst ` set links \<union> snd ` set links" "starts (CHR ''h'') h = Inr True"
    unfolding T(1) by auto
  from get_path_defined [OF h(1)] obtain r where r: "get_path (ShortestPath links) h h2 is_host = Inr r" by blast
  from known(2) obtain m2 where m2: "dict_get (at_host_links t) h2 = Some m2"
    by (cases "dict_get (at_host_links t) h2") (auto simp: dict_get_None_iff)
  with links obtain l2 m3 where "dict_get (at_host_links t) h2 = Some (l2 # m3)" by (cases m2) auto
  then have first: "first_link t h2 = Inr (snd l2)" by (simp add: first_link_def)
  show ?thesis
  proof (cases r)
    case None
    with r False show ?thesis by (simp add: add_route_def io_run)
  next
    case (Some p)
    from path_hop [OF r [unfolded Some] False] obtain n q where p: "p = h # n # q"
      and n: "n \<in> set (neighbors (ShortestPath links) h)" .
    from n have edge: "(h, n) \<in> set links \<or> (n, h) \<in> set links" by (simp add: neighbors_ShortestPath)
    have "host_linked t h n"
      using edge T(4) [of "(h, n)" h] T(4) [of "(n, h)" h] h(2) by (cases "n = h") (auto simp: other_end_def)
    then obtain m l where "dict_get (at_host_links t) h = Some m" "dict_get m n = Some l" by (auto simp: host_linked_def)
    with False r Some p first show ?thesis
      by (simp add: add_route_def io_run ask_net_def py_nth_def from_end_def)
  qed
qed


lemma host_has_link:
  assumes topo: "AppTopo links lat bws dir initial_topo = (Inr (), t)" and m: "dict_get (at_host_links t) h = Some m"
  shows "m \<noteq> []"
proof -
  note T = AppTopo_links [OF topo]
  from m dict_get_None_iff [of "at_host_links t" h] have "h \<in> set (map fst (at_host_links t))" by auto
  then have "h \<in> fst ` set links \<union> snd ` set links" "starts (CHR ''h'') h = Inr True" unfolding T(1) by auto
  then obtain l where "l \<in> set links" "fst l = h \<or> snd l = h" "starts (CHR ''h'') h = Inr True" by blast
  from T(4) [OF this] m show ?thesis by (auto simp: host_linked_def)
qed

lemma host_not_switch: "starts (CHR ''s'') n = Inr True \<Longrightarrow> starts (CHR ''h'') n \<noteq> Inr True"
  by (auto simp: starts_def split: list.splits)

text \<open>Everything up to the entries of the switches gets through, and the routes are installed.\<close>

definition routed :: "(string \<times> string) list \<Rightarrow> app_topo \<Rightarrow> app_call list \<Rightarrow> string \<Rightarrow> string \<Rightarrow> bool" where
  "routed links t calls h h2 \<longleftrightarrow>
     (\<forall>p. h \<noteq> h2 \<longrightarrow> get_path (ShortestPath links) h h2 is_host = Inr (Some p) \<longrightarrow>
      (\<exists>m l l2. dict_get (at_host_links t) h = Some m \<and> dict_get m (p ! 1) = Some l \<and>
         first_link t h2 = Inr l2 \<and> Cmd h (route_cmd l l2) \<in> set calls))"

lemma routed_prefix: "routed links t cs h h2 \<Longrightarrow> prefix cs ds \<Longrightarrow> routed links t ds h h2"
  unfolding routed_def by (metis set_mono_prefix subsetD)

lemma hosts_routed:
  assumes topo: "AppTopo links lat bws dir initial_topo = (Inr (), t)" and net: "built_from N t"
  shows "\<exists>u. for_each (host_routes N (ShortestPath links) t) (an_hosts N) s = (Inr (), u)
    \<and> (\<forall>h \<in> set (an_hosts N). \<forall>h2 \<in> set (an_hosts N). routed links t u h h2)"
proof (rule for_each_achieves)
  fix h and s :: "app_call list"
  assume h: "h \<in> set (an_hosts N)"
  note T = AppTopo_links [OF topo]
  from h net have known: "h \<in> set (map fst (at_host_links t))" by (simp add: built_from_def)
  then obtain m where m: "dict_get (at_host_links t) h = Some m"
    by (cases "dict_get (at_host_links t) h") (auto simp: dict_get_None_iff)
  with host_has_link [OF topo m] obtain l where first: "first_link t h = Inr l"
    by (cases m) (auto simp: first_link_def)
  have "switch_hop (ShortestPath links) t h sw = Inr ()" if "sw \<in> set (an_switches N)" for sw
  proof (rule switch_hop_ok [OF topo])
    from that net show "sw \<in> set (map fst (at_sw_links t))" by (simp add: built_from_def)
    then have "starts (CHR ''s'') sw = Inr True" unfolding T(3) by simp
    moreover from known have "starts (CHR ''h'') h = Inr True" unfolding T(1) by simp
    ultimately show "sw \<noteq> h" using host_not_switch by blast
  qed
  then have hops: "for_each (\<lambda>sw. lift (switch_hop (ShortestPath links) t h sw)) sws s = (Inr (), s)"
    if "set sws \<subseteq> set (an_switches N)" for sws
    using that by (induction sws) (auto simp: io_run)
  have "\<exists>u. for_each (add_route (ShortestPath links) t h) (an_hosts N) s = (Inr (), u)
      \<and> (\<forall>h2 \<in> set (an_hosts N). routed links t u h h2)"
  proof (rule for_each_achieves [OF _ add_route_adds routed_prefix])
    fix h2 s assume "h2 \<in> set (an_hosts N)"
    with net have "h2 \<in> set (map fst (at_host_links t))" by (simp add: built_from_def)
    from add_route_ok [OF topo known this] host_has_link [OF topo]
    show "\<exists>u. add_route (ShortestPath links) t h h2 s = (Inr (), u) \<and> routed links t u h h2"
      unfolding routed_def by blast
  qed
  with first hops [OF subset_refl] show "\<exists>u. host_routes N (ShortestPath links) t h s = (Inr (), u)
      \<and> (\<forall>h2 \<in> set (an_hosts N). routed links t u h h2)"
    by (auto simp: host_routes_def io_run)
qed (auto intro: host_routes_adds routed_prefix)

lemma hosts_configured:
  assumes topo: "AppTopo links lat bws dir initial_topo = (Inr (), t)" and net: "built_from N t"
  shows "\<exists>l u. fold_io (configure_host N) (at_host_links t) None s = (Inr l, u)"
proof (rule configure_hosts_run, rule ballI)
  fix hm
  assume hm: "hm \<in> set (at_host_links t)"
  obtain h m where h: "hm = (h, m)" by (cases hm)
  have "dict_get (at_host_links t) h = Some m"
    using hm AppTopo_links(2) [OF topo] by (simp add: h dict_get_def map_of_is_SomeI)
  from host_has_link [OF topo this] net hm show "fst hm \<in> set (an_hosts N) \<and> snd hm \<noteq> []
      \<and> (\<forall>l \<in> set (snd hm). hl_idx (snd l) < length (an_intfs N (fst hm)))"
    unfolding built_from_def h by force
qed

lemma entries_of:
  "emap (switch_entries N conf) sws = Inr (map f sws) \<Longrightarrow>
     emap (\<lambda>sw. ebind (switch_entries N conf sw) (\<lambda>es. Inr (sw, es))) sws = Inr (map (\<lambda>sw. (sw, f sw)) sws)"
  by (induction sws) (auto simp: ebind_eq_Inr)

lemma shortest_exists:
  assumes "\<exists>r. get_path g a b ex = Inr r" and "walk g ex b a q"
  shows "\<exists>p. get_path g a b ex = Inr (Some p) \<and> walk g ex b a p \<and> length p \<le> length q"
proof -
  from assms(1) obtain r where r: "recPath g ex b a [] = Inr r" by (auto simp: get_path_def)
  from walk_simple [OF assms(2)] obtain q' where "simple_walk g ex b a [] q'" "length q' \<le> length q" by blast
  with recPath_minimal [OF r] obtain p where "r = Some p" "length p \<le> length q" by fastforce
  with r recPath_sound [of g ex b a "[]" p] show ?thesis by (auto simp: get_path_def simple_walk_def)
qed

lemma dict_update_keys: "fst ` set (dict_update d e) = fst ` set d \<union> fst ` set e"
proof -
  have "k \<in> fst ` set (dict_update d e) \<longleftrightarrow> k \<in> fst ` set d \<union> fst ` set e" for k
    using dict_get_None_iff [of "dict_update d e" k] dict_get_None_iff [of d k] map_of_eq_None_iff [of "rev e" k]
    by (simp add: dict_get_update split: option.splits)
  then show ?thesis by blast
qed

lemma dict_put_members: "x \<in> set (dict_put k v d) \<Longrightarrow> x = (k, v) \<or> x \<in> set d"
  by (induction d) (auto split: if_splits)

lemma dict_update_members:
  assumes "\<And>x. x \<in> set e \<Longrightarrow> P x" and "x \<in> set (dict_update [] e)"
  shows "P x"
proof -
  have "\<forall>x \<in> set (fold (\<lambda>(k, v). dict_put k v) e d). P x" if "\<forall>x \<in> set d. P x" "\<forall>x \<in> set e. P x" for d
    using that
  proof (induction e arbitrary: d)
    case (Cons kv e)
    obtain k v where kv: "kv = (k, v)" by (cases kv)
    with Cons.prems dict_put_members [of _ k v d] have "\<forall>x \<in> set (dict_put k v d). P x" by fastforce
    from Cons.IH [OF this] Cons.prems show ?case by (simp add: kv)
  qed simp
  from this [of "[]"] assms show ?thesis by (simp add: dict_update_def)
qed

lemma configured_entries:
  assumes "built_from N t" and "se \<in> set (dict_update [] (map (\<lambda>sw. (sw, f sw)) (an_topo_switches N)))"
  shows "fst se \<in> set (an_switches N) \<and> snd se = f (fst se)"
proof (rule dict_update_members [OF _ assms(2)])
  from assms(1) have same: "set (an_topo_switches N) = set (an_switches N)" by (simp only: built_from_def)
  fix x assume "x \<in> set (map (\<lambda>sw. (sw, f sw)) (an_topo_switches N))"
  then obtain sw where "x = (sw, f sw)" "sw \<in> set (an_topo_switches N)" by auto
  with same show "fst x \<in> set (an_switches N) \<and> snd x = f (fst x)" by simp
qed

lemma switches_without_entries:
  assumes "built_from N t"
  shows "for_each (configure_switch N) (dict_update [] (map (\<lambda>sw. (sw, [])) (an_topo_switches N))) s = (Inr (), s)"
proof -
  let ?d = "dict_update [] (map (\<lambda>sw. (sw, [] :: pyval list)) (an_topo_switches N))"
  have "for_each (configure_switch N) ses s = (Inr (), s)" if "set ses \<subseteq> set ?d" for ses
    using that configured_entries [OF assms, of _ "\<lambda>_. []"]
    by (induction ses) (auto simp: configure_switch_def net_node_def io_run)
  then show ?thesis by blast
qed

lemma emap_as_str: "emap as_str (map PStr xs) = Inr xs"
  by (induction xs) simp_all

lemma configure_switch_run:
  assumes "fst se \<in> set (an_switches N)" and "snd se = map PStr es"
  shows "configure_switch N se s = (if es = [] then (Inr (), s)
    else (if entry_lines es = [] then Inr () else Inl (TypeError ''a bytes-like object is required''),
      s @ [StartCLI (an_thrift_port N (fst se))]))"
  using assms by (simp add: configure_switch_def net_node_def add_entries_def io_run ask_net_def emap_as_str assert_that_def)

lemma switches_with_entries:
  assumes "\<forall>se \<in> set ses. fst se \<in> set (an_switches N) \<and> (\<exists>es. snd se = map PStr es)"
    and "\<exists>se \<in> set ses. \<exists>es. snd se = map PStr es \<and> entry_lines es \<noteq> []"
  shows "\<exists>u port. for_each (configure_switch N) ses s = (Inl (TypeError ''a bytes-like object is required''), u @ [StartCLI port])"
  using assms
proof (induction ses arbitrary: s)
  case (Cons se ses)
  from Cons.prems(1) obtain es where es: "fst se \<in> set (an_switches N)" "snd se = map PStr es" by auto
  note run = configure_switch_run [OF es, of s]
  show ?case
  proof (cases "entry_lines es = []")
    case True
    have "\<exists>se \<in> set ses. \<exists>es. snd se = map PStr es \<and> entry_lines es \<noteq> []"
      using Cons.prems(2) es(2) True by (auto simp: inj_map_eq_map inj_def)
    with Cons True run show ?thesis by (cases "es = []") auto
  next
    case False
    then have "es \<noteq> []" by (auto simp: entry_lines_def)
    with run False show ?thesis by auto
  qed
qed simp

section \<open>Properties\<close>

text \<open>C13. On the topology that AppTopo built and the network made of it, a start without entries gets
  through, and every host that can reach another one through switches is given a route to it, by way of
  the first switch of a path that no other is shorter than.\<close>

theorem controller_routes:
  assumes topo: "AppTopo links lat bws dir initial_topo = (Inr (), t)" and net: "built_from N t"
    and entries: "emap (switch_entries N conf) (an_topo_switches N) = Inr (map (\<lambda>_. []) (an_topo_switches N))"
  shows "\<exists>u. controller_start N conf links t s = (Inr (), u) \<and>
    (\<forall>h \<in> set (an_hosts N). \<forall>h2 \<in> set (an_hosts N). \<forall>q. h \<noteq> h2 \<and> walk (ShortestPath links) is_host h2 h q \<longrightarrow>
      (\<exists>p m l l2. walk (ShortestPath links) is_host h2 h p \<and> length p \<le> length q \<and>
         dict_get (at_host_links t) h = Some m \<and> dict_get m (p ! 1) = Some l \<and> first_link t h2 = Inr l2 \<and>
         Cmd h (route_cmd l l2) \<in> set u))"
proof -
  let ?g = "ShortestPath links"
  let ?entries = "map (\<lambda>sw. (sw, [])) (an_topo_switches N)"
  from entries have run1: "emap (\<lambda>sw. ebind (switch_entries N conf sw) (\<lambda>es. Inr (sw, es))) (an_topo_switches N) = Inr ?entries"
    by (rule entries_of)
  from hosts_configured [OF topo net, of s] obtain l s1 where run2: "fold_io (configure_host N) (at_host_links t) None s = (Inr l, s1)" by blast
  from hosts_routed [OF topo net, of s1] obtain s2 where run3: "for_each (host_routes N ?g t) (an_hosts N) s1 = (Inr (), s2)"
    and routes: "\<forall>h \<in> set (an_hosts N). \<forall>h2 \<in> set (an_hosts N). routed links t s2 h h2" by blast
  from switches_without_entries [OF net] have run4: "for_each (configure_switch N) (dict_update [] ?entries) s2 = (Inr (), s2)" .
  have "controller_start N conf links t s = (Inr (), s2)"
    by (simp add: controller_start_def io_run run1 run2 run3 run4)
  moreover have "\<exists>p m l l2. walk ?g is_host h2 h p \<and> length p \<le> length q \<and> dict_get (at_host_links t) h = Some m \<and>
      dict_get m (p ! 1) = Some l \<and> first_link t h2 = Inr l2 \<and> Cmd h (route_cmd l l2) \<in> set s2"
    if hosts: "h \<in> set (an_hosts N)" "h2 \<in> set (an_hosts N)" and path: "h \<noteq> h2" "walk ?g is_host h2 h q" for h h2 q
  proof -
    from hosts(1) net have "h \<in> fst ` set links \<union> snd ` set links"
      using AppTopo_links(1) [OF topo] by (auto simp: built_from_def)
    from shortest_exists [OF get_path_defined [OF this] path(2)] obtain p where
      p: "get_path ?g h h2 is_host = Inr (Some p)" "walk ?g is_host h2 h p" "length p \<le> length q" by blast
    from routes hosts path(1) p(1) have "\<exists>m l l2. dict_get (at_host_links t) h = Some m \<and> dict_get m (p ! 1) = Some l \<and>
         first_link t h2 = Inr l2 \<and> Cmd h (route_cmd l l2) \<in> set s2" unfolding routed_def by blast
    with p show ?thesis by blast
  qed
  ultimately show ?thesis by blast
qed


text \<open>C14. A start never gets through when a switch has an entry with a text: after the hosts are configured, a
  command line is started and then given a text where its pipe takes bytes, so \<open>TypeError\<close> is raised
  and no entry reaches any switch.\<close>

theorem controller_entries_raise:
  assumes topo: "AppTopo links lat bws dir initial_topo = (Inr (), t)" and net: "built_from N t"
    and entries: "emap (switch_entries N conf) (an_topo_switches N) = Inr (map (\<lambda>sw. map PStr (es sw)) (an_topo_switches N))"
    and some: "sw \<in> set (an_topo_switches N)" "entry_lines (es sw) \<noteq> []"
  shows "\<exists>u port. controller_start N conf links t s = (Inl (TypeError ''a bytes-like object is required''), u @ [StartCLI port])"
proof -
  let ?f = "\<lambda>sw. map PStr (es sw)"
  let ?d = "dict_update [] (map (\<lambda>sw. (sw, ?f sw)) (an_topo_switches N))"
  from hosts_configured [OF topo net, of s] obtain l s1 where run2: "fold_io (configure_host N) (at_host_links t) None s = (Inr l, s1)" by blast
  from hosts_routed [OF topo net, of s1] obtain s2 where run3: "for_each (host_routes N (ShortestPath links) t) (an_hosts N) s1 = (Inr (), s2)" by blast
  have members: "\<forall>se \<in> set ?d. fst se \<in> set (an_switches N) \<and> (\<exists>es. snd se = map PStr es)"
    using configured_entries [OF net, of _ ?f] by blast
  from some(1) have "sw \<in> fst ` set ?d" unfolding dict_update_keys by (simp add: image_comp comp_def)
  then obtain se where "se \<in> set ?d" "fst se = sw" by auto
  with configured_entries [OF net, of se ?f] some(2) have "\<exists>se \<in> set ?d. \<exists>es. snd se = map PStr es \<and> entry_lines es \<noteq> []"
    by (intro bexI [of _ se] exI [of _ "es sw"]) simp_all
  from switches_with_entries [OF members this, of s2] obtain u port where
    "for_each (configure_switch N) ?d s2 = (Inl (TypeError ''a bytes-like object is required''), u @ [StartCLI port])" by blast
  then show ?thesis
    by (simp add: controller_start_def io_run entries_of [OF entries] run2 run3)
qed

definition demo_links :: "(string \<times> string) list" where
  "demo_links = [(''h1'', ''s1''), (''h2'', ''s2''), (''s1'', ''s2'')]"

definition demo_topo :: "app_topo" where
  "demo_topo = snd (AppTopo demo_links [] [] ''/tmp'' initial_topo)"

definition demo_net :: "app_net" where
  "demo_net = \<lparr>an_hosts = [''h1'', ''h2''], an_switches = [''s1'', ''s2''], an_topo_switches = [''s1'', ''s2''],
     an_intfs = (\<lambda>h. [h @ ''-eth0'']), an_thrift_port = (\<lambda>sw. 9090), an_file = (\<lambda>f. Inl (FileNotFound f))\<rparr>"

lemma demo_topo_run: "AppTopo demo_links [] [] ''/tmp'' initial_topo = (Inr (), demo_topo)"
proof -
  have "fst (AppTopo demo_links [] [] ''/tmp'' initial_topo) = Inr ()" by code_simp
  then show ?thesis by (simp add: demo_topo_def prod_eq_iff)
qed

lemma demo_built: "built_from demo_net demo_topo"
proof -
  have links: "map fst (at_host_links demo_topo) = [''h1'', ''h2'']" "map fst (at_sw_links demo_topo) = [''s1'', ''s2'']"
    "list_all (\<lambda>(h, m). list_all (\<lambda>(sw, l). hl_idx l = 0) m) (at_host_links demo_topo)" by code_simp+
  then show ?thesis by (auto simp: built_from_def demo_net_def list_all_iff)
qed

theorem controller_routes_witness:
  "\<exists>u. controller_start demo_net (PDict []) demo_links demo_topo [] = (Inr (), u) \<and>
     Cmd ''h1'' ''ip route add 10.0.2.2 via 10.0.1.254'' \<in> set u"
proof -
  have "emap (switch_entries demo_net (PDict [])) (an_topo_switches demo_net) = Inr (map (\<lambda>_. []) (an_topo_switches demo_net))"
    by (simp add: demo_net_def switch_entries_def)
  from controller_routes [OF demo_topo_run demo_built this, of "[]"] obtain u where
    u: "controller_start demo_net (PDict []) demo_links demo_topo [] = (Inr (), u)" by blast
  have "Cmd ''h1'' ''ip route add 10.0.2.2 via 10.0.1.254'' \<in> set (snd (controller_start demo_net (PDict []) demo_links demo_topo []))"
    by code_simp
  with u show ?thesis by simp
qed

theorem controller_entries_raise_witness:
  "\<exists>u port. controller_start demo_net
      (PDict [(''switches'', PDict [(''s2'', PDict [(''entries'', PList [PStr ''table_set_default t _drop''])])])])
      demo_links demo_topo [] = (Inl (TypeError ''a bytes-like object is required''), u @ [StartCLI port])"
proof (rule controller_entries_raise [OF demo_topo_run demo_built,
      where sw = "''s2''" and es = "\<lambda>sw. if sw = ''s2'' then [''table_set_default t _drop''] else []"])
qed (simp_all add: demo_net_def switch_entries_def entry_lines_def)

end
