(* ===== verification/App_Runner.thy ===== *)
theory App_Runner
  imports Py_Text Py_IO
begin

text \<open>
  code/tutorials/utils/p4apprunner.py: unpacking an application package, reading its manifest,
  compiling the program and starting the back end of the chosen target. The state is the list of what
  was done. The wait status of a command, the files and the package are the parameter
  \<open>runner_env\<close>; printing is left out.
\<close>

section \<open>Commands\<close>

record runner_args =
  ra_app :: string
  ra_target :: "string option"
  ra_build_dir :: string
  ra_manifest :: string

datatype runner_call =
    Chdir string
  | Extract string
  | WriteMessage string string
  | Shell string

record runner_env =
  rn_status :: "runner_call list \<Rightarrow> string \<Rightarrow> int"
  rn_chdir :: "unit res"
  rn_extract :: "unit res"
  rn_manifest :: "pyval res"
  rn_write :: "unit res"
  rn_cwd :: string
  rn_scripts :: string
  rn_float :: "rat \<Rightarrow> string"

type_synonym 'a rn_io = "(runner_call list, 'a) io"

definition rn_do :: "runner_call \<Rightarrow> unit rn_io" where
  "rn_do c = modify (\<lambda>t. t @ [c])"

text \<open>\<open>os.WEXITSTATUS\<close>: the second byte of the wait status, whatever ended the process.\<close>

definition WEXITSTATUS :: "int \<Rightarrow> int" where
  "WEXITSTATUS status = status div 256 mod 256"

definition run_command :: "runner_env \<Rightarrow> string \<Rightarrow> int rn_io" where
  "run_command E c = bnd (gets (\<lambda>t. WEXITSTATUS (rn_status E t c))) (\<lambda>rv. andthen (rn_do (Shell c)) (ret rv))"

section \<open>The manifest\<close>

record Manifest =
  mf_program :: pyval
  mf_language :: pyval
  mf_target :: pyval
  mf_config :: pyval

definition py_keys :: "pyval \<Rightarrow> string list res" where
  "py_keys v = (case v of PDict d \<Rightarrow> Inr (map fst d) | _ \<Rightarrow> Inl (AttributeError ''keys''))"

text \<open>\<open>target in targets\<close> for a target that is any JSON value.\<close>

definition target_in :: "pyval \<Rightarrow> pyval \<Rightarrow> bool res" where
  "target_in v ts =
     (case v of
        PStr k \<Rightarrow> py_in k ts
      | _ \<Rightarrow> (case ts of
            PDict d \<Rightarrow> (case v of PList _ \<Rightarrow> Inl (TypeError ''unhashable'') | PDict _ \<Rightarrow> Inl (TypeError ''unhashable'') | _ \<Rightarrow> Inr False)
          | PList xs \<Rightarrow> Inr (v \<in> set xs)
          | _ \<Rightarrow> Inl (TypeError ''not a container'')))"

text \<open>A key that has to be there: the runner ends with exit code 1 when it is not.\<close>

definition required :: "pyval \<Rightarrow> string \<Rightarrow> pyval res" where
  "required v k = ebind (py_in k v) (\<lambda>b. if b then py_item v k else Inl (SystemExit 1))"

definition chosen_target :: "runner_args \<Rightarrow> pyval \<Rightarrow> pyval res" where
  "chosen_target A manifest =
     (case ra_target A of
        Some t \<Rightarrow> Inr (PStr t)
      | None \<Rightarrow> ebind (py_in ''default-target'' manifest) (\<lambda>b.
          if b then py_item manifest ''default-target''
          else ebind (py_item manifest ''targets'') (\<lambda>ts. ebind (py_keys ts) (\<lambda>ks. ebind (py_nth ks 0) (\<lambda>k. Inr (PStr k))))))"

definition read_manifest :: "runner_args \<Rightarrow> pyval \<Rightarrow> Manifest res" where
  "read_manifest A manifest =
     ebind (required manifest ''program'') (\<lambda>program_file.
     ebind (required manifest ''language'') (\<lambda>language.
     ebind (required manifest ''targets'') (\<lambda>targets.
     ebind (py_len targets) (\<lambda>n. if n < 1 then Inl (SystemExit 1) else
     ebind (chosen_target A manifest) (\<lambda>target.
     ebind (target_in target targets) (\<lambda>b. if \<not> b then Inl (SystemExit 1) else
     ebind (py_sub targets target) (\<lambda>config.
     Inr \<lparr>mf_program = program_file, mf_language = language, mf_target = target, mf_config = config\<rparr>)))))))"

section \<open>Compiling\<close>

definition run_value :: "runner_env \<Rightarrow> pyval \<Rightarrow> unit rn_io" where
  "run_value E v = bnd (lift (as_str v)) (\<lambda>c. andthen (run_command E c) (ret ()))"

text \<open>The list under a key of the target's configuration: exit code 1 when it is there and is no list.\<close>

definition config_list :: "pyval \<Rightarrow> string \<Rightarrow> pyval list res" where
  "config_list config k =
     ebind (py_in k config) (\<lambda>b. if \<not> b then Inr [] else
     ebind (py_item config k) (\<lambda>v. case v of PList xs \<Rightarrow> Inr xs | _ \<Rightarrow> Inl (SystemExit 1)))"

definition run_hooks :: "runner_env \<Rightarrow> pyval \<Rightarrow> string \<Rightarrow> unit rn_io" where
  "run_hooks E config k = bnd (lift (config_list config k)) (for_each (run_value E))"

definition language_flag :: "pyval \<Rightarrow> string res" where
  "language_flag l =
     (if l = PStr ''p4-14'' then Inr ''--p4v 14''
      else if l = PStr ''p4-16'' then Inr ''--p4v 16'' else Inl (SystemExit 1))"

definition dq :: "string \<Rightarrow> string" where
  "dq s = CHR 0x22 # s @ [CHR 0x22]"

definition output_name :: "pyval \<Rightarrow> string res" where
  "output_name program = ebind (as_str program) (\<lambda>p. Inr (p @ ''.json''))"

definition compile_command :: "string \<Rightarrow> string list \<Rightarrow> string \<Rightarrow> string \<Rightarrow> string" where
  "compile_command lang flags program output_file =
     ''p4c-bm2-ss '' @ join '' '' ([lang] @ flags @ [dq program, ''-o '' @ dq output_file])"

definition run_compile_bmv2 :: "runner_env \<Rightarrow> Manifest \<Rightarrow> string rn_io" where
  "run_compile_bmv2 E m =
     andthen (run_hooks E (mf_config m) ''run-before-compile'')
    (bnd (lift (language_flag (mf_language m))) (\<lambda>lang.
     bnd (lift (config_list (mf_config m) ''compiler-flags'')) (\<lambda>flags.
     bnd (lift (output_name (mf_program m))) (\<lambda>output_file.
     bnd (lift (emap as_str flags)) (\<lambda>fs.
     bnd (lift (as_str (mf_program m))) (\<lambda>program.
     bnd (run_command E (compile_command lang fs program output_file)) (\<lambda>rv.
     andthen (run_hooks E (mf_config m) ''run-after-compile'')
       (if rv \<noteq> 0 then raise (SystemExit 1) else ret output_file))))))))"

section \<open>Back ends\<close>

definition nl :: char where
  "nl = char_of (10 :: nat)"

definition message_text :: "string list \<Rightarrow> string" where
  "message_text ls = concat (map (\<lambda>l. l @ [nl]) ls)"

definition message_head :: "string list" where
  "message_head =
     [[], replicate 70 (CHR ''=''), ''Welcome to the BMV2 Mininet CLI!'', replicate 70 (CHR ''=''),
      ''Your P4 program is installed into the BMV2 software switch'',
      ''and your initial configuration is loaded. You can interact'',
      ''with the network using the mininet CLI below.'', [],
      ''To inspect or change the switch configuration, connect to'',
      ''its CLI from your host operating system using this command:'']"

definition message_pcap :: "string \<Rightarrow> string list" where
  "message_pcap pcap_dir =
     [[], ''To view the switch output pcap, check the pcap files in '' @ pcap_dir @ '':'',
      '' for example run:  sudo tcpdump -xxx -r s1-eth1.pcap'', []]"

definition single_message :: "string \<Rightarrow> string \<Rightarrow> string list" where
  "single_message log_file pcap_dir =
     message_head @ [''  simple_switch_CLI'', [], ''To view the switch log, run this command from your host OS:'',
       ''  tail -f '' @ log_file] @ message_pcap pcap_dir"

definition multi_message :: "string \<Rightarrow> string \<Rightarrow> string list" where
  "multi_message log_dir pcap_dir =
     message_head @ [''  simple_switch_CLI --thrift-port <switch thrift port>'', [],
       ''To view a switch log, run this command from your host OS:'',
       ''  tail -f '' @ log_dir @ ''/<switchname>.log''] @ message_pcap pcap_dir"

definition message_file :: string where
  "message_file = ''mininet_message.txt''"

definition write_message :: "runner_env \<Rightarrow> string list \<Rightarrow> unit rn_io" where
  "write_message E ls = andthen (lift (rn_write E)) (rn_do (WriteMessage message_file (message_text ls)))"

definition optional_arg :: "pyval \<Rightarrow> string \<Rightarrow> (pyval \<Rightarrow> string) \<Rightarrow> string list res" where
  "optional_arg config k f =
     ebind (py_in k config) (\<lambda>b. if b then ebind (py_item config k) (\<lambda>v. Inr [f v]) else Inr [])"

definition script :: "runner_env \<Rightarrow> string \<Rightarrow> string" where
  "script E name = dq (rn_scripts E @ name)"

definition run_script :: "runner_env \<Rightarrow> string \<Rightarrow> string list \<Rightarrow> int rn_io" where
  "run_script E name xs = run_command E (''python3 '' @ script E name @ '' '' @ join '' '' xs)"

definition run_mininet :: "runner_env \<Rightarrow> Manifest \<Rightarrow> int rn_io" where
  "run_mininet E m =
     bnd (run_compile_bmv2 E m) (\<lambda>output_file.
     bnd (lift (as_str (mf_program m))) (\<lambda>program.
     let log_file = path_join (rn_cwd E) (program @ ''.log''); pcap_dir = rn_cwd E
     in andthen (write_message E (single_message log_file pcap_dir))
       (bnd (lift (optional_arg (mf_config m) ''num-hosts'' (\<lambda>v. ''--num-hosts '' @ py_str (rn_float E) v))) (\<lambda>hosts.
        bnd (lift (optional_arg (mf_config m) ''switch-config'' (\<lambda>v. ''--switch-config '' @ dq (py_str (rn_float E) v)))) (\<lambda>config.
        run_script E ''/mininet/single_switch_mininet.py''
          ([''--log-file '' @ dq log_file, ''--pcap-dump '' @ dq pcap_dir @ '' '', ''--cli-message '' @ dq message_file]
            @ hosts @ config @ [''--behavioral-exe '' @ dq ''simple_switch'', ''--json '' @ dq output_file]))))))"

definition auto_control_plane :: "pyval \<Rightarrow> string list res" where
  "auto_control_plane config =
     ebind (py_in ''auto-control-plane'' config) (\<lambda>b. if \<not> b then Inr [] else
     ebind (py_item config ''auto-control-plane'') (\<lambda>v. Inr (if truthy v then [''--auto-control-plane''] else [])))"

definition run_multiswitch :: "runner_env \<Rightarrow> runner_args \<Rightarrow> Manifest \<Rightarrow> int rn_io" where
  "run_multiswitch E A m =
     bnd (run_compile_bmv2 E m) (\<lambda>output_file.
     let cwd = rn_cwd E; log_dir = path_join cwd (cwd @ ''/logs'')
     in bnd (lift (auto_control_plane (mf_config m))) (\<lambda>auto.
        andthen (write_message E (multi_message log_dir cwd))
          (run_script E ''/mininet/multi_switch_mininet.py''
             ([''--log-dir '' @ dq log_dir, ''--manifest '' @ dq (ra_manifest A),
               ''--target '' @ dq (py_str (rn_float E) (mf_target m))] @ auto
              @ [''--behavioral-exe '' @ dq ''simple_switch'', ''--json '' @ dq output_file,
                 ''--cli-message '' @ dq message_file]))))"

definition exit_unless_zero :: "int \<Rightarrow> int rn_io" where
  "exit_unless_zero rv = (if rv \<noteq> 0 then raise (SystemExit 1) else ret rv)"

definition run_stf :: "runner_env \<Rightarrow> runner_args \<Rightarrow> Manifest \<Rightarrow> int rn_io" where
  "run_stf E A m =
     bnd (run_compile_bmv2 E m) (\<lambda>output_file.
     bnd (lift (required (mf_config m) ''test'')) (\<lambda>test.
     bnd (lift (as_str test)) (\<lambda>stf_file.
     bnd (run_script E ''/stf/bmv2stf.py''
            [''-v'', path_join (ra_build_dir A) output_file, path_join (ra_build_dir A) stf_file])
       exit_unless_zero)))"

definition run_custom :: "runner_env \<Rightarrow> Manifest \<Rightarrow> int rn_io" where
  "run_custom E m =
     bnd (run_compile_bmv2 E m) (\<lambda>output_file.
     bnd (lift (required (mf_config m) ''program'')) (\<lambda>program.
     bnd (run_command E (''PYTHONPATH=$PYTHONPATH:/scripts/mininet/ python3 '' @ py_str (rn_float E) program @ '' ''
           @ join '' '' [''--behavioral-exe '' @ dq ''simple_switch'', ''--json '' @ dq output_file,
               ''--cli '' @ dq ''simple_switch_CLI'']))
       exit_unless_zero))"

section \<open>main\<close>

definition backend_of :: "Manifest \<Rightarrow> pyval res" where
  "backend_of m = ebind (py_in ''use'' (mf_config m)) (\<lambda>b. if b then py_item (mf_config m) ''use'' else Inr (mf_target m))"

definition run_backend :: "runner_env \<Rightarrow> runner_args \<Rightarrow> Manifest \<Rightarrow> pyval \<Rightarrow> int rn_io" where
  "run_backend E A m backend =
     (if backend = PStr ''mininet'' then run_mininet E m
      else if backend = PStr ''multiswitch'' then run_multiswitch E A m
      else if backend = PStr ''stf'' then run_stf E A m
      else if backend = PStr ''custom'' then run_custom E m
      else if backend = PStr ''compile-bmv2'' then andthen (run_compile_bmv2 E m) (ret 0)
      else raise (SystemExit 1))"

definition runner_main :: "runner_env \<Rightarrow> runner_args \<Rightarrow> unit rn_io" where
  "runner_main E A =
     andthen (andthen (lift (rn_chdir E)) (rn_do (Chdir (ra_build_dir A))))
    (andthen (andthen (lift (rn_extract E)) (rn_do (Extract (ra_app A))))
    (bnd (lift (ebind (rn_manifest E) (read_manifest A))) (\<lambda>m.
     bnd (lift (backend_of m)) (\<lambda>backend.
     bnd (run_backend E A m backend) (\<lambda>rc. raise (SystemExit rc))))))"

section \<open>Runs\<close>

interpretation runs: step_relation "\<lambda>s t :: runner_call list. prefix s t"
  by unfold_locales (auto intro: prefix_order.trans)

lemma run_command_run: "run_command E c s = (Inr (WEXITSTATUS (rn_status E s c)), s @ [Shell c])"
  by (simp add: run_command_def rn_do_def io_defs)

lemma WEXITSTATUS_signal: "0 < n \<Longrightarrow> n < 256 \<Longrightarrow> WEXITSTATUS n = 0"
  by (simp add: WEXITSTATUS_def)

lemma run_values: "for_each (run_value E) (map PStr cs) s = (Inr (), s @ map Shell cs)"
  by (induction cs arbitrary: s) (simp_all add: run_value_def run_command_run io_run)

lemma emap_as_str_PStr: "emap as_str (map PStr xs) = Inr xs"
  by (induction xs) simp_all

lemma run_hooks_adds: "keeps prefix (run_hooks E config k)"
proof -
  have "keeps prefix (run_command E c)" for c by (simp add: keeps_def run_command_run)
  then show ?thesis unfolding run_hooks_def run_value_def by (intro runs.keeps_rules)
qed

text \<open>The compiler was run on the program of the manifest, and its exit status was 0.\<close>

definition compiled :: "runner_env \<Rightarrow> Manifest \<Rightarrow> runner_call list \<Rightarrow> bool" where
  "compiled E m t \<longleftrightarrow> (\<exists>u lang flags program. mf_program m = PStr program
     \<and> prefix (u @ [Shell (compile_command lang flags program (program @ ''.json''))]) t
     \<and> WEXITSTATUS (rn_status E u (compile_command lang flags program (program @ ''.json''))) = 0)"

lemma compiled_later: "compiled E m s \<Longrightarrow> prefix s t \<Longrightarrow> compiled E m t"
  unfolding compiled_def by (meson prefix_order.trans)

lemma run_compile_compiled:
  assumes "run_compile_bmv2 E m s = (Inr f, t)"
  shows "compiled E m t"
proof -
  from assms obtain v lang fs output_file program where
    names: "output_name (mf_program m) = Inr output_file" "mf_program m = PStr program"
    and ok: "WEXITSTATUS (rn_status E v (compile_command lang fs program output_file)) = 0"
    and after: "run_hooks E (mf_config m) ''run-after-compile''
      (v @ [Shell (compile_command lang fs program output_file)]) = (Inr (), t)"
    unfolding run_compile_bmv2_def
    by (auto simp: andthen_eq_Inr bnd_eq_Inr io_eval run_command_run split: if_splits)
  from names have "output_file = program @ ''.json''" by (simp add: output_name_def)
  with names ok keepsD [OF run_hooks_adds after] show ?thesis unfolding compiled_def by blast
qed

text \<open>How the command of each back end starts, and the compiled program that it mentions.\<close>

definition launcher :: "runner_env \<Rightarrow> Manifest \<Rightarrow> pyval \<Rightarrow> string res" where
  "launcher E m backend =
     (if backend = PStr ''mininet'' then Inr (''python3 '' @ script E ''/mininet/single_switch_mininet.py'')
      else if backend = PStr ''multiswitch'' then Inr (''python3 '' @ script E ''/mininet/multi_switch_mininet.py'')
      else if backend = PStr ''stf'' then Inr (''python3 '' @ script E ''/stf/bmv2stf.py'')
      else if backend = PStr ''custom'' then ebind (required (mf_config m) ''program'')
        (\<lambda>p. Inr (''PYTHONPATH=$PYTHONPATH:/scripts/mininet/ python3 '' @ py_str (rn_float E) p))
      else Inl (SystemExit 1))"

text \<open>The back end is the last command of a run, started when the program was compiled.\<close>

definition started_last :: "runner_env \<Rightarrow> Manifest \<Rightarrow> pyval \<Rightarrow> int \<Rightarrow> runner_call list \<Rightarrow> bool" where
  "started_last E m backend rv t \<longleftrightarrow> (\<exists>u l xs program. launcher E m backend = Inr l \<and> mf_program m = PStr program
     \<and> t = u @ [Shell (l @ '' '' @ join '' '' xs)] \<and> (\<exists>x \<in> set xs. sublist (program @ ''.json'') x)
     \<and> compiled E m u \<and> WEXITSTATUS (rn_status E u (l @ '' '' @ join '' '' xs)) = rv)"

lemma started_lastI:
  assumes "run_command E (l @ '' '' @ join '' '' xs) u = (Inr rv, t)" and "compiled E m u" and "launcher E m backend = Inr l"
    and "x \<in> set xs" and "sublist output_file x" and "mf_program m = PStr program" and "output_file = program @ ''.json''"
  shows "started_last E m backend rv t"
  unfolding started_last_def using assms by (auto simp: run_command_run)

lemma started_script:
  assumes "run_script E name xs u = (Inr rv, t)" and "compiled E m u" and "launcher E m backend = Inr (''python3 '' @ script E name)"
    and "x \<in> set xs" and "sublist output_file x" and "mf_program m = PStr program" and "output_file = program @ ''.json''"
  shows "started_last E m backend rv t"
proof (rule started_lastI [OF _ assms(2-)])
  show "run_command E ((''python3 '' @ script E name) @ '' '' @ join '' '' xs) u = (Inr rv, t)"
    using assms(1) unfolding run_script_def append_assoc .
qed

lemma sublist_args:
  "sublist f (''--json '' @ dq f)" "sublist f (path_join d f)"
proof -
  have "''--json '' @ dq f = (''--json '' @ [CHR 0x22]) @ f @ [CHR 0x22]" by (simp add: dq_def)
  then show "sublist f (''--json '' @ dq f)" unfolding sublist_def by blast
  have "suffix f (path_join d f)" by (auto simp: path_join_def suffix_def)
  then show "sublist f (path_join d f)" by (rule suffix_imp_sublist)
qed

lemma write_message_adds: "keeps prefix (write_message E ls)"
proof -
  have "keeps prefix (rn_do c)" for c by (simp add: keeps_def rn_do_def io_defs)
  then show ?thesis unfolding write_message_def by (intro runs.keeps_rules)
qed

text \<open>A compilation that got through: the output file is the program's name with \<open>.json\<close>.\<close>

lemma run_compile_output:
  assumes "run_compile_bmv2 E m s = (Inr f, t)"
  obtains program where "mf_program m = PStr program" "f = program @ ''.json''" "compiled E m t"
proof -
  from assms have "output_name (mf_program m) = Inr f" "\<exists>program. mf_program m = PStr program"
    unfolding run_compile_bmv2_def
    by (auto simp: andthen_eq_Inr bnd_eq_Inr io_eval run_command_run split: if_splits)
  with run_compile_compiled [OF assms] that show ?thesis by (auto simp: output_name_def)
qed

lemma run_mininet_last:
  assumes "run_mininet E m s = (Inr rv, t)"
  shows "started_last E m (PStr ''mininet'') rv t"
proof -
  from assms obtain f s1 program log_file hosts config u where compile: "run_compile_bmv2 E m s = (Inr f, s1)"
    and message: "write_message E (single_message log_file (rn_cwd E)) s1 = (Inr (), u)"
    and script: "run_script E ''/mininet/single_switch_mininet.py''
          ([''--log-file '' @ dq log_file, ''--pcap-dump '' @ dq (rn_cwd E) @ '' '', ''--cli-message '' @ dq message_file]
            @ hosts @ config @ [''--behavioral-exe '' @ dq ''simple_switch'', ''--json '' @ dq f]) u = (Inr rv, t)"
    unfolding run_mininet_def Let_def bnd_eq_Inr andthen_eq_Inr by (auto simp: lift_def)
  obtain program where "mf_program m = PStr program" "f = program @ ''.json''" "compiled E m s1"
    using run_compile_output [OF compile] by blast
  with compiled_later keepsD [OF write_message_adds message] show ?thesis
    by (intro started_script [OF script _ _ _ sublist_args(1)]) (auto simp: launcher_def)
qed

lemma run_multiswitch_last:
  assumes "run_multiswitch E A m s = (Inr rv, t)"
  shows "started_last E m (PStr ''multiswitch'') rv t"
proof -
  from assms obtain f s1 ls log_dir auto u where compile: "run_compile_bmv2 E m s = (Inr f, s1)"
    and message: "write_message E ls s1 = (Inr (), u)"
    and script: "run_script E ''/mininet/multi_switch_mininet.py''
             ([''--log-dir '' @ dq log_dir, ''--manifest '' @ dq (ra_manifest A),
               ''--target '' @ dq (py_str (rn_float E) (mf_target m))] @ auto
              @ [''--behavioral-exe '' @ dq ''simple_switch'', ''--json '' @ dq f,
                 ''--cli-message '' @ dq message_file]) u = (Inr rv, t)"
    unfolding run_multiswitch_def Let_def bnd_eq_Inr andthen_eq_Inr by (auto simp: lift_def)
  obtain program where "mf_program m = PStr program" "f = program @ ''.json''" "compiled E m s1"
    using run_compile_output [OF compile] by blast
  with compiled_later keepsD [OF write_message_adds message] show ?thesis
    by (intro started_script [OF script _ _ _ sublist_args(1)]) (auto simp: launcher_def)
qed

lemma exit_unless_zero_Inr: "exit_unless_zero rv s = (Inr r, t) \<longleftrightarrow> r = rv \<and> rv = 0 \<and> t = s"
  by (auto simp: exit_unless_zero_def io_defs)

lemma run_stf_last:
  assumes "run_stf E A m s = (Inr rv, t)"
  shows "started_last E m (PStr ''stf'') rv t"
proof -
  from assms obtain f s1 stf_file where compile: "run_compile_bmv2 E m s = (Inr f, s1)"
    and script: "run_script E ''/stf/bmv2stf.py''
            [''-v'', path_join (ra_build_dir A) f, path_join (ra_build_dir A) stf_file] s1 = (Inr rv, t)"
    unfolding run_stf_def bnd_eq_Inr by (auto simp: lift_def exit_unless_zero_Inr)
  obtain program where "mf_program m = PStr program" "f = program @ ''.json''" "compiled E m s1"
    using run_compile_output [OF compile] by blast
  then show ?thesis
    by (intro started_script [OF script _ _ _ sublist_args(2)]) (auto simp: launcher_def)
qed

lemma run_custom_last:
  assumes "run_custom E m s = (Inr rv, t)"
  shows "started_last E m (PStr ''custom'') rv t"
proof -
  from assms obtain f s1 p where compile: "run_compile_bmv2 E m s = (Inr f, s1)"
    and p: "required (mf_config m) ''program'' = Inr p"
    and cmd: "run_command E (''PYTHONPATH=$PYTHONPATH:/scripts/mininet/ python3 '' @ py_str (rn_float E) p @ '' ''
           @ join '' '' [''--behavioral-exe '' @ dq ''simple_switch'', ''--json '' @ dq f,
               ''--cli '' @ dq ''simple_switch_CLI'']) s1 = (Inr rv, t)"
    unfolding run_custom_def bnd_eq_Inr by (auto simp: lift_def exit_unless_zero_Inr)
  obtain program where "mf_program m = PStr program" "f = program @ ''.json''" "compiled E m s1"
    using run_compile_output [OF compile] by blast
  then show ?thesis
    by (intro started_lastI [OF cmd [folded append_assoc [of "''PYTHONPATH=$PYTHONPATH:/scripts/mininet/ python3 ''"]]
          _ _ _ sublist_args(1)]) (auto simp: launcher_def p)
qed

lemma run_backend_last:
  assumes "run_backend E A m backend s = (Inr rv, t)"
  shows "started_last E m backend rv t \<or> backend = PStr ''compile-bmv2'' \<and> compiled E m t"
proof (cases "backend = PStr ''compile-bmv2''")
  case True
  with assms show ?thesis
    by (auto simp: run_backend_def andthen_eq_Inr io_eval dest!: run_compile_compiled)
next
  case False
  with assms show ?thesis
    by (auto simp: run_backend_def io_eval split: if_splits
        intro: run_mininet_last run_multiswitch_last run_stf_last run_custom_last)
qed

text \<open>No call on the way ends the run with exit code 0.\<close>

named_theorems no_exit

definition fails_plain :: "'a res \<Rightarrow> bool" where
  "fails_plain r \<longleftrightarrow> r \<noteq> Inl (SystemExit 0)"

definition exits_plain :: "'a rn_io \<Rightarrow> bool" where
  "exits_plain m \<longleftrightarrow> (\<forall>s. fails_plain (fst (m s)))"

lemma fails_plain_simps [no_exit]: "fails_plain (Inr x)" "fails_plain (Inl (SystemExit 1))"
  "fails_plain (Inl (TypeError x'))"
  by (simp_all add: fails_plain_def)

lemma fails_plain_ebind [no_exit]:
  "fails_plain r \<Longrightarrow> (\<And>x. fails_plain (f x)) \<Longrightarrow> fails_plain (ebind r f)"
  by (cases r) (auto simp: fails_plain_def)

lemma fails_plain_emap [no_exit]: "(\<And>x. fails_plain (f x)) \<Longrightarrow> fails_plain (emap f xs)"
  by (induction xs) (auto intro!: no_exit)

lemma fails_plain_if [no_exit]: "fails_plain r \<Longrightarrow> fails_plain q \<Longrightarrow> fails_plain (if b then r else q)"
  by simp

lemma fails_plain_values [no_exit]:
  "fails_plain (py_in k v)" "fails_plain (py_item v k)" "fails_plain (py_len v)"
  "fails_plain (py_keys v)" "fails_plain (py_nth xs i)" "fails_plain (as_str v)"
  by (cases v; simp add: fails_plain_def of_option_def py_keys_def py_nth_def Let_def split: option.split)+

lemma fails_plain_target_in [no_exit]: "fails_plain (target_in v ts)"
  by (auto simp: target_in_def no_exit split: pyval.split)

lemma fails_plain_py_index [no_exit]: "fails_plain (py_index v i)"
  by (cases v) (auto intro!: no_exit simp: fails_plain_def [of "Inl _"])

lemma fails_plain_py_sub [no_exit]: "fails_plain (py_sub v k)"
  by (cases k) (auto intro!: no_exit)

lemma fails_plain_manifest [no_exit]:
  "fails_plain (required v k)" "fails_plain (chosen_target A v)" "fails_plain (config_list v k)"
  "fails_plain (language_flag v)" "fails_plain (output_name v)" "fails_plain (optional_arg v k f)"
  "fails_plain (auto_control_plane v)" "fails_plain (backend_of m)"
  unfolding required_def chosen_target_def config_list_def language_flag_def output_name_def optional_arg_def
    auto_control_plane_def backend_of_def
  by (auto intro!: no_exit split: option.split pyval.split)

lemma fails_plain_read_manifest [no_exit]: "fails_plain (read_manifest A v)"
  unfolding read_manifest_def by (auto intro!: no_exit)

lemma exits_plain_bnd [no_exit]:
  assumes m: "exits_plain m" and f: "\<And>x. exits_plain (f x)"
  shows "exits_plain (bnd m f)"
  unfolding exits_plain_def
proof
  fix s
  obtain r t where run: "m s = (r, t)" by fastforce
  with m have "fails_plain r" by (metis exits_plain_def fst_conv)
  with f run show "fails_plain (fst (bnd m f s))"
    by (cases r) (simp_all add: bnd_def fails_plain_def exits_plain_def)
qed

lemma exits_plain_andthen [no_exit]: "exits_plain m \<Longrightarrow> exits_plain n \<Longrightarrow> exits_plain (andthen m n)"
  unfolding andthen_def by (rule exits_plain_bnd)

lemma exits_plain_for_each [no_exit]:
  assumes "\<And>x. exits_plain (f x)"
  shows "exits_plain (for_each f xs)"
proof (induction xs)
  case Nil
  show ?case by (simp add: exits_plain_def fails_plain_def)
next
  case (Cons x xs)
  have "for_each f (x # xs) = bnd (f x) (\<lambda>_. for_each f xs)" by (rule ext) (simp add: bnd_def)
  with exits_plain_bnd [OF assms Cons.IH] show ?case by simp
qed

lemma exits_plain_if [no_exit]: "exits_plain m \<Longrightarrow> exits_plain n \<Longrightarrow> exits_plain (if b then m else n)"
  by simp

lemma exits_plain_basic [no_exit]:
  "exits_plain (ret x)" "fails_plain r \<Longrightarrow> exits_plain (lift r)" "exits_plain (run_command E c)"
  "exits_plain (rn_do d)" "exits_plain (raise (SystemExit 1))" "exits_plain (exit_unless_zero rv)"
  by (simp_all add: exits_plain_def fails_plain_def io_eval run_command_run rn_do_def exit_unless_zero_def)

lemma exits_plain_hooks [no_exit]: "exits_plain (run_hooks E config k)"
  unfolding run_hooks_def run_value_def by (intro no_exit)

lemma exits_plain_compile [no_exit]: "exits_plain (run_compile_bmv2 E m)"
  unfolding run_compile_bmv2_def by (intro no_exit)

lemma exits_plain_backend:
  assumes "fails_plain (rn_write E)"
  shows "exits_plain (run_backend E A m backend)"
  unfolding run_backend_def run_mininet_def run_multiswitch_def run_stf_def run_custom_def run_script_def
    write_message_def Let_def
  by (intro no_exit assms)

section \<open>Properties\<close>

text \<open>C18. When the target's lists are lists of texts the compilation runs the commands before it, the compiler
  and the commands after it, in this order, and it gets through exactly when the exit status of the compiler
  is 0: the exit status of the other commands does not matter, and the later ones run even after a failed
  compilation.\<close>

theorem compile_commands:
  assumes lists: "config_list (mf_config m) ''run-before-compile'' = Inr (map PStr before)"
      "config_list (mf_config m) ''compiler-flags'' = Inr (map PStr flags)"
      "config_list (mf_config m) ''run-after-compile'' = Inr (map PStr after)"
    and names: "language_flag (mf_language m) = Inr lang" "mf_program m = PStr program"
  shows "run_compile_bmv2 E m s =
    (let c = compile_command lang flags program (program @ ''.json''); u = s @ map Shell before
     in (if WEXITSTATUS (rn_status E u c) = 0 then Inr (program @ ''.json'') else Inl (SystemExit 1),
         u @ Shell c # map Shell after))"
  by (simp add: run_compile_bmv2_def run_hooks_def lists names io_run run_values run_command_run
      emap_as_str_PStr output_name_def Let_def)

text \<open>C19. The runner ends with exit code 0 only after the program was compiled with exit status 0 and, unless
  compiling was all it was asked for, after the back end that the manifest chooses was started on the
  compiled program, as the last command, and its exit status was 0 too. When compiling was all it was asked
  for, the manifest's commands for after the compilation come last, and their exit status does not count.\<close>

theorem runner_success:
  assumes env: "rn_chdir E \<noteq> Inl (SystemExit 0)" "rn_extract E \<noteq> Inl (SystemExit 0)"
      "rn_manifest E \<noteq> Inl (SystemExit 0)" "rn_write E \<noteq> Inl (SystemExit 0)"
    and run: "runner_main E A s = (Inl (SystemExit 0), t)"
  shows "\<exists>v m backend. rn_manifest E = Inr v \<and> read_manifest A v = Inr m \<and> backend_of m = Inr backend \<and>
    compiled E m t \<and> (backend \<noteq> PStr ''compile-bmv2'' \<longrightarrow> started_last E m backend 0 t)"
proof -
  have started_compiled: "compiled E m t" if "started_last E m backend 0 t" for m t backend
    using that by (auto simp: started_last_def elim: compiled_later)
  have plain: "fails_plain (ebind (rn_manifest E) (read_manifest A))"
    by (rule fails_plain_ebind [OF _ fails_plain_read_manifest]) (simp add: fails_plain_def env)
  have "fails_plain (backend_of m)" for m by (rule fails_plain_manifest)
  with run env(1,2) plain obtain v m backend u where
    read: "rn_manifest E = Inr v" "read_manifest A v = Inr m" "backend_of m = Inr backend"
    and ended: "bnd (run_backend E A m backend) (\<lambda>rc. raise (SystemExit rc)) u = (Inl (SystemExit 0), t)"
    unfolding runner_main_def
    by (auto simp: andthen_def bnd_eq_Inl bnd_eq_Inr io_eval rn_do_def fails_plain_def)
  have "exits_plain (run_backend E A m backend)"
    using env(4) by (intro exits_plain_backend) (simp add: fails_plain_def)
  then have "fst (run_backend E A m backend u) \<noteq> Inl (SystemExit 0)" by (simp add: exits_plain_def fails_plain_def)
  with ended have "run_backend E A m backend u = (Inr 0, t)" by (auto simp: bnd_eq_Inl io_eval)
  with run_backend_last read started_compiled show ?thesis by blast
qed

definition demo_args :: runner_args where
  "demo_args = \<lparr>ra_app = ''app.p4app'', ra_target = None, ra_build_dir = ''/tmp'', ra_manifest = ''./p4app.json''\<rparr>"

definition demo_config :: pyval where
  "demo_config = PDict [(''use'', PStr ''stf''), (''test'', PStr ''basic.stf''),
     (''run-before-compile'', PList [PStr ''make'']), (''compiler-flags'', PList [PStr ''--pp out.p4'']),
     (''run-after-compile'', PList [PStr ''ls''])]"

definition demo_runner_env :: "int \<Rightarrow> runner_env" where
  "demo_runner_env status = \<lparr>rn_status = (\<lambda>t c. if t = [] \<or> last t = Shell ''make'' then status else 0), rn_chdir = Inr (),
     rn_extract = Inr (),
     rn_manifest = Inr (PDict [(''program'', PStr ''basic.p4''), (''language'', PStr ''p4-16''),
       (''targets'', PDict [(''test'', demo_config)])]),
     rn_write = Inr (), rn_cwd = ''/tmp'', rn_scripts = ''/scripts'', rn_float = (\<lambda>q. [])\<rparr>"

theorem compile_commands_witness:
  "\<exists>c d. run_compile_bmv2 (demo_runner_env 256) \<lparr>mf_program = PStr ''basic.p4'', mf_language = PStr ''p4-16'',
      mf_target = PStr ''test'', mf_config = demo_config\<rparr> [] = (Inl (SystemExit 1), [Shell ''make'', Shell c, Shell ''ls''])
   \<and> run_compile_bmv2 (demo_runner_env 9) \<lparr>mf_program = PStr ''basic.p4'', mf_language = PStr ''p4-16'',
      mf_target = PStr ''test'', mf_config = demo_config\<rparr> [] = (Inr ''basic.p4.json'', [Shell ''make'', Shell d, Shell ''ls''])"
proof -
  let ?m = "\<lparr>mf_program = PStr ''basic.p4'', mf_language = PStr ''p4-16'', mf_target = PStr ''test'', mf_config = demo_config\<rparr>"
  have "run_compile_bmv2 E ?m [] = (let c = compile_command ''--p4v 16'' [''--pp out.p4''] ''basic.p4'' (''basic.p4'' @ ''.json'');
       u = [] @ map Shell [''make'']
     in (if WEXITSTATUS (rn_status E u c) = 0 then Inr (''basic.p4'' @ ''.json'') else Inl (SystemExit 1),
         u @ Shell c # map Shell [''ls'']))" for E
    by (rule compile_commands) (simp_all add: demo_config_def config_list_def dict_get_def of_option_def language_flag_def)
  then show ?thesis by (simp add: demo_runner_env_def WEXITSTATUS_def Let_def)
qed

theorem runner_success_witness:
  "\<exists>m t. compiled (demo_runner_env 0) m t \<and> started_last (demo_runner_env 0) m (PStr ''stf'') 0 t
     \<and> runner_main (demo_runner_env 0) demo_args [] = (Inl (SystemExit 0), t)"
proof -
  let ?t = "snd (runner_main (demo_runner_env 0) demo_args [])"
  have run: "runner_main (demo_runner_env 0) demo_args [] = (Inl (SystemExit 0), ?t)"
  proof -
    have "fst (runner_main (demo_runner_env 0) demo_args []) = Inl (SystemExit 0)" by code_simp
    then show ?thesis by (simp add: prod_eq_iff)
  qed
  from runner_success [OF _ _ _ _ run] obtain v m backend where
    m: "rn_manifest (demo_runner_env 0) = Inr v" "read_manifest demo_args v = Inr m" "backend_of m = Inr backend"
      "compiled (demo_runner_env 0) m ?t" "backend \<noteq> PStr ''compile-bmv2'' \<longrightarrow> started_last (demo_runner_env 0) m backend 0 ?t"
    by (auto simp: demo_runner_env_def)
  have "ebind (rn_manifest (demo_runner_env 0)) (\<lambda>v. ebind (read_manifest demo_args v) backend_of) = Inr (PStr ''stf'')" by code_simp
  with m have "started_last (demo_runner_env 0) m (PStr ''stf'') 0 ?t" by simp
  with m(4) run show ?thesis by blast
qed

end
