(* ===== verification/Mini_Switch.thy ===== *)
theory Mini_Switch
  imports Switch_Alloc
begin

text \<open>
  code/tutorials/utils/mininet/p4\_mininet.py and the rest of code/tutorials/utils/p4\_mininet.py: what a
  host is configured with, the switch of an application, how a plain switch is started and stopped.
  Starting gives \<open>None\<close> when the wait for the server never ends.
\<close>

section \<open>Hosts\<close>

datatype node_call =
    Rename string
  | NodeCmd string
  | DeleteIntfs

definition disable_ipv6 :: "node_call list" where
  "disable_ipv6 = map (\<lambda>i. NodeCmd (''sysctl -w net.ipv6.conf.'' @ i @ ''.disable_ipv6=1'')) [''all'', ''default'', ''lo'']"

definition offload_off :: "string \<Rightarrow> node_call list" where
  "offload_off intf = map (\<lambda>off. NodeCmd (''/sbin/ethtool --offload '' @ intf @ '' '' @ off @ '' off'')) [''rx'', ''tx'', ''sg'']"

text \<open>A host of an exercise renames its interface, a host of an application keeps its name.\<close>

definition exercise_host_config :: "node_call list" where
  "exercise_host_config = Rename ''eth0'' # offload_off ''eth0'' @ disable_ipv6"

definition host_config :: "string \<Rightarrow> node_call list" where
  "host_config intf = offload_off intf @ disable_ipv6"

section \<open>Switches\<close>

text \<open>The switch of an application: nothing asks whether its port is taken.\<close>

definition mini_P4Switch :: "sw_env \<Rightarrow> (string \<Rightarrow> unit res) \<Rightarrow> switch_opts \<Rightarrow> p4_switch alloc_io" where
  "mini_P4Switch W open_log opts =
     andthen (lift (case so_sw_path opts of
        Some (c # p) \<Rightarrow> Inr ()
      | _ \<Rightarrow> Inl (AssertionError ''sw_path'')))
    (andthen (lift (case so_json_path opts of
        Some (c # j) \<Rightarrow> Inr ()
      | _ \<Rightarrow> Inl (AssertionError ''json_path'')))
    (bnd (lift (check_paths W (so_sw_path opts) (so_json_path opts))) (\<lambda>path.
     let log_file = (case so_log_file opts of Some f \<Rightarrow> f | None \<Rightarrow> default_log (so_name opts))
     in andthen (lift (open_log log_file))
       (bnd (take_device_id (so_device_id opts)) (\<lambda>dev.
        ret \<lparr>sw_name = so_name opts, sw_path = path, sw_json_path = so_json_path opts,
             sw_grpc_port = 0, sw_thrift_port = so_thrift_port opts, sw_pcap_dump = so_pcap_dump opts,
             sw_log_console = so_log_console opts, sw_device_id = dev,
             sw_enable_debugger = so_enable_debugger opts, sw_log_file = log_file, sw_cpu_port = None\<rparr>)))))"

text \<open>Only the truth value of \<open>pcap_dump\<close> matters here.\<close>

definition mini_args :: "p4_switch \<Rightarrow> (int \<times> string \<times> bool) list \<Rightarrow> string list" where
  "mini_args s intfs =
     [sw_path s] @ intf_args intfs
     @ (case sw_pcap_dump s of Some (c # d) \<Rightarrow> [''--pcap''] | _ \<Rightarrow> [])
     @ (case sw_thrift_port s of
          Some p \<Rightarrow> if p \<noteq> 0 then [''--thrift-port'', str_int p] else [] | None \<Rightarrow> [])
     @ [''--nanolog'', nanomsg (sw_device_id s), ''--device-id'', str_int (sw_device_id s)]
     @ (case sw_json_path s of Some j \<Rightarrow> [j] | None \<Rightarrow> [])
     @ (if sw_enable_debugger s then [''--debugger''] else [])
     @ (if sw_log_console s then [''--log-console''] else [])"

definition start_command :: "string list \<Rightarrow> string \<Rightarrow> string \<Rightarrow> string" where
  "start_command xs log_file pid_file = join '' '' xs @ '' >'' @ log_file @ '' 2>&1 & echo $! >> '' @ pid_file"

text \<open>What the file of the process id holds is \<open>pid\<close>; the wait is over when the process is gone or its
  server answers.\<close>

definition start_switch ::
  "string \<Rightarrow> int res \<Rightarrow> bool res option \<Rightarrow> counters \<Rightarrow> (string res \<times> counters) option" where
  "start_switch cmd pid started k =
     (let k' = k\<lparr>k_device_id := k_device_id k + 1\<rparr>
      in case pid of
           Inl e \<Rightarrow> Some (Inl e, k')
         | Inr _ \<Rightarrow> (case started of
               None \<Rightarrow> None
             | Some (Inl e) \<Rightarrow> Some (Inl e, k')
             | Some (Inr True) \<Rightarrow> Some (Inr cmd, k')
             | Some (Inr False) \<Rightarrow> Some (Inl (SystemExit 1), k')))"

definition start_plain ::
  "p4_switch \<Rightarrow> (int \<times> string \<times> bool) list \<Rightarrow> string \<Rightarrow> int res \<Rightarrow> (nat \<Rightarrow> bool) \<Rightarrow> (nat \<Rightarrow> bool) \<Rightarrow>
     counters \<Rightarrow> (string res \<times> counters) option" where
  "start_plain s intfs pid_file pid alive serving =
     start_switch (start_command (plain_args s intfs) (sw_log_file s) pid_file) pid
       (map_option Inr (check_plain_started 0 alive serving))"

text \<open>Connecting to a port that is \<open>None\<close> raises.\<close>

definition check_switch_started :: "int option \<Rightarrow> (nat \<Rightarrow> bool) \<Rightarrow> (nat \<Rightarrow> bool) \<Rightarrow> bool res option" where
  "check_switch_started thrift_port alive serving =
     (case thrift_port of
        Some p \<Rightarrow> map_option Inr (check_plain_started 0 alive serving)
      | None \<Rightarrow> Some (if alive 0 then Inl (TypeError ''an integer is required'') else Inr False))"

definition start_mini ::
  "p4_switch \<Rightarrow> (int \<times> string \<times> bool) list \<Rightarrow> string \<Rightarrow> int res \<Rightarrow> (nat \<Rightarrow> bool) \<Rightarrow> (nat \<Rightarrow> bool) \<Rightarrow>
     counters \<Rightarrow> (string res \<times> counters) option" where
  "start_mini s intfs pid_file pid alive serving =
     start_switch (start_command (mini_args s intfs) (sw_log_file s) pid_file) pid
       (check_switch_started (sw_thrift_port s) alive serving)"

definition stop_switch :: "p4_switch \<Rightarrow> node_call list" where
  "stop_switch s = [NodeCmd (''kill %'' @ sw_path s), NodeCmd ''wait'', DeleteIntfs]"

definition attach :: "unit res" where
  "attach = Inl (AssertionError ''0'')"

section \<open>Facts\<close>

text \<open>Starting ends with the first look that sees the process gone or the server up; when there is no such
  look it never ends.\<close>

lemma check_plain_started_iff:
  "check_plain_started 0 alive serving = Some b \<longleftrightarrow>
     (\<exists>j. (\<forall>m < j. alive m \<and> \<not> serving m) \<and> (if b then alive j \<and> serving j else \<not> alive j))"
proof -
  have "check_plain_started 0 alive serving = Some b \<longleftrightarrow> (\<exists>n. poll_started n 0 alive serving = Some b)"
    using poll_le_plain plain_le_poll by blast
  then show ?thesis unfolding poll_started_iff add_0 using lessI by blast
qed

lemma start_mini_runs:
  assumes "sw_thrift_port s = Some p" and "pid = Inr n"
  shows "(\<exists>k'. start_mini s intfs pid_file pid alive serving k = Some (Inr cmd, k')) \<longleftrightarrow>
    cmd = start_command (mini_args s intfs) (sw_log_file s) pid_file
     \<and> (\<exists>j. (\<forall>m < j. alive m \<and> \<not> serving m) \<and> alive j \<and> serving j)"
proof -
  have "(\<exists>j. (\<forall>m < j. alive m \<and> \<not> serving m) \<and> alive j \<and> serving j) \<longleftrightarrow> check_plain_started 0 alive serving = Some True"
    by (simp add: check_plain_started_iff)
  with assms show ?thesis
    by (auto simp: start_mini_def start_switch_def check_switch_started_def Let_def split: option.splits bool.splits)
qed

lemma start_mini_hangs:
  assumes "sw_thrift_port s = Some p" and "pid = Inr n" and "\<forall>j. alive j \<and> \<not> serving j"
  shows "start_mini s intfs pid_file pid alive serving k = None"
proof -
  have "check_plain_started 0 alive serving \<noteq> Some b" for b
    using assms(3) by (auto simp: check_plain_started_iff)
  then have "check_plain_started 0 alive serving = None" by (cases "check_plain_started 0 alive serving") auto
  with assms show ?thesis by (simp add: start_mini_def start_switch_def check_switch_started_def)
qed

lemma start_counts:
  "start_switch cmd pid started k = Some (r, k') \<Longrightarrow> k' = k\<lparr>k_device_id := k_device_id k + 1\<rparr>"
  by (auto simp: start_switch_def Let_def split: sum.splits option.splits bool.splits)

end
