(* ===== verification/Single_Switch.thy ===== *)
theory Single_Switch
  imports Py_Text Py_IO
begin

text \<open>
  code/tutorials/utils/mininet/single\_switch\_mininet.py: one switch with a number of hosts, its
  configuration and the command line of Mininet. The state is the list of calls; what files hold and
  whether the network comes up is the parameter \<open>single_env\<close>.
\<close>

section \<open>The topology\<close>

datatype net_call =
    AddSwitch string string string "string option" int "string option"
  | AddHost string string string
  | AddLink string string
  | StartNet
  | SetARP string string string
  | DefaultRouteTo string string
  | Describe string string string
  | Pause nat
  | StartSwitchCLI
  | Show string
  | RunCLI
  | StopNet

type_synonym 'a net_io = "(net_call list, 'a) io"

record single_args =
  sa_behavioral_exe :: string
  sa_thrift_port :: int
  sa_num_hosts :: int
  sa_mode :: string
  sa_json :: string
  sa_log_file :: "string option"
  sa_pcap_dump :: "string option"
  sa_switch_config :: "string option"
  sa_cli_message :: "string option"

text \<open>An option that is not given is \<open>False\<close>, and opening \<open>False\<close> opens the standard input: \<open>se_read\<close>
  gives the text of a file or, for \<open>None\<close>, of what the standard input still holds.\<close>

record single_env =
  se_start :: "unit res"
  se_intf :: "string \<Rightarrow> string"
  se_read :: "net_call list \<Rightarrow> string option \<Rightarrow> string res"

definition net_do :: "net_call \<Rightarrow> unit net_io" where
  "net_do c = modify (\<lambda>t. t @ [c])"

definition host_name :: "nat \<Rightarrow> string" where
  "host_name n = ''h'' @ str_nat (n + 1)"

definition SingleSwitchTopo ::
  "string \<Rightarrow> string \<Rightarrow> string option \<Rightarrow> int \<Rightarrow> string option \<Rightarrow> int \<Rightarrow> unit net_io" where
  "SingleSwitchTopo sw_path json_path log_file thrift_port pcap_dump n =
     andthen (net_do (AddSwitch ''s1'' sw_path json_path log_file thrift_port pcap_dump))
       (for_each (\<lambda>h. andthen (net_do (AddHost (host_name h) (''10.0.'' @ str_nat h @ ''.10/24'') (''00:04:00:00:00:'' @ hex2 h)))
          (net_do (AddLink (host_name h) ''s1''))) [0..<nat n])"

section \<open>The run\<close>

definition sw_mac :: "nat \<Rightarrow> string" where
  "sw_mac n = ''00:aa:bb:00:00:'' @ hex2 n"

definition sw_addr :: "nat \<Rightarrow> string" where
  "sw_addr n = ''10.0.'' @ str_nat n @ ''.1''"

definition route_host :: "single_env \<Rightarrow> string \<Rightarrow> nat \<Rightarrow> unit net_io" where
  "route_host E mode n =
     (let h = host_name n
      in if mode = ''l2'' then net_do (DefaultRouteTo h (''dev '' @ se_intf E h))
         else andthen (net_do (SetARP h (sw_addr n) (sw_mac n)))
           (net_do (DefaultRouteTo h (''dev '' @ se_intf E h @ '' via '' @ sw_addr n))))"

definition read_text :: "single_env \<Rightarrow> string option \<Rightarrow> string net_io" where
  "read_text E f = bnd (gets (\<lambda>t. se_read E t f)) lift"

text \<open>The pipe takes bytes: any text but the empty one raises.\<close>

definition communicate :: "string \<Rightarrow> unit net_io" where
  "communicate text =
     andthen (net_do StartSwitchCLI)
       (if text = [] then ret () else raise (TypeError ''a bytes-like object is required''))"

definition single_main :: "single_env \<Rightarrow> single_args \<Rightarrow> unit net_io" where
  "single_main E A =
     andthen (SingleSwitchTopo (sa_behavioral_exe A) (sa_json A) (sa_log_file A) (sa_thrift_port A) (sa_pcap_dump A) (sa_num_hosts A))
    (andthen (andthen (lift (se_start E)) (net_do StartNet))
    (andthen (for_each (route_host E (sa_mode A)) [0..<nat (sa_num_hosts A)])
    (andthen (for_each (\<lambda>n. net_do (Describe (host_name n) (sw_addr n) (sw_mac n))) [0..<nat (sa_num_hosts A)])
    (andthen (net_do (Pause 1))
    (andthen (bnd (read_text E (sa_switch_config A)) communicate)
    (andthen (bnd (read_text E (sa_cli_message A)) (\<lambda>text. net_do (Show text)))
    (andthen (net_do RunCLI) (net_do StopNet))))))))"

section \<open>Facts\<close>

lemma net_do_run [io_run]: "net_do c s = (Inr (), s @ [c])"
  by (simp add: net_do_def io_defs)

lemma for_each_calls:
  assumes "\<And>x s. f x s = (Inr (), s @ cs x)"
  shows "for_each f xs s = (Inr (), s @ concat (map cs xs))"
  by (induction xs arbitrary: s) (simp_all add: assms)

definition topo_calls :: "single_args \<Rightarrow> net_call list" where
  "topo_calls A = AddSwitch ''s1'' (sa_behavioral_exe A) (sa_json A) (sa_log_file A) (sa_thrift_port A) (sa_pcap_dump A)
     # concat (map (\<lambda>h. [AddHost (host_name h) (''10.0.'' @ str_nat h @ ''.10/24'') (''00:04:00:00:00:'' @ hex2 h),
         AddLink (host_name h) ''s1'']) [0..<nat (sa_num_hosts A)])"

definition route_calls :: "single_env \<Rightarrow> single_args \<Rightarrow> net_call list" where
  "route_calls E A = concat (map (\<lambda>n. let h = host_name n in
       if sa_mode A = ''l2'' then [DefaultRouteTo h (''dev '' @ se_intf E h)]
       else [SetARP h (sw_addr n) (sw_mac n), DefaultRouteTo h (''dev '' @ se_intf E h @ '' via '' @ sw_addr n)])
     [0..<nat (sa_num_hosts A)])"

definition described :: "single_args \<Rightarrow> net_call list" where
  "described A = map (\<lambda>n. Describe (host_name n) (sw_addr n) (sw_mac n)) [0..<nat (sa_num_hosts A)]"

lemma SingleSwitchTopo_run:
  "SingleSwitchTopo (sa_behavioral_exe A) (sa_json A) (sa_log_file A) (sa_thrift_port A) (sa_pcap_dump A) (sa_num_hosts A) s
     = (Inr (), s @ topo_calls A)"
  by (simp add: SingleSwitchTopo_def topo_calls_def io_run
      for_each_calls [where cs = "\<lambda>h. [AddHost (host_name h) (''10.0.'' @ str_nat h @ ''.10/24'') (''00:04:00:00:00:'' @ hex2 h),
         AddLink (host_name h) ''s1'']"])

lemma routes_run: "for_each (route_host E (sa_mode A)) [0..<nat (sa_num_hosts A)] s = (Inr (), s @ route_calls E A)"
  unfolding route_calls_def by (rule for_each_calls) (simp add: route_host_def io_run Let_def)

lemma described_run:
  "for_each (\<lambda>n. net_do (Describe (host_name n) (sw_addr n) (sw_mac n))) [0..<nat (sa_num_hosts A)] s = (Inr (), s @ described A)"
  by (subst for_each_calls [where cs = "\<lambda>n. [Describe (host_name n) (sw_addr n) (sw_mac n)]"])
    (simp_all add: described_def io_run)

text \<open>The calls up to the point where the configuration is read.\<close>

definition before_config :: "single_env \<Rightarrow> single_args \<Rightarrow> net_call list" where
  "before_config E A = topo_calls A @ StartNet # route_calls E A @ described A @ [Pause 1]"

text \<open>A configuration with a text in it ends the run with \<open>TypeError\<close>: neither the command line nor the end of
  the network is reached. Only an empty one lets the run get through.\<close>

lemma single_main_config:
  assumes up: "se_start E = Inr ()" and config: "se_read E (s @ before_config E A) (sa_switch_config A) = Inr text"
  shows "single_main E A s =
    (if text \<noteq> [] then (Inl (TypeError ''a bytes-like object is required''), s @ before_config E A @ [StartSwitchCLI])
     else let t = s @ before_config E A @ [StartSwitchCLI]
       in case se_read E t (sa_cli_message A) of
            Inl e \<Rightarrow> (Inl e, t)
          | Inr m \<Rightarrow> (Inr (), t @ [Show m, RunCLI, StopNet]))"
  using config
  by (simp add: single_main_def SingleSwitchTopo_run routes_run described_run up before_config_def read_text_def
      communicate_def io_run Let_def bnd_def gets_def lift_def split: sum.splits)

end
