(* ===== verification/Multi_Switch.thy ===== *)
theory Multi_Switch
  imports App_Controller Mini_Switch
begin

text \<open>
  code/tutorials/utils/mininet/multi\_switch\_mininet.py: the network of an application with several
  switches. Parameters in texts, latencies of links, the configured switches, the controller, the commands
  of the hosts and the end of their processes. The state is the list of calls, the processes that were waited for
  and their return codes; Mininet, the files and the custom modules are the parameter \<open>multi_env\<close>.
\<close>

section \<open>Arguments and calls\<close>

record multi_args =
  ma_behavioral_exe :: string
  ma_thrift_port :: int
  ma_bmv2_log :: bool
  ma_cli :: bool
  ma_auto_control_plane :: bool
  ma_json :: string
  ma_pcap_dump :: bool
  ma_target :: string
  ma_log_dir :: string
  ma_cli_message :: "string option"

text \<open>A process is known by its position among those that were started.\<close>

datatype multi_call =
    Environ "(string \<times> string) list"
  | MkDir string
  | StartNet app_topo "p4_switch list"
  | Pause rat
  | PauseFor pyval
  | Control "app_call list"
  | Show string
  | RunCLI
  | OpenOut string
  | HostPopen nat string string
  | WaitProc nat
  | CloseOut string
  | System string
  | StopNet

record multi_state =
  m_calls :: "multi_call list"
  m_started :: nat
  m_reaped :: "nat list"
  m_codes :: "int list"

type_synonym 'a multi_io = "(multi_state, 'a) io"

type_synonym topo_class =
  "(string \<times> string) list \<Rightarrow> (string \<times> string) list \<Rightarrow> (string \<times> pyval) list \<Rightarrow> string \<Rightarrow> unit topo_io"

type_synonym controller_class = "app_net \<Rightarrow> pyval \<Rightarrow> (string \<times> string) list \<Rightarrow> app_topo \<Rightarrow> unit app_io"

record multi_env =
  mv_manifest :: "pyval res"
  mv_topo_module :: "pyval \<Rightarrow> topo_class res"
  mv_controller_module :: "pyval \<Rightarrow> controller_class res"
  mv_is_dir :: bool
  mv_exists :: bool
  mv_host :: sw_env
  mv_open :: "string \<Rightarrow> unit res"
  mv_net :: "app_topo \<Rightarrow> app_net res"
  mv_start :: "p4_switch list \<Rightarrow> unit res"
  mv_read :: "multi_call list \<Rightarrow> string option \<Rightarrow> string res"
  mv_ip :: "string \<Rightarrow> string"
  mv_pid :: "nat \<Rightarrow> nat"
  mv_code :: "multi_call list \<Rightarrow> nat \<Rightarrow> int"
  mv_status :: "multi_call list \<Rightarrow> string \<Rightarrow> int"
  mv_float :: "rat \<Rightarrow> string"

definition m_do :: "multi_call \<Rightarrow> unit multi_io" where
  "m_do c = modify (\<lambda>s. s\<lparr>m_calls := m_calls s @ [c]\<rparr>)"

definition run_shell :: "multi_env \<Rightarrow> string \<Rightarrow> int multi_io" where
  "run_shell E c = bnd (gets (\<lambda>s. mv_status E (m_calls s) c div 256 mod 256)) (\<lambda>rc. andthen (m_do (System c)) (ret rc))"

section \<open>Parameters\<close>

definition is_word :: "char \<Rightarrow> bool" where
  "is_word c = (let n = of_char c :: nat in
     48 \<le> n \<and> n \<le> 57 \<or> 65 \<le> n \<and> n \<le> 90 \<or> 97 \<le> n \<and> n \<le> 122 \<or> n = 95)"

lemma drop_Cons_shorter: "drop n cs = d # ds \<Longrightarrow> length ds < length cs"
  by (metis Suc_le_lessD diff_le_self length_Cons length_drop)

text \<open>\<open>re.sub\<close> of a dollar sign, the name and one more character that is no part of a word, or the end of the
  text. That character is consumed by the match, so it cannot be the dollar sign of another one. Names are
  taken literally, and values have no backslash.\<close>

function sub_param :: "string \<Rightarrow> string \<Rightarrow> string \<Rightarrow> string" where
  "sub_param p v [] = []"
| "sub_param p v (c # cs) =
     (if c = CHR ''$'' \<and> prefix p cs then
        (case drop (length p) cs of
           [] \<Rightarrow> v
         | d # ds \<Rightarrow> if is_word d then c # sub_param p v cs else v @ d # sub_param p v ds)
      else c # sub_param p v cs)"
  by pat_completeness auto
termination by (relation "measure (\<lambda>(p, v, s). length s)") (auto dest: drop_Cons_shorter)

definition format_param :: "multi_env \<Rightarrow> string \<times> pyval \<Rightarrow> string \<Rightarrow> string" where
  "format_param E pv s =
     (let v = py_str (mv_float E) (snd pv) in replace_all (''${'' @ fst pv @ ''}'') v (sub_param (fst pv) v s))"

definition formatParams :: "multi_env \<Rightarrow> (string \<times> pyval) list \<Rightarrow> string \<Rightarrow> string" where
  "formatParams E params s = fold (format_param E) params s"

section \<open>Links\<close>

text \<open>\<open>l[:2]\<close>, which has to be two names.\<close>

definition two_ends :: "pyval \<Rightarrow> (string \<times> string) res" where
  "two_ends l =
     (case l of
        PList (a # b # _) \<Rightarrow> ebind (as_str a) (\<lambda>a. ebind (as_str b) (\<lambda>b. Inr (a, b)))
      | PList _ \<Rightarrow> Inl (ValueError ''not enough values to unpack'')
      | _ \<Rightarrow> Inl (TypeError ''not a list''))"

definition link_key :: "string \<times> string \<Rightarrow> string" where
  "link_key ab = concat (sort [fst ab, snd ab])"

text \<open>The third and fourth elements of the links that have them, by the names of the ends.\<close>

definition link_items :: "nat \<Rightarrow> pyval list \<Rightarrow> (string \<times> pyval) list res" where
  "link_items i ls =
     ebind (emap (\<lambda>l. ebind (two_ends l) (\<lambda>ab. case l of
         PList xs \<Rightarrow> Inr (if i < length xs then [(link_key ab, xs ! i)] else [])
       | _ \<Rightarrow> Inr [])) ls)
     (\<lambda>xss. Inr (dict_update [] (concat xss)))"

definition host_latency :: "(string \<times> string) list \<Rightarrow> string \<Rightarrow> pyval \<Rightarrow> (string \<times> pyval) list \<Rightarrow> (string \<times> pyval) list res" where
  "host_latency links host conf lats =
     ebind (py_in ''latency'' conf) (\<lambda>b. if \<not> b then Inr lats else
     ebind (py_item conf ''latency'') (\<lambda>v.
     Inr (fold (\<lambda>(a, b) d. if a \<noteq> host \<and> b \<noteq> host then d
        else dict_put (host @ (if a \<noteq> host then a else b)) v d) links lats)))"

fun host_latencies :: "(string \<times> string) list \<Rightarrow> pyval \<Rightarrow> string list \<Rightarrow> (string \<times> pyval) list \<Rightarrow> (string \<times> pyval) list res" where
  "host_latencies links hosts [] lats = Inr lats"
| "host_latencies links hosts (h # hs) lats =
     ebind (py_item hosts h) (\<lambda>conf. ebind (host_latency links h conf lats) (host_latencies links hosts hs))"

definition latency_text :: "multi_env \<Rightarrow> (string \<times> pyval) list \<Rightarrow> pyval \<Rightarrow> string" where
  "latency_text E params v =
     (case v of PStr s \<Rightarrow> formatParams E params s | _ \<Rightarrow> py_str (mv_float E) v @ ''ms'')"

definition sorted_hosts :: "pyval \<Rightarrow> string list res" where
  "sorted_hosts hosts = (case hosts of PDict d \<Rightarrow> Inr (sort (map fst d)) | _ \<Rightarrow> Inl (AttributeError ''keys''))"

definition link_latencies :: "multi_env \<Rightarrow> (string \<times> pyval) list \<Rightarrow> pyval list \<Rightarrow> pyval \<Rightarrow> (string \<times> string) list res" where
  "link_latencies E params ls hosts =
     ebind (emap two_ends ls) (\<lambda>links.
     ebind (link_items 2 ls) (\<lambda>lats.
     ebind (sorted_hosts hosts) (\<lambda>hs.
     ebind (host_latencies links hosts hs lats) (\<lambda>lats'.
     Inr (map (\<lambda>(k, v). (k, latency_text E params v)) lats')))))"

section \<open>Switches\<close>

text \<open>Every switch takes the next Thrift port, which \<open>k_thrift_port\<close> holds; the log file is the one the
  topology gave it.\<close>

definition ConfiguredP4Switch :: "multi_env \<Rightarrow> multi_args \<Rightarrow> bool \<Rightarrow> bool \<Rightarrow> string \<Rightarrow> p4_switch alloc_io" where
  "ConfiguredP4Switch E A log_console pcap_dump name =
     bnd (take_thrift_port None) (\<lambda>port.
     mini_P4Switch (mv_host E) (mv_open E)
       \<lparr>so_name = name, so_sw_path = Some (ma_behavioral_exe A), so_json_path = Some (ma_json A),
        so_grpc_port = None, so_thrift_port = Some port, so_pcap_dump = (if pcap_dump then Some ''True'' else None),
        so_log_console = log_console, so_device_id = None, so_enable_debugger = False,
        so_log_file = Some (ma_log_dir A @ ''/'' @ name @ ''.log''), so_cpu_port = None\<rparr>)"

fun create_switches :: "multi_env \<Rightarrow> multi_args \<Rightarrow> bool \<Rightarrow> bool \<Rightarrow> string list \<Rightarrow> p4_switch list alloc_io" where
  "create_switches E A lc pcap [] = ret []"
| "create_switches E A lc pcap (n # ns) =
     bnd (ConfiguredP4Switch E A lc pcap n) (\<lambda>s. bnd (create_switches E A lc pcap ns) (\<lambda>ss. ret (s # ss)))"

definition switch_counters :: "multi_args \<Rightarrow> counters" where
  "switch_counters A = initial_counters\<lparr>k_thrift_port := ma_thrift_port A\<rparr>"

section \<open>Processes of the hosts\<close>

definition optional_true :: "pyval \<Rightarrow> string \<Rightarrow> bool res" where
  "optional_true v k = ebind (py_in k v) (\<lambda>b. if b then ebind (py_item v k) (\<lambda>x. Inr (truthy x)) else Inr False)"

text \<open>The name of every host is replaced by its address wherever it occurs, in the order of the hosts.\<close>

definition formatCmd :: "multi_env \<Rightarrow> app_net \<Rightarrow> string \<Rightarrow> string" where
  "formatCmd E N cmd = fold (\<lambda>h c. replace_all h (mv_ip E h) c) (an_hosts N) cmd"

definition wait_for_exit :: "multi_env \<Rightarrow> nat \<Rightarrow> string \<Rightarrow> unit multi_io" where
  "wait_for_exit E p host =
     andthen (m_do (WaitProc p))
    (andthen (modify (\<lambda>s. s\<lparr>m_reaped := m_reaped s @ [p], m_codes := m_codes s @ [mv_code E (m_calls s) p]\<rparr>))
     (m_do (CloseOut host)))"

definition start_host ::
  "multi_env \<Rightarrow> multi_args \<Rightarrow> app_net \<Rightarrow> pyval \<Rightarrow> string \<Rightarrow> (nat \<times> string) list \<Rightarrow> (nat \<times> string) list multi_io" where
  "start_host E A N hosts name procs =
     bnd (lift (py_item hosts name)) (\<lambda>host.
     bnd (lift (py_in ''cmd'' host)) (\<lambda>b. if \<not> b then ret procs else
     andthen (lift (if name \<in> set (an_hosts N) \<or> name \<in> set (an_switches N) then Inr () else Inl (KeyError name)))
    (andthen (m_do (OpenOut (path_join (ma_log_dir A) (name @ ''.stdout''))))
    (bnd (lift (ebind (py_item host ''cmd'') as_str)) (\<lambda>cmd.
     bnd (gets m_started) (\<lambda>p.
     andthen (modify (\<lambda>s. s\<lparr>m_started := p + 1\<rparr>))
    (andthen (m_do (HostPopen p name (formatCmd E N cmd)))
    (bnd (lift (py_in ''startup_sleep'' host)) (\<lambda>sl.
     andthen (if sl then bnd (lift (py_item host ''startup_sleep'')) (\<lambda>v. m_do (PauseFor v)) else ret ())
    (bnd (lift (optional_true host ''wait'')) (\<lambda>w.
     if w then andthen (wait_for_exit E p name) (ret procs) else ret (procs @ [(p, name)]))))))))))))"

definition marked :: "pyval \<Rightarrow> string \<Rightarrow> bool res" where
  "marked hosts name = ebind (py_item hosts name) (\<lambda>host. optional_true host ''wait'')"

definition wait_marked :: "multi_env \<Rightarrow> pyval \<Rightarrow> nat \<times> string \<Rightarrow> unit multi_io" where
  "wait_marked E hosts pn = bnd (lift (marked hosts (snd pn))) (\<lambda>w. if w then wait_for_exit E (fst pn) (snd pn) else ret ())"

definition pkill :: "string \<Rightarrow> nat \<Rightarrow> string" where
  "pkill sig pid = ''pkill -'' @ sig @ '' -P '' @ str_nat pid"

definition end_proc :: "multi_env \<Rightarrow> pyval \<Rightarrow> nat \<times> string \<Rightarrow> unit multi_io" where
  "end_proc E hosts pn =
     bnd (lift (marked hosts (snd pn))) (\<lambda>w. if w then ret () else
     bnd (gets m_reaped) (\<lambda>reaped.
     andthen (if fst pn \<in> set reaped then ret ()
        else andthen (bnd (run_shell E (pkill ''INT'' (mv_pid E (fst pn)))) (\<lambda>_. ret ()))
            (andthen (m_do (Pause (1 / 5)))
            (bnd (run_shell E (pkill ''0'' (mv_pid E (fst pn)))) (\<lambda>rc.
             if rc = 0 then andthen (m_do (Pause 1)) (bnd (run_shell E (pkill ''TERM'' (mv_pid E (fst pn)))) (\<lambda>_. ret ()))
             else ret ()))))
       (wait_for_exit E (fst pn) (snd pn))))"

definition run_host_commands :: "multi_env \<Rightarrow> multi_args \<Rightarrow> app_net \<Rightarrow> pyval \<Rightarrow> unit multi_io" where
  "run_host_commands E A N hosts =
     bnd (lift (sorted_hosts hosts)) (\<lambda>names.
     bnd (fold_io (start_host E A N hosts) names []) (\<lambda>procs.
     andthen (for_each (wait_marked E hosts) procs) (for_each (end_proc E hosts) procs)))"

definition run_after :: "multi_env \<Rightarrow> pyval \<Rightarrow> unit multi_io" where
  "run_after E conf =
     bnd (lift (py_in ''after'' conf)) (\<lambda>a. if \<not> a then ret () else
     bnd (lift (py_item conf ''after'')) (\<lambda>after.
     bnd (lift (py_in ''cmd'' after)) (\<lambda>b. if \<not> b then ret () else
     bnd (lift (py_item after ''cmd'')) (\<lambda>cmd.
     for_each (\<lambda>c. bnd (lift (as_str c)) (\<lambda>c. m_do (System c))) (case cmd of PList cs \<Rightarrow> cs | c \<Rightarrow> [c])))))"

section \<open>main\<close>

definition optional_class :: "pyval \<Rightarrow> string \<Rightarrow> 'c \<Rightarrow> (pyval \<Rightarrow> 'c res) \<Rightarrow> 'c res" where
  "optional_class conf k c load = ebind (py_in k conf) (\<lambda>b. if b then ebind (py_item conf k) load else Inr c)"

definition make_log_dir :: "multi_env \<Rightarrow> multi_args \<Rightarrow> unit multi_io" where
  "make_log_dir E A =
     andthen (if mv_is_dir E then ret ()
        else if mv_exists E then raise (Exc ''Log dir exists and is not a dir'') else m_do (MkDir (ma_log_dir A)))
       (m_do (Environ [(''P4APP_LOGDIR'', ma_log_dir A)]))"

definition parameters :: "pyval \<Rightarrow> (string \<times> pyval) list res" where
  "parameters conf = ebind (py_in ''parameters'' conf) (\<lambda>b. if b then ebind (py_item conf ''parameters'') py_items else Inr [])"

definition run_controller ::
  "multi_env \<Rightarrow> multi_args \<Rightarrow> pyval \<Rightarrow> pyval \<Rightarrow> controller_class \<Rightarrow> app_net \<Rightarrow> (string \<times> string) list \<Rightarrow> app_topo \<Rightarrow> unit multi_io" where
  "run_controller E A manifest conf start N links t =
     bnd (lift (py_in ''controller_module'' conf)) (\<lambda>b.
     if ma_auto_control_plane A \<or> b then
       bnd (lift (AppController manifest (ma_target A))) (\<lambda>c.
       case start N c links t [] of (r, calls) \<Rightarrow> andthen (m_do (Control calls)) (lift r))
     else ret ())"

definition command_line :: "multi_env \<Rightarrow> multi_args \<Rightarrow> pyval \<Rightarrow> unit multi_io" where
  "command_line E A conf =
     andthen (bnd (gets (\<lambda>s. mv_read E (m_calls s) (ma_cli_message A))) (\<lambda>r. bnd (lift r) (\<lambda>m. m_do (Show m))))
    (bnd (lift (optional_true conf ''cli'')) (\<lambda>c. if ma_cli A \<or> c then m_do RunCLI else ret ()))"

definition exit_code :: "unit multi_io" where
  "exit_code = bnd (gets m_codes) (\<lambda>cs. if filter (\<lambda>c. c \<noteq> 0) cs \<noteq> [] then raise (SystemExit 1) else ret ())"

definition multi_main :: "multi_env \<Rightarrow> multi_args \<Rightarrow> unit multi_io" where
  "multi_main E A =
     bnd (lift (mv_manifest E)) (\<lambda>manifest.
     bnd (lift (AppController manifest (ma_target A))) (\<lambda>conf.
     bnd (lift (parameters conf)) (\<lambda>params.
     andthen (m_do (Environ (map (\<lambda>(k, v). (k, py_str (mv_float E) v)) params)))
    (bnd (lift (optional_class conf ''topo_module'' AppTopo (mv_topo_module E))) (\<lambda>topo.
     bnd (lift (optional_class conf ''controller_module'' controller_start (mv_controller_module E))) (\<lambda>start.
     andthen (make_log_dir E A)
    (bnd (lift (ebind (py_item conf ''links'') py_iter)) (\<lambda>ls.
     bnd (lift (emap two_ends ls)) (\<lambda>links.
     bnd (lift (py_item conf ''hosts'')) (\<lambda>hosts.
     bnd (lift (link_latencies E params ls hosts)) (\<lambda>latencies.
     bnd (lift (link_items 3 ls)) (\<lambda>bws.
     bnd (lift (optional_true conf ''bmv2_log'')) (\<lambda>bmv2_log.
     bnd (lift (optional_true conf ''pcap_dump'')) (\<lambda>pcap_dump.
     case topo links latencies bws (ma_log_dir A) initial_topo of
       (Inl e, _) \<Rightarrow> raise e
     | (Inr _, t) \<Rightarrow>
         bnd (lift (mv_net E t)) (\<lambda>N.
         bnd (lift (fst (create_switches E A (ma_bmv2_log A \<or> bmv2_log) (ma_pcap_dump A \<or> pcap_dump) (an_topo_switches N)
                (switch_counters A)))) (\<lambda>switches.
         andthen (m_do (StartNet t switches))
        (andthen (lift (mv_start E switches))
        (andthen (m_do (Pause 1))
        (andthen (run_controller E A manifest conf start N links t)
        (andthen (command_line E A conf)
        (andthen (run_host_commands E A N hosts)
        (andthen (run_after E conf)
        (andthen (m_do StopNet) exit_code)))))))))))))))))))))))"

section \<open>Facts\<close>

text \<open>The second parameter of a pair is not replaced: the dollar sign that ends the first match is gone.\<close>

lemma sub_param_adjacent: "sub_param ''a'' ''5'' ''$a$a'' = ''5$a''"
  by (simp add: is_word_def)

text \<open>A host whose name starts another one's name damages it.\<close>

lemma formatCmd_prefix:
  "formatCmd E (N\<lparr>an_hosts := [''h1'', ''h10'']\<rparr>) ''ping h10'' = replace_all ''h10'' (mv_ip E ''h10'') (''ping '' @ mv_ip E ''h1'' @ ''0'')"
  by (simp add: formatCmd_def replace_all_def)

interpretation same_procs: step_relation "\<lambda>s t. (m_started s, m_reaped s, m_codes s) = (m_started t, m_reaped t, m_codes t)"
  by (rule step_relation_eq)

abbreviation no_procs :: "'a multi_io \<Rightarrow> bool" where
  "no_procs m \<equiv> keeps (\<lambda>s t. (m_started s, m_reaped s, m_codes s) = (m_started t, m_reaped t, m_codes t)) m"

lemma m_do_no_procs: "no_procs (m_do c)"
  by (simp add: keeps_def m_do_def io_defs)

lemma run_shell_no_procs: "no_procs (run_shell E c)"
  unfolding run_shell_def by (intro same_procs.keeps_rules m_do_no_procs)

lemma wait_for_exit_run:
  "wait_for_exit E p host s = (Inr (), t) \<Longrightarrow>
     m_started t = m_started s \<and> m_reaped t = m_reaped s @ [p] \<and> length (m_codes t) = Suc (length (m_codes s))"
  by (auto simp: wait_for_exit_def m_do_def io_defs)

text \<open>Every process is reaped or still listed, each once.\<close>

definition accounted :: "nat \<Rightarrow> (nat \<times> string) list \<Rightarrow> multi_state \<Rightarrow> bool" where
  "accounted k procs s \<longleftrightarrow> k \<le> m_started s \<and>
     mset (m_reaped s) + mset (map fst procs) = mset [k..<m_started s] \<and> length (m_codes s) = length (m_reaped s)"

lemma m_do_run: "m_do c s = (Inr (), s\<lparr>m_calls := m_calls s @ [c]\<rparr>)"
  by (simp add: m_do_def io_defs)

lemma start_host_step:
  assumes "start_host E A N hosts name procs s = (Inr procs', t)"
  shows "procs' = procs \<and> t = s \<or> m_started t = Suc (m_started s) \<and>
    (procs' = procs \<and> m_reaped t = m_reaped s @ [m_started s] \<and> length (m_codes t) = Suc (length (m_codes s))
     \<or> procs' = procs @ [(m_started s, name)] \<and> m_reaped t = m_reaped s \<and> m_codes t = m_codes s \<and> marked hosts name = Inr False)"
  using assms unfolding start_host_def marked_def
  by (auto simp: bnd_eq_Inr andthen_eq_Inr io_eval m_do_run dest!: wait_for_exit_run split: if_splits)

lemma start_host_accounted:
  assumes "start_host E A N hosts name procs s = (Inr procs', t)" and "accounted k procs s"
    and "\<forall>pn \<in> set procs. marked hosts (snd pn) = Inr False"
  shows "accounted k procs' t \<and> (\<forall>pn \<in> set procs'. marked hosts (snd pn) = Inr False)"
  using start_host_step [OF assms(1)] assms(2,3) by (auto simp: accounted_def atLeastLessThanSuc)

lemma start_hosts_accounted:
  assumes "fold_io (start_host E A N hosts) names procs s = (Inr procs', t)" and "accounted k procs s"
    and "\<forall>pn \<in> set procs. marked hosts (snd pn) = Inr False"
  shows "accounted k procs' t \<and> (\<forall>pn \<in> set procs'. marked hosts (snd pn) = Inr False)"
  using assms
proof (induction names arbitrary: procs s)
  case (Cons n names)
  from Cons.prems(1) obtain procs1 u where first: "start_host E A N hosts n procs s = (Inr procs1, u)"
    and rest: "fold_io (start_host E A N hosts) names procs1 u = (Inr procs', t)" by (auto simp: bnd_eq_Inr)
  from start_host_accounted [OF first Cons.prems(2,3)] Cons.IH [OF rest] show ?case by blast
qed (simp add: io_eval)

lemma wait_marked_none:
  "\<forall>pn \<in> set procs. marked hosts (snd pn) = Inr False \<Longrightarrow> for_each (wait_marked E hosts) procs s = (Inr (), s)"
  by (induction procs) (simp_all add: wait_marked_def bnd_def lift_def ret_def)

lemma end_proc_step:
  assumes "end_proc E hosts pn s = (Inr (), t)" and "marked hosts (snd pn) = Inr False"
  shows "m_started t = m_started s \<and> m_reaped t = m_reaped s @ [fst pn] \<and> length (m_codes t) = Suc (length (m_codes s))"
  using assms unfolding end_proc_def run_shell_def
  by (auto simp: bnd_eq_Inr andthen_eq_Inr io_eval m_do_run dest!: wait_for_exit_run split: if_splits)

lemma end_procs_accounted:
  assumes "for_each (end_proc E hosts) procs s = (Inr (), t)" and "accounted k procs s"
    and "\<forall>pn \<in> set procs. marked hosts (snd pn) = Inr False"
  shows "accounted k [] t"
  using assms
proof (induction procs arbitrary: s)
  case (Cons pn procs)
  from Cons.prems(1) obtain u where first: "end_proc E hosts pn s = (Inr (), u)"
    and rest: "for_each (end_proc E hosts) procs u = (Inr (), t)" unfolding for_each_Cons_Inr by blast
  from end_proc_step [OF first] Cons.prems(2,3) have "accounted k procs u" by (auto simp: accounted_def)
  from Cons.IH [OF rest this] Cons.prems(3) show ?case by simp
qed simp

lemma host_commands_accounted:
  assumes "run_host_commands E A N hosts s = (Inr (), t)" and "accounted k [] s"
  shows "accounted k [] t"
proof -
  from assms(1) obtain names procs u where
    started: "fold_io (start_host E A N hosts) names [] s = (Inr procs, u)"
    and ended: "andthen (for_each (wait_marked E hosts) procs) (for_each (end_proc E hosts) procs) u = (Inr (), t)"
    unfolding run_host_commands_def by (auto simp: bnd_eq_Inr io_eval)
  from start_hosts_accounted [OF started assms(2)] have "accounted k procs u"
    and plain: "\<forall>pn \<in> set procs. marked hosts (snd pn) = Inr False" by auto
  with end_procs_accounted wait_marked_none [OF plain] ended show ?thesis by (auto simp: andthen_eq_Inr)
qed

text \<open>The calls say which processes were started and waited for, and what a process returned when it was
  waited for; the attributes of the run agree with them, whatever its outcome.\<close>

definition popened :: "multi_call list \<Rightarrow> nat list" where
  "popened cs = concat (map (\<lambda>c. case c of HostPopen p h cmd \<Rightarrow> [p] | _ \<Rightarrow> []) cs)"

definition waited_for :: "multi_call list \<Rightarrow> nat list" where
  "waited_for cs = concat (map (\<lambda>c. case c of WaitProc p \<Rightarrow> [p] | _ \<Rightarrow> []) cs)"

definition returned_at :: "multi_env \<Rightarrow> multi_call list \<Rightarrow> nat \<Rightarrow> int list" where
  "returned_at E cs i = (case cs ! i of WaitProc p \<Rightarrow> [mv_code E (take (Suc i) cs) p] | _ \<Rightarrow> [])"

definition returned :: "multi_env \<Rightarrow> multi_call list \<Rightarrow> int list" where
  "returned E cs = concat (map (returned_at E cs) [0..<length cs])"

lemma calls_snoc:
  "popened (cs @ [c]) = popened cs @ (case c of HostPopen p h cmd \<Rightarrow> [p] | _ \<Rightarrow> [])"
  "waited_for (cs @ [c]) = waited_for cs @ (case c of WaitProc p \<Rightarrow> [p] | _ \<Rightarrow> [])"
  "returned E (cs @ [c]) = returned E cs @ (case c of WaitProc p \<Rightarrow> [mv_code E (cs @ [c]) p] | _ \<Rightarrow> [])"
proof -
  have "returned_at E (cs @ [c]) i = returned_at E cs i" if "i < length cs" for i
    using that by (auto simp: returned_at_def nth_append split: multi_call.split)
  then have "map (returned_at E (cs @ [c])) [0..<length cs] = map (returned_at E cs) [0..<length cs]"
    by (intro map_cong) auto
  moreover have "take (Suc (length cs)) (cs @ [c]) = cs @ [c]" by simp
  then have "returned_at E (cs @ [c]) (length cs) = (case c of WaitProc p \<Rightarrow> [mv_code E (cs @ [c]) p] | _ \<Rightarrow> [])"
    by (simp only: returned_at_def nth_append_length)
  ultimately show "returned E (cs @ [c]) = returned E cs @ (case c of WaitProc p \<Rightarrow> [mv_code E (cs @ [c]) p] | _ \<Rightarrow> [])"
    unfolding returned_def by (simp del: map_eq_conv)
qed (simp_all add: popened_def waited_for_def)

lemma nothing_returned: "waited_for cs = [] \<Longrightarrow> returned E cs = []"
  by (induction cs rule: rev_induct) (simp add: returned_def, auto simp: calls_snoc split: multi_call.splits)

definition recorded :: "multi_env \<Rightarrow> multi_state \<Rightarrow> bool" where
  "recorded E s \<longleftrightarrow> popened (m_calls s) = [0..<m_started s] \<and> m_reaped s = waited_for (m_calls s)
     \<and> m_codes s = returned E (m_calls s)"

interpretation recording: step_relation "\<lambda>s t. recorded E s \<longrightarrow> recorded E t"
  by (rule step_relation_inv)

abbreviation records :: "multi_env \<Rightarrow> 'a multi_io \<Rightarrow> bool" where
  "records E m \<equiv> keeps (\<lambda>s t. recorded E s \<longrightarrow> recorded E t) m"

definition no_process :: "multi_call \<Rightarrow> bool" where
  "no_process c \<longleftrightarrow> (case c of HostPopen _ _ _ \<Rightarrow> False | WaitProc _ \<Rightarrow> False | _ \<Rightarrow> True)"

lemma records_m_do: "no_process c \<Longrightarrow> records E (m_do c)"
  by (cases c) (simp_all add: no_process_def keeps_def m_do_run recorded_def calls_snoc)

lemma records_shell: "records E (run_shell E c)"
  unfolding run_shell_def by (intro recording.keeps_rules records_m_do) (simp add: no_process_def)

lemma records_wait: "records E (wait_for_exit E p host)"
proof -
  have "popened (cs @ [WaitProc p, CloseOut host]) = popened cs"
    "waited_for (cs @ [WaitProc p, CloseOut host]) = waited_for cs @ [p]"
    "returned E (cs @ [WaitProc p, CloseOut host]) = returned E cs @ [mv_code E (cs @ [WaitProc p]) p]" for cs
    using calls_snoc(1,2) [of "cs @ [WaitProc p]" "CloseOut host"]
      calls_snoc(3) [of E "cs @ [WaitProc p]" "CloseOut host"] by (simp_all add: calls_snoc)
  then show ?thesis by (simp add: keeps_def wait_for_exit_def m_do_def io_defs recorded_def)
qed

lemma records_popen:
  "records E (bnd (gets m_started) (\<lambda>p. andthen (modify (\<lambda>s. s\<lparr>m_started := p + 1\<rparr>)) (andthen (m_do (HostPopen p name cmd)) (f p))))"
  if "\<And>p. records E (f p)"
proof -
  have "bnd (gets m_started) (\<lambda>p. andthen (modify (\<lambda>s. s\<lparr>m_started := p + 1\<rparr>)) (andthen (m_do (HostPopen p name cmd)) (f p))) s
      = f (m_started s) (s\<lparr>m_started := m_started s + 1, m_calls := m_calls s @ [HostPopen (m_started s) name cmd]\<rparr>)" for s
    by (simp add: io_run m_do_run)
  moreover have "recorded E s \<Longrightarrow>
      recorded E (s\<lparr>m_started := m_started s + 1, m_calls := m_calls s @ [HostPopen (m_started s) name cmd]\<rparr>)" for s
    by (simp add: recorded_def calls_snoc)
  ultimately show ?thesis using that by (simp add: keeps_def)
qed

lemmas records_rules = recording.keeps_rules records_m_do records_shell records_wait

lemma records_start_host: "records E (start_host E A N hosts name procs)"
  unfolding start_host_def by (intro records_rules records_popen; simp add: no_process_def)

lemma records_host_commands: "records E (run_host_commands E A N hosts)"
  unfolding run_host_commands_def wait_marked_def end_proc_def
  by (intro records_rules records_start_host; simp add: no_process_def)

text \<open>A run that raises has waited for no process twice and for none that it did not start.\<close>

definition once :: "multi_state \<Rightarrow> bool" where
  "once s \<longleftrightarrow> distinct (m_reaped s) \<and> set (m_reaped s) \<subseteq> {..<m_started s}"

lemma accounted_once: "accounted 0 procs s \<Longrightarrow> once s"
proof -
  assume "accounted 0 procs s"
  then have *: "mset (m_reaped s) + mset (map fst procs) = mset [0..<m_started s]" by (simp add: accounted_def)
  then have "mset (m_reaped s @ map fst procs) = mset [0..<m_started s]" by simp
  then have "distinct (m_reaped s @ map fst procs)" and "set (m_reaped s @ map fst procs) = set [0..<m_started s]"
    by (metis distinct_upt mset_eq_imp_distinct_iff, metis set_mset_mset)
  then show "once s" by (auto simp: once_def)
qed

lemma wait_for_exit_total: "\<exists>t. wait_for_exit E p host s = (Inr (), t)"
  by (simp add: wait_for_exit_def m_do_def io_defs)

lemma wait_for_exit_Inl: "wait_for_exit E p host s \<noteq> (Inl e, t)"
  using wait_for_exit_total by (metis Inl_Inr_False prod.inject)

text \<open>Before the last statement of a start nobody is waited for.\<close>

definition unreaped :: "multi_state \<Rightarrow> multi_state \<Rightarrow> bool" where
  "unreaped s t \<longleftrightarrow> m_reaped t = m_reaped s \<and> m_started s \<le> m_started t"

lemma unreaped_steps:
  "unreaped s s" "unreaped s t \<Longrightarrow> unreaped s (t\<lparr>m_calls := cs\<rparr>)"
  "unreaped s t \<Longrightarrow> unreaped s (t\<lparr>m_started := Suc (m_started t)\<rparr>)"
  "unreaped s t \<Longrightarrow> once s \<Longrightarrow> once t"
  by (auto simp: unreaped_def once_def)

lemma start_host_fails:
  assumes "start_host E A N hosts name procs s = (Inl e, t)" and "once s"
  shows "once t"
proof -
  have "unreaped s t"
    using assms(1) unfolding start_host_def
    by (auto simp: bnd_eq_Inl bnd_eq_Inr andthen_def io_eval m_do_run wait_for_exit_Inl unreaped_def split: if_split_asm)
  with assms(2) unreaped_steps show ?thesis by blast
qed

lemma start_hosts_once:
  assumes "fold_io (start_host E A N hosts) names procs s = (Inl e, t)" and "accounted 0 procs s"
    and "\<forall>pn \<in> set procs. marked hosts (snd pn) = Inr False"
  shows "once t"
  using assms
proof (induction names arbitrary: procs s)
  case (Cons n names)
  show ?case
  proof (cases "fst (start_host E A N hosts n procs s)")
    case (Inl e')
    with Cons.prems(1) have "start_host E A N hosts n procs s = (Inl e, t)"
      by (cases "start_host E A N hosts n procs s") (simp add: bnd_def)
    from start_host_fails [OF this accounted_once [OF Cons.prems(2)]] show ?thesis .
  next
    case (Inr procs1)
    then obtain u where first: "start_host E A N hosts n procs s = (Inr procs1, u)" by (metis prod.collapse)
    with Cons.prems(1) have "fold_io (start_host E A N hosts) names procs1 u = (Inl e, t)" by (simp add: bnd_Inr)
    with start_host_accounted [OF first Cons.prems(2,3)] Cons.IH show ?thesis by blast
  qed
qed (simp add: io_eval)

lemma end_proc_total:
  assumes "marked hosts (snd pn) = Inr False" shows "\<exists>t. end_proc E hosts pn s = (Inr (), t)"
  using assms wait_for_exit_total unfolding end_proc_def run_shell_def
  by (auto simp: io_run m_do_run andthen_def bnd_def)

lemma end_procs_total:
  assumes "\<forall>pn \<in> set procs. marked hosts (snd pn) = Inr False"
  shows "\<exists>t. for_each (end_proc E hosts) procs s = (Inr (), t)"
  using assms
proof (induction procs arbitrary: s)
  case (Cons pn procs)
  then obtain u where "end_proc E hosts pn s = (Inr (), u)" using end_proc_total by fastforce
  with Cons show ?case by simp
qed simp

lemma host_commands_once:
  assumes "run_host_commands E A N hosts s = (r, t)" and "accounted 0 [] s"
  shows "once t"
proof (cases r)
  case (Inr u)
  with host_commands_accounted [of E A N hosts s t 0] assms accounted_once show ?thesis by auto
next
  case (Inl e)
  with assms(1) consider "t = s" | names where "fold_io (start_host E A N hosts) names [] s = (Inl e, t)"
    | names procs u where "fold_io (start_host E A N hosts) names [] s = (Inr procs, u)"
      "andthen (for_each (wait_marked E hosts) procs) (for_each (end_proc E hosts) procs) u = (Inl e, t)"
    unfolding run_host_commands_def by (auto simp: bnd_eq_Inl io_eval)
  then show ?thesis
  proof cases
    case 1
    with accounted_once assms(2) show ?thesis by blast
  next
    case 2
    from start_hosts_once [OF this assms(2)] show ?thesis by simp
  next
    case 3
    from start_hosts_accounted [OF 3(1) assms(2)] have plain: "\<forall>pn \<in> set procs. marked hosts (snd pn) = Inr False" by auto
    with end_procs_total [OF plain] wait_marked_none [OF plain] 3(2) show ?thesis by (metis andthen_Inr prod.inject Inl_Inr_False)
  qed
qed

text \<open>The switches take ports and ids in a row.\<close>

lemma mini_P4Switch_run:
  assumes "mini_P4Switch W opn opts k = (Inr s, k')" and "so_device_id opts = None"
  shows "sw_device_id s = k_device_id k \<and> sw_thrift_port s = so_thrift_port opts \<and> sw_name s = so_name opts
     \<and> k' = k\<lparr>k_device_id := k_device_id k + 1\<rparr>"
  using assms unfolding mini_P4Switch_def take_device_id_def Let_def
  by (auto simp: bnd_eq_Inr andthen_eq_Inr io_eval)

lemma create_switches_numbered:
  assumes "create_switches E A lc pcap names k = (Inr ss, k')"
  shows "map sw_name ss = names
    \<and> map sw_thrift_port ss = map (\<lambda>i. Some (k_thrift_port k + int i)) [0..<length names]
    \<and> map sw_device_id ss = map (\<lambda>i. k_device_id k + int i) [0..<length names]"
  using assms
proof (induction names arbitrary: k ss)
  case (Cons n ns)
  from Cons.prems obtain s k1 rest where s: "ConfiguredP4Switch E A lc pcap n k = (Inr s, k1)"
    and rest: "create_switches E A lc pcap ns k1 = (Inr rest, k')" and ss: "ss = s # rest"
    by (auto simp: bnd_eq_Inr io_eval)
  from s have "sw_name s = n \<and> sw_thrift_port s = Some (k_thrift_port k) \<and> sw_device_id s = k_device_id k
      \<and> k_thrift_port k1 = k_thrift_port k + 1 \<and> k_device_id k1 = k_device_id k + 1"
    unfolding ConfiguredP4Switch_def take_thrift_port_def
    by (auto simp: bnd_eq_Inr andthen_eq_Inr io_eval dest!: mini_P4Switch_run)
  with Cons.IH [OF rest] ss show ?case
    by (simp add: map_upt_Suc add.assoc del: upt_Suc)
qed (simp add: io_eval)

end
