(* ===== verification/Multi_Links.thy ===== *)
theory Multi_Links
  imports Multi_Switch
begin

text \<open>
  The delay of the links between hosts and switches: from the configuration, through the latencies that
  multi\_switch\_mininet.py computes, to the calls that apptopo.py makes.
\<close>

section \<open>The calls for the links of hosts\<close>

definition meets :: "(string \<times> string) list \<Rightarrow> string \<Rightarrow> string \<Rightarrow> bool" where
  "meets links a b \<longleftrightarrow> (a, b) \<in> set links \<or> (b, a) \<in> set links"

fun link_ok :: "(string \<times> string) list \<Rightarrow> (string \<times> string) list \<Rightarrow> topo_event \<Rightarrow> bool" where
  "link_ok links lat (AddLink h sw d bw (Some x) y) \<longleftrightarrow>
     meets links h sw \<and> starts (CHR ''h'') h = Inr True \<and> starts (CHR ''s'') sw = Inr True \<and> d = delay_for lat (h @ sw)"
| "link_ok links lat _ \<longleftrightarrow> True"

definition host_links_ok :: "(string \<times> string) list \<Rightarrow> (string \<times> string) list \<Rightarrow> app_topo \<Rightarrow> bool" where
  "host_links_ok links lat t \<longleftrightarrow> list_all (link_ok links lat) (at_events t)"

lemma for_each_preserves:
  assumes "for_each f xs s = (Inr (), t)" and "I s"
    and "\<And>x u v. x \<in> set xs \<Longrightarrow> f x u = (Inr (), v) \<Longrightarrow> I u \<Longrightarrow> I v"
  shows "I t"
  using assms
proof (induction xs arbitrary: s)
  case (Cons x xs)
  from Cons.prems(1) obtain u where "f x s = (Inr (), u)" "for_each f xs u = (Inr (), t)"
    unfolding for_each_Cons_Inr by blast
  with Cons show ?case by (meson list.set_intros)
qed simp

interpretation events: step_relation "\<lambda>s t. at_events s = at_events t"
  by (rule step_relation_eq)

lemma quiet_steps:
  "keeps (\<lambda>s t. at_events s = at_events t) (append_port sw n)"
  "keeps (\<lambda>s t. at_events s = at_events t) (record_host_link h sw mk)"
  "keeps (\<lambda>s t. at_events s = at_events t) (record_sw_links a b n1 n2)"
  unfolding append_port_def record_host_link_def record_sw_links_def put_host_link_def put_sw_link_def Let_def
  by (auto intro!: events.keeps_rules simp: keeps_def io_defs split: option.splits sum.splits)

lemma connect_host_events:
  assumes "connect_host lat bws h n il s = (Inr (), t)"
  defines "sw \<equiv> if fst (snd il) \<noteq> h then fst (snd il) else snd (snd il)"
  shows "starts (CHR ''s'') sw = Inr True \<and>
    (\<exists>bw mac. at_events t = at_events s @ [AddLink h sw (delay_for lat (h @ sw)) bw (Some mac) (Some mac)])"
  using assms unfolding connect_host_def Let_def sw_def [symmetric]
  by (auto simp: bnd_eq_Inr andthen_unit io_eval emit_def assert_that_def dest!: keepsD [OF quiet_steps(1)] keepsD [OF quiet_steps(2)]
      split: if_splits)

lemma add_app_host_ok:
  assumes "add_app_host links lat bws h s = (Inr (), t)" and "starts (CHR ''h'') h = Inr True" and "host_links_ok links lat s"
  shows "host_links_ok links lat t"
proof -
  from assms(1) obtain n u where
    run: "for_each (connect_host lat bws h n) (enumerate 0 (filter (\<lambda>l. fst l = h \<or> snd l = h) links)) u = (Inr (), t)"
    and u: "at_events u = at_events s @ [AddHost h]"
    unfolding add_app_host_def by (auto simp: bnd_eq_Inr andthen_unit io_eval emit_def)
  from u assms(3) have start: "host_links_ok links lat u" by (simp add: host_links_ok_def)
  show ?thesis
  proof (rule for_each_preserves [OF run, where I = "host_links_ok links lat"])
    show "host_links_ok links lat u" by (fact start)
    fix il v w assume il: "il \<in> set (enumerate 0 (filter (\<lambda>l. fst l = h \<or> snd l = h) links))"
      and step: "connect_host lat bws h n il v = (Inr (), w)" and ok: "host_links_ok links lat v"
    from il have "snd il \<in> set (map snd (enumerate 0 (filter (\<lambda>l. fst l = h \<or> snd l = h) links)))"
      unfolding set_map by (rule imageI)
    moreover obtain a b where ab: "snd il = (a, b)" by (cases "snd il")
    ultimately have "(a, b) \<in> set links" "a = h \<or> b = h" unfolding map_snd_enumerate by (simp_all only: set_filter) simp_all
    then have "meets links h (if fst (snd il) \<noteq> h then fst (snd il) else snd (snd il))"
      by (auto simp: meets_def ab)
    with connect_host_events [OF step] ok assms(2) show "host_links_ok links lat w"
      by (auto simp: host_links_ok_def)
  qed
qed

lemma connect_switches_ok:
  assumes "connect_switches lat bws l s = (Inr (), t)" and "host_links_ok links lat' s"
  shows "host_links_ok links lat' t"
proof -
  have "at_events t = at_events s \<or> (\<exists>a b d bw. at_events t = at_events s @ [AddLink a b d bw None None])"
    using assms(1) unfolding connect_switches_def Let_def
    by (auto simp: bnd_eq_Inr andthen_unit io_eval emit_def dest!: keepsD [OF quiet_steps(1)] keepsD [OF quiet_steps(3)]
        split: if_splits) (metis+)
  with assms(2) show ?thesis by (auto simp: host_links_ok_def)
qed

lemma AppTopo_host_links:
  assumes "AppTopo links lat bws dir initial_topo = (Inr (), t)"
  shows "host_links_ok links lat t"
proof -
  from assms obtain hs sws s1 s2 s3 where
    hs: "names_of (CHR ''h'') (map fst links @ map snd links) = Inr hs"
    and s1: "s1 = initial_topo\<lparr>at_sw_ports := map (\<lambda>s. (s, [])) sws, at_host_links := [], at_sw_links := map (\<lambda>s. (s, [])) sws\<rparr>"
    and add_sws: "for_each (\<lambda>s. emit (AddSwitch s (dir @ ''/'' @ s @ ''.log''))) sws s1 = (Inr (), s2)"
    and add_hosts: "for_each (add_app_host links lat bws) hs s2 = (Inr (), s3)"
    and connect: "for_each (connect_switches lat bws) links s3 = (Inr (), t)"
    unfolding AppTopo_def Let_def by (auto simp: bnd_eq_Inr andthen_unit io_run)
  from s1 have "host_links_ok links lat s1" by (simp add: host_links_ok_def initial_topo_def)
  then have "host_links_ok links lat s2"
    by (rule for_each_preserves [OF add_sws, where I = "host_links_ok links lat"])
      (auto simp: emit_def io_eval host_links_ok_def)
  then have "host_links_ok links lat s3"
    by (rule for_each_preserves [OF add_hosts, where I = "host_links_ok links lat"])
      (use names_of_set(1) [OF hs] in \<open>auto intro: add_app_host_ok\<close>)
  then show ?thesis
    by (rule for_each_preserves [OF connect, where I = "host_links_ok links lat"]) (rule connect_switches_ok)
qed

section \<open>Names of nodes\<close>

text \<open>A letter, \<open>h\<close> or \<open>s\<close>, and digits: two names that follow each other can be told apart.\<close>

definition node_name :: "string \<Rightarrow> bool" where
  "node_name n = (case n of [] \<Rightarrow> False | c # ds \<Rightarrow> (c = CHR ''h'' \<or> c = CHR ''s'') \<and> list_all is_digit ds)"

lemma letters_no_digits: "\<not> is_digit (CHR ''h'')" "\<not> is_digit (CHR ''s'')"
  by (simp_all add: is_digit_def)

lemma digits_then_name:
  assumes "list_all is_digit ds" "list_all is_digit es" "ds @ c # xs = es @ d # ys" "\<not> is_digit c" "\<not> is_digit d"
  shows "ds = es \<and> c = d \<and> xs = ys"
  using assms
proof (induction ds arbitrary: es)
  case Nil
  then show ?case by (cases es) auto
next
  case (Cons x ds)
  then show ?case by (cases es) auto
qed

lemma node_names_inject:
  assumes "node_name a" "node_name b" "node_name a'" "node_name b'"
  shows "a @ b = a' @ b' \<longleftrightarrow> a = a' \<and> b = b'"
proof
  assume eq: "a @ b = a' @ b'"
  from assms obtain x xs y ys x' xs' y' ys' where n: "a = x # xs" "b = y # ys" "a' = x' # xs'" "b' = y' # ys'"
    and d: "list_all is_digit xs" "list_all is_digit xs'"
    and l: "y = CHR ''h'' \<or> y = CHR ''s''" "y' = CHR ''h'' \<or> y' = CHR ''s''"
    unfolding node_name_def by (auto split: list.splits)
  from l have "\<not> is_digit y" "\<not> is_digit y'" using letters_no_digits by auto
  with digits_then_name [OF d, of y ys y' ys'] eq n show "a = a' \<and> b = b'" by auto
qed simp

lemma host_before_switch:
  assumes "starts (CHR ''h'') h = Inr True" "starts (CHR ''s'') sw = Inr True"
  shows "link_key (h, sw) = h @ sw" "link_key (sw, h) = h @ sw" "h \<noteq> sw"
proof -
  from assms obtain xs ys where n: "h = CHR ''h'' # xs" "sw = CHR ''s'' # ys"
    by (auto simp: starts_def split: list.splits)
  then have "h < sw" by (simp add: less_char_def)
  then show "link_key (h, sw) = h @ sw" "link_key (sw, h) = h @ sw" "h \<noteq> sw"
    by (auto simp: link_key_def)
qed

lemma link_key_host:
  assumes "node_name a" "node_name b" "node_name h" "node_name sw"
    and "starts (CHR ''h'') h = Inr True" "starts (CHR ''s'') sw = Inr True"
  shows "link_key (a, b) = h @ sw \<longleftrightarrow> (a, b) = (h, sw) \<or> (a, b) = (sw, h)"
proof
  assume key: "link_key (a, b) = h @ sw"
  have "link_key (a, b) = a @ b \<or> link_key (a, b) = b @ a" by (auto simp: link_key_def)
  with key node_names_inject assms(1-4) show "(a, b) = (h, sw) \<or> (a, b) = (sw, h)" by metis
qed (use host_before_switch [OF assms(5,6)] in auto)

section \<open>The latency of a link\<close>

text \<open>The latency a host asks for, and the last value that the list of links has for two nodes.\<close>

definition own_latency :: "pyval \<Rightarrow> string \<Rightarrow> pyval option" where
  "own_latency hosts h = (case py_item hosts h of Inr (PDict d) \<Rightarrow> dict_get d ''latency'' | _ \<Rightarrow> None)"

definition joins :: "string \<Rightarrow> string \<Rightarrow> pyval \<Rightarrow> bool" where
  "joins a b l \<longleftrightarrow> two_ends l = Inr (a, b) \<or> two_ends l = Inr (b, a)"

fun link_value :: "nat \<Rightarrow> pyval list \<Rightarrow> string \<Rightarrow> string \<Rightarrow> pyval option" where
  "link_value i [] a b = None"
| "link_value i (l # ls) a b =
     (case link_value i ls a b of
        Some v \<Rightarrow> Some v
      | None \<Rightarrow> (case l of
            PList xs \<Rightarrow> if joins a b l \<and> i < length xs then Some (xs ! i) else None
          | _ \<Rightarrow> None))"

lemma link_items_get:
  assumes "link_items i ls = Inr d" and "emap two_ends ls = Inr links"
    and nodes: "\<forall>l \<in> set links. node_name (fst l) \<and> node_name (snd l)"
    and ends: "node_name h" "node_name sw" "starts (CHR ''h'') h = Inr True" "starts (CHR ''s'') sw = Inr True"
  shows "dict_get d (h @ sw) = link_value i ls h sw"
proof -
  let ?f = "\<lambda>l. ebind (two_ends l) (\<lambda>ab. case l of
       PList xs \<Rightarrow> Inr (if i < length xs then [(link_key ab, xs ! i)] else []) | _ \<Rightarrow> Inr [])"
  have "map_of (rev (concat xss)) (h @ sw) = link_value i ls h sw" if "emap ?f ls = Inr xss" for xss
    using that assms(2) nodes
  proof (induction ls arbitrary: xss links)
    case (Cons l ls)
    from Cons.prems obtain ab ys yss rest where ab: "two_ends l = Inr ab" and ys: "?f l = Inr ys"
      and yss: "emap ?f ls = Inr yss" "xss = ys # yss" and rest: "emap two_ends ls = Inr rest" "links = ab # rest"
      by auto
    from Cons.IH [OF yss(1) rest(1)] Cons.prems(3) rest(2)
    have IH: "map_of (rev (concat yss)) (h @ sw) = link_value i ls h sw" by simp
    obtain a b where p: "ab = (a, b)" by (cases ab)
    with Cons.prems(3) rest(2) have "node_name a" "node_name b" by auto
    from link_key_host [OF this ends] ab p have "joins h sw l \<longleftrightarrow> link_key ab = h @ sw" by (auto simp: joins_def)
    with ab ys have "map_of ys (h @ sw) = (case l of PList xs \<Rightarrow> if joins h sw l \<and> i < length xs then Some (xs ! i) else None
        | _ \<Rightarrow> None)" "rev ys = ys" by (auto split: pyval.splits if_splits)
    with IH yss(2) show ?case by (auto simp: map_add_def split: option.splits)
  qed simp
  moreover from assms(1) obtain xss where "emap ?f ls = Inr xss" "d = dict_update [] (concat xss)"
    unfolding link_items_def by auto
  ultimately show ?thesis by (simp add: dict_get_update split: option.split)
qed

lemma host_latency_get:
  assumes "host_latency links host conf lats = Inr lats'" and "\<forall>l \<in> set links. node_name (fst l) \<and> node_name (snd l)"
    and "node_name host" "node_name h" "node_name sw" "h \<noteq> sw"
  shows "dict_get lats' (h @ sw) = (if host = h \<and> meets links h sw then
     case conf of PDict d \<Rightarrow> (case dict_get d ''latency'' of Some v \<Rightarrow> Some v | None \<Rightarrow> dict_get lats (h @ sw)) | _ \<Rightarrow> dict_get lats (h @ sw)
     else dict_get lats (h @ sw))"
proof -
  let ?put = "\<lambda>v. fold (\<lambda>(a, b) d. if a \<noteq> host \<and> b \<noteq> host then d else dict_put (host @ (if a \<noteq> host then a else b)) v d)"
  have put: "dict_get (?put v ls d) (h @ sw) = (if host = h \<and> meets ls h sw then Some v else dict_get d (h @ sw))"
    if "\<forall>l \<in> set ls. node_name (fst l) \<and> node_name (snd l)" for v ls d
    using that
  proof (induction ls arbitrary: d)
    case (Cons l ls)
    obtain a b where l: "l = (a, b)" by (cases l)
    with Cons.prems have "node_name a" "node_name b" by auto
    with assms(3-5) node_names_inject have "host @ (if a \<noteq> host then a else b) = h @ sw \<longleftrightarrow> host = h \<and> (if a \<noteq> host then a else b) = sw"
      by simp
    with Cons assms(6) show ?case by (auto simp: l meets_def dict_simps)
  qed (simp add: meets_def)
  note put_links = put [OF assms(2)]
  show ?thesis
  proof (cases "host = h")
    case True
    with assms(1) put_links [unfolded True] show ?thesis
      by (cases conf) (auto simp: host_latency_def of_option_def split: if_splits option.splits)
  next
    case False
    with assms(1) put_links show ?thesis
      by (cases conf) (auto simp: host_latency_def of_option_def split: if_splits option.splits)
  qed
qed

lemma host_latencies_get:
  assumes "host_latencies links hosts hs lats = Inr lats'" and "\<forall>l \<in> set links. node_name (fst l) \<and> node_name (snd l)"
    and "\<forall>n \<in> set hs. node_name n" and "node_name h" "node_name sw" "h \<noteq> sw" "meets links h sw"
  shows "dict_get lats' (h @ sw) = (if h \<in> set hs then
     case own_latency hosts h of Some v \<Rightarrow> Some v | None \<Rightarrow> dict_get lats (h @ sw) else dict_get lats (h @ sw))"
  using assms(1,3)
proof (induction hs arbitrary: lats)
  case (Cons n hs)
  from Cons.prems obtain conf lats1 where n: "py_item hosts n = Inr conf" "host_latency links n conf lats = Inr lats1"
    and rest: "host_latencies links hosts hs lats1 = Inr lats'" by auto
  from Cons.prems have "node_name n" by simp
  note first = host_latency_get [OF n(2) assms(2) this assms(4-6)]
  from Cons.IH [OF rest] Cons.prems first n(1) assms(7) show ?case
    by (auto simp: own_latency_def split: option.splits pyval.splits)
qed simp

lemma dict_get_map: "dict_get (map (\<lambda>(k, v). (k, f v)) d) k = map_option f (dict_get d k)"
  by (induction d) auto

section \<open>Properties\<close>

text \<open>C16. When the nodes are named by a letter and a number, the link of a host to a switch gets the latency that
  the host asks for; when it asks for none, the last one that the list of links has for the two; and
  otherwise none. Texts have their parameters filled in, numbers are milliseconds.\<close>

theorem host_link_delay:
  assumes lats: "link_latencies E params ls hosts = Inr lats" and links: "emap two_ends ls = Inr links"
    and topo: "AppTopo links lats bws dir initial_topo = (Inr (), t)"
    and nodes: "\<forall>l \<in> set links. node_name (fst l) \<and> node_name (snd l)"
    and names: "sorted_hosts hosts = Inr names" "\<forall>n \<in> set names. node_name n"
    and link: "AddLink h sw d bw (Some mac) mac' \<in> set (at_events t)"
  shows "d = (case own_latency hosts h of
      Some v \<Rightarrow> latency_text E params v
    | None \<Rightarrow> (case link_value 2 ls h sw of Some v \<Rightarrow> latency_text E params v | None \<Rightarrow> ''0ms''))"
proof -
  from AppTopo_host_links [OF topo] link have at: "meets links h sw"
      "starts (CHR ''h'') h = Inr True" "starts (CHR ''s'') sw = Inr True" "d = delay_for lats (h @ sw)"
    by (auto simp: host_links_ok_def list_all_iff)
  from at(1) nodes have ends: "node_name h" "node_name sw" by (auto simp: meets_def)
  from lats links names obtain own given where given: "link_items 2 ls = Inr given"
    and own: "host_latencies links hosts names given = Inr own" and texts: "lats = map (\<lambda>(k, v). (k, latency_text E params v)) own"
    by (auto simp: link_latencies_def)
  have absent: "own_latency hosts h = None" if "h \<notin> set names"
  proof -
    from names(1) obtain e where e: "hosts = PDict e" "names = sort (map fst e)"
      by (auto simp: sorted_hosts_def split: pyval.splits)
    with that have "dict_get e h = None" by (simp add: dict_get_None_iff)
    with e(1) show ?thesis by (simp add: own_latency_def of_option_def)
  qed
  from host_latencies_get [OF own nodes names(2) ends host_before_switch(3) [OF at(2,3)] at(1)] absent
    link_items_get [OF given links nodes ends at(2,3)]
  have "dict_get own (h @ sw) = (case own_latency hosts h of Some v \<Rightarrow> Some v | None \<Rightarrow> link_value 2 ls h sw)"
    by (auto split: option.splits)
  then show ?thesis by (simp add: at(4) texts delay_for_def dict_get_map split: option.split)
qed

text \<open>C17. The processes that the hosts' commands start are numbered in the order of their start. Whatever
  the outcome, none is waited for twice, none that was not started is, and the collected codes are what the
  processes returned when they were waited for, in that order. When the commands get through, every process
  was waited for, and the run then ends with exit code 1 exactly when one of them returned something else
  than 0. (A command that raises leaves the processes that were listed for the end unwaited.)\<close>

theorem host_processes_waited:
  assumes run: "run_host_commands E A N hosts s = (r, t)"
    and fresh: "m_started s = 0" "m_reaped s = []" "m_codes s = []" "popened (m_calls s) = []" "waited_for (m_calls s) = []"
  shows "popened (m_calls t) = [0..<m_started t] \<and> distinct (waited_for (m_calls t))
     \<and> set (waited_for (m_calls t)) \<subseteq> set (popened (m_calls t)) \<and> m_codes t = returned E (m_calls t)
     \<and> (r = Inr () \<longrightarrow> mset (waited_for (m_calls t)) = mset (popened (m_calls t))
         \<and> exit_code t = (if list_all (\<lambda>c. c = 0) (returned E (m_calls t)) then Inr () else Inl (SystemExit 1), t))"
proof -
  from fresh(5) have "returned E (m_calls s) = []" by (rule nothing_returned)
  with fresh have "recorded E s" and start: "accounted 0 [] s" by (simp_all add: recorded_def accounted_def)
  with keepsD [OF records_host_commands run] have rec: "recorded E t" by blast
  have all: "accounted 0 [] t" if "r = Inr ()" using host_commands_accounted run start that by blast
  show ?thesis
    using rec host_commands_once [OF run start] all
    by (auto simp: recorded_def once_def accounted_def exit_code_def io_run filter_empty_conv list_all_iff)
qed

definition demo_multi_env :: multi_env where
  "demo_multi_env = \<lparr>mv_manifest = Inl (FileNotFound []), mv_topo_module = (\<lambda>v. Inr AppTopo),
     mv_controller_module = (\<lambda>v. Inr controller_start), mv_is_dir = True, mv_exists = True, mv_host = demo_host,
     mv_open = (\<lambda>f. Inr ()), mv_net = (\<lambda>t. Inr demo_net), mv_start = (\<lambda>ss. Inr ()), mv_read = (\<lambda>t f. Inr []),
     mv_ip = (\<lambda>h. ''10.0.1.1''), mv_pid = (\<lambda>n. 100 + n), mv_code = (\<lambda>t p. if p = 1 then 2 else 0),
     mv_status = (\<lambda>t c. 256), mv_float = (\<lambda>q. [])\<rparr>"

definition demo_multi_args :: multi_args where
  "demo_multi_args = \<lparr>ma_behavioral_exe = ''simple_switch'', ma_thrift_port = 9090, ma_bmv2_log = False, ma_cli = False,
     ma_auto_control_plane = False, ma_json = ''p.json'', ma_pcap_dump = False, ma_target = ''t'', ma_log_dir = ''/logs'',
     ma_cli_message = None\<rparr>"

definition demo_list :: "pyval list" where
  "demo_list = [PList [PStr ''h1'', PStr ''s1'', PInt 5], PList [PStr ''s2'', PStr ''h2'', PStr ''$lat''],
     PList [PStr ''s1'', PStr ''s2'']]"

definition demo_hosts :: pyval where
  "demo_hosts = PDict [(''h1'', PDict [(''latency'', PInt 7), (''cmd'', PStr ''ping h2''), (''wait'', PBool True)]),
     (''h2'', PDict [(''cmd'', PStr ''true'')])]"

theorem host_link_delay_witness:
  "\<exists>lats t. link_latencies demo_multi_env [(''lat'', PStr ''9ms'')] demo_list demo_hosts = Inr lats
     \<and> AppTopo [(''h1'', ''s1''), (''s2'', ''h2''), (''s1'', ''s2'')] lats [] ''/logs'' initial_topo = (Inr (), t)
     \<and> (\<forall>sw d bw mac mac'. AddLink ''h1'' sw d bw (Some mac) mac' \<in> set (at_events t) \<longrightarrow> d = ''7ms'')"
proof -
  let ?lats = "case link_latencies demo_multi_env [(''lat'', PStr ''9ms'')] demo_list demo_hosts of Inr l \<Rightarrow> l | Inl _ \<Rightarrow> []"
  let ?links = "[(''h1'', ''s1''), (''s2'', ''h2''), (''s1'', ''s2'')]"
  let ?t = "snd (AppTopo ?links ?lats [] ''/logs'' initial_topo)"
  have "case link_latencies demo_multi_env [(''lat'', PStr ''9ms'')] demo_list demo_hosts of Inr l \<Rightarrow> True | Inl _ \<Rightarrow> False"
    by code_simp
  then have lats: "link_latencies demo_multi_env [(''lat'', PStr ''9ms'')] demo_list demo_hosts = Inr ?lats"
    by (simp split: sum.splits)
  have "fst (AppTopo ?links ?lats [] ''/logs'' initial_topo) = Inr ()" by code_simp
  then have topo: "AppTopo ?links ?lats [] ''/logs'' initial_topo = (Inr (), ?t)" by (simp add: prod_eq_iff)
  have links: "emap two_ends demo_list = Inr ?links" by (simp add: demo_list_def two_ends_def)
  have nodes: "list_all (\<lambda>l. node_name (fst l) \<and> node_name (snd l)) ?links" by code_simp
  have names: "sorted_hosts demo_hosts = Inr [''h1'', ''h2'']" "list_all node_name [''h1'', ''h2'']" by code_simp+
  have "d = ''7ms''" if "AddLink ''h1'' sw d bw (Some mac) mac' \<in> set (at_events ?t)" for sw d bw mac mac'
  proof -
    from host_link_delay [OF lats links topo nodes [unfolded list_all_iff] names(1) names(2) [unfolded list_all_iff] that]
    have "d = latency_text demo_multi_env [(''lat'', PStr ''9ms'')] (PInt 7)"
      by (simp add: own_latency_def demo_hosts_def of_option_def)
    moreover have "latency_text demo_multi_env [(''lat'', PStr ''9ms'')] (PInt 7) = ''7ms''" by code_simp
    ultimately show ?thesis by simp
  qed
  with lats topo show ?thesis by blast
qed

definition no_calls :: multi_state where
  "no_calls = \<lparr>m_calls = [], m_started = 0, m_reaped = [], m_codes = []\<rparr>"

theorem host_processes_waited_witness:
  "\<exists>t. run_host_commands demo_multi_env demo_multi_args demo_net demo_hosts no_calls = (Inr (), t)
     \<and> mset (waited_for (m_calls t)) = mset [0, 1] \<and> returned demo_multi_env (m_calls t) = [0, 2]
     \<and> exit_code t = (Inl (SystemExit 1), t)"
proof -
  let ?t = "snd (run_host_commands demo_multi_env demo_multi_args demo_net demo_hosts no_calls)"
  have "fst (run_host_commands demo_multi_env demo_multi_args demo_net demo_hosts no_calls) = Inr ()" by code_simp
  then have run: "run_host_commands demo_multi_env demo_multi_args demo_net demo_hosts no_calls = (Inr (), ?t)"
    by (simp add: prod_eq_iff)
  have codes: "m_started ?t = 2" "m_codes ?t = [0, 2]" by code_simp+
  have "[0..<2] = [0, 1 :: nat]" by code_simp
  moreover from host_processes_waited [OF run] have "popened (m_calls ?t) = [0..<m_started ?t]"
    "m_codes ?t = returned demo_multi_env (m_calls ?t)" "mset (waited_for (m_calls ?t)) = mset (popened (m_calls ?t))"
    "exit_code ?t = (if list_all (\<lambda>c. c = 0) (returned demo_multi_env (m_calls ?t)) then Inr () else Inl (SystemExit 1), ?t)"
    by (simp_all add: no_calls_def popened_def waited_for_def)
  moreover from this(2) codes(2) have returned: "returned demo_multi_env (m_calls ?t) = [0, 2]" by simp
  ultimately have "mset (waited_for (m_calls ?t)) = mset [0, 1]" "exit_code ?t = (Inl (SystemExit 1), ?t)"
    using codes(1) unfolding returned by simp_all
  with run returned show ?thesis by blast
qed

end
