(* ===== verification/Cycle_Pktgen.thy ===== *)
theory Cycle_Pktgen
  imports Cycle_Pringles
begin

text \<open>
  experiments/scripts/pktgen.py, what it does in its own way: the fields of the generated configurations, the
  cycle of a run, the aggregation by groups and \<open>main\<close>. Its other functions are those of experiment.py,
  line by line, and the definitions that model them there are used here.
\<close>

section \<open>Configurations\<close>

definition pktgen_common_fields :: "pyval \<Rightarrow> yaml_args \<Rightarrow> pyval \<Rightarrow> (string \<times> pyval res) list" where
  "pktgen_common_fields config a duration =
     (let ex = cfg config ''experiment_parameters''; proto = cfg config ''protocol_batching'';
          net = cfg config ''network_setup''
      in [(''log_level'', ex ''log_level''),
          (''switch_ip'', quoted (net ''switch_ip'')),
          (''switch_mac'', quoted (net ''switch_mac'')),
          (''cli_macs'', quoted_list (net ''cli_macs'')),
          (''cli_ips'', quoted_list (net ''cli_ips'')),
          (''stor_macs'', quoted_list (net ''stor_macs'')),
          (''stor_ips'', quoted_list (net ''stor_ips'')),
          (''send_port'', Inr (PQuoted (PInt (BASE_PORT + ya_offset a)))),
          (''recv_port'', Inr (PQuoted (PInt (BASE_PORT + ya_offset a + 1)))),
          (''stor_recv_port'', quoted (net ''stor_recv_port'')),
          (''switch_recv_port'', quoted (net ''switch_recv_port'')),
          (''send_threads'', Inr (PInt 1)),
          (''socket_type'', quoted (ex ''socket_type'')),
          (''self_ip'', Inr (PQuoted (PStr (ya_ip a)))),
          (''batch_size'', ex ''batch_size''),
          (''batch_usec_timeout'', ex ''batch_usec_timeout''),
          (''batch_on'', proto ''batch_on''),
          (''num_pkt_types'', proto ''num_packet_types''),
          (''experiment_duration'', Inr duration),
          (''payload_size'', ex ''message_size''),
          (''use_switch'', ex ''use_switch''), (''use_store'', ex ''use_store''),
          (''use_shard'', ex ''use_shard''), (''use_streams'', ex ''use_streams''),
          (''ack_threshold'', ex ''ack_threshold''),
          (''use_client_count_acks'', ex ''use_client_count_acks'')])"

definition pktgen_client_fields :: "pyval \<Rightarrow> yaml_args \<Rightarrow> (string \<times> pyval res) list" where
  "pktgen_client_fields config a =
     (let ex = cfg config ''experiment_parameters''
      in [(''sequencer_type'', cfg config ''protocol_batching'' ''sequencer_type''),
          (''num_client_threads'', ex ''num_client_threads''),
          (''cli_id'', Inr (ya_id a)),
          (''json_name'', Inr (PQuoted (ya_json_name a))),
          (''num_failures'', Inr (ya_num_failures a)),
          (''warm_up'', ex ''warm_up''), (''cool_down'', ex ''cool_down''),
          (''interface'', Inr (PQuoted (ya_interface a))),
          (''cli_idx'', Inr (ya_idx a)),
          (''shard_multicast_addr'', Inr (PQuoted (PStr [])))])"

definition pktgen_server_fields :: "pyval \<Rightarrow> yaml_args \<Rightarrow> int \<Rightarrow> (string \<times> pyval res) list" where
  "pktgen_server_fields config a shard_switch_id =
     (let ex = cfg config ''experiment_parameters''
      in [(''storage_type'', cfg config ''protocol_batching'' ''storage_server_type''),
          (''shard_id'', Inr (ya_shard_id a)),
          (''shard_switch_id'', Inr (PInt shard_switch_id)),
          (''stor_id'', Inr (ya_id a)),
          (''use_switch'', ex ''use_switch''),
          (''num_storage_threads'', ex ''num_storage_threads''),
          (''interface'', Inr (PQuoted (ya_interface a))),
          (''shard_multicast_addr'', Inr (PQuoted (ya_shard_multicast a)))])"

definition pktgen_switch_fields :: "yaml_args \<Rightarrow> (string \<times> pyval res) list" where
  "pktgen_switch_fields a =
     [(''interface'', Inr (PQuoted (ya_interface a))),
      (''all_shards'', Inr (ya_total_shards a)),
      (''shard_multicast_addr'', Inr (PQuoted (PStr [])))]"

definition pktgen_yaml_config :: "env \<Rightarrow> pyval \<Rightarrow> yaml_args \<Rightarrow> (string \<times> pyval) list act_io" where
  "pktgen_yaml_config E config a =
     bnd (lift (ebind (py_item config ''experiment_parameters'') (\<lambda>_.
          ebind (py_item config ''protocol_batching'') (\<lambda>_.
          ebind (py_item config ''network_setup'') (\<lambda>_.
          ebind (final_duration config (ya_type a)) (\<lambda>dur. display (pktgen_common_fields config a dur))))))) (\<lambda>d.
     if ya_type a = ''client'' then lift (with_fields d (pktgen_client_fields config a))
     else if ya_type a = ''server'' then
       bnd (random_int E 0 9) (\<lambda>r. lift (with_fields d (pktgen_server_fields config a r)))
     else if ya_type a = ''switch'' then lift (with_fields d (pktgen_switch_fields a))
     else ret d)"

section \<open>Parameters and shards of a run\<close>

definition pktgen_params_of :: "pyval \<Rightarrow> run_params res" where
  "pktgen_params_of config =
     (let net = cfg config ''network_setup''; path = (\<lambda>k. ebind (cfg config ''program_paths'' k) as_str)
      in ebind (ebind (net ''ssh_key'') as_str) (\<lambda>key.
         ebind (ebind (net ''ssh_user'') as_str) (\<lambda>user.
         ebind (ebind (net ''cli_ips'') str_list) (\<lambda>clients.
         ebind (net ''cli_net_ifs'') (\<lambda>client_ifs.
         ebind (ebind (net ''switch_ip'') as_str) (\<lambda>switch_ip.
         ebind (net ''switch_net_if'') (\<lambda>switch_if.
         ebind (ebind (net ''stor_ips'') str_list) (\<lambda>servers.
         ebind (net ''stor_net_ifs'') (\<lambda>server_ifs.
         ebind (path ''path_client'') (\<lambda>client.
         ebind (path ''path_server'') (\<lambda>server.
         ebind (path ''path_switch'') (\<lambda>switch.
         ebind (ebind (cfg config ''experiment_parameters'' ''json_name'') as_str) (\<lambda>json_name.
         Inr \<lparr>rp_ssh_key = key, rp_ssh_user = user, rp_client_ips = clients, rp_client_ifs = client_ifs,
              rp_switch_ip = switch_ip, rp_switch_if = switch_if, rp_server_ips = servers,
              rp_server_ifs = server_ifs, rp_client = client, rp_server = server, rp_switch = switch,
              rp_name = json_name\<rparr>)))))))))))))"

text \<open>All servers are used: there is no bound on the number of shards, and a rest that does not fill a shard is an
  \<open>IndexError\<close> that ends the batch. A negative size makes no shard.\<close>

definition pktgen_shards :: "pyval \<Rightarrow> string list \<Rightarrow> sharding res" where
  "pktgen_shards config servers =
     ebind (ebind (cfg config ''experiment_parameters'' ''number_of_machines_per_shard'') as_int) (\<lambda>n.
     if n = 0 then Inl (ValueError ''range() arg 3 must not be zero'')
     else ebind (shard_loop (nat n) (-1) 0 servers) (\<lambda>shards.
       Inr \<lparr>sh_shards = shards, sh_server_ips = servers, sh_ip_to_shard = number_ips shards,
            sh_multicast = map multicast_addr [0..<length shards]\<rparr>))"

section \<open>A run\<close>

definition start_pktgen_server ::
  "env \<Rightarrow> pyval \<Rightarrow> run_params \<Rightarrow> sharding \<Rightarrow> bool \<Rightarrow> nat \<Rightarrow> nat \<times> string \<Rightarrow> unit pringles_io" where
  "start_pktgen_server E config p sh tunnel exp_index iip =
     (let i = fst iip; ip = snd iip;
          config_filename = ''server_config_'' @ rp_name p @ ''_'' @ str_nat i @ ''.yaml''
      in andthen (assign (\<lambda>v. v\<lparr>pv_ip := Some ip\<rparr>))
        (bnd (does (random_int E 100000 999999)) (\<lambda>server_id.
         bnd (lift (ebind (py_index (rp_server_ifs p) (int i)) (server_args sh i ip server_id))) (\<lambda>a.
         bnd (does (pktgen_yaml_config E config a)) (\<lambda>d.
         andthen (does (kill_process E (basename (rp_server p)) (rp_ssh_key p) (rp_ssh_user p) ip))
        (andthen (does (write_file E config_filename (en_dump_yaml E (PDict d))))
        (if tunnel then tunnel_server E config p config_filename
         else launch_server E p exp_index config_filename ip)))))))"

definition start_pktgen_servers ::
  "env \<Rightarrow> pyval \<Rightarrow> run_params \<Rightarrow> sharding \<Rightarrow> bool \<Rightarrow> nat \<Rightarrow> unit pringles_io" where
  "start_pktgen_servers E config p sh tunnel exp_index =
     andthen (lift (ebind (cfg config ''routing'' ''server_dest_macs'') (\<lambda>v. py_index v 0)))
    (andthen (for_each (start_pktgen_server E config p sh tunnel exp_index) (enumerate 0 (rp_server_ips p)))
    (bnd (var pv_servers) (\<lambda>started.
     andthen (require (tunnel \<or> started \<noteq> []) ''No servers were successfully started.'')
       (does (sleep (PInt SERVER_START_DELAY))))))"

definition pktgen_switch_args :: "run_params \<Rightarrow> sharding \<Rightarrow> pyval \<Rightarrow> int \<Rightarrow> yaml_args" where
  "pktgen_switch_args p sh num_failures switch_id =
     \<lparr>ya_type = ''switch'', ya_ip = rp_switch_ip p, ya_offset = int (length (rp_server_ips p)) * 2,
      ya_server_ips = rp_server_ips p, ya_id = PInt switch_id, ya_idx = PNone,
      ya_json_name = PStr (rp_name p), ya_num_failures = num_failures, ya_interface = rp_switch_if p,
      ya_shard_id = PNone, ya_total_shards = PList (map (PQuoted \<circ> PStr) (sh_multicast sh)),
      ya_total_multicast = PNone, ya_shard_multicast = PNone\<rparr>"

text \<open>The earlier process is looked for on \<open>ip\<close>, which is the last server, and not on the switch.\<close>

definition start_pktgen_switch ::
  "env \<Rightarrow> pyval \<Rightarrow> run_params \<Rightarrow> sharding \<Rightarrow> pyval \<Rightarrow> nat \<Rightarrow> unit pringles_io" where
  "start_pktgen_switch E config p sh num_failures exp_index =
     (let config_filename = ''switch_config_'' @ rp_name p @ ''.yaml''
      in bnd (does (random_int E 100000 999999)) (\<lambda>switch_id.
         bnd (does (pktgen_yaml_config E config (pktgen_switch_args p sh num_failures switch_id))) (\<lambda>d.
         bnd (bound ''ip'' pv_ip) (\<lambda>ip.
         andthen (does (kill_process E (basename (rp_switch p)) (rp_ssh_key p) (rp_ssh_user p) ip))
        (andthen (does (write_file E config_filename (en_dump_yaml E (PDict d))))
        (bnd (does (transfer_file E config_filename (rp_switch_ip p) (rp_ssh_user p) (rp_ssh_key p) None None)) (\<lambda>ok.
         andthen (require ok (''Failed to transfer config to server '' @ ip))
        (bnd (does (execute_remote_command E (rp_switch_ip p) (rp_switch p) config_filename
                (rp_ssh_key p) (rp_ssh_user p) exp_index ''switch'')) (\<lambda>(pid, log_filename).
         case pid of
           None \<Rightarrow> raise (Exc (''Failed to start server process on '' @ ip))
         | Some q \<Rightarrow> andthen (assign (\<lambda>v. v\<lparr>pv_switches := pv_switches v @ [q],
                       pv_switch_logs := dict_put ip log_filename (pv_switch_logs v)\<rparr>))
             (does (sleep (PInt SWITCH_START_DELAY))))))))))))"

definition pktgen_client_args :: "run_params \<Rightarrow> pyval \<Rightarrow> nat \<Rightarrow> string \<Rightarrow> int \<Rightarrow> pyval \<Rightarrow> yaml_args" where
  "pktgen_client_args p num_failures i ip client_id interface =
     \<lparr>ya_type = ''client'', ya_ip = ip, ya_offset = int (length (rp_server_ips p)) * 2,
      ya_server_ips = rp_server_ips p, ya_id = PInt client_id, ya_idx = PInt (int i),
      ya_json_name = PStr (rp_name p), ya_num_failures = num_failures, ya_interface = interface,
      ya_shard_id = PNone, ya_total_shards = PNone, ya_total_multicast = PNone, ya_shard_multicast = PNone\<rparr>"

definition start_pktgen_client ::
  "env \<Rightarrow> pyval \<Rightarrow> run_params \<Rightarrow> pyval \<Rightarrow> bool \<Rightarrow> nat \<Rightarrow> nat \<times> string \<Rightarrow> unit pringles_io" where
  "start_pktgen_client E config p num_failures tunnel exp_index iip =
     (let i = fst iip; ip = snd iip;
          config_filename = ''client_config_'' @ rp_name p @ ''_'' @ str_nat i @ ''.yaml''
      in andthen (assign (\<lambda>v. v\<lparr>pv_ip := Some ip\<rparr>))
        (bnd (does (random_int E 100000 999999)) (\<lambda>client_id.
         bnd (lift (py_index (rp_client_ifs p) (int i))) (\<lambda>interface.
         bnd (does (pktgen_yaml_config E config (pktgen_client_args p num_failures i ip client_id interface))) (\<lambda>d.
         andthen (does (kill_process E (basename (rp_client p)) (rp_ssh_key p) (rp_ssh_user p) ip))
        (andthen (does (write_file E config_filename (en_dump_yaml E (PDict d))))
        (if tunnel then tunnel_client E config p config_filename
         else launch_client E p exp_index config_filename ip)))))))"

definition pktgen_body ::
  "env \<Rightarrow> pyval \<Rightarrow> run_params \<Rightarrow> sharding \<Rightarrow> pyval \<Rightarrow> bool \<Rightarrow> nat \<Rightarrow> string \<Rightarrow> unit pringles_io" where
  "pktgen_body E config p sh num_failures tunnel exp_index dir =
     andthen (start_pktgen_servers E config p sh tunnel exp_index)
    (bnd (lift (cfg config ''experiment_parameters'' ''use_hardware_switch'')) (\<lambda>hardware.
     andthen (if truthy hardware then ret () else start_pktgen_switch E config p sh num_failures exp_index)
    (andthen (for_each (start_pktgen_client E config p num_failures tunnel exp_index) (enumerate 0 (rp_client_ips p)))
    (bnd (var pv_clients) (\<lambda>pids. for_each (collect_client E p dir) (enumerate 0 pids))))))"

definition pktgen_cleanup :: "env \<Rightarrow> run_params \<Rightarrow> string \<Rightarrow> unit pringles_io" where
  "pktgen_cleanup E p dir =
     andthen (bnd (var pv_server_logs) (for_each (fetch_server_log E p dir)))
    (andthen (bnd (var pv_switch_logs) (for_each (fetch_switch_log E p dir)))
    (andthen (bnd (var pv_servers) (for_each (reap E)))
     (bnd (var pv_switches) (for_each (reap E)))))"

definition run_pktgen_cycle :: "env \<Rightarrow> pyval \<Rightarrow> nat \<Rightarrow> string \<Rightarrow> bool \<Rightarrow> unit act_io" where
  "run_pktgen_cycle E config exp_index dir tunnel =
     bnd (lift (pktgen_params_of config)) (\<lambda>p.
     bnd (lift (cfg config ''experiment_parameters'' ''num_failures'')) (\<lambda>num_failures.
     bnd (lift (cfg config ''experiment_parameters'' ''num_client_threads'')) (\<lambda>_.
     bnd (lift (pktgen_shards config (rp_server_ips p))) (\<lambda>sh.
     with_vars no_pringles_vars
       (guarded (pktgen_body E config p sh num_failures tunnel exp_index dir) (pktgen_cleanup E p dir))))))"

section \<open>Aggregation by groups\<close>

definition group_prefix :: "string \<Rightarrow> string" where
  "group_prefix f = hd (split_on (CHR ''_'') f)"

definition group_files :: "string list \<Rightarrow> (string \<times> string list) list" where
  "group_files files =
     fold (\<lambda>f g. dict_put (group_prefix f) ((case dict_get g (group_prefix f) of Some fs \<Rightarrow> fs | None \<Rightarrow> []) @ [f]) g) files []"

definition add_pktgen :: "pyval \<Rightarrow> totals \<Rightarrow> totals res" where
  "add_pktgen data a =
     ebind (num_field data ''throughput'') (\<lambda>tput.
     ebind (num_field data ''avg_latency'') (\<lambda>lat.
     ebind (py_get data ''batch_size'') (\<lambda>batch.
     Inr (a\<lparr>t_tput := t_tput a + or_zero tput, t_lat := t_lat a + or_zero lat,
            t_count := t_count a + (if lat = None then 0 else 1), t_batch := batch\<rparr>))))"

definition group_summary :: "totals \<Rightarrow> (string \<times> pyval) list" where
  "group_summary a =
     [(''agg_tput'', PFloat (t_tput a)), (''total_avg_latency'', PFloat (average (t_lat a) (t_count a))),
      (''num_clients'', PInt (int (t_count a))), (''batch_size'', t_batch a)]"

definition aggregate_group :: "env \<Rightarrow> string \<Rightarrow> string \<times> string list \<Rightarrow> unit act_io" where
  "aggregate_group E dir pf =
     bnd (fold_io (add_file E add_pktgen dir) (snd pf) no_totals) (\<lambda>a.
     write_summary E (path_join dir (fst pf @ ''.json'')) (group_summary a))"

definition aggregate_groups :: "env \<Rightarrow> string \<Rightarrow> unit act_io" where
  "aggregate_groups E dir =
     bnd (look_res (\<lambda>tr. en_listdir E tr dir)) (\<lambda>all_files.
     for_each (aggregate_group E dir) (group_files (filter is_result_file all_files)))"

section \<open>main\<close>

definition PKTGEN_EXPERIMENT_DELAY :: int where "PKTGEN_EXPERIMENT_DELAY = 15"

definition PKTGEN_RESULTS_BASE_DIR :: string where
  "PKTGEN_RESULTS_BASE_DIR = ''/proj/ove-PG0/murray/pringles/experiments/results''"

definition section_has :: "(string \<times> pyval) list \<Rightarrow> string \<Rightarrow> string \<Rightarrow> bool res" where
  "section_has config s k = (case dict_get config s of None \<Rightarrow> Inr False | Some v \<Rightarrow> py_in k v)"

definition put_param :: "(string \<times> pyval) list \<Rightarrow> string \<Rightarrow> string \<Rightarrow> pyval \<Rightarrow> (string \<times> pyval) list res" where
  "put_param config s k v =
     (case dict_get config s of
        Some (PDict ps) \<Rightarrow> Inr (dict_put s (PDict (dict_put k v ps)) config)
      | _ \<Rightarrow> Inl (TypeError ''item assignment''))"

text \<open>An override goes where its name is known: first among the parameters of the experiment, then among those of
  the protocol.\<close>

fun override_all :: "(string \<times> pyval) list \<Rightarrow> (string \<times> pyval) list \<Rightarrow> (string \<times> pyval) list res" where
  "override_all config [] = Inr config"
| "override_all config ((k, v) # kvs) =
     ebind (section_has config ''experiment_parameters'' k) (\<lambda>a.
     ebind (if a then put_param config ''experiment_parameters'' k v
        else ebind (section_has config ''protocol_batching'' k) (\<lambda>b.
          if b then put_param config ''protocol_batching'' k v else Inr config)) (\<lambda>config'. override_all config' kvs))"

text \<open>A run with hardware switches starts from the base configuration again.\<close>

definition pktgen_config :: "(string \<times> pyval) list \<Rightarrow> pyval \<Rightarrow> (bool \<times> pyval) res" where
  "pktgen_config base x =
     ebind (ebind (py_items x) (override_all base)) (\<lambda>current.
     ebind (ebind (cfg (PDict current) ''experiment_parameters'' ''switches_in_ring'') py_len) (\<lambda>_.
     ebind (cfg (PDict current) ''experiment_parameters'' ''use_hardware_switch'') (\<lambda>hardware.
     Inr (truthy hardware, PDict (if truthy hardware then base else current)))))"

definition pktgen_experiment :: "env \<Rightarrow> string \<Rightarrow> bool \<Rightarrow> (string \<times> pyval) list \<Rightarrow> nat \<times> pyval \<Rightarrow> unit act_io" where
  "pktgen_experiment E dir tunnel base ix =
     bnd (lift (pktgen_config base (snd ix))) (\<lambda>(hardware, config).
     andthen (if hardware then
                andthen (setup_switches E config)
                  (lift (ebind (ebind (cfg (PDict base) ''experiment_parameters'' ''switches_in_ring'') py_len) (\<lambda>_. Inr ())))
              else ret ())
    (andthen (run_pktgen_cycle E config (fst ix) dir tunnel)
     (sleep (PInt PKTGEN_EXPERIMENT_DELAY))))"

definition pktgen_results_dir :: "env \<Rightarrow> pyval \<Rightarrow> string res" where
  "pktgen_results_dir E base =
     ebind (ebind (cfg base ''experiment_parameters'' ''experiment_name'') as_str) (\<lambda>n.
     Inr (path_join PKTGEN_RESULTS_BASE_DIR (n @ ''_run-'' @ en_timestamp E)))"

text \<open>What is read before the first run: the addresses are added up, the credentials only looked up.\<close>

definition pktgen_checks :: "pyval \<Rightarrow> bool res" where
  "pktgen_checks base =
     ebind (cfg base ''network_setup'' ''cli_ips'') (\<lambda>clients.
     ebind (cfg base ''network_setup'' ''stor_ips'') (\<lambda>servers.
     ebind (cfg base ''network_setup'' ''switch_ip'') (\<lambda>switch_ip.
     ebind (ebind (py_add clients servers) (\<lambda>v. py_add v (PList [switch_ip]))) (\<lambda>_.
     ebind (cfg base ''network_setup'' ''ssh_key'') (\<lambda>_.
     ebind (cfg base ''network_setup'' ''ssh_user'') (\<lambda>_.
     ebind (cfg base ''experiment_parameters'' ''with_tunnel'') (\<lambda>tunnel. Inr (truthy tunnel))))))))"

definition pktgen_wants_setup :: "pyval \<Rightarrow> bool res" where
  "pktgen_wants_setup base =
     ebind (py_item base ''program_paths'') (\<lambda>s.
     ebind (py_get_default s ''run_setup_script'' (PStr ''False'')) (\<lambda>v.
     case v of PStr t \<Rightarrow> Inr (lower t = ''true'') | _ \<Rightarrow> Inl (AttributeError ''lower'')))"

text \<open>Neither the function for the set-up script nor the path of the script is defined in this file.\<close>

definition pktgen_main :: "env \<Rightarrow> string \<Rightarrow> unit act_io" where
  "pktgen_main E config_file =
     bnd (lift (load_config E config_file)) (\<lambda>c.
     case c of
       None \<Rightarrow> ret ()
     | Some full \<Rightarrow>
         bnd (lift (split_experiments full)) (\<lambda>(exps, base).
         bnd (lift (pktgen_checks (PDict base))) (\<lambda>tunnel.
         bnd (lift (pktgen_results_dir E (PDict base))) (\<lambda>dir.
         bnd (try_matching is_os_error (andthen (make_dir E dir) (ret True)) (\<lambda>e. ret False)) (\<lambda>made.
         if \<not> made then ret ()
         else bnd (lift (pktgen_wants_setup (PDict base))) (\<lambda>run_setup.
              if run_setup then raise (NameError ''run_setup_script'')
              else andthen (for_each (pktgen_experiment E dir tunnel base) (enumerate 0 exps))
                (aggregate_groups E dir)))))))"

section \<open>Facts\<close>

text \<open>With hardware switches the overrides of the experiment are gone.\<close>

lemma pktgen_hardware_base: "pktgen_config base x = Inr (True, config) \<Longrightarrow> config = PDict base"
  by (auto simp: pktgen_config_def split: if_splits)

text \<open>The groups: the files with one prefix, in the order of the list.\<close>

lemma group_files_snoc:
  "group_files (files @ [f]) = dict_put (group_prefix f)
     ((case dict_get (group_files files) (group_prefix f) of Some fs \<Rightarrow> fs | None \<Rightarrow> []) @ [f]) (group_files files)"
  by (simp add: group_files_def)

lemma group_files_get:
  "dict_get (group_files files) p =
     (case filter (\<lambda>f. group_prefix f = p) files of [] \<Rightarrow> None | fs \<Rightarrow> Some fs)"
proof (induction files rule: rev_induct)
  case Nil
  show ?case by (simp add: group_files_def)
next
  case (snoc f files)
  then show ?case by (auto simp: group_files_snoc dict_simps split: list.splits)
qed

lemma group_prefix_plain: "CHR ''_'' \<notin> set (group_prefix f)"
  using split_on_no_sep [of "CHR ''_''" f] unfolding group_prefix_def by (metis hd_in_set split_on_nonempty)

lemma summary_not_raw: "\<not> is_result_file (group_prefix f @ ''.json'')"
proof -
  have "CHR ''_'' \<notin> set (group_prefix f @ ''.json'')" using group_prefix_plain [of f] by simp
  from split_on_fresh [OF this] show ?thesis by (simp add: is_result_file_def)
qed

text \<open>The totals are those of experiment.py, without the subscription delay.\<close>

definition same_totals :: "totals \<Rightarrow> totals \<Rightarrow> bool" where
  "same_totals a b \<longleftrightarrow> t_tput a = t_tput b \<and> t_lat a = t_lat b \<and> t_count a = t_count b"

lemma add_pktgen_result:
  "add_pktgen data a = Inr b \<Longrightarrow> same_totals a a' \<Longrightarrow> \<exists>b'. add_result data a' = Inr b' \<and> same_totals b b'"
  by (cases data) (auto simp: add_pktgen_def add_result_def num_field_def same_totals_def)

lemma add_file_result:
  assumes "add_file E add_pktgen dir f a tr = (Inr b, t)" and "same_totals a a'"
  shows "\<exists>b'. add_file E add_result dir f a' tr = (Inr b', t) \<and> same_totals b b'"
proof -
  from assms(1) obtain d where read: "read_result E dir f tr = (Inr d, t)"
    and step: "(case d of None \<Rightarrow> Inr a | Some data \<Rightarrow> add_pktgen data a) = Inr b"
    by (auto simp: add_file_def bnd_eq_Inr io_eval split: option.splits)
  show ?thesis
  proof (cases d)
    case None
    with read step assms(2) show ?thesis by (auto simp: add_file_def bnd_def io_eval)
  next
    case (Some data)
    with step add_pktgen_result [OF _ assms(2)] obtain b' where "add_result data a' = Inr b'" "same_totals b b'" by fastforce
    with read Some show ?thesis by (auto simp: add_file_def bnd_def io_eval)
  qed
qed

lemma fold_result:
  assumes "fold_io (add_file E add_pktgen dir) files a tr = (Inr b, t)" and "same_totals a a'"
  shows "\<exists>b'. fold_io (add_file E add_result dir) files a' tr = (Inr b', t) \<and> same_totals b b'"
  using assms
proof (induction files arbitrary: a a' tr)
  case (Cons f files)
  from Cons.prems(1) obtain c u where first: "add_file E add_pktgen dir f a tr = (Inr c, u)"
    and rest: "fold_io (add_file E add_pktgen dir) files c u = (Inr b, t)" by (auto simp: bnd_eq_Inr)
  from add_file_result [OF first Cons.prems(2)] obtain c' where
    "add_file E add_result dir f a' tr = (Inr c', u)" "same_totals c c'" by blast
  with Cons.IH [OF rest] show ?case by (auto simp: bnd_eq_Inr)
qed (simp add: io_eval)

lemma group_totals:
  assumes "fold_io (add_file E add_pktgen dir) files no_totals tr = (Inr b, t)" and "en_read E = (\<lambda>tr. content)"
  shows "\<exists>ds. emap (data_at E content dir) files = Inr ds \<and> t_tput b = measured ''throughput'' ds
    \<and> t_lat b = sum_list (latencies ds) \<and> t_count b = length (latencies ds)"
proof -
  from fold_result [OF assms(1), of no_totals] obtain b' where
    "fold_io (add_file E add_result dir) files no_totals tr = (Inr b', t)" "same_totals b b'" by (auto simp: same_totals_def)
  with totals_of_run [OF assms(2) this(1)] show ?thesis
    by (auto simp: same_totals_def no_totals_def measured_latencies)
qed

lemma aggregate_group_writes:
  assumes "aggregate_group E dir (p, files) tr = (Inr (), t)"
  shows "\<exists>u a. fold_io (add_file E add_pktgen dir) files no_totals tr = (Inr a, u)
    \<and> t = u @ [WriteFile (path_join dir (p @ ''.json'')) (en_dump_json E (PDict (group_summary a)))]"
proof -
  from assms obtain a u where fold: "fold_io (add_file E add_pktgen dir) files no_totals tr = (Inr a, u)"
    and summary: "write_summary E (path_join dir (p @ ''.json'')) (group_summary a) u = (Inr (), t)"
    by (auto simp: aggregate_group_def bnd_eq_Inr)
  from summary have "t = u @ [WriteFile (path_join dir (p @ ''.json'')) (en_dump_json E (PDict (group_summary a)))]"
    by (cases "en_write E u (path_join dir (p @ ''.json''))")
      (auto simp: write_summary_def try_matching_def try_except_def write_file_def io_eval split: if_splits)
  with fold show ?thesis by blast
qed

lemma aggregate_group_grows: "keeps prefix (aggregate_group E dir pf)"
proof -
  note rules = step_relation.keeps_rules [OF step_relation_adds]
  have "keeps (adds (\<lambda>a. True)) (add_file E add_pktgen dir f a)" for f a
    unfolding add_file_def read_result_def by (auto split: option.split intro!: rules adds_intros)
  then have "keeps (adds (\<lambda>a. True)) (aggregate_group E dir pf)"
    unfolding aggregate_group_def write_summary_def by (intro rules adds_intros) simp_all
  then show ?thesis by (rule keeps_growing)
qed

text \<open>A loop whose steps only add to the trace passes through each of its elements.\<close>

lemma for_each_passes:
  assumes "for_each f xs s = (Inr (), t)" and "x \<in> set xs" and "\<And>y. keeps prefix (f y)"
  shows "\<exists>u v. f x u = (Inr (), v) \<and> prefix v (t :: trace)"
  using assms(1,2)
proof (induction xs arbitrary: s)
  case (Cons y ys)
  from Cons.prems(1) obtain u where first: "f y s = (Inr (), u)" and rest: "for_each f ys u = (Inr (), t)"
    unfolding for_each_Cons_Inr by blast
  show ?case
  proof (cases "x = y")
    case True
    have "prefix u t" using keepsD [OF tracing.keeps_for_each [OF assms(3)] rest] .
    with True first show ?thesis by blast
  next
    case False
    with Cons.IH [OF rest] Cons.prems(2) show ?thesis by auto
  qed
qed simp

text \<open>What polling the given processes and killing those that still run adds to a trace.\<close>

fun reaping :: "env \<Rightarrow> trace \<Rightarrow> nat list \<Rightarrow> trace" where
  "reaping E tr [] = []"
| "reaping E tr (pid # pids) =
     (let acts = PollProc pid # (if en_running E tr pid then [KillProc pid] else [])
      in acts @ reaping E (tr @ acts) pids)"

lemma reap_exact: "for_each (reap E) pids s = (Inr (), s\<lparr>cy_trace := cy_trace s @ reaping E (cy_trace s) pids\<rparr>)"
  by (induction pids arbitrary: s) (simp_all add: reap_run Let_def)

lemma reaping_append: "reaping E tr (xs @ ys) = reaping E tr xs @ reaping E (tr @ reaping E tr xs) ys"
  by (induction xs arbitrary: tr) (simp_all add: Let_def)

lemma reaping_reaps: "pid \<in> set pids \<Longrightarrow> reaped E pid (tr @ reaping E tr pids)"
proof (induction pids arbitrary: tr)
  case (Cons q pids)
  let ?acts = "PollProc q # (if en_running E tr q then [KillProc q] else [])"
  have "reaped E q ((tr @ ?acts) @ reaping E (tr @ ?acts) pids)"
    by (rule reaped_prefix [of E q "tr @ ?acts"]) (auto simp: reaped_def)
  with Cons.IH [of "tr @ ?acts"] Cons.prems show ?case by (auto simp: Let_def)
qed simp

text \<open>The clean-up never raises: it copies logs and then reaps the servers and the switches.\<close>

fun is_copy :: "action \<Rightarrow> bool" where
  "is_copy (Run argv) = True"
| "is_copy _ = False"

lemma fetch_logs_run:
  "\<exists>t. for_each (fetch_server_log E p dir) xs s = (Inr (), t) \<and> same_run s t \<and> adds is_copy (cy_trace s) (cy_trace t)"
  "\<exists>t. for_each (fetch_switch_log E p dir) xs s = (Inr (), t) \<and> same_run s t \<and> adds is_copy (cy_trace s) (cy_trace t)"
proof -
  have "keeps (lift_rel (adds is_copy)) (for_each (fetch_server_log E p dir) xs)"
    "keeps (lift_rel (adds is_copy)) (for_each (fetch_switch_log E p dir) xs)"
    unfolding fetch_server_log_def fetch_switch_log_def copy_log_file_back_def
    by (intro adding.cycle_rules adds_intros; simp)+
  then show "\<exists>t. for_each (fetch_server_log E p dir) xs s = (Inr (), t) \<and> same_run s t \<and> adds is_copy (cy_trace s) (cy_trace t)"
    "\<exists>t. for_each (fetch_switch_log E p dir) xs s = (Inr (), t) \<and> same_run s t \<and> adds is_copy (cy_trace s) (cy_trace t)"
    using for_each_same_run [of "fetch_server_log E p dir", OF fetch_log_run(1)]
      for_each_same_run [of "fetch_switch_log E p dir", OF fetch_log_run(2)]
    by (metis keepsD lift_rel_def)+
qed

lemma pktgen_cleanup_run:
  "\<exists>t logs. pktgen_cleanup E p dir s = (Inr (), t) \<and> list_all is_copy logs \<and> cy_trace t =
     cy_trace s @ logs @ reaping E (cy_trace s @ logs) (pv_servers (cy_vars s) @ pv_switches (cy_vars s))"
proof -
  from fetch_logs_run(1) obtain u where u: "for_each (fetch_server_log E p dir) (pv_server_logs (cy_vars s)) s = (Inr (), u)"
    "same_run s u" "adds is_copy (cy_trace s) (cy_trace u)" by blast
  from fetch_logs_run(2) obtain v where v: "for_each (fetch_switch_log E p dir) (pv_switch_logs (cy_vars u)) u = (Inr (), v)"
    "same_run u v" "adds is_copy (cy_trace u) (cy_trace v)" by blast
  from u(3) v(3) obtain logs where logs: "cy_trace v = cy_trace s @ logs" "list_all is_copy logs"
    unfolding adds_def list_all_iff by (metis append_assoc Un_iff set_append)
  have vars: "pv_servers (cy_vars v) = pv_servers (cy_vars s)" "pv_switches (cy_vars v) = pv_switches (cy_vars s)"
    using same_run_trans [OF u(2) v(2)] by (auto simp: same_run_def)
  have "pktgen_cleanup E p dir s = (Inr (), v\<lparr>cy_trace := cy_trace v
      @ reaping E (cy_trace v) (pv_servers (cy_vars v) @ pv_switches (cy_vars v))\<rparr>)"
    by (simp add: pktgen_cleanup_def andthen_def bnd_def var_run u(1) v(1) reap_exact reaping_append)
  with logs vars show ?thesis by fastforce
qed

section \<open>Properties\<close>

text \<open>C29. After the aggregation every raw result has been counted in the summary of its group, the raw results whose
  names agree up to the first underscore: the summary carries the exact sum of their throughputs, the mean of
  their latencies and the number of those, and its own name is not that of a raw result, so no later
  aggregation counts it.\<close>

theorem group_summaries:
  assumes run: "aggregate_groups E dir tr = (Inr (), tr')" and static: "en_read E = (\<lambda>tr. content)"
    and listing: "en_listdir E tr dir = Inr listing" and raw: "f \<in> set listing" "is_result_file f"
  shows "\<exists>ds batch. emap (data_at E content dir) (filter (\<lambda>g. is_result_file g \<and> group_prefix g = group_prefix f) listing) = Inr ds
    \<and> WriteFile (path_join dir (group_prefix f @ ''.json'')) (en_dump_json E (PDict
        [(''agg_tput'', PFloat (measured ''throughput'' ds)),
         (''total_avg_latency'', PFloat (average (sum_list (latencies ds)) (length (latencies ds)))),
         (''num_clients'', PInt (int (length (latencies ds)))), (''batch_size'', batch)])) \<in> set tr'
    \<and> \<not> is_result_file (group_prefix f @ ''.json'')"
proof -
  let ?p = "group_prefix f" and ?raw = "filter is_result_file listing"
  let ?group = "filter (\<lambda>g. group_prefix g = ?p) ?raw"
  from run listing have loop: "for_each (aggregate_group E dir) (group_files ?raw) tr = (Inr (), tr')"
    by (auto simp: aggregate_groups_def bnd_eq_Inr look_res_def)
  from raw have "?group \<noteq> []" by (auto simp: filter_empty_conv)
  then have "dict_get (group_files ?raw) ?p = Some ?group"
    unfolding group_files_get by (cases ?group) (simp_all del: filter_filter)
  then have "(?p, ?group) \<in> set (group_files ?raw)" unfolding dict_get_def by (rule map_of_SomeD)
  from for_each_passes [OF loop this aggregate_group_grows] obtain u v where
    step: "aggregate_group E dir (?p, ?group) u = (Inr (), v)" "prefix v tr'" by blast
  from aggregate_group_writes [OF step(1)] obtain w a where
    fold: "fold_io (add_file E add_pktgen dir) ?group no_totals u = (Inr a, w)"
    and v: "v = w @ [WriteFile (path_join dir (?p @ ''.json'')) (en_dump_json E (PDict (group_summary a)))]" by blast
  from group_totals [OF fold static] obtain ds where
    "emap (data_at E content dir) ?group = Inr ds" "t_tput a = measured ''throughput'' ds"
    "t_lat a = sum_list (latencies ds)" "t_count a = length (latencies ds)" by blast
  moreover have "WriteFile (path_join dir (?p @ ''.json'')) (en_dump_json E (PDict (group_summary a))) \<in> set tr'"
    using step(2) v by (auto simp: prefix_def)
  moreover have "?group = filter (\<lambda>g. is_result_file g \<and> group_prefix g = ?p) listing"
    by (simp add: conj_commute)
  ultimately show ?thesis using summary_not_raw [of f] by (auto simp: group_summary_def)
qed

theorem group_summaries_witness:
  "\<exists>tr' batch. aggregate_groups result_world ''res'' [] = (Inr (), tr') \<and>
     WriteFile ''res/c.json'' (en_dump_json result_world (PDict [(''agg_tput'', PFloat 15), (''total_avg_latency'', PFloat 3),
       (''num_clients'', PInt 2), (''batch_size'', batch)])) \<in> set tr'"
proof -
  have "case aggregate_groups result_world ''res'' [] of (Inl _, _) \<Rightarrow> False | (Inr _, t) \<Rightarrow> True" by code_simp
  from run_ok_unit [OF this] obtain tr' where run: "aggregate_groups result_world ''res'' [] = (Inr (), tr')" by blast
  let ?listing = "[''c_1.json'', ''run.txt'', ''c_2.json'', ''c_3.json'', ''c_4.json'']"
  have world: "en_read result_world = (\<lambda>tr. demo_files)" "en_listdir result_world [] ''res'' = Inr ?listing"
    by (simp_all add: result_world_def)
  have raw: "''c_1.json'' \<in> set ?listing" "is_result_file ''c_1.json''" by (simp, code_simp)
  have files: "filter (\<lambda>g. is_result_file g \<and> group_prefix g = group_prefix ''c_1.json'') ?listing
      = [''c_1.json'', ''c_2.json'', ''c_3.json'', ''c_4.json'']" by code_simp
  let ?ds = "[Some (PDict [(''throughput'', PInt 10), (''avg_latency'', PInt 2)]),
             Some (PDict [(''throughput'', PInt 5), (''avg_latency'', PInt 4)]), None, None]"
  have data: "emap (data_at result_world demo_files ''res'') [''c_1.json'', ''c_2.json'', ''c_3.json'', ''c_4.json''] = Inr ?ds"
    by code_simp
  have path: "path_join ''res'' (group_prefix ''c_1.json'' @ ''.json'') = ''res/c.json''" by code_simp
  have nums: "measured ''throughput'' ?ds = 15" "latencies ?ds = [2, 4]"
    by (simp_all add: or_zero_def latencies_def List.map_filter_def)
  from group_summaries [OF run world raw, unfolded files data path] obtain batch where
    "WriteFile ''res/c.json'' (en_dump_json result_world (PDict [(''agg_tput'', PFloat (measured ''throughput'' ?ds)),
       (''total_avg_latency'', PFloat (average (sum_list (latencies ?ds)) (length (latencies ?ds)))),
       (''num_clients'', PInt (int (length (latencies ?ds)))), (''batch_size'', batch)])) \<in> set tr'"
    by auto
  then have "WriteFile ''res/c.json'' (en_dump_json result_world (PDict [(''agg_tput'', PFloat 15), (''total_avg_latency'', PFloat 3),
       (''num_clients'', PInt 2), (''batch_size'', batch)])) \<in> set tr'"
    unfolding nums by (simp add: average_def)
  with run show ?thesis by blast
qed

text \<open>C30. However the body of a run ends, as long as its exceptions are ordinary ones, the cycle returns. After
  the body it copies logs, then polls every recorded process of a server and of the software switch, in this
  order, and kills those that still run, and does nothing else: the clients that a failing body leaves behind
  are neither polled nor killed.\<close>

theorem pktgen_cycle_reaps:
  assumes p: "pktgen_params_of config = Inr p" and nf: "cfg config ''experiment_parameters'' ''num_failures'' = Inr nf"
    and threads: "cfg config ''experiment_parameters'' ''num_client_threads'' = Inr n"
    and sh: "pktgen_shards config (rp_server_ips p) = Inr sh"
    and body: "pktgen_body E config p sh nf tunnel i dir \<lparr>cy_trace = tr, cy_vars = no_pringles_vars\<rparr> = (r, s)"
    and ordinary: "\<forall>e. r = Inl e \<longrightarrow> is_exception e"
  shows "\<exists>t logs. run_pktgen_cycle E config i dir tunnel tr = (Inr (), t) \<and> list_all is_copy logs
     \<and> t = cy_trace s @ logs @ reaping E (cy_trace s @ logs) (pv_servers (cy_vars s) @ pv_switches (cy_vars s))
     \<and> (\<forall>pid \<in> set (pv_servers (cy_vars s)) \<union> set (pv_switches (cy_vars s)). reaped E pid t)"
proof -
  from pktgen_cleanup_run [of E p dir s] obtain t logs where t: "pktgen_cleanup E p dir s = (Inr (), t)"
    and logs: "list_all is_copy logs"
      "cy_trace t = cy_trace s @ logs @ reaping E (cy_trace s @ logs) (pv_servers (cy_vars s) @ pv_switches (cy_vars s))"
    by blast
  have "guarded (pktgen_body E config p sh nf tunnel i dir) (pktgen_cleanup E p dir)
      \<lparr>cy_trace = tr, cy_vars = no_pringles_vars\<rparr> = (Inr (), t)"
    using body ordinary t
    by (cases r) (auto simp: guarded_def try_finally_def try_matching_def try_except_def io_eval)
  then have "run_pktgen_cycle E config i dir tunnel tr = (Inr (), cy_trace t)"
    by (simp add: run_pktgen_cycle_def bnd_def lift_def p nf threads sh with_vars_def)
  moreover have "\<forall>pid \<in> set (pv_servers (cy_vars s)) \<union> set (pv_switches (cy_vars s)). reaped E pid (cy_trace t)"
    using reaping_reaps [of _ "pv_servers (cy_vars s) @ pv_switches (cy_vars s)" E "cy_trace s @ logs"] logs(2) by simp
  ultimately show ?thesis using logs by blast
qed

definition demo_pktgen :: pyval where
  "demo_pktgen = PDict
     [(''experiment_parameters'', PDict ((''json_name'', PStr ''x'') # map (\<lambda>k. (k, PInt 1))
        [''number_of_machines_per_shard'', ''num_failures'', ''num_client_threads'', ''experiment_duration'', ''warm_up'',
         ''cool_down'', ''log_level'', ''socket_type'', ''batch_size'', ''batch_usec_timeout'', ''message_size'', ''use_switch'',
         ''use_store'', ''use_shard'', ''use_streams'', ''ack_threshold'', ''use_client_count_acks'', ''num_storage_threads'',
         ''use_hardware_switch''])),
      (''protocol_batching'', PDict (map (\<lambda>k. (k, PInt 1))
        [''batch_on'', ''num_packet_types'', ''sequencer_type'', ''storage_server_type''])),
      (''network_setup'', PDict (map (\<lambda>k. (k, PStr k)) [''ssh_key'', ''ssh_user'', ''switch_ip'', ''switch_net_if'', ''switch_mac'',
         ''stor_recv_port'', ''switch_recv_port''] @ map (\<lambda>k. (k, PList [])) [''cli_ips'', ''cli_net_ifs'', ''cli_macs'']
         @ map (\<lambda>k. (k, PList [PStr ''e''])) [''stor_ips'', ''stor_net_ifs'', ''stor_macs''])),
      (''program_paths'', PDict (map (\<lambda>k. (k, PStr k)) [''path_client'', ''path_server'', ''path_switch''])),
      (''routing'', PDict [(''server_dest_macs'', PList [PStr ''m''])])]"

theorem pktgen_cycle_reaps_witness:
  "\<exists>pid t. run_pktgen_cycle demo_world demo_pktgen 0 ''res'' False [] = (Inr (), t) \<and> PollProc pid \<in> set t"
proof -
  obtain p where p: "pktgen_params_of demo_pktgen = Inr p" and ips: "rp_server_ips p = [''e'']"
  proof -
    have "case pktgen_params_of demo_pktgen of Inl _ \<Rightarrow> False | Inr p \<Rightarrow> rp_server_ips p = [''e'']" by code_simp
    then show thesis by (auto split: sum.splits intro: that)
  qed
  obtain sh where sh: "pktgen_shards demo_pktgen [''e''] = Inr sh"
  proof -
    have "case pktgen_shards demo_pktgen [''e''] of Inl _ \<Rightarrow> False | Inr sh \<Rightarrow> True" by code_simp
    then show thesis by (auto split: sum.splits intro: that)
  qed
  let ?s = "\<lparr>cy_trace = [], cy_vars = no_pringles_vars\<rparr>"
  have "case pktgen_params_of demo_pktgen of Inl _ \<Rightarrow> False | Inr p \<Rightarrow>
      (case pktgen_shards demo_pktgen [''e''] of Inl _ \<Rightarrow> False | Inr sh \<Rightarrow>
      (case pktgen_body demo_world demo_pktgen p sh (PInt 1) False 0 ''res'' ?s of (r, u) \<Rightarrow> r = Inr () \<and> pv_servers (cy_vars u) \<noteq> []))"
    by code_simp
  with p sh obtain u where body: "pktgen_body demo_world demo_pktgen p sh (PInt 1) False 0 ''res'' ?s = (Inr (), u)"
    and some: "pv_servers (cy_vars u) \<noteq> []" by (auto split: prod.splits)
  have keys: "cfg demo_pktgen ''experiment_parameters'' ''num_failures'' = Inr (PInt 1)"
    "cfg demo_pktgen ''experiment_parameters'' ''num_client_threads'' = Inr (PInt 1)" by code_simp+
  from some obtain pid where "pid \<in> set (pv_servers (cy_vars u))" by (cases "pv_servers (cy_vars u)") auto
  with pktgen_cycle_reaps [OF p keys, unfolded ips, OF sh body] obtain t where
    t: "run_pktgen_cycle demo_world demo_pktgen 0 ''res'' False [] = (Inr (), t)" "reaped demo_world pid t" by auto
  from t(2) have "PollProc pid \<in> set t" unfolding reaped_def by force
  with t(1) show ?thesis by blast
qed

end
