(* ===== verification/Py_Regex.thy ===== *)
theory Py_Regex
  imports Py_Text
begin

text \<open>
  Prelude: searching a text for a regular expression, for the patterns the scripts use: a sequence of
  classes of characters, each once, greedily repeated or lazily repeated, some of them captured.
  Alternatives are tried in the order of Python's backtracking, so the first one is its match.
\<close>

section \<open>Matching\<close>

datatype rx_item =
    Once "char \<Rightarrow> bool"
  | Greedy nat "char \<Rightarrow> bool"
  | Lazy nat "char \<Rightarrow> bool"

text \<open>An item is captured or not.\<close>

type_synonym regex = "(bool \<times> rx_item) list"

definition literal :: "string \<Rightarrow> regex" where
  "literal s = map (\<lambda>c. (False, Once (\<lambda>x. x = c))) s"

text \<open>All ways to divide a text after a run of characters of a class, the longest run first.\<close>

fun runs :: "(char \<Rightarrow> bool) \<Rightarrow> string \<Rightarrow> (string \<times> string) list" where
  "runs p [] = [([], [])]"
| "runs p (c # cs) = (if p c then map (\<lambda>(a, r). (c # a, r)) (runs p cs) @ [([], c # cs)] else [([], c # cs)])"

fun item_ways :: "rx_item \<Rightarrow> string \<Rightarrow> (string \<times> string) list" where
  "item_ways (Once p) [] = []"
| "item_ways (Once p) (c # cs) = (if p c then [([c], cs)] else [])"
| "item_ways (Greedy m p) s = filter (\<lambda>(a, r). m \<le> length a) (runs p s)"
| "item_ways (Lazy m p) s = filter (\<lambda>(a, r). m \<le> length a) (rev (runs p s))"

text \<open>The captured texts of every match at the start of a text.\<close>

fun matches_at :: "regex \<Rightarrow> string \<Rightarrow> string list list" where
  "matches_at [] s = [[]]"
| "matches_at ((keep, it) # ps) s =
     concat (map (\<lambda>(a, r). map (\<lambda>caps. if keep then a # caps else caps) (matches_at ps r)) (item_ways it s))"

text \<open>\<open>re.search\<close>: the captures of the match that starts first.\<close>

fun rx_search :: "regex \<Rightarrow> string \<Rightarrow> string list option" where
  "rx_search ps s =
     (case matches_at ps s of
        caps # _ \<Rightarrow> Some caps
      | [] \<Rightarrow> (case s of [] \<Rightarrow> None | c # cs \<Rightarrow> rx_search ps cs))"

section \<open>Facts\<close>

lemma runs_parts: "(a, r) \<in> set (runs p s) \<Longrightarrow> a @ r = s \<and> (\<forall>c \<in> set a. p c)"
  by (induction p s arbitrary: a r rule: runs.induct) (auto split: if_splits)

fun item_class :: "rx_item \<Rightarrow> char \<Rightarrow> bool" where
  "item_class (Once p) = p"
| "item_class (Greedy m p) = p"
| "item_class (Lazy m p) = p"

fun item_least :: "rx_item \<Rightarrow> nat" where
  "item_least (Once p) = 1"
| "item_least (Greedy m p) = m"
| "item_least (Lazy m p) = m"

lemma item_ways_parts:
  "(a, r) \<in> set (item_ways it s) \<Longrightarrow> a @ r = s \<and> (\<forall>c \<in> set a. item_class it c) \<and> item_least it \<le> length a"
  by (cases "(it, s)" rule: item_ways.cases) (auto dest: runs_parts split: if_splits)

text \<open>A capture consists of characters of the class of its item, and of as many as the item asks for.\<close>

lemma matches_at_captures:
  "caps \<in> set (matches_at ps s) \<Longrightarrow>
     list_all2 (\<lambda>(keep, it) a. (\<forall>c \<in> set a. item_class it c) \<and> item_least it \<le> length a) (filter fst ps) caps"
proof (induction ps arbitrary: s caps)
  case (Cons p ps)
  obtain keep it where p: "p = (keep, it)" by fastforce
  with Cons.prems obtain a r caps' where way: "(a, r) \<in> set (item_ways it s)"
    and rest: "caps' \<in> set (matches_at ps r)" and caps: "caps = (if keep then a # caps' else caps')"
    by (cases keep) auto
  show ?case using Cons.IH [OF rest] item_ways_parts [OF way] by (simp add: p caps)
qed simp

lemma rx_search_captures:
  "rx_search ps s = Some caps \<Longrightarrow>
     list_all2 (\<lambda>(keep, it) a. (\<forall>c \<in> set a. item_class it c) \<and> item_least it \<le> length a) (filter fst ps) caps"
proof (induction ps s rule: rx_search.induct)
  case (1 ps s)
  show ?case
  proof (cases "matches_at ps s")
    case Nil
    with 1 show ?thesis by (cases s) auto
  next
    case (Cons c cs)
    with 1(2) have "caps \<in> set (matches_at ps s)" by simp
    then show ?thesis by (rule matches_at_captures)
  qed
qed

end
