(* ===== verification/Iperf.thy ===== *)
theory Iperf
  imports Py_Regex Aggregate
begin

text \<open>
  experiments/benchmarks/iperf_baseline.py, the benchmark of the bare network: ten servers, ten clients
  that run at the same time, the scan of their output and the table of the results. What a command
  answers may depend on everything before it; the order in which the threads of a round get through is
  a parameter. Sums are exact, the rounding of floats is not modelled.
\<close>

section \<open>Configuration\<close>

definition SERVER_IP :: string where "SERVER_IP = ''10.10.1.3''"
definition SERVER_USER :: string where "SERVER_USER = ''murray22''"
definition CLIENT_USER :: string where "CLIENT_USER = ''murray22''"
definition NUM_SERVER_PORTS :: nat where "NUM_SERVER_PORTS = 10"
definition IPERF_BASE_PORT :: nat where "IPERF_BASE_PORT = 5001"

definition CLIENT_IPS :: "string list" where
  "CLIENT_IPS = [''10.10.1.2'', ''10.10.1.4'', ''10.10.1.5'', ''10.10.1.6'', ''10.10.1.7'', ''10.10.1.8'',
     ''10.10.1.9'', ''10.10.1.10'', ''10.10.1.11'', ''10.10.1.12'']"

definition THREAD_STEPS :: "nat list" where
  "THREAD_STEPS = [1, 5, 10, 15, 20, 30]"

definition TEST_DURATION :: nat where "TEST_DURATION = 60"

section \<open>Commands\<close>

datatype iperf_event = SshCommand string string string | SshClosed string | SleepFor nat

record iperf_env =
  ie_answer :: "iperf_event list \<Rightarrow> string \<Rightarrow> string \<Rightarrow> string \<Rightarrow> string res"
  ie_order :: "nat \<Rightarrow> nat list"

record iperf_row =
  row_step :: nat
  row_streams :: nat
  row_pps :: rat
  row_latency :: rat

record iperf =
  ip_trace :: "iperf_event list"
  raw_results :: "nat \<Rightarrow> string list"
  ip_rows :: "iperf_row list"

type_synonym 'a iperf_io = "(iperf, 'a) io"

definition ip_note :: "iperf_event \<Rightarrow> unit iperf_io" where
  "ip_note e = modify (\<lambda>s. s\<lparr>ip_trace := ip_trace s @ [e]\<rparr>)"

definition ip_command :: "iperf_env \<Rightarrow> string \<Rightarrow> string \<Rightarrow> string \<Rightarrow> string iperf_io" where
  "ip_command E ip user command =
     bnd (gets ip_trace) (\<lambda>tr. andthen (ip_note (SshCommand ip user command)) (lift (ie_answer E tr ip user command)))"

definition SSH_execute :: "iperf_env \<Rightarrow> string \<Rightarrow> string \<Rightarrow> string \<Rightarrow> bool \<Rightarrow> string iperf_io" where
  "SSH_execute E ip user command read_output =
     try_finally
       (try_matching is_exception
          (bnd (ip_command E ip user command) (\<lambda>out. ret (if read_output then out else [])))
          (\<lambda>e. ret []))
       (ip_note (SshClosed ip))"

definition server_command :: "nat \<Rightarrow> string" where
  "server_command i = ''iperf -s -p '' @ str_nat (IPERF_BASE_PORT + i) @ '' -e > /dev/null 2>&1 &''"

definition start_multithreaded_servers :: "iperf_env \<Rightarrow> unit iperf_io" where
  "start_multithreaded_servers E =
     andthen (for_each (\<lambda>i. andthen (SSH_execute E SERVER_IP SERVER_USER (server_command i) False) (ret ()))
                [0..<NUM_SERVER_PORTS])
       (ip_note (SleepFor 2))"

definition teardown_servers :: "iperf_env \<Rightarrow> unit iperf_io" where
  "teardown_servers E = andthen (SSH_execute E SERVER_IP SERVER_USER ''killall iperf'' False) (ret ())"

section \<open>The output of a client\<close>

text \<open>The identifier of a thread, its transactions and its mean latency, as in
  \<open>[ 15] 0.00-45.00 sec ... 200840=0.223/\<close>.\<close>

definition digit_or_dot :: "char \<Rightarrow> bool" where
  "digit_or_dot c = (is_digit c \<or> c = CHR ''.'')"

definition decimal_rx :: regex where
  "decimal_rx = [(False, Greedy 1 is_digit)] @ literal ''.'' @ [(False, Greedy 1 is_digit)]"

definition thread_pattern :: regex where
  "thread_pattern =
     literal ''['' @ [(False, Greedy 0 is_space), (True, Greedy 1 is_digit)] @ literal '']''
     @ [(False, Greedy 1 is_space)] @ decimal_rx @ literal ''-'' @ decimal_rx
     @ [(False, Greedy 1 is_space)] @ literal ''sec''
     @ [(False, Lazy 0 (\<lambda>c. c \<noteq> CHR 0x0A)), (False, Greedy 1 is_space), (True, Greedy 1 is_digit)]
     @ literal ''='' @ [(False, Greedy 0 is_space), (True, Greedy 1 digit_or_dot)] @ literal ''/''"

text \<open>\<open>float\<close> of digits and dots.\<close>

definition dec_float :: "string \<Rightarrow> rat res" where
  "dec_float s =
     (case split_on (CHR ''.'') s of
        [a] \<Rightarrow> of_option (ValueError ''float'') (map_option of_nat (read_nat 10 a))
      | [a, b] \<Rightarrow> of_option (ValueError ''float'')
          (map_option (\<lambda>n. of_nat n / 10 ^ length b) (read_nat 10 (a @ b)))
      | _ \<Rightarrow> Inl (ValueError ''float''))"

type_synonym metrics = "(string \<times> int \<times> rat) list"

fun note_line :: "string \<Rightarrow> metrics \<Rightarrow> metrics res" where
  "note_line line m =
     (case rx_search thread_pattern line of
        Some [thread_id, cnt, lat] \<Rightarrow>
          ebind (py_int cnt) (\<lambda>c. ebind (dec_float lat) (\<lambda>l. Inr (dict_put thread_id (c, l) m)))
      | _ \<Rightarrow> Inr m)"

fun note_lines :: "string list \<Rightarrow> metrics \<Rightarrow> metrics res" where
  "note_lines [] m = Inr m"
| "note_lines (line # ls) m = ebind (note_line line m) (note_lines ls)"

definition total_cnt :: "metrics \<Rightarrow> int" where
  "total_cnt m = sum_list (map (\<lambda>(k, c, l). c) m)"

definition total_weighted_latency :: "metrics \<Rightarrow> rat" where
  "total_weighted_latency m = sum_list (map (\<lambda>(k, c, l). of_int c * l) m)"

text \<open>Packets per second and latency. A client without a matching line counts as zero.\<close>

definition client_rates :: "metrics \<Rightarrow> rat \<times> rat" where
  "client_rates m =
     (of_int (total_cnt m) / 45 * 2,
      if 0 < total_cnt m then total_weighted_latency m / of_int (total_cnt m) else 0)"

definition parse_iperf2_native_bounceback :: "string \<Rightarrow> (rat \<times> rat) res" where
  "parse_iperf2_native_bounceback output_text =
     ebind (note_lines (split_on (CHR 0x0A) (strip output_text)) []) (\<lambda>m. Inr (client_rates m))"

section \<open>The experiment\<close>

definition client_command :: "nat \<Rightarrow> nat \<Rightarrow> string" where
  "client_command step i =
     ''iperf -c '' @ SERVER_IP @ '' -p '' @ str_nat (IPERF_BASE_PORT + i mod NUM_SERVER_PORTS)
     @ '' --bounceback -l 100 --bounceback-period=0 --bounceback-reply 100 -t '' @ str_nat TEST_DURATION
     @ '' -N -e -P '' @ str_nat step"

text \<open>A worker acts in its own thread, which an exception of its own ends.\<close>

definition iperf_worker :: "iperf_env \<Rightarrow> nat \<Rightarrow> nat \<Rightarrow> unit iperf_io" where
  "iperf_worker E step i =
     try_except
       (bnd (SSH_execute E (CLIENT_IPS ! i) CLIENT_USER (client_command step i) True) (\<lambda>out.
        modify (\<lambda>s. s\<lparr>raw_results := (raw_results s)(step := raw_results s step @ [out])\<rparr>)))
       (\<lambda>e. ret ())"

definition iperf_round :: "iperf_env \<Rightarrow> nat \<Rightarrow> unit iperf_io" where
  "iperf_round E step = andthen (for_each (iperf_worker E step) (ie_order E step)) (ip_note (SleepFor 5))"

definition round_row :: "nat \<Rightarrow> string list \<Rightarrow> iperf_row res" where
  "round_row step outs =
     ebind (emap (\<lambda>(ip, out). parse_iperf2_native_bounceback out) (zip CLIENT_IPS outs)) (\<lambda>rates.
     let lats = filter (\<lambda>l. 0 < l) (map snd rates)
     in Inr \<lparr>row_step = step, row_streams = step * length CLIENT_IPS, row_pps = sum_list (map fst rates),
             row_latency = average (sum_list lats) (length lats)\<rparr>)"

definition report_round :: "nat \<Rightarrow> unit iperf_io" where
  "report_round step =
     bnd (gets (\<lambda>s. raw_results s step)) (\<lambda>outs.
     bnd (lift (round_row step outs)) (\<lambda>row. modify (\<lambda>s. s\<lparr>ip_rows := ip_rows s @ [row]\<rparr>)))"

definition iperf_main :: "iperf_env \<Rightarrow> unit iperf_io" where
  "iperf_main E =
     andthen (for_each (iperf_round E) THREAD_STEPS)
    (andthen (teardown_servers E)
     (for_each report_round THREAD_STEPS))"

definition iperf_script :: "iperf_env \<Rightarrow> unit iperf_io" where
  "iperf_script E =
     andthen (start_multithreaded_servers E) (try_finally (iperf_main E) (teardown_servers E))"

section \<open>Facts: the scan\<close>

lemma thread_captures:
  assumes "rx_search thread_pattern line = Some caps"
  obtains thread_id cnt lat where "caps = [thread_id, cnt, lat]" "cnt \<noteq> []" "\<forall>c \<in> set cnt. is_digit c"
proof -
  have "filter fst thread_pattern =
     [(True, Greedy 1 is_digit), (True, Greedy 1 is_digit), (True, Greedy 1 digit_or_dot)]"
    by (simp add: thread_pattern_def decimal_rx_def literal_def)
  with rx_search_captures [OF assms] obtain t c l where
    "caps = [t, c, l]" "\<forall>x \<in> set c. is_digit x" "1 \<le> length c"
    by (auto simp: list_all2_Cons1)
  then show ?thesis by (intro that) auto
qed

text \<open>The scan fails only where a latency has several dots.\<close>

lemma dec_float_error: "dec_float s = Inl e \<Longrightarrow> e = ValueError ''float''"
  by (auto simp: dec_float_def of_option_def split: list.splits option.splits)

text \<open>The reported rate divides by 45 seconds where a run takes 60: it is a third too high.\<close>

lemma rate_overstated:
  "fst (client_rates m) = 4 / 3 * (2 * of_int (total_cnt m) / of_nat TEST_DURATION)"
  by (simp add: client_rates_def TEST_DURATION_def)

lemma weighted_between:
  assumes "\<forall>(k, c, l) \<in> set m. 0 \<le> c \<and> lo \<le> l \<and> l \<le> hi"
  shows "of_int (total_cnt m) * lo \<le> total_weighted_latency m"
    and "total_weighted_latency m \<le> of_int (total_cnt m) * hi"
proof -
  have "of_int (total_cnt m) * lo \<le> total_weighted_latency m \<and> total_weighted_latency m \<le> of_int (total_cnt m) * hi"
    using assms
  proof (induction m)
    case (Cons x m)
    obtain k c l where x: "x = (k, c, l)" by (cases x)
    with Cons.prems have c: "0 \<le> (of_int c :: rat)" and "lo \<le> l" "l \<le> hi" by auto
    then have "of_int c * lo \<le> of_int c * l" "of_int c * l \<le> of_int c * hi"
      by (auto intro: mult_left_mono)
    with Cons show ?case by (auto simp: x total_cnt_def total_weighted_latency_def distrib_right)
  qed (simp add: total_cnt_def total_weighted_latency_def)
  then show "of_int (total_cnt m) * lo \<le> total_weighted_latency m"
    "total_weighted_latency m \<le> of_int (total_cnt m) * hi" by auto
qed

lemma client_latency_between:
  assumes "\<forall>(k, c, l) \<in> set m. 0 \<le> c \<and> lo \<le> l \<and> l \<le> hi" "0 < total_cnt m"
  shows "lo \<le> snd (client_rates m) \<and> snd (client_rates m) \<le> hi"
proof -
  have "0 < (of_int (total_cnt m) :: rat)" using assms(2) by simp
  then show ?thesis
    using weighted_between [OF assms(1)] assms(2)
    by (simp add: client_rates_def pos_le_divide_eq pos_divide_le_eq mult.commute)
qed

section \<open>Facts: a round\<close>

text \<open>Each of the ten clients has a server of its own.\<close>

lemma client_ports:
  "map (\<lambda>i. IPERF_BASE_PORT + i mod NUM_SERVER_PORTS) [0..<length CLIENT_IPS] = map (\<lambda>i. IPERF_BASE_PORT + i) [0..<NUM_SERVER_PORTS]"
  by (simp add: BASE_PORT_def NUM_SERVER_PORTS_def CLIENT_IPS_def upt_rec)

text \<open>Pairing the outputs with the clients loses none of them.\<close>

lemma round_row_zip:
  assumes "length outs \<le> length CLIENT_IPS"
  shows "emap (\<lambda>(ip, out). parse_iperf2_native_bounceback out) (zip CLIENT_IPS outs)
       = emap parse_iperf2_native_bounceback outs"
proof -
  have "emap (\<lambda>(ip, out). f out) (zip ips outs) = emap f outs" if "length outs \<le> length ips"
    for f :: "string \<Rightarrow> (rat \<times> rat) res" and ips
    using that by (induction ips outs rule: list_induct2') auto
  with assms show ?thesis by blast
qed

text \<open>The row of a round from the rates of its clients.\<close>

definition table_row :: "nat \<Rightarrow> (rat \<times> rat) list \<Rightarrow> iperf_row" where
  "table_row step rates =
     (let lats = filter (\<lambda>l. 0 < l) (map snd rates)
      in \<lparr>row_step = step, row_streams = step * length CLIENT_IPS, row_pps = sum_list (map fst rates),
          row_latency = average (sum_list lats) (length lats)\<rparr>)"

lemma round_row_Inr:
  "length outs \<le> length CLIENT_IPS \<Longrightarrow> round_row step outs = Inr row \<longleftrightarrow>
     (\<exists>rates. emap parse_iperf2_native_bounceback outs = Inr rates \<and> row = table_row step rates)"
  by (auto simp: round_row_def round_row_zip table_row_def Let_def)

section \<open>Facts: the experiment\<close>

definition client_events :: "nat \<Rightarrow> nat \<Rightarrow> iperf_event list" where
  "client_events step i =
     [SshCommand (CLIENT_IPS ! i) CLIENT_USER (client_command step i), SshClosed (CLIENT_IPS ! i)]"

definition round_events :: "iperf_env \<Rightarrow> nat \<Rightarrow> iperf_event list" where
  "round_events E step = concat (map (client_events step) (ie_order E step)) @ [SleepFor 5]"

definition teardown_events :: "iperf_event list" where
  "teardown_events = [SshCommand SERVER_IP SERVER_USER ''killall iperf'', SshClosed SERVER_IP]"

text \<open>What the clients of a round answer, in the order in which they get through: the output of the command, the
  empty text where an \<open>Exception\<close> came instead, nothing where something else ended the thread.\<close>

definition answered :: "string res \<Rightarrow> string list" where
  "answered r = (case r of Inr out \<Rightarrow> [out] | Inl e \<Rightarrow> if is_exception e then [[]] else [])"

fun collected :: "iperf_env \<Rightarrow> nat \<Rightarrow> iperf_event list \<Rightarrow> nat list \<Rightarrow> string list" where
  "collected E step tr [] = []"
| "collected E step tr (i # is) = answered (ie_answer E tr (CLIENT_IPS ! i) CLIENT_USER (client_command step i))
     @ collected E step (tr @ client_events step i) is"

fun outputs :: "iperf_env \<Rightarrow> iperf_event list \<Rightarrow> nat list \<Rightarrow> nat \<Rightarrow> string list" where
  "outputs E tr [] k = []"
| "outputs E tr (step # steps) k =
     (if k = step then collected E step tr (ie_order E step) else []) @ outputs E (tr @ round_events E step) steps k"

lemma SSH_execute_events:
  "snd (SSH_execute E ip user c b s) = s\<lparr>ip_trace := ip_trace s @ [SshCommand ip user c, SshClosed ip]\<rparr>"
  by (cases "ie_answer E (ip_trace s) ip user c")
    (auto simp: SSH_execute_def ip_command_def ip_note_def io_defs try_matching_def)

lemma SSH_execute_output:
  "fst (SSH_execute E ip user c True s) = (case ie_answer E (ip_trace s) ip user c of
     Inr out \<Rightarrow> Inr out | Inl e \<Rightarrow> if is_exception e then Inr [] else Inl e)"
  by (cases "ie_answer E (ip_trace s) ip user c")
    (auto simp: SSH_execute_def ip_command_def ip_note_def io_defs try_matching_def)

lemma worker_run:
  "iperf_worker E step i s = (Inr (), s\<lparr>ip_trace := ip_trace s @ client_events step i,
     raw_results := (raw_results s)(step := raw_results s step
       @ answered (ie_answer E (ip_trace s) (CLIENT_IPS ! i) CLIENT_USER (client_command step i)))\<rparr>)"
proof -
  obtain r t where run: "SSH_execute E (CLIENT_IPS ! i) CLIENT_USER (client_command step i) True s = (r, t)" by fastforce
  then have "t = s\<lparr>ip_trace := ip_trace s @ client_events step i\<rparr>"
    "r = (case ie_answer E (ip_trace s) (CLIENT_IPS ! i) CLIENT_USER (client_command step i) of
       Inr out \<Rightarrow> Inr out | Inl e \<Rightarrow> if is_exception e then Inr [] else Inl e)"
    using SSH_execute_events [of E "CLIENT_IPS ! i" CLIENT_USER "client_command step i" True s]
      SSH_execute_output [of E "CLIENT_IPS ! i" CLIENT_USER "client_command step i" s]
    by (simp_all add: client_events_def)
  with run show ?thesis
    by (auto simp: iperf_worker_def try_except_def bnd_def modify_def ret_def answered_def split: sum.splits)
qed

lemma workers_run:
  "for_each (iperf_worker E step) is s = (Inr (), s\<lparr>ip_trace := ip_trace s @ concat (map (client_events step) is),
     raw_results := (raw_results s)(step := raw_results s step @ collected E step (ip_trace s) is)\<rparr>)"
  by (induction "is" arbitrary: s) (simp_all add: worker_run)

lemma rounds_run:
  "for_each (iperf_round E) steps s = (Inr (), s\<lparr>ip_trace := ip_trace s @ concat (map (round_events E) steps),
     raw_results := (\<lambda>k. raw_results s k @ outputs E (ip_trace s) steps k)\<rparr>)"
proof (induction steps arbitrary: s)
  case (Cons step steps)
  have "iperf_round E step s = (Inr (), s\<lparr>ip_trace := ip_trace s @ round_events E step,
     raw_results := (raw_results s)(step := raw_results s step @ collected E step (ip_trace s) (ie_order E step))\<rparr>)"
    by (simp add: iperf_round_def andthen_def bnd_def workers_run ip_note_def modify_def round_events_def)
  with Cons show ?case by (auto simp: fun_eq_iff)
qed simp

lemma teardown_run:
  "\<exists>r. teardown_servers E s = (r, s\<lparr>ip_trace := ip_trace s @ teardown_events\<rparr>)"
  using SSH_execute_events [of E SERVER_IP SERVER_USER "''killall iperf''" False s]
  by (auto simp: teardown_servers_def andthen_def bnd_def ret_def teardown_events_def split: prod.split sum.split)

text \<open>The reports stop at the first round that has no row.\<close>

lemma reports_run:
  assumes "for_each report_round steps s = (r, t)"
  shows "\<exists>n rows. n \<le> length steps \<and> emap (\<lambda>k. round_row k (raw_results s k)) (take n steps) = Inr rows
    \<and> t = s\<lparr>ip_rows := ip_rows s @ rows\<rparr> \<and> (r = Inr () \<longleftrightarrow> n = length steps)"
  using assms
proof (induction steps arbitrary: s)
  case (Cons k steps)
  show ?case
  proof (cases "round_row k (raw_results s k)")
    case (Inl e)
    with Cons.prems have "r = Inl e" "t = s" by (auto simp: report_round_def bnd_def andthen_def gets_def lift_def)
    then show ?thesis by (intro exI [of _ 0]) simp
  next
    case (Inr row)
    let ?s = "s\<lparr>ip_rows := ip_rows s @ [row]\<rparr>"
    have "report_round k s = (Inr (), ?s)" by (simp add: report_round_def bnd_def gets_def lift_def Inr modify_def)
    with Cons.prems have "for_each report_round steps ?s = (r, t)" by (simp add: andthen_def bnd_def)
    from Cons.IH [OF this] obtain n rows where "n \<le> length steps"
      "emap (\<lambda>k. round_row k (raw_results s k)) (take n steps) = Inr rows"
      "t = s\<lparr>ip_rows := ip_rows s @ row # rows\<rparr>" "r = Inr () \<longleftrightarrow> n = length steps" by auto
    with Inr show ?thesis by (intro exI [of _ "Suc n"] exI [of _ "row # rows"]) auto
  qed
qed simp

lemma reports_done:
  "\<forall>k \<in> set steps. \<exists>row. round_row k (raw_results s k) = Inr row \<Longrightarrow> fst (for_each report_round steps s) = Inr ()"
  by (induction steps arbitrary: s) (auto simp: report_round_def andthen_def bnd_def gets_def lift_def modify_def)

lemma main_returns:
  assumes "\<And>tr ip user c e. ie_answer E tr ip user c = Inl e \<Longrightarrow> is_exception e" and "raw_results s = (\<lambda>_. [])"
    and "\<forall>k \<in> set THREAD_STEPS. \<exists>row. round_row k (outputs E (ip_trace s) THREAD_STEPS k) = Inr row"
  shows "fst (iperf_main E s) = Inr ()"
proof -
  let ?u = "s\<lparr>ip_trace := ip_trace s @ concat (map (round_events E) THREAD_STEPS),
    raw_results := outputs E (ip_trace s) THREAD_STEPS\<rparr>"
  have "\<exists>x t. teardown_servers E ?u = (Inr x, t) \<and> raw_results t = raw_results ?u"
    using assms(1) by (cases "ie_answer E (ip_trace ?u) SERVER_IP SERVER_USER ''killall iperf''")
      (auto simp: teardown_servers_def SSH_execute_def ip_command_def ip_note_def io_defs try_matching_def)
  then obtain x t where "teardown_servers E ?u = (Inr x, t)" "raw_results t = outputs E (ip_trace s) THREAD_STEPS" by auto
  with reports_done [of THREAD_STEPS t] assms(3) show ?thesis
    by (simp add: iperf_main_def andthen_def bnd_def rounds_run assms(2))
qed

lemma collected_length: "length (collected E step tr is) \<le> length is"
proof (induction "is" arbitrary: tr)
  case (Cons i "is")
  have "length (answered r) \<le> 1" for r by (simp add: answered_def split: sum.split)
  from add_mono [OF this Cons.IH] show ?case by simp
qed simp

lemma outputs_length:
  "distinct steps \<Longrightarrow> \<forall>k \<in> set steps. length (ie_order E k) \<le> m \<Longrightarrow> length (outputs E tr steps k) \<le> m"
proof (induction steps arbitrary: tr)
  case (Cons step steps)
  have none: "outputs E tr' steps step = []" if "step \<notin> set steps" for tr'
    using that by (induction steps arbitrary: tr') auto
  from collected_length [of E step tr "ie_order E step"] Cons.prems(2) have "length (collected E step tr (ie_order E step)) \<le> m"
    by (force intro: le_trans)
  with Cons none show ?case by auto
qed simp

section \<open>Properties\<close>

text \<open>C40. What the benchmark does and reports, whatever the commands answer and in whatever order the ten
  clients of a round get through: in every round every client runs its command once, a failure of one does
  not stop the others, the servers are torn down, and the answers of a round are collected in the order in
  which the clients got through, a failed connection counting as an empty answer. The table has a row for each
  round, computed from the rates of all answers of that round; it stops at the first round with an answer
  that cannot be read, and it is complete exactly when the benchmark ends without an exception.\<close>

theorem iperf_table:
  assumes "\<forall>k \<in> set THREAD_STEPS. mset (ie_order E k) = mset [0..<length CLIENT_IPS]"
    and "raw_results s = (\<lambda>_. [])" and "iperf_main E s = (r, t)"
  shows "ip_trace t = ip_trace s @ concat (map (round_events E) THREAD_STEPS) @ teardown_events
    \<and> raw_results t = outputs E (ip_trace s) THREAD_STEPS
    \<and> (\<exists>n rows. n \<le> length THREAD_STEPS \<and> ip_rows t = ip_rows s @ rows \<and> (r = Inr () \<longleftrightarrow> n = length THREAD_STEPS)
        \<and> list_all2 (\<lambda>k row. \<exists>rates. emap parse_iperf2_native_bounceback (raw_results t k) = Inr rates
            \<and> row = table_row k rates) (take n THREAD_STEPS) rows)"
proof -
  let ?tr = "ip_trace s @ concat (map (round_events E) THREAD_STEPS)" and ?raw = "outputs E (ip_trace s) THREAD_STEPS"
  let ?u = "s\<lparr>ip_trace := ?tr @ teardown_events, raw_results := ?raw\<rparr>"
  obtain q where "teardown_servers E (s\<lparr>ip_trace := ?tr, raw_results := ?raw\<rparr>) = (q, ?u)"
    using teardown_run [of E "s\<lparr>ip_trace := ?tr, raw_results := ?raw\<rparr>"] by auto
  with assms(3) have run: "(case q of Inl e \<Rightarrow> (Inl e, ?u) | Inr x \<Rightarrow> for_each report_round THREAD_STEPS ?u) = (r, t)"
    unfolding iperf_main_def by (auto simp: andthen_def bnd_def rounds_run assms(2) split: sum.splits)
  have "\<exists>n rows. n \<le> length THREAD_STEPS \<and> emap (\<lambda>k. round_row k (?raw k)) (take n THREAD_STEPS) = Inr rows
    \<and> t = ?u\<lparr>ip_rows := ip_rows s @ rows\<rparr> \<and> (r = Inr () \<longleftrightarrow> n = length THREAD_STEPS)"
  proof (cases q)
    case (Inl e)
    with run show ?thesis by (intro exI [of _ 0]) (auto simp: THREAD_STEPS_def)
  next
    case (Inr x)
    with run have "for_each report_round THREAD_STEPS ?u = (r, t)" by simp
    from reports_run [OF this] show ?thesis by simp
  qed
  then obtain n rows where n: "n \<le> length THREAD_STEPS" "r = Inr () \<longleftrightarrow> n = length THREAD_STEPS"
    and rows: "emap (\<lambda>k. round_row k (?raw k)) (take n THREAD_STEPS) = Inr rows"
    and t: "t = ?u\<lparr>ip_rows := ip_rows s @ rows\<rparr>" by blast
  have "length (ie_order E k) \<le> length CLIENT_IPS" if "k \<in> set THREAD_STEPS" for k
    using assms(1) that by (metis diff_zero eq_imp_le length_upt size_mset)
  then have "length (?raw k) \<le> length CLIENT_IPS" for k
    by (intro outputs_length) (simp_all add: THREAD_STEPS_def)
  then have "list_all2 (\<lambda>k row. \<exists>rates. emap parse_iperf2_native_bounceback (?raw k) = Inr rates \<and> row = table_row k rates)
      (take n THREAD_STEPS) rows"
    using rows by (simp add: emap_Inr_iff round_row_Inr)
  with n t show ?thesis by auto
qed

theorem iperf_table_witness:
  "\<exists>t. iperf_main \<lparr>ie_answer = (\<lambda>tr ip user c.
         if ip = ''10.10.1.4'' then Inr ''[ 5] 0.0-45.0 sec 90=0.5/'' else Inl (OSError ''refused'')),
         ie_order = (\<lambda>k. rev [0..<10])\<rparr> \<lparr>ip_trace = [], raw_results = (\<lambda>_. []), ip_rows = []\<rparr> = (Inr (), t)
     \<and> raw_results t 5 = replicate 8 [] @ [''[ 5] 0.0-45.0 sec 90=0.5/'', []]
     \<and> map row_streams (ip_rows t) = [10, 50, 100, 150, 200, 300] \<and> row_pps (ip_rows t ! 1) = 4"
proof -
  let ?E = "\<lparr>ie_answer = (\<lambda>tr ip (user :: string) (c :: string). if ip = ''10.10.1.4''
     then Inr ''[ 5] 0.0-45.0 sec 90=0.5/'' else Inl (OSError ''refused'')), ie_order = (\<lambda>k. rev [0..<10])\<rparr>"
  let ?s = "\<lparr>ip_trace = [], raw_results = (\<lambda>_. []), ip_rows = []\<rparr>"
  let ?answers = "replicate 8 [] @ [''[ 5] 0.0-45.0 sec 90=0.5/'', []]"
  have outs: "\<forall>k \<in> set THREAD_STEPS. outputs ?E [] THREAD_STEPS k = ?answers"
    by (simp add: THREAD_STEPS_def CLIENT_IPS_def answered_def upt_rec numeral_eq_Suc)
  have parsed: "emap parse_iperf2_native_bounceback ?answers = Inr (replicate 8 (0, 0) @ [(4, 1/2), (0, 0)])"
    by code_simp
  have "\<forall>k \<in> set THREAD_STEPS. \<exists>row. round_row k (outputs ?E [] THREAD_STEPS k) = Inr row"
  proof
    fix k assume "k \<in> set THREAD_STEPS"
    with outs have "outputs ?E [] THREAD_STEPS k = ?answers" by blast
    with parsed show "\<exists>row. round_row k (outputs ?E [] THREAD_STEPS k) = Inr row"
      using round_row_Inr [of ?answers k] by (auto simp: CLIENT_IPS_def)
  qed
  then have good: "\<forall>k \<in> set THREAD_STEPS. \<exists>row. round_row k (outputs ?E (ip_trace ?s) THREAD_STEPS k) = Inr row"
    unfolding iperf.select_convs .
  have exc: "is_exception e" if "ie_answer ?E tr ip user c = Inl e" for tr ip user c e
    using that by (cases "ip = ''10.10.1.4''") auto
  have "fst (iperf_main ?E ?s) = Inr ()" by (rule main_returns [OF exc _ good]) simp_all
  then obtain t where run: "iperf_main ?E ?s = (Inr (), t)" by (metis prod.collapse)
  have order: "\<forall>k \<in> set THREAD_STEPS. mset (ie_order ?E k) = mset [0..<length CLIENT_IPS]"
    by (simp add: CLIENT_IPS_def numeral_eq_Suc del: upt_Suc upt_rec_numeral)
  from iperf_table [OF order _ run] obtain rows where raw: "raw_results t = outputs ?E [] THREAD_STEPS"
    and rows: "ip_rows t = rows" "list_all2 (\<lambda>k row. \<exists>rates. emap parse_iperf2_native_bounceback (raw_results t k) = Inr rates
      \<and> row = table_row k rates) THREAD_STEPS rows"
    by auto
  have five: "raw_results t 5 = ?answers" using outs unfolding raw by (simp add: THREAD_STEPS_def)
  from list_all2_nthD [OF rows(2), of 1] five parsed
  have "rows ! 1 = table_row 5 (replicate 8 (0, 0) @ [(4, 1/2), (0, 0)])" by (simp add: THREAD_STEPS_def)
  then have "row_pps (rows ! 1) = 4" by (simp add: table_row_def numeral_eq_Suc)
  moreover have "list_all2 (\<lambda>k row. row_streams row = k * 10) THREAD_STEPS rows"
    using rows(2) by (rule list_all2_mono) (auto simp: table_row_def CLIENT_IPS_def Let_def)
  then have "map row_streams rows = map (\<lambda>k. k * 10) THREAD_STEPS"
    by (induction rule: list_all2_induct) simp_all
  then have "map row_streams rows = [10, 50, 100, 150, 200, 300]" by (simp add: THREAD_STEPS_def)
  ultimately show ?thesis using run five unfolding rows(1) [symmetric] by (intro exI [of _ t] conjI)
qed

end
