(* ===== verification/Side_Scripts.thy ===== *)
theory Side_Scripts
  imports Py_Regex Remote Aggregate
begin

text \<open>
  Two small scripts beside the experiments: socket_tracker.py, which samples the queues of the switch's
  sockets into a file, and experiments/scripts/setup.py, which sets up the machines one after the other.
\<close>

section \<open>Sampling the sockets\<close>

datatype ss_result = SsOutput string | SsExit int | SsBreaks py_error

definition process_regex :: regex where
  "process_regex = literal ([CHR 0x22] @ ''switch'' @ [CHR 0x22])"

text \<open>A line of the target process with at least four words, the second and third of which are numbers.\<close>

definition socket_line :: "string \<Rightarrow> (int \<times> int) option" where
  "socket_line line =
     (if rx_search process_regex line = None then None
      else let parts = split_ws line
           in if length parts < 4 then None
              else (case ebind (py_int (parts ! 1)) (\<lambda>r. ebind (py_int (parts ! 2)) (\<lambda>s. Inr (r, s))) of
                      Inr q \<Rightarrow> Some q
                    | Inl e \<Rightarrow> None))"

definition get_socket_data :: "ss_result \<Rightarrow> (int \<times> int) list res" where
  "get_socket_data r =
     (case r of
        SsExit c \<Rightarrow> Inr []
      | SsBreaks (FileNotFound f) \<Rightarrow> Inl (SystemExit 1)
      | SsBreaks e \<Rightarrow> Inl e
      | SsOutput out \<Rightarrow> Inr (List.map_filter socket_line (drop 1 (split_on (CHR 0x0A) (strip out)))))"

text \<open>One round of the loop: the answer of \<open>ss\<close>, the clock before and after it, the time stamp.\<close>

record sample =
  sa_result :: ss_result
  sa_start :: rat
  sa_end :: rat
  sa_stamp :: string

definition socket_header :: "string list" where
  "socket_header = [''Sock1_Recv_Q'', ''Sock1_Send_Q'', ''Sock2_Recv_Q'', ''Sock2_Send_Q'', ''Timestamp'']"

type_synonym socket_row = "int \<times> int \<times> int \<times> int \<times> string"

definition tracker_row :: "(int \<times> int) list \<Rightarrow> string \<Rightarrow> socket_row" where
  "tracker_row sockets stamp =
     (let (r1, s1) = (if 1 \<le> length sockets then sockets ! 0 else (0, 0));
          (r2, s2) = (if 2 \<le> length sockets then sockets ! 1 else (0, 0))
      in (r1, s1, r2, s2, stamp))"

definition tracker_sleep :: "sample \<Rightarrow> rat" where
  "tracker_sleep x = max 0 (1 - (sa_end x - sa_start x))"

text \<open>The rows of the file below its header and the pauses, for the rounds up to the interrupt, which ends the loop normally.\<close>

fun track_sockets :: "sample list \<Rightarrow> (socket_row \<times> rat) list \<times> py_error option" where
  "track_sockets [] = ([], None)"
| "track_sockets (x # xs) =
     (case get_socket_data (sa_result x) of
        Inl e \<Rightarrow> ([], Some e)
      | Inr sockets \<Rightarrow>
          (case track_sockets xs of
             (rows, e) \<Rightarrow> ((tracker_row sockets (sa_stamp x), tracker_sleep x) # rows, e)))"

text \<open>A round takes the interval, or as long as the answer took where that is more.\<close>

lemma tracker_period: "sa_end x - sa_start x + tracker_sleep x = max 1 (sa_end x - sa_start x)"
  by (simp add: tracker_sleep_def max_def)

lemma track_rows:
  "track_sockets xs = (rows, e) \<Longrightarrow>
     length rows \<le> length xs \<and> (e = None \<longleftrightarrow> length rows = length xs)
     \<and> map (\<lambda>((_, _, _, _, stamp), _). stamp) rows = take (length rows) (map sa_stamp xs)"
proof (induction xs arbitrary: rows)
  case (Cons x xs)
  show ?case
  proof (cases "get_socket_data (sa_result x)")
    case (Inr sockets)
    obtain rs f where "track_sockets xs = (rs, f)" by fastforce
    with Inr Cons show ?thesis by (auto simp: tracker_row_def Let_def split: prod.splits)
  qed (use Cons.prems in auto)
qed simp

text \<open>Only a missing program ends the tracker; an error of it is a row of zeros.\<close>

lemma failing_ss: "get_socket_data (SsExit c) = Inr []" "tracker_row [] stamp = (0, 0, 0, 0, stamp)"
  by (simp_all add: get_socket_data_def tracker_row_def)

lemma missing_ss: "track_sockets (\<lparr>sa_result = SsBreaks (FileNotFound f), sa_start = a, sa_end = b, sa_stamp = t\<rparr> # xs)
     = ([], Some (SystemExit 1))"
  by (simp add: get_socket_data_def)

section \<open>Setting up the machines\<close>

definition setup_command :: "string \<Rightarrow> string \<Rightarrow> string \<Rightarrow> string list" where
  "setup_command ip setup_script_path ssh_user =
     [''ssh'', ''-o'', ''StrictHostKeyChecking=no'', ''-o'', ''UserKnownHostsFile=/dev/null'', ssh_user @ ''@'' @ ip,
      setup_script_path]"

definition run_machine_setup :: "env \<Rightarrow> string \<Rightarrow> string \<Rightarrow> string \<Rightarrow> bool act_io" where
  "run_machine_setup E ip setup_script_path ssh_user = run_checked E (setup_command ip setup_script_path ssh_user)"

definition setup_machines :: "env \<Rightarrow> unit act_io" where
  "setup_machines E =
     for_each (\<lambda>i. andthen (run_machine_setup E (''10.10.1.'' @ str_nat i)
                 ''/proj/ove-PG0/murray/pringles/setup.sh'' ''murray22'') (ret ()))
       [2..<7 + 2]"

text \<open>Every machine is set up, whatever happened on the ones before it.\<close>

lemma setup_each: "for_each (\<lambda>i. andthen (run_machine_setup E (ip i) p u) (ret ())) is tr
     = (Inr (), tr @ map (\<lambda>i. Run (setup_command (ip i) p u)) is)"
  by (induction "is" arbitrary: tr)
    (simp_all add: run_machine_setup_def run_checked_def run_action_def io_defs)

lemma setup_machines_all:
  "setup_machines E tr = (Inr (), tr @ map (\<lambda>i. Run (setup_command (''10.10.1.'' @ str_nat i)
     ''/proj/ove-PG0/murray/pringles/setup.sh'' ''murray22'')) [2..<9])"
  by (simp add: setup_machines_def setup_each)

end
