(* ===== verification/Plot_Data.thy ===== *)
theory Plot_Data
  imports Aggregate "HOL-Library.Product_Lexorder"
begin

text \<open>
  experiments/scripts/plotting.py and plot.py, as far as they choose and order the data: which files
  give a point, the points of each graph in the order of its lines, the styles. Drawing and the tables
  of pandas are libraries'. (plotting.py begins with a statement \<open>return\<close> outside of a function and
  does not load as it is; its function is modelled as it would run.)
\<close>

section \<open>The summary plots\<close>

definition is_summary_file :: "string \<Rightarrow> bool" where
  "is_summary_file f = (ends_with f ''.json'' \<and> length (split_on (CHR ''_'') f) = 1)"

definition x_field :: "string \<Rightarrow> string option" where
  "x_field plot_param =
     (if plot_param = ''num_clients'' then Some ''num_clients''
      else if plot_param = ''switches_in_ring'' then Some ''num_switches_in_ring'' else None)"

type_synonym point = "rat \<times> rat \<times> rat"

text \<open>A file gives a point when its three fields are numbers. An exception skips the file.\<close>

definition point_of :: "string \<Rightarrow> pyval \<Rightarrow> point option res" where
  "point_of x data =
     ebind (py_get data x) (\<lambda>n.
     ebind (py_get data ''agg_tput'') (\<lambda>tput.
     ebind (py_get data ''total_avg_latency'') (\<lambda>lat.
     ebind (py_get data ''batch_size'') (\<lambda>batch.
     Inr (if is_number n \<and> is_number tput \<and> is_number lat
          then Some (number_of n, number_of tput, number_of lat) else None)))))"

definition file_point :: "(string \<Rightarrow> pyval res) \<Rightarrow> string \<Rightarrow> string \<Rightarrow> point option" where
  "file_point load x f = (case ebind (load f) (point_of x) of Inr p \<Rightarrow> p | Inl e \<Rightarrow> None)"

definition plot_points :: "(string \<Rightarrow> pyval res) \<Rightarrow> string list \<Rightarrow> string \<Rightarrow> point list" where
  "plot_points load all_files plot_param =
     (case x_field plot_param of
        None \<Rightarrow> []
      | Some x \<Rightarrow> sort (List.map_filter (file_point load x) (filter is_summary_file all_files)))"

record plot =
  pl_file :: string
  pl_xlabel :: string
  pl_ylabel :: string
  pl_points :: "(rat \<times> rat) list"

text \<open>The three graphs; none without a point.\<close>

definition plot_results :: "(string \<Rightarrow> pyval res) \<Rightarrow> string \<Rightarrow> string list \<Rightarrow> string \<Rightarrow> plot list" where
  "plot_results load dir all_files plot_param =
     (let ps = plot_points load all_files plot_param
      in if ps = [] then []
         else [\<lparr>pl_file = path_join dir ''throughput_vs_clients.png'', pl_xlabel = ''Number of Clients'',
                pl_ylabel = ''Aggregate Throughput'', pl_points = map (\<lambda>(x, t, l). (x, t)) ps\<rparr>,
               \<lparr>pl_file = path_join dir ''latency_vs_clients.png'', pl_xlabel = ''Number of Clients'',
                pl_ylabel = ''Total Average Latency (ms)'', pl_points = map (\<lambda>(x, t, l). (x, l)) ps\<rparr>,
               \<lparr>pl_file = path_join dir ''throughput_vs_latency.png'', pl_xlabel = ''Aggregate Throughput'',
                pl_ylabel = ''Total Average Latency (ms)'', pl_points = map (\<lambda>(x, t, l). (t, l)) ps\<rparr>])"

section \<open>Plotting chosen fields\<close>

text \<open>\<open>os.path.splitext(os.path.basename(p))[0]\<close>: leading dots do not start an extension.\<close>

definition file_stem :: "string \<Rightarrow> string" where
  "file_stem p =
     (let name = basename p
      in case rfind_char (CHR ''.'') name of
           None \<Rightarrow> name
         | Some i \<Rightarrow> if list_all (\<lambda>c. c = CHR ''.'') (take i name) then name else take i name)"

text \<open>The row of a file: fields of the same name are one field, the last one. A file that does not parse
  (a \<open>ValueError\<close> here) or lacks a field gives none; other exceptions end the script.\<close>

definition plot_row ::
  "(string \<Rightarrow> pyval res) \<Rightarrow> (string \<Rightarrow> rat) \<Rightarrow> string \<Rightarrow> string \<Rightarrow> string \<Rightarrow> (string \<times> pyval) list option res" where
  "plot_row load mtime x_key y_key p =
     (case ebind (load p) (\<lambda>d.
         ebind (py_in x_key d) (\<lambda>a. ebind (if a then py_in y_key d else Inr False) (\<lambda>b.
         ebind (if b then py_in ''system_name'' d else Inr False) (\<lambda>c.
         if \<not> c then Inr None
         else ebind (py_item d x_key) (\<lambda>x. ebind (py_item d y_key) (\<lambda>y. ebind (py_item d ''system_name'') (\<lambda>s.
              Inr (Some (dict_update [] [(x_key, x), (y_key, y), (''system_name'', s),
                (''filename'', PStr (file_stem p)), (''timestamp'', PFloat (mtime p))])))))))))
      of Inl (ValueError m) \<Rightarrow> Inr None | r \<Rightarrow> r)"

definition plot_rows ::
  "(string \<Rightarrow> string list) \<Rightarrow> (string \<Rightarrow> pyval res) \<Rightarrow> (string \<Rightarrow> rat) \<Rightarrow> string \<Rightarrow> string \<Rightarrow> string list
     \<Rightarrow> (string \<times> pyval) list list res" where
  "plot_rows glob load mtime x_key y_key dirs =
     ebind (emap (plot_row load mtime x_key y_key) (concat (map (\<lambda>d. glob (path_join d ''*.json'')) dirs)))
       (\<lambda>rows. Inr (List.map_filter id rows))"

definition line_colors :: "string list" where
  "line_colors = [''#1f77b4'', ''#ff7f0e'', ''#2ca02c'', ''#800080'', ''#d62728'', ''#8c564b'']"

definition line_styles :: "string list" where
  "line_styles = [''-'', ''-'', ''-'', ''-'', ''--'', ''-.'']"

definition line_markers :: "string list" where
  "line_markers = [''o'', ''x'', ''s'', ''D'', ''^'', ''v'']"

definition group_style :: "nat \<Rightarrow> string \<times> string \<times> string" where
  "group_style i =
     (line_colors ! (i mod length line_colors), line_styles ! (i mod length line_styles),
      line_markers ! (i mod length line_markers))"

section \<open>Facts\<close>

text \<open>The graphs do not depend on the order in which the directory lists the files.\<close>

lemma plot_points_mset:
  assumes "mset fs = mset gs"
  shows "plot_points load fs p = plot_points load gs p"
proof -
  have "mset (List.map_filter h (filter is_summary_file fs)) = mset (List.map_filter h (filter is_summary_file gs))"
    for h :: "string \<Rightarrow> point option"
    using assms by (simp add: List.map_filter_def)
  then show ?thesis
    by (auto simp: plot_points_def split: option.split intro: properties_for_sort)
qed

lemma plot_results_mset: "mset fs = mset gs \<Longrightarrow> plot_results load dir fs p = plot_results load dir gs p"
  by (simp add: plot_results_def plot_points_mset [of fs gs])

text \<open>The lines run from left to right.\<close>

lemma plot_points_sorted: "sorted (map fst (plot_points load fs p))"
proof -
  have "sorted ps \<Longrightarrow> sorted (map fst ps)" for ps :: "point list"
    by (induction ps) (auto simp: less_eq_prod_def)
  then show ?thesis by (simp add: plot_points_def split: option.split)
qed

lemma map_filter_mem: "y \<in> set (List.map_filter f xs) \<longleftrightarrow> (\<exists>x \<in> set xs. f x = Some y)"
  by (force simp: List.map_filter_def image_iff)

text \<open>Every point is that of a summary file with three numbers, and every such file has its point.\<close>

lemma plot_points_mem:
  "q \<in> set (plot_points load fs p) \<longleftrightarrow>
     (\<exists>x f. x_field p = Some x \<and> f \<in> set fs \<and> is_summary_file f \<and> file_point load x f = Some q)"
  by (cases "x_field p") (auto simp: plot_points_def map_filter_mem)

text \<open>Six groups have styles of their own, the seventh looks like the first.\<close>

lemma group_style_inj: "distinct (map group_style [0..<6])" "group_style (i + 6) = group_style i"
  by (code_simp, simp add: group_style_def line_colors_def line_styles_def line_markers_def mod_add_self2)

lemma file_stem_json: "file_stem ''runs/a.b.json'' = ''a.b''" "file_stem ''.json'' = ''.json''"
  by code_simp+

end
