(* ===== verification/Old_Runner.thy ===== *)
theory Old_Runner
  imports Cycle_Base
begin

text \<open>
  experiments/scripts/old_experiment_scripts, the versions 6 to 9 of the runner before experiment.py: one
  client, several storage servers, one experiment. Version 9 is modelled; what came with the versions
  before it are switches of the model: commands as root (7), longer servers, a folder for the results
  and their collection (8), aggregation (9).
\<close>

section \<open>Versions\<close>

record version =
  ve_sudo :: bool
  ve_collects :: bool
  ve_aggregates :: bool

definition version_6 :: version where
  "version_6 = \<lparr>ve_sudo = False, ve_collects = False, ve_aggregates = False\<rparr>"

definition version_7 :: version where
  "version_7 = \<lparr>ve_sudo = True, ve_collects = False, ve_aggregates = False\<rparr>"

definition version_8 :: version where
  "version_8 = \<lparr>ve_sudo = True, ve_collects = True, ve_aggregates = False\<rparr>"

definition version_9 :: version where
  "version_9 = \<lparr>ve_sudo = True, ve_collects = True, ve_aggregates = True\<rparr>"

section \<open>Configurations\<close>

definition SINGLE_BASE_PORT :: int where "SINGLE_BASE_PORT = 50000"
definition SETUP_SCRIPT_PATH :: string where "SETUP_SCRIPT_PATH = ''/proj/ove-PG0/murray/pringles/setup.sh''"
definition COMPILATION_DIR :: string where "COMPILATION_DIR = ''/proj/ove-PG0/murray/pringles/build''"
definition RESULTS_BASE_DIR :: string where "RESULTS_BASE_DIR = ''/proj/ove-PG0/murray/pringles/experiments/results''"

definition single_duration :: "version \<Rightarrow> pyval \<Rightarrow> string \<Rightarrow> pyval res" where
  "single_duration V base entity_type =
     ebind (cfg base ''experiment_parameters'' ''experiment_duration'') (\<lambda>d.
     if ve_collects V \<and> entity_type = ''server'' then py_add d (PInt SERVER_START_DELAY) else Inr d)"

definition single_fields :: "version \<Rightarrow> pyval \<Rightarrow> string \<Rightarrow> string \<Rightarrow> int \<Rightarrow> (string \<times> pyval res) list" where
  "single_fields V base entity_type entity_ip port_offset =
     (let ex = cfg base ''experiment_parameters''; batching = cfg base ''protocol_batching''
      in [(''log_level'', ex ''log_level''),
          (''send_port'', Inr (PInt (SINGLE_BASE_PORT + port_offset))),
          (''recv_port'', Inr (PInt (SINGLE_BASE_PORT + port_offset + 1))),
          (''send_threads'', Inr (PInt 1)),
          (''socket_type'', quoted (ex ''socket_type'')),
          (''self_ip'', Inr (PQuoted (PStr entity_ip))),
          (''interface'', quoted (cfg base ''network_setup'' ''network_interface'')),
          (''batch_size'', batching ''batch_size''),
          (''batch_on'', batching ''batch_on''),
          (''num_pkt_types'', batching ''num_packet_types''),
          (''experiment_duration'', single_duration V base entity_type),
          (''payload_size'', ex ''message_size'')])"

definition addresses :: "string \<Rightarrow> pyval \<Rightarrow> pyval" where
  "addresses k v = PList [PDict [(k, v)]]"

definition single_client_fields :: "pyval \<Rightarrow> int \<Rightarrow> string \<Rightarrow> pyval \<Rightarrow> pyval \<Rightarrow> (string \<times> pyval res) list" where
  "single_client_fields base entity_id json_name macs ips =
     [(''sequencer_type'', cfg base ''protocol_batching'' ''sequencer_type''),
      (''num_client_threads'', cfg base ''experiment_parameters'' ''num_client_threads''),
      (''cli_id'', Inr (PInt entity_id)),
      (''json_name'', Inr (PQuoted (PStr json_name))),
      (''packet_types'', Inr (addresses ''ips'' ips)),
      (''packet_types_macs'', Inr (addresses ''macs'' macs))]"

definition single_server_fields ::
  "pyval \<Rightarrow> int \<Rightarrow> pyval \<Rightarrow> int \<Rightarrow> int \<Rightarrow> pyval \<Rightarrow> pyval \<Rightarrow> (string \<times> pyval res) list" where
  "single_server_fields base entity_id dst_mac shard_id shard_switch_id macs ips =
     [(''storage_type'', cfg base ''protocol_batching'' ''storage_server_type''),
      (''shard_id'', Inr (PInt shard_id)),
      (''shard_switch_id'', Inr (PInt shard_switch_id)),
      (''stor_id'', Inr (PInt entity_id)),
      (''dst_mac'', Inr (PQuoted dst_mac)),
      (''packet_types'', Inr (addresses ''ips'' ips)),
      (''packet_types_macs'', Inr (addresses ''macs'' macs))]"

text \<open>The fields of both kinds, then those of a client or of a server.\<close>

definition single_base_config ::
  "version \<Rightarrow> pyval \<Rightarrow> string \<Rightarrow> string \<Rightarrow> int \<Rightarrow> ((string \<times> pyval) list \<times> pyval) res" where
  "single_base_config V base entity_type entity_ip port_offset =
     ebind (if ve_collects V then single_duration V base entity_type else Inr PNone) (\<lambda>_.
     ebind (display (single_fields V base entity_type entity_ip port_offset)) (\<lambda>d.
     ebind (quoted_list (cfg base ''routing'' ''client_dest_macs'')) (\<lambda>macs. Inr (d, macs))))"

definition single_client_config ::
  "version \<Rightarrow> pyval \<Rightarrow> string \<Rightarrow> int \<Rightarrow> int \<Rightarrow> string \<Rightarrow> (string \<times> pyval) list res" where
  "single_client_config V base ip port_offset entity_id json_name =
     ebind (single_base_config V base ''client'' ip port_offset) (\<lambda>(d, macs).
     ebind (quoted_list (cfg base ''routing'' ''list_client_dest_ips'')) (\<lambda>ips.
     ebind (display (single_client_fields base entity_id json_name macs ips)) (\<lambda>u. Inr (dict_update d u))))"

definition single_server_config ::
  "env \<Rightarrow> version \<Rightarrow> pyval \<Rightarrow> string \<Rightarrow> int \<Rightarrow> int \<Rightarrow> pyval \<Rightarrow> (string \<times> pyval) list act_io" where
  "single_server_config E V base ip port_offset entity_id dst_mac =
     bnd (lift (single_base_config V base ''server'' ip port_offset)) (\<lambda>(d, macs).
     bnd (lift (quoted_list (cfg base ''routing'' ''list_storage_server_dest_ips''))) (\<lambda>ips.
     bnd (random_int E 0 999) (\<lambda>shard_id.
     bnd (random_int E 0 9) (\<lambda>shard_switch_id.
     bnd (lift (display (single_server_fields base entity_id dst_mac shard_id shard_switch_id macs ips)))
       (\<lambda>u. ret (dict_update d u))))))"

section \<open>Programs and machines\<close>

definition single_execute :: "env \<Rightarrow> version \<Rightarrow> string \<Rightarrow> string \<Rightarrow> string \<Rightarrow> string \<Rightarrow> string \<Rightarrow> nat option act_io" where
  "single_execute E V ip program config_filename ssh_key ssh_user =
     try_matching is_exception
       (bnd (spawn E (ssh ssh_key ssh_user ip
               ((if ve_sudo V then ''sudo '' else []) @ program @ '' '' @ config_filename))) (\<lambda>pid. ret (Some pid)))
       (\<lambda>e. ret None)"

definition single_compile :: "env \<Rightarrow> string \<Rightarrow> string \<Rightarrow> string \<Rightarrow> bool act_io" where
  "single_compile E ssh_key ssh_user ip =
     run_checked E (ssh ssh_key ssh_user ip (''cd '' @ COMPILATION_DIR @ '' && meson compile''))"

text \<open>A loop that returns from the function at the first failure.\<close>

fun all_succeed :: "('b \<Rightarrow> ('s, bool) io) \<Rightarrow> 'b list \<Rightarrow> ('s, bool) io" where
  "all_succeed f [] = ret True"
| "all_succeed f (x # xs) = bnd (f x) (\<lambda>ok. if ok then all_succeed f xs else ret False)"

section \<open>Aggregation\<close>

definition add_single :: "pyval \<Rightarrow> totals \<Rightarrow> totals res" where
  "add_single data a =
     ebind (num_field data ''throughput'') (\<lambda>tput.
     ebind (num_field data ''avg_latency'') (\<lambda>lat.
     Inr (a\<lparr>t_tput := t_tput a + or_zero tput, t_lat := t_lat a + or_zero lat,
            t_count := t_count a + (if lat = None then 0 else 1)\<rparr>)))"

definition single_summary :: "totals \<Rightarrow> (string \<times> pyval) list" where
  "single_summary a =
     [(''agg_tput'', PFloat (t_tput a)), (''total_avg_latency'', PFloat (average (t_lat a) (t_count a))),
      (''num_clients'', PInt (int (t_count a)))]"

definition single_aggregate :: "env \<Rightarrow> string \<Rightarrow> string \<Rightarrow> unit act_io" where
  "single_aggregate E dir json_name =
     bnd (look_res (\<lambda>tr. en_listdir E tr dir)) (\<lambda>all_files.
     let files = filter (\<lambda>f. prefix json_name f \<and> ends_with f ''.json'') all_files
     in if files = [] then ret ()
        else bnd (fold_io (add_file E add_single dir) files no_totals) (\<lambda>a.
             write_summary E (path_join dir (json_name @ ''.json'')) (single_summary a)))"

section \<open>The run\<close>

record single_params =
  sp_key :: string
  sp_user :: string
  sp_client :: string
  sp_server :: string
  sp_client_ip :: string
  sp_server_ips :: "string list"
  sp_setup :: bool
  sp_name :: string

text \<open>A missing parameter of the experiment ends the run with a message, any other missing key with an
  exception.\<close>

definition experiment_params :: "pyval \<Rightarrow> (bool \<times> string) option res" where
  "experiment_params config =
     (case ebind (py_item config ''experiment_parameters'') (\<lambda>p.
         ebind (py_get_default p ''run_setup_script'' (PBool False)) (\<lambda>s.
         ebind (item_str p ''json_name'') (\<lambda>n. Inr (truthy s, n)))) of
        Inr v \<Rightarrow> Inr (Some v)
      | Inl (KeyError k) \<Rightarrow> Inr None
      | Inl e \<Rightarrow> Inl e)"

definition single_params_of :: "pyval \<Rightarrow> single_params option res" where
  "single_params_of config =
     ebind (ebind (cfg config ''network_setup'' ''ssh_key'') as_str) (\<lambda>key.
     ebind (ebind (cfg config ''network_setup'' ''ssh_user'') as_str) (\<lambda>user.
     ebind (ebind (cfg config ''program_paths'' ''path_client'') as_str) (\<lambda>client.
     ebind (ebind (cfg config ''program_paths'' ''path_server'') as_str) (\<lambda>server.
     ebind (ebind (cfg config ''network_setup'' ''client_ip'') as_str) (\<lambda>client_ip.
     ebind (ebind (cfg config ''network_setup'' ''server_ips'') str_list) (\<lambda>server_ips.
     ebind (experiment_params config) (\<lambda>x.
     Inr (map_option (\<lambda>(setup, name). \<lparr>sp_key = key, sp_user = user, sp_client = client, sp_server = server,
            sp_client_ip = client_ip, sp_server_ips = server_ips, sp_setup = setup, sp_name = name\<rparr>) x))))))))"

definition single_dir :: "env \<Rightarrow> single_params \<Rightarrow> string" where
  "single_dir E p = path_join RESULTS_BASE_DIR (sp_name p @ ''-'' @ en_timestamp E)"

definition make_results_dir :: "env \<Rightarrow> version \<Rightarrow> single_params \<Rightarrow> bool act_io" where
  "make_results_dir E V p =
     (if ve_collects V
      then try_matching is_os_error (andthen (make_dir E (single_dir E p)) (ret True)) (\<lambda>e. ret False)
      else ret True)"

definition machines_ready :: "env \<Rightarrow> single_params \<Rightarrow> bool act_io" where
  "machines_ready E p =
     (let ips = sp_client_ip p # sp_server_ips p
      in bnd (if sp_setup p
              then all_succeed (\<lambda>ip. run_setup_script E ip SETUP_SCRIPT_PATH (sp_key p) (sp_user p)) ips
              else ret True)
         (\<lambda>ok. if ok then all_succeed (single_compile E (sp_key p) (sp_user p)) ips else ret False))"

text \<open>A server: its file, the transfer, the program. \<open>None\<close> ends the run.\<close>

definition start_single_server ::
  "env \<Rightarrow> version \<Rightarrow> pyval \<Rightarrow> single_params \<Rightarrow> pyval \<Rightarrow> nat \<times> string \<Rightarrow> nat list \<Rightarrow> nat list option act_io" where
  "start_single_server E V base p mac iip pids =
     (let (i, ip) = iip; file = ''server_'' @ str_nat i @ ''.yaml''
      in bnd (random_int E 100000 999999) (\<lambda>server_id.
         bnd (single_server_config E V base ip (2 * int i) server_id mac) (\<lambda>d.
         andthen (write_file E file (en_dump_yaml E (PDict d)))
        (bnd (transfer_file E file ip (sp_user p) (sp_key p) None None) (\<lambda>ok.
         if \<not> ok then ret None
         else bnd (single_execute E V ip (sp_server p) file (sp_key p) (sp_user p)) (\<lambda>pid.
              ret (Some (pids @ (case pid of Some n \<Rightarrow> [n] | None \<Rightarrow> [])))))))))"

fun start_single_servers ::
  "env \<Rightarrow> version \<Rightarrow> pyval \<Rightarrow> single_params \<Rightarrow> pyval \<Rightarrow> (nat \<times> string) list \<Rightarrow> nat list \<Rightarrow> nat list option act_io" where
  "start_single_servers E V base p mac [] pids = ret (Some pids)"
| "start_single_servers E V base p mac (s # ss) pids =
     bnd (start_single_server E V base p mac s pids) (\<lambda>r.
     case r of None \<Rightarrow> ret None | Some ps \<Rightarrow> start_single_servers E V base p mac ss ps)"

text \<open>Results of earlier runs on the client are removed first.\<close>

definition cleanup_results :: "env \<Rightarrow> version \<Rightarrow> single_params \<Rightarrow> unit act_io" where
  "cleanup_results E V p =
     (if ve_collects V
      then andthen (cleanup_remote_json_files E (sp_client_ip p) (sp_key p) (sp_user p) (sp_name p)) (ret ())
      else ret ())"

definition start_single_client :: "env \<Rightarrow> version \<Rightarrow> pyval \<Rightarrow> single_params \<Rightarrow> nat option act_io" where
  "start_single_client E V base p =
     bnd (random_int E 100000 999999) (\<lambda>client_id.
     bnd (lift (single_client_config V base (sp_client_ip p) (2 * int (length (sp_server_ips p))) client_id (sp_name p)))
       (\<lambda>d.
     andthen (write_file E ''client.yaml'' (en_dump_yaml E (PDict d)))
    (bnd (transfer_file E ''client.yaml'' (sp_client_ip p) (sp_user p) (sp_key p) None None) (\<lambda>ok.
     if \<not> ok then ret None
     else andthen (cleanup_results E V p)
          (single_execute E V (sp_client_ip p) (sp_client p) ''client.yaml'' (sp_key p) (sp_user p))))))"

definition stop_single_server :: "env \<Rightarrow> nat \<Rightarrow> unit act_io" where
  "stop_single_server E pid =
     bnd (still_running E pid) (\<lambda>running. if running then perform (TermProc pid) else ret ())"

definition finish_single :: "env \<Rightarrow> version \<Rightarrow> single_params \<Rightarrow> nat list \<Rightarrow> nat \<Rightarrow> unit act_io" where
  "finish_single E V p servers client =
     andthen (perform (WaitFor client))
    (andthen (if ve_collects V
              then andthen (copy_results_back E (sp_client_ip p) (sp_user p) (sp_key p) (sp_name p) (single_dir E p))
                     (ret ())
              else ret ())
    (andthen (if ve_aggregates V then single_aggregate E (single_dir E p) (sp_name p) else ret ())
     (for_each (stop_single_server E) servers)))"

definition single_experiment :: "env \<Rightarrow> version \<Rightarrow> pyval \<Rightarrow> single_params \<Rightarrow> unit act_io" where
  "single_experiment E V base p =
     bnd (lift (ebind (cfg base ''routing'' ''server_dest_macs'') (\<lambda>v. py_index v 0))) (\<lambda>mac.
     bnd (start_single_servers E V base p mac (enumerate 0 (sp_server_ips p)) []) (\<lambda>servers.
     case servers of
       None \<Rightarrow> ret ()
     | Some [] \<Rightarrow> ret ()
     | Some pids \<Rightarrow>
         andthen (sleep (PInt SERVER_START_DELAY))
        (bnd (start_single_client E V base p) (\<lambda>client.
         case client of None \<Rightarrow> ret () | Some pid \<Rightarrow> finish_single E V p pids pid))))"

definition old_main :: "version \<Rightarrow> env \<Rightarrow> string \<Rightarrow> unit act_io" where
  "old_main V E config_file =
     bnd (lift (load_config E config_file)) (\<lambda>c.
     case c of None \<Rightarrow> ret () | Some config \<Rightarrow>
     bnd (lift (single_params_of config)) (\<lambda>p.
     case p of None \<Rightarrow> ret () | Some p \<Rightarrow>
     bnd (make_results_dir E V p) (\<lambda>ok.
     if \<not> ok then ret ()
     else bnd (machines_ready E p) (\<lambda>ready. if ready then single_experiment E V config p else ret ()))))"

text \<open>The versions before the last: their configurations, their way to start a program, their runs.\<close>

definition client_config_8 :: "pyval \<Rightarrow> string \<Rightarrow> int \<Rightarrow> int \<Rightarrow> string \<Rightarrow> (string \<times> pyval) list res" where
  "client_config_8 = single_client_config version_8"

definition server_config_8 :: "env \<Rightarrow> pyval \<Rightarrow> string \<Rightarrow> int \<Rightarrow> int \<Rightarrow> pyval \<Rightarrow> (string \<times> pyval) list act_io" where
  "server_config_8 E = single_server_config E version_8"

definition execute_8 :: "env \<Rightarrow> string \<Rightarrow> string \<Rightarrow> string \<Rightarrow> string \<Rightarrow> string \<Rightarrow> nat option act_io" where
  "execute_8 E = single_execute E version_8"

definition main_8 :: "env \<Rightarrow> string \<Rightarrow> unit act_io" where
  "main_8 = old_main version_8"

definition client_config_7 :: "pyval \<Rightarrow> string \<Rightarrow> int \<Rightarrow> int \<Rightarrow> string \<Rightarrow> (string \<times> pyval) list res" where
  "client_config_7 = single_client_config version_7"

definition server_config_7 :: "env \<Rightarrow> pyval \<Rightarrow> string \<Rightarrow> int \<Rightarrow> int \<Rightarrow> pyval \<Rightarrow> (string \<times> pyval) list act_io" where
  "server_config_7 E = single_server_config E version_7"

definition execute_7 :: "env \<Rightarrow> string \<Rightarrow> string \<Rightarrow> string \<Rightarrow> string \<Rightarrow> string \<Rightarrow> nat option act_io" where
  "execute_7 E = single_execute E version_7"

definition main_7 :: "env \<Rightarrow> string \<Rightarrow> unit act_io" where
  "main_7 = old_main version_7"

definition client_config_6 :: "pyval \<Rightarrow> string \<Rightarrow> int \<Rightarrow> int \<Rightarrow> string \<Rightarrow> (string \<times> pyval) list res" where
  "client_config_6 = single_client_config version_6"

definition server_config_6 :: "env \<Rightarrow> pyval \<Rightarrow> string \<Rightarrow> int \<Rightarrow> int \<Rightarrow> pyval \<Rightarrow> (string \<times> pyval) list act_io" where
  "server_config_6 E = single_server_config E version_6"

definition execute_6 :: "env \<Rightarrow> string \<Rightarrow> string \<Rightarrow> string \<Rightarrow> string \<Rightarrow> string \<Rightarrow> nat option act_io" where
  "execute_6 E = single_execute E version_6"

definition main_6 :: "env \<Rightarrow> string \<Rightarrow> unit act_io" where
  "main_6 = old_main version_6"

section \<open>Facts\<close>

fun starts_program :: "action \<Rightarrow> bool" where
  "starts_program (Spawn argv) = True"
| "starts_program _ = False"

fun waits_for :: "action \<Rightarrow> bool" where
  "waits_for (WaitFor pid) = True"
| "waits_for _ = False"

lemmas step_adds = step_relation.keeps_rules [OF step_relation_adds]

lemma adds_all_succeed:
  "(\<And>x. keeps (adds P) (f x)) \<Longrightarrow> keeps (adds P) (all_succeed f xs)"
  by (induction xs) (auto intro!: step_adds adds_intros)

lemma adds_machines_ready [adds_intros]:
  "(\<And>argv. P (Run argv)) \<Longrightarrow> keeps (adds P) (machines_ready E p)"
  unfolding machines_ready_def Let_def single_compile_def run_setup_script_def
  by (intro step_adds adds_intros adds_all_succeed; simp)

lemma adds_results_dir [adds_intros]: "(\<And>q. P (MakeDir q)) \<Longrightarrow> keeps (adds P) (make_results_dir E V p)"
  unfolding make_results_dir_def by (intro step_adds adds_intros; simp)

lemma adds_option_case: "(\<And>x. keeps (adds P) (f x)) \<Longrightarrow> keeps (adds P) m \<Longrightarrow> keeps (adds P) (case x of None \<Rightarrow> m | Some y \<Rightarrow> f y)"
  by (cases x) auto

lemma adds_server_config [adds_intros]:
  "(\<And>lo hi. P (RandInt lo hi)) \<Longrightarrow> keeps (adds P) (single_server_config E V base ip off i mac)"
  unfolding single_server_config_def split_def by (intro step_adds adds_intros; simp)

lemma adds_execute [adds_intros]: "(\<And>argv. P (Spawn argv)) \<Longrightarrow> keeps (adds P) (single_execute E V ip prog f key user)"
  unfolding single_execute_def by (intro step_adds adds_intros; simp)

lemma adds_start_server:
  assumes "\<And>argv. P (Run argv)" "\<And>argv. P (Spawn argv)" "\<And>lo hi. P (RandInt lo hi)" "\<And>q c. P (WriteFile q c)"
  shows "keeps (adds P) (start_single_server E V base p mac s pids)"
  unfolding start_single_server_def split_def Let_def by (intro step_adds adds_intros assms)

lemma adds_start_servers:
  assumes "\<And>argv. P (Run argv)" "\<And>argv. P (Spawn argv)" "\<And>lo hi. P (RandInt lo hi)" "\<And>q c. P (WriteFile q c)"
  shows "keeps (adds P) (start_single_servers E V base p mac ss pids)"
  by (induction ss arbitrary: pids) (auto intro!: step_adds adds_intros adds_option_case adds_start_server assms)

lemma adds_cleanup [adds_intros]: "(\<And>argv. P (Run argv)) \<Longrightarrow> keeps (adds P) (cleanup_remote_json_files E ip k u n)"
  unfolding cleanup_remote_json_files_def by (intro step_adds adds_intros; simp)

lemma adds_start_client:
  assumes "\<And>argv. P (Run argv)" "\<And>argv. P (Spawn argv)" "\<And>lo hi. P (RandInt lo hi)" "\<And>q c. P (WriteFile q c)"
  shows "keeps (adds P) (start_single_client E V base p)"
  unfolding start_single_client_def cleanup_results_def by (intro step_adds adds_intros assms)

lemma adds_stop_server:
  "(\<And>q. P (PollProc q)) \<Longrightarrow> (\<And>q. P (TermProc q)) \<Longrightarrow> keeps (adds P) (stop_single_server E pid)"
  unfolding stop_single_server_def by (intro step_adds adds_intros; simp)

lemma adds_single_aggregate:
  "(\<And>q. P (ReadFile q)) \<Longrightarrow> (\<And>q c. P (WriteFile q c)) \<Longrightarrow> keeps (adds P) (single_aggregate E dir n)"
  unfolding single_aggregate_def add_file_def read_result_def write_summary_def Let_def
  by (intro step_adds adds_intros adds_option_case; simp)

lemma adds_finish:
  assumes "\<And>argv. P (Run argv)" "\<And>q. P (PollProc q)" "\<And>q. P (TermProc q)" "\<And>q. P (ReadFile q)"
    "\<And>q c. P (WriteFile q c)" "\<And>q. P (WaitFor q)"
  shows "keeps (adds P) (finish_single E V p servers c)"
  unfolding finish_single_def by (intro step_adds adds_intros adds_single_aggregate adds_stop_server assms)

lemma experiment_grows: "keeps (adds (\<lambda>_. True)) (single_experiment E V base p)"
proof -
  have servers: "keeps (adds (\<lambda>_. True)) (case x of None \<Rightarrow> ret () | Some [] \<Rightarrow> ret () | Some (q # qs) \<Rightarrow> f q qs)"
    if "\<And>q qs. keeps (adds (\<lambda>_. True)) (f q qs)" for x :: "nat list option" and f
    using that by (auto intro: step_adds adds_intros split: option.split list.split)
  show ?thesis
    unfolding single_experiment_def
    by (intro step_adds adds_intros servers adds_option_case adds_start_servers adds_start_client adds_finish; simp)
qed

lemma adds_prefix: "adds P s t \<Longrightarrow> prefix s t"
  by (auto simp: adds_def)

lemma adds_mem: "adds P s t \<Longrightarrow> a \<in> set t \<Longrightarrow> \<not> P a \<Longrightarrow> a \<in> set s"
  by (auto simp: adds_def)

text \<open>A command that was run with success, at some point of the trace.\<close>

definition succeeded :: "env \<Rightarrow> string list \<Rightarrow> trace \<Rightarrow> bool" where
  "succeeded E argv t \<longleftrightarrow> (\<exists>u. prefix (u @ [Run argv]) t \<and> en_run E u (Run argv) = Success)"

lemma succeeded_mono: "succeeded E argv s \<Longrightarrow> prefix s t \<Longrightarrow> succeeded E argv t"
  unfolding succeeded_def by (meson prefix_order.trans)

lemma all_succeed_checked:
  "all_succeed (\<lambda>x. run_checked E (c x)) xs tr = (Inr True, t) \<Longrightarrow> \<forall>x \<in> set xs. succeeded E (c x) t"
proof (induction xs arbitrary: tr)
  case (Cons x xs)
  then have ok: "en_run E tr (Run (c x)) = Success"
    and rest: "all_succeed (\<lambda>x. run_checked E (c x)) xs (tr @ [Run (c x)]) = (Inr True, t)"
    by (auto simp: bnd_def run_checked_eq [of E "c x" tr] ret_def split: if_splits)
  have "prefix (tr @ [Run (c x)]) t"
    using keepsD [OF adds_all_succeed rest, of "\<lambda>_. True"] by (auto intro: adds_prefix adds_intros)
  with ok have "succeeded E (c x) t" unfolding succeeded_def by blast
  with Cons.IH [OF rest] show ?case by simp
qed simp

definition compile_argv :: "single_params \<Rightarrow> string \<Rightarrow> string list" where
  "compile_argv p ip = ssh (sp_key p) (sp_user p) ip (''cd '' @ COMPILATION_DIR @ '' && meson compile'')"

lemma machines_ready_compiled:
  assumes "machines_ready E p tr = (Inr True, t)"
  shows "\<forall>ip \<in> set (sp_client_ip p # sp_server_ips p). succeeded E (compile_argv p ip) t"
proof -
  from assms obtain u where
    "all_succeed (single_compile E (sp_key p) (sp_user p)) (sp_client_ip p # sp_server_ips p) u = (Inr True, t)"
    by (auto simp: machines_ready_def Let_def bnd_eq_Inr ret_def simp del: all_succeed.simps split: if_splits)
  moreover have "single_compile E (sp_key p) (sp_user p) = (\<lambda>ip. run_checked E (compile_argv p ip))"
    by (simp add: fun_eq_iff single_compile_def compile_argv_def)
  ultimately show ?thesis using all_succeed_checked [of E "compile_argv p" "sp_client_ip p # sp_server_ips p" u t]
    by (simp del: all_succeed.simps)
qed

text \<open>The stages of a run that gets as far as starting something.\<close>

lemma old_main_stages:
  assumes "old_main V E path [] = (r, t)" "a \<in> set t" "starts_program a \<or> waits_for a"
  obtains config p d c where "load_config E path = Inr (Some config)" "single_params_of config = Inr (Some p)"
    "make_results_dir E V p [] = (Inr True, d)" "machines_ready E p d = (Inr True, c)"
    "single_experiment E V config p c = (r, t)" "\<forall>x \<in> set c. \<not> starts_program x \<and> \<not> waits_for x"
proof -
  let ?P = "\<lambda>x. \<not> starts_program x \<and> \<not> waits_for x"
  show ?thesis
  proof (cases "load_config E path")
    case (Inr x)
    with assms obtain config where c: "load_config E path = Inr (Some config)"
      by (cases x) (auto simp: old_main_def io_defs)
    show ?thesis
    proof (cases "single_params_of config")
      case (Inr y)
      with assms c obtain p where p: "single_params_of config = Inr (Some p)"
        by (cases y) (auto simp: old_main_def io_defs)
      obtain r1 d where d: "make_results_dir E V p [] = (r1, d)" by fastforce
      have "adds ?P [] d"
        by (rule keepsD [of "adds ?P" "make_results_dir E V p" "[]", OF _ d]) (rule adds_results_dir, simp)
      then have qd: "\<forall>x \<in> set d. ?P x" by (auto simp: adds_def)
      obtain r2 e where e: "machines_ready E p d = (r2, e)" by fastforce
      have "adds ?P d e"
        by (rule keepsD [of "adds ?P" "machines_ready E p" d, OF _ e]) (rule adds_machines_ready, simp)
      with qd have qe: "\<forall>x \<in> set e. ?P x" by (auto simp: adds_def)
      have main: "old_main V E path [] = (case (r1, d) of (Inl x, s) \<Rightarrow> (Inl x, s) | (Inr ok, s) \<Rightarrow>
          if \<not> ok then (Inr (), s) else (case machines_ready E p s of (Inl x, s) \<Rightarrow> (Inl x, s) | (Inr ready, s) \<Rightarrow>
            if ready then single_experiment E V config p s else (Inr (), s)))"
        by (simp add: old_main_def bnd_def lift_def c p d ret_def split: sum.splits prod.splits)
      from main assms qd qe e have "r1 = Inr True" "r2 = Inr True" "single_experiment E V config p e = (r, t)"
        by (auto split: sum.splits if_splits)
      with that [OF c p] d e qe show ?thesis by blast
    qed (use assms c in \<open>simp add: old_main_def io_defs\<close>)
  qed (use assms in \<open>simp add: old_main_def io_defs\<close>)
qed

text \<open>The processes a run started.\<close>

definition started :: "env \<Rightarrow> trace \<Rightarrow> nat set" where
  "started E t = {pid. \<exists>u argv. prefix (u @ [Spawn argv]) t \<and> en_spawn E u argv = Inr pid}"

lemma started_Nil [simp]: "started E [] = {}"
  by (simp add: started_def)

lemma started_snoc: "started E (t @ [a]) =
     started E t \<union> {pid. \<exists>argv. a = Spawn argv \<and> en_spawn E t argv = Inr pid}"
  by (auto simp: started_def)

lemma started_append: "\<forall>a \<in> set w. \<not> starts_program a \<Longrightarrow> started E (s @ w) = started E s"
proof (induction w rule: rev_induct)
  case (snoc a w)
  then show ?case by (cases a) (auto simp: started_snoc simp flip: append_assoc)
qed simp

lemma started_quiet:
  assumes "keeps (adds (\<lambda>a. \<not> starts_program a)) m" "m s = (r, t)"
  shows "started E t = started E s"
  using keepsD [OF assms] started_append by (auto simp: adds_def)

lemma quiet_runs:
  "random_int E lo hi s = (r1, t) \<Longrightarrow> started E t = started E s"
  "single_server_config E V base ip off i mac s = (r2, t) \<Longrightarrow> started E t = started E s"
  "write_file E q c s = (r3, t) \<Longrightarrow> started E t = started E s"
  "transfer_file E q ip user key fn fp s = (r4, t) \<Longrightarrow> started E t = started E s"
  "cleanup_results E V p s = (r5, t) \<Longrightarrow> started E t = started E s"
proof -
  let ?P = "\<lambda>a. \<not> starts_program a"
  have "keeps (adds ?P) (cleanup_results E V p)" unfolding cleanup_results_def by (intro step_adds adds_intros; simp)
  then show "cleanup_results E V p s = (r5, t) \<Longrightarrow> started E t = started E s" by (rule started_quiet)
  have "keeps (adds ?P) (random_int E lo hi)" by (rule adds_intros) simp
  then show "random_int E lo hi s = (r1, t) \<Longrightarrow> started E t = started E s" by (rule started_quiet)
  have "keeps (adds ?P) (single_server_config E V base ip off i mac)" by (rule adds_intros) simp
  then show "single_server_config E V base ip off i mac s = (r2, t) \<Longrightarrow> started E t = started E s" by (rule started_quiet)
  have "keeps (adds ?P) (write_file E q c)" by (rule adds_intros) simp
  then show "write_file E q c s = (r3, t) \<Longrightarrow> started E t = started E s" by (rule started_quiet)
  have "keeps (adds ?P) (transfer_file E q ip user key fn fp)" by (rule adds_intros) simp
  then show "transfer_file E q ip user key fn fp s = (r4, t) \<Longrightarrow> started E t = started E s" by (rule started_quiet)
qed

lemma execute_started:
  assumes "single_execute E V ip prog f key user s = (Inr r, t)"
  shows "started E t \<subseteq> started E s \<union> set_option r"
  using assms
  by (auto simp: single_execute_def try_matching_def try_except_def bnd_def spawn_def io_defs started_snoc
      split: sum.splits if_splits)

lemma start_server_started:
  assumes "start_single_server E V base p mac iip pids s = (Inr (Some ps), t)"
  shows "started E t \<subseteq> started E s \<union> set ps \<and> set pids \<subseteq> set ps"
proof -
  obtain i ip where iip: "iip = (i, ip)" by fastforce
  let ?file = "''server_'' @ str_nat i @ ''.yaml''"
  from assms obtain x a d b c e pid where
    run: "random_int E 100000 999999 s = (Inr x, a)"
      "single_server_config E V base ip (2 * int i) x mac a = (Inr d, b)"
      "write_file E ?file (en_dump_yaml E (PDict d)) b = (Inr (), c)"
      "transfer_file E ?file ip (sp_user p) (sp_key p) None None c = (Inr True, e)"
      "single_execute E V ip (sp_server p) ?file (sp_key p) (sp_user p) e = (Inr pid, t)"
    and ps: "ps = pids @ (case pid of Some n \<Rightarrow> [n] | None \<Rightarrow> [])"
    by (auto simp: start_single_server_def iip Let_def bnd_eq_Inr andthen_eq_Inr ret_def split: if_splits)
  from run(1-4) have "started E a = started E s" "started E b = started E a" "started E c = started E b"
    "started E e = started E c" by (simp_all add: quiet_runs)
  then show ?thesis using execute_started [OF run(5)] by (auto simp: ps split: option.splits)
qed

lemma start_servers_started:
  "start_single_servers E V base p mac ss pids s = (Inr (Some ps), t) \<Longrightarrow>
     started E t \<subseteq> started E s \<union> set ps \<and> set pids \<subseteq> set ps"
proof (induction ss arbitrary: pids s)
  case (Cons x ss)
  then obtain qs u where "start_single_server E V base p mac x pids s = (Inr (Some qs), u)"
    and rest: "start_single_servers E V base p mac ss qs u = (Inr (Some ps), t)"
    by (auto simp: bnd_eq_Inr ret_def split: option.splits)
  from start_server_started [OF this(1)] Cons.IH [OF rest] show ?case by blast
qed (simp add: ret_def)

lemma start_client_started:
  assumes "start_single_client E V base p s = (Inr (Some c), t)"
  shows "started E t \<subseteq> started E s \<union> {c}"
proof -
  from assms obtain x d a b e g where
    run: "random_int E 100000 999999 s = (Inr x, a)" "write_file E ''client.yaml'' d a = (Inr (), b)"
      "transfer_file E ''client.yaml'' (sp_client_ip p) (sp_user p) (sp_key p) None None b = (Inr True, e)"
      "cleanup_results E V p e = (Inr (), g)"
      "single_execute E V (sp_client_ip p) (sp_client p) ''client.yaml'' (sp_key p) (sp_user p) g = (Inr (Some c), t)"
    unfolding start_single_client_def by (auto simp: bnd_eq_Inr andthen_eq_Inr lift_def ret_def split: if_splits)
  from run(1-4) have "started E a = started E s" "started E b = started E a" "started E e = started E b"
    "started E g = started E e" by (simp_all add: quiet_runs)
  then show ?thesis using execute_started [OF run(5)] by auto
qed

text \<open>A server that was stopped: asked whether it runs, and terminated if it does.\<close>

definition stopped :: "env \<Rightarrow> nat \<Rightarrow> trace \<Rightarrow> bool" where
  "stopped E pid t \<longleftrightarrow>
     (\<exists>u. prefix (u @ PollProc pid # (if en_running E u pid then [TermProc pid] else [])) t)"

lemma stop_servers:
  "\<exists>w. for_each (stop_single_server E) pids s = (Inr (), s @ w) \<and> (\<forall>pid \<in> set pids. stopped E pid (s @ w))
     \<and> (\<forall>a \<in> set w. \<not> starts_program a)"
proof (induction pids arbitrary: s)
  case Nil
  then show ?case by (intro exI [of _ "[]"]) simp
next
  case (Cons q pids)
  let ?v = "PollProc q # (if en_running E s q then [TermProc q] else [])"
  have one: "stop_single_server E q s = (Inr (), s @ ?v)"
    by (simp add: stop_single_server_def bnd_def still_running_def perform_def io_defs)
  from Cons obtain w where w: "for_each (stop_single_server E) pids (s @ ?v) = (Inr (), (s @ ?v) @ w)"
    "\<forall>pid \<in> set pids. stopped E pid ((s @ ?v) @ w)" "\<forall>a \<in> set w. \<not> starts_program a" by blast
  have "stopped E q ((s @ ?v) @ w)" unfolding stopped_def by (intro exI [of _ s]) simp
  with one w show ?case by (intro exI [of _ "?v @ w"]) auto
qed

lemma finish_single_stops:
  assumes "finish_single E V p servers c s = (Inr (), t)"
  shows "WaitFor c \<in> set t \<and> (\<forall>pid \<in> set servers. stopped E pid t) \<and> started E t = started E s"
proof -
  have quiet: "keeps (adds (\<lambda>a. \<not> starts_program a)) (finish_single E V p servers c)"
    by (rule adds_finish) simp_all
  let ?copy = "if ve_collects V then andthen (copy_results_back E (sp_client_ip p) (sp_user p) (sp_key p) (sp_name p)
    (single_dir E p)) (ret ()) else ret ()"
  let ?agg = "if ve_aggregates V then single_aggregate E (single_dir E p) (sp_name p) else ret ()"
  from assms obtain a u where run: "?copy (s @ [WaitFor c]) = (Inr (), a)" "?agg a = (Inr (), u)"
    and u: "for_each (stop_single_server E) servers u = (Inr (), t)"
    unfolding finish_single_def by (auto simp: andthen_eq_Inr perform_def modify_def split: if_splits)
  have copy: "keeps (adds (\<lambda>_. True)) ?copy" and agg: "keeps (adds (\<lambda>_. True)) ?agg"
    by (intro step_adds adds_intros adds_single_aggregate; simp)+
  from keepsD [OF copy run(1)] keepsD [OF agg run(2)] have pre: "prefix (s @ [WaitFor c]) u"
    by (meson adds_prefix prefix_order.trans)
  from stop_servers [of E servers u] u obtain w where "t = u @ w" "\<forall>pid \<in> set servers. stopped E pid t" by auto
  with pre started_quiet [OF quiet assms] show ?thesis by (auto elim!: prefixE)
qed

section \<open>An example\<close>

definition demo_single :: pyval where
  "demo_single = PDict
     [(''network_setup'', PDict [(''ssh_key'', PStr ''k''), (''ssh_user'', PStr ''u''), (''client_ip'', PStr ''c''),
        (''server_ips'', PList [PStr ''s'']), (''network_interface'', PStr ''e0'')]),
      (''program_paths'', PDict [(''path_client'', PStr ''/c''), (''path_server'', PStr ''/s'')]),
      (''experiment_parameters'', PDict [(''json_name'', PStr ''j''), (''experiment_duration'', PInt 9),
        (''log_level'', PInt 0), (''socket_type'', PStr ''UDP''), (''message_size'', PInt 8), (''num_client_threads'', PInt 2)]),
      (''protocol_batching'', PDict [(''batch_size'', PInt 1), (''batch_on'', PInt 0), (''num_packet_types'', PInt 1),
        (''sequencer_type'', PInt 0), (''storage_server_type'', PInt 0)]),
      (''routing'', PDict [(''client_dest_macs'', PList [PStr ''m'']), (''server_dest_macs'', PList [PStr ''n'']),
        (''list_client_dest_ips'', PList [PStr ''d'']), (''list_storage_server_dest_ips'', PList [PStr ''e''])])]"

definition demo_single_world :: env where
  "demo_single_world = demo_world\<lparr>en_toml := (\<lambda>f. Inr demo_single), en_running := (\<lambda>h p. True)\<rparr>"

definition demo_single_trace :: trace where
  "demo_single_trace = snd (old_main version_9 demo_single_world ''config.toml'' [])"

section \<open>Properties\<close>

text \<open>C38. No version of the runner starts a program before the project was compiled with success on the
  client and on every server.\<close>

theorem single_starts_compiled:
  assumes "old_main V E path [] = (r, t)" "Spawn argv \<in> set t"
  shows "\<exists>config p. load_config E path = Inr (Some config) \<and> single_params_of config = Inr (Some p)
     \<and> (\<forall>ip \<in> set (sp_client_ip p # sp_server_ips p). \<exists>u v. t = u @ Run (compile_argv p ip) # v
          \<and> en_run E u (Run (compile_argv p ip)) = Success \<and> Spawn argv \<in> set v)"
proof -
  from assms obtain config p d c where stages: "load_config E path = Inr (Some config)"
    "single_params_of config = Inr (Some p)" "machines_ready E p d = (Inr True, c)"
    "single_experiment E V config p c = (r, t)" and quiet: "\<forall>x \<in> set c. \<not> starts_program x \<and> \<not> waits_for x"
    by (rule old_main_stages) auto
  from keepsD [OF experiment_grows stages(4)] obtain w where t: "t = c @ w" by (auto simp: adds_def)
  with assms(2) quiet have w: "Spawn argv \<in> set w" by fastforce
  have "\<exists>u v. t = u @ Run (compile_argv p ip) # v \<and> en_run E u (Run (compile_argv p ip)) = Success \<and> Spawn argv \<in> set v"
    if "ip \<in> set (sp_client_ip p # sp_server_ips p)" for ip
  proof -
    from machines_ready_compiled [OF stages(3)] that obtain u where
      u: "prefix (u @ [Run (compile_argv p ip)]) c" "en_run E u (Run (compile_argv p ip)) = Success"
      unfolding succeeded_def by blast
    from u(1) obtain z where "c = u @ Run (compile_argv p ip) # z" by (auto elim: prefixE)
    with t u(2) w show ?thesis by (intro exI [of _ u] exI [of _ "z @ w"]) simp
  qed
  with stages(1,2) show ?thesis by blast
qed

theorem single_starts_compiled_witness:
  "\<exists>argv p. Spawn argv \<in> set demo_single_trace
     \<and> (\<forall>ip \<in> set (sp_client_ip p # sp_server_ips p). \<exists>u v. demo_single_trace = u @ Run (compile_argv p ip) # v
          \<and> Spawn argv \<in> set v)"
proof -
  have "list_ex starts_program demo_single_trace" by code_simp
  then obtain a where "a \<in> set demo_single_trace" "starts_program a" by (auto simp: list_ex_iff)
  then obtain argv where spawn: "Spawn argv \<in> set demo_single_trace" by - (cases a; auto)
  obtain r where run: "old_main version_9 demo_single_world ''config.toml'' [] = (r, demo_single_trace)"
    unfolding demo_single_trace_def by (metis prod.collapse)
  from single_starts_compiled [OF run spawn] spawn show ?thesis by blast
qed

lemma experiment_waited:
  assumes "single_experiment E V base p c = (Inr (), t)" "WaitFor q \<in> set t" "WaitFor q \<notin> set c"
  obtains b pids client e where "started E b \<subseteq> started E c \<union> set pids"
    "started E e \<subseteq> started E b \<union> {client}" "finish_single E V p pids client e = (Inr (), t)"
proof -
  let ?P = "\<lambda>a. \<not> waits_for a"
  from assms(1) obtain mac r b where
    servers: "start_single_servers E V base p mac (enumerate 0 (sp_server_ips p)) [] c = (Inr r, b)"
    and rest: "(case r of None \<Rightarrow> ret () | Some [] \<Rightarrow> ret () | Some pids \<Rightarrow>
         andthen (sleep (PInt SERVER_START_DELAY))
        (bnd (start_single_client E V base p) (\<lambda>client.
         case client of None \<Rightarrow> ret () | Some pid \<Rightarrow> finish_single E V p pids pid))) b = (Inr (), t)"
    unfolding single_experiment_def by (auto simp: bnd_eq_Inr lift_def)
  have "keeps (adds ?P) (start_single_servers E V base p mac (enumerate 0 (sp_server_ips p)) [])"
    by (rule adds_start_servers) simp_all
  from adds_mem [OF keepsD [OF this servers], of "WaitFor q"] assms(3) have b: "WaitFor q \<notin> set b" by auto
  with rest assms(2) obtain n ns where r: "r = Some (n # ns)"
    by (auto simp: ret_def split: option.splits list.splits)
  with rest obtain cl d e where d: "sleep (PInt SERVER_START_DELAY) b = (Inr (), d)"
    and client: "start_single_client E V base p d = (Inr cl, e)"
    and fin: "(case cl of None \<Rightarrow> ret () | Some pid \<Rightarrow> finish_single E V p (n # ns) pid) e = (Inr (), t)"
    by (auto simp: bnd_eq_Inr andthen_eq_Inr)
  have d_eq: "d = b @ [Sleep (PInt SERVER_START_DELAY)]"
    using d by (simp add: sleep_def perform_def modify_def)
  have "keeps (adds ?P) (start_single_client E V base p)" by (rule adds_start_client) simp_all
  from adds_mem [OF keepsD [OF this client], of "WaitFor q"] b d_eq have "WaitFor q \<notin> set e" by auto
  with fin assms(2) obtain pid where cl: "cl = Some pid" by (auto simp: ret_def split: option.splits)
  have "started E d = started E b" by (simp add: d_eq started_append)
  with start_client_started [OF client [unfolded cl]] have e: "started E e \<subseteq> started E b \<union> {pid}" by simp
  from start_servers_started [OF servers [unfolded r]] have "started E b \<subseteq> started E c \<union> set (n # ns)" by simp
  from that [OF this e] fin cl show ?thesis by simp
qed

text \<open>C39. When a run that waited for its client ends without an exception, every process it started is
  the client it waited for, or was asked whether it still runs and terminated if it did.\<close>

theorem single_stops_servers:
  assumes "old_main V E path [] = (Inr (), t)" "WaitFor q \<in> set t"
    and "t = u @ Spawn argv # v" "en_spawn E u argv = Inr pid"
  shows "WaitFor pid \<in> set t
     \<or> (\<exists>x y. t = x @ PollProc pid # y \<and> (en_running E x pid \<longrightarrow> (\<exists>z. y = TermProc pid # z)))"
proof -
  from assms(1,2) obtain config p d c where stages: "single_experiment E V config p c = (Inr (), t)"
    and quiet: "\<forall>x \<in> set c. \<not> starts_program x \<and> \<not> waits_for x"
    by (rule old_main_stages) auto
  have "WaitFor q \<notin> set c" using quiet by fastforce
  from stages assms(2) this obtain b pids client e where sub: "started E b \<subseteq> started E c \<union> set pids"
    "started E e \<subseteq> started E b \<union> {client}" and fin: "finish_single E V p pids client e = (Inr (), t)"
    by (rule experiment_waited)
  have "started E c = {}" using started_append [of c E "[]"] quiet by simp
  moreover have "prefix (u @ [Spawn argv]) t" by (simp add: assms(3))
  then have "pid \<in> started E t" unfolding started_def using assms(4) by blast
  ultimately have "pid \<in> set pids \<or> pid = client" using sub finish_single_stops [OF fin] by auto
  moreover have "\<exists>x y. t = x @ PollProc pid # y \<and> (en_running E x pid \<longrightarrow> (\<exists>z. y = TermProc pid # z))"
    if "stopped E pid t"
    using that by (fastforce simp: stopped_def elim!: prefixE split: if_splits)
  ultimately show ?thesis using finish_single_stops [OF fin] by auto
qed

theorem single_stops_servers_witness:
  "\<exists>x z. demo_single_trace = x @ PollProc 8 # TermProc 8 # z"
proof -
  let ?argv = "ssh ''k'' ''u'' ''s'' ''sudo /s server_0.yaml''"
  have "fst (old_main version_9 demo_single_world ''config.toml'' []) = Inr ()" by code_simp
  then have run: "old_main version_9 demo_single_world ''config.toml'' [] = (Inr (), demo_single_trace)"
    unfolding demo_single_trace_def by (metis prod.collapse)
  have "8 < length demo_single_trace \<and> demo_single_trace ! 8 = Spawn ?argv" by code_simp
  then have split: "demo_single_trace = take 8 demo_single_trace @ Spawn ?argv # drop 9 demo_single_trace"
    using id_take_nth_drop [of 8 demo_single_trace] by simp
  have "list_ex waits_for demo_single_trace" by code_simp
  then obtain a where "a \<in> set demo_single_trace" "waits_for a" by (auto simp: list_ex_iff)
  then obtain q where waited: "WaitFor q \<in> set demo_single_trace" by - (cases a; auto)
  have pid: "en_spawn demo_single_world (take 8 demo_single_trace) ?argv = Inr 8" by code_simp
  have "\<not> list_ex (\<lambda>a. a = WaitFor 8) demo_single_trace" by code_simp
  then have "WaitFor 8 \<notin> set demo_single_trace" by (auto simp: list_ex_iff)
  with single_stops_servers [OF run waited split pid] show ?thesis
    by (auto simp: demo_single_world_def)
qed

text \<open>Without aggregation nothing after the wait can raise.\<close>

lemma finish_total: "\<not> ve_aggregates V \<Longrightarrow> total (finish_single E V p servers c)"
proof -
  have "total (stop_single_server E pid)" for pid
    by (auto simp: total_def stop_single_server_def bnd_def still_running_def perform_def io_defs)
  moreover have "total (perform (WaitFor c))" by (simp add: perform_def)
  ultimately show "\<not> ve_aggregates V \<Longrightarrow> total (finish_single E V p servers c)"
    unfolding finish_single_def by (auto intro!: total_intros)
qed

text \<open>With it an exception of the aggregation leaves every server running.\<close>

lemma aggregation_leaves_servers:
  assumes "\<And>tr. en_listdir E tr (single_dir E p) = Inl e"
  shows "\<exists>t. finish_single E version_9 p servers c s = (Inl e, t) \<and> (\<forall>pid. TermProc pid \<in> set t \<longrightarrow> TermProc pid \<in> set s)"
  by (simp add: finish_single_def version_9_def andthen_def bnd_def perform_def modify_def ret_def copy_results_back_def
      run_checked_eq single_aggregate_def look_res_def assms)

text \<open>The ports of the entities of a run do not meet.\<close>

lemma single_ports:
  assumes "single_base_config V base ty ip off = Inr (d, macs)"
  shows "dict_get d ''send_port'' = Some (PInt (SINGLE_BASE_PORT + off))"
    and "dict_get d ''recv_port'' = Some (PInt (SINGLE_BASE_PORT + off + 1))"
proof -
  from assms have d: "display (single_fields V base ty ip off) = Inr d" by (auto simp: single_base_config_def)
  show "dict_get d ''send_port'' = Some (PInt (SINGLE_BASE_PORT + off))"
    "dict_get d ''recv_port'' = Some (PInt (SINGLE_BASE_PORT + off + 1))"
    by (simp_all add: display_get [OF d] single_fields_def Let_def)
qed

lemma single_ports_apart:
  "i \<noteq> j \<Longrightarrow> {SINGLE_BASE_PORT + 2 * int i, SINGLE_BASE_PORT + 2 * int i + 1}
     \<inter> {SINGLE_BASE_PORT + 2 * int j, SINGLE_BASE_PORT + 2 * int j + 1} = {}"
  by (auto simp: SINGLE_BASE_PORT_def)

text \<open>From version 8 on servers run five seconds longer than the client, before they run equally long.\<close>

lemma single_durations:
  assumes "cfg base ''experiment_parameters'' ''experiment_duration'' = Inr (PInt n)"
  shows "single_duration version_9 base ''server'' = Inr (PInt (n + 5))" "single_duration version_9 base ''client'' = Inr (PInt n)"
    "single_duration version_7 base ''server'' = Inr (PInt n)"
  using assms by (simp_all add: single_duration_def version_9_def version_7_def py_add_def Let_def SERVER_START_DELAY_def)

text \<open>Between two versions only the named parts change.\<close>

lemmas version_defs = version_6_def version_7_def version_8_def version_9_def

lemma configs_same:
  "client_config_7 = client_config_6" "server_config_7 E = server_config_6 E"
  "single_client_config version_9 = client_config_8" "single_server_config E version_9 = server_config_8 E"
  by (simp_all add: fun_eq_iff client_config_8_def client_config_7_def client_config_6_def server_config_8_def
      server_config_7_def server_config_6_def single_client_config_def single_server_config_def single_base_config_def
      single_fields_def single_duration_def version_defs)

lemma commands_same: "execute_8 E = execute_7 E" "single_execute E version_9 = execute_8 E"
  by (simp_all add: fun_eq_iff execute_8_def execute_7_def single_execute_def version_defs)

end
