(* ===== verification/Spec2Isabelle.thy ===== *)
theory Spec2Isabelle
  imports Convert P4Info Switch_Conn Controller Shortest_Path Topology Exercise Switch_Alloc Remote Setup_Nodes
    Exp_Config Aggregate Switch_Remote Cycle_Base Cycle_Baseline Cycle_Pringles Cycle_Kafka Cycle_Scalog
    Experiment_Main Tofino Ring_Packets Ring_Control Ring_Run Subscriptions Ring_Groups Ring_Ends Ring_Jump App_Controller App_Runner
    Mini_Switch Single_Switch Multi_Switch Multi_Links Cycle_Pktgen Py_Regex Iperf Side_Scripts Plot_Data Old_Runner
begin

text \<open>
  A verification library for Pringles, an ordered shared log that is sequenced by a ring of programmable switches. The
  repository's Python code programs the switches, builds networks of software switches on one machine
  (Mininet with BMv2), and runs the experiments that compare Pringles with other systems on remote machines. This
  library models that code and proves what makes it correct, and where it is not correct, what it does
  instead. Paths below are under src/.

  \<^bold>\<open>How programs are modelled.\<close> A pure function is a HOL function with results in \<open>py_error + 'a\<close>: \<open>Inl\<close> is an
  exception (one constructor for each class in use), \<open>Inr\<close> the value. Code that acts is a function from
  a state to a result and a state (\<open>Py_IO\<close>): \<open>bnd\<close>, \<open>andthen\<close>, \<open>for_each\<close>, \<open>fold_io\<close>, \<open>try_except\<close> and
  \<open>try_finally\<close> are the statements of Python, and what was done before an exception stays done. Where the
  world is acted on, the state holds the list of the actions in order, and a parameter record says how
  the world answers, usually depending on everything done before: no theorem depends on a particular answer
  unless it says so. Values of configuration files are \<open>pyval\<close>, dictionaries are association lists in
  insertion order, text is a list of 8-bit characters, bytes are \<open>8 word\<close>, floats are rationals. A missing
  key, a wrong type or an index out of range is the exception that Python raises. The message of an exception
  is sometimes shortened. Printing, logging and flushing are left out unless they can raise.

  \<^bold>\<open>Prelude.\<close> \<open>Py_Base\<close>: exceptions, values, dictionaries (the locale \<open>dict_interface\<close>, interpreted for association
  lists), subscripts. \<open>Py_Text\<close>: numerals, splitting, joining, paths, \<open>str\<close> and \<open>repr\<close>. \<open>Py_Regex\<close>: searching, in the
  order of backtracking, and what a capture consists of. \<open>Py_IO\<close>: statements, and the
  locale \<open>step_relation\<close> of the relations between two states that every statement respects; its
  interpretations (growing traces, kept counters, unchanged links and so on) carry most of the safety proofs.

  \<^bold>\<open>P4Runtime client\<close> (code/tutorials/utils/p4runtime_lib). \<open>Convert\<close> (convert.py): the byte encodings, with their exact
  value, round trips, and the errors on every input that does not fit. \<open>P4Info\<close> (helper.py): names and ids
  of the compiler's description, which invert each other, and the entries made from them, whose identifiers and
  widths are those of the description. \<open>Switch_Conn\<close> (switch.py, bmv2.py, error_utils.py): a connection, its
  requests, and the report of the updates that failed. \<open>Controller\<close> (simple_controller.py): exactly which
  configurations pass the check, that the connection is closed however programming ends, that what is sent is an
  initial segment of a plan read off the configuration, and that entries have the priorities they need.

  \<^bold>\<open>Networks of software switches\<close> (code/tutorials/utils). \<open>Exercise\<close> (run_exercise.py): the topology of an
  exercise and its run. \<open>Switch_Alloc\<close> (p4runtime_switch.py, p4_mininet.py, netstat.py): device ids and ports, command
  lines, waiting for the server; \<open>Mini_Switch\<close> (mininet/p4_mininet.py and the rest of p4_mininet.py): hosts and
  switches of applications, and a wait that never ends is the value \<open>None\<close>. \<open>Shortest_Path\<close>
  (mininet/shortest_path.py): the search finds a path exactly when there is one, and none is shorter.
  \<open>Topology\<close> and \<open>Topology_Links\<close> (mininet/apptopo.py): ports and links. \<open>App_Controller\<close> (mininet/appcontroller.py): it
  rests on both, and gives every host a route to every host it can reach. \<open>App_Runner\<close> (p4apprunner.py): unpacking, compiling
  and starting a back end; \<open>Single_Switch\<close> and \<open>Multi_Switch\<close> (mininet/single_switch_mininet.py,
  mininet/multi_switch_mininet.py) are the two Mininet back ends; \<open>Multi_Links\<close> follows a latency from the configuration to
  the link, through the back end and the topology.

  \<^bold>\<open>Control plane of a ring switch\<close> (code/p4/failure_tests/failure.py). \<open>Tofino\<close>: the multicast nodes and trees, objects
  in a store, and the port numbering in words. \<open>Ring_Packets\<close>: headers, packets sent, and the check of
  packets received; \<open>Ring_Jump\<close>: the forwarder of the jump host. \<open>Ring_Control\<close>: ports, tables, groups and the
  listener that serves subscriptions. \<open>Ring_Run\<close>: the
  configuration, the packet generator and \<open>runTest\<close>. \<open>Subscriptions\<close> states the contract: the requests alone say
  at which ports the packets of a stream leave, through the general group and through the stream's own
  (\<open>routing\<close>). It compares that with the switch, whose tables \<open>replay\<close> (Tofino) reads off the calls, entries added,
  modified and deleted alike, and proves the refinement;
  \<open>Ring_Groups\<close> carries it over whole runs, shows that no later call changes a mirror session, and bounds the groups:
  group 802 cannot be created, so there is room for 800 shards and streams. \<open>Ring_Ends\<close>: what a run does after
  its set-up, look by look, up to the join of the listener, which only an exception of the listener ends.
  \<open>wait_generated\<close> has fuel, and the theorem covers the run that uses it up; 4 is enough where the clock is not set back
  and a pause takes its time (\<open>four_looks\<close>). The wait of a BMv2 switch polls 20 times, as the code does.

  \<^bold>\<open>Experiments\<close> (experiments/scripts/experiment.py). \<open>Remote\<close>: ssh and scp, with their failures. \<open>Setup_Nodes\<close>: installing Kafka
  and Scalog, which stops at the first failure. \<open>Exp_Config\<close>: merging one experiment's parameters, shards, generated files. \<open>Aggregate\<close>:
  results to summaries. \<open>Switch_Remote\<close>: the hardware switches. \<open>Cycle_Base\<close>: what the cycles share; the
  Python locals of a cycle outlive a run of its loop and are part of the state, possibly unbound. \<open>Cycle_Baseline\<close>,
  \<open>Cycle_Pringles\<close>, \<open>Cycle_Kafka\<close>, \<open>Cycle_Scalog\<close>: start, wait, collect, clean up, with exactly what the Kafka and Scalog cycles do. \<open>Experiment_Main\<close>: the batch, and
  how overrides leak in the loop of a cycle and not in that of \<open>main\<close>.
  \<open>Cycle_Pktgen\<close> (experiments/scripts/pktgen.py): the variant for the packet generator; most of its functions are
  those of experiment.py line by line, and the definitions that model them there are used. \<open>Old_Runner\<close>
  (old_experiment_scripts): the runner before experiment.py, its versions 6 to 9 as switches of one model; nothing starts before
  all machines compiled, and a run that waited for its client leaves no server behind.

  \<^bold>\<open>Beside the experiments.\<close> \<open>Iperf\<close> (experiments/benchmarks/iperf_baseline.py): the benchmark of the bare network; the
  order in which its threads get through is a parameter, every client counts once, and the table is that of their answers. \<open>Side_Scripts\<close>
  (socket_tracker.py, experiments/scripts/setup.py): the samples of the sockets, the set-up of the machines.
  \<open>Plot_Data\<close> (plotting.py, plot.py): which points the graphs show, and that the order of a directory does not matter.

  \<^bold>\<open>Outside code.\<close> Mininet, gRPC, paramiko, the Tofino and packet libraries, the YAML, TOML and JSON
  readers, file systems, remote machines and custom Python modules are parameters. A theorem that needs something of
  them says so as a hypothesis (\<open>built_from\<close>: Mininet made its network from the topology), and its witness
  instantiates it.

  \<^bold>\<open>Not modelled.\<close> The tests under code/p4 other than failure.py, of which that file is the latest variant; drawing graphs and
  formatting tables; the declaration of command line options; in failure.py ECMP groups (their class is not in the
  repository) and the interleaving of the listener thread with the main one; in convert.py \<open>decodeIPv6\<close> (the
  canonical text is the \<open>ipaddress\<close> module's) and the checks of the protobuf runtime; the working directory and
  environment of subprocesses; the rounding of floats; regular expressions in parameter names. Functions of
  pktgen.py and of the earlier runners that are those of experiment.py line by line are modelled there only.
\<close>

end
